(* ===== verification/GoPrelude.thy ===== *)
theory GoPrelude
  imports Main "HOL-Library.List_Lexorder" "HOL-Library.Char_ord"
begin

text \<open>
  The prelude of the development: the collections the component proofs draw on, the types
  every component shares (Go's byte strings, instants, world-passing operations) and generic
  lemmas on lists and maps. Nothing here models a line of the repository.

  A Go string is a sequence of bytes, which is what HOL's \<open>string\<close> is: a list of 8-bit
  characters. A function that returns an \<open>error\<close> alone is modelled with a result of type
  \<open>go_error option\<close> (\<open>None\<close> is nil); one that returns a value or an error with a sum whose
  left side is the error.
\<close>

named_theorems guard_defs \<open>definitions of validation guards\<close>
named_theorems world_defs \<open>definitions of operations that pass the world\<close>

text \<open>
  An instant counts nanoseconds since Go's zero time, so \<open>IsZero\<close> is being 0. The Unix epoch
  lies 62135596800 seconds after it; \<open>UnixMilli\<close> rounds down.
\<close>

type_synonym instant = int

definition unix_milli :: "instant \<Rightarrow> int" where
  "unix_milli t = t div 1000000 - 62135596800000"

text \<open>An effectful call: it takes the world it runs in and returns its result and the next world.\<close>

type_synonym ('w, 'a) call = "'w \<Rightarrow> 'a \<times> 'w"

text \<open>
  A call that may hit a run-time panic (an out-of-range slice) has an outcome: \<open>Panic\<close>, or
  \<open>Done\<close> of what it returns. \<open>first_error\<close> runs a validator's checks in the order the code
  has them: the first check that panics or fails decides.
\<close>

datatype 'a outcome = Panic | Done 'a

definition check :: "bool \<Rightarrow> 'e \<Rightarrow> 'e option outcome" where
  "check bad e = Done (if bad then Some e else None)"

fun first_error :: "'e option outcome list \<Rightarrow> 'e option outcome" where
  "first_error [] = Done None"
| "first_error (Done None # cs) = first_error cs"
| "first_error (c # cs) = c"

fun map_error :: "('e \<Rightarrow> 'e) \<Rightarrow> 'e option outcome \<Rightarrow> 'e option outcome" where
  "map_error f Panic = Panic"
| "map_error f (Done r) = Done (map_option f r)"

lemma check_eq_None [simp]: "check bad e = Done None \<longleftrightarrow> \<not> bad"
  by (simp add: check_def)

lemma check_not_Panic [simp]: "check bad e \<noteq> Panic" "Panic \<noteq> check bad e"
  by (simp_all add: check_def)

lemma first_error_Done_None [simp]:
  "first_error cs = Done None \<longleftrightarrow> (\<forall>c \<in> set cs. c = Done None)"
  by (induction cs rule: first_error.induct) auto

lemma first_error_Panic: "first_error cs = Panic \<Longrightarrow> Panic \<in> set cs"
  by (induction cs rule: first_error.induct) auto

lemma map_error_Done_None [simp]: "map_error f c = Done None \<longleftrightarrow> c = Done None"
  by (cases "(f, c)" rule: map_error.cases) auto

lemma map_error_Panic [simp]: "map_error f c = Panic \<longleftrightarrow> c = Panic"
  by (cases "(f, c)" rule: map_error.cases) auto

subsection \<open>Maps and lists\<close>

lemma map_upd_Some_cases:
  "(m(k \<mapsto> v)) x = Some y \<longleftrightarrow> (x = k \<and> y = v) \<or> (x \<noteq> k \<and> m x = Some y)"
  by auto

lemma drop_eq_Cons_nth: "i < length xs \<Longrightarrow> drop i xs = xs ! i # drop (Suc i) xs"
  by (simp add: Cons_nth_drop_Suc)

lemma prefix_slice:
  "take (length p) (drop i xs) = p \<Longrightarrow> xs = take i xs @ p @ drop (i + length p) xs"
  by (metis add.commute append_take_drop_id drop_drop)

lemma sorted_wrt_nth_lessD:
  fixes xs :: "'a::linorder list"
  assumes "sorted_wrt (<) xs" and "i < length xs" and "j < i"
  shows "xs ! j < xs ! i"
  using assms by (simp add: sorted_wrt_nth_less)

subsection \<open>Binary search\<close>

text \<open>\<open>sort.Search(n, f)\<close>: the library's loop over the interval from \<open>i\<close> to \<open>j\<close>.\<close>

function sort_search_from :: "(nat \<Rightarrow> bool) \<Rightarrow> nat \<Rightarrow> nat \<Rightarrow> nat" where
  "sort_search_from f i j =
    (if i < j then
       let h = (i + j) div 2 in if \<not> f h then sort_search_from f (h + 1) j else sort_search_from f i h
     else i)"
  by pat_completeness auto
termination
  by (relation "measure (\<lambda>(f, i, j). j - i)") auto

declare sort_search_from.simps [simp del]

definition sort_search :: "nat \<Rightarrow> (nat \<Rightarrow> bool) \<Rightarrow> nat" where
  "sort_search n f = sort_search_from f 0 n"

lemma sort_search_from_spec:
  assumes "i \<le> j" and "\<And>a b. a \<le> b \<Longrightarrow> f a \<Longrightarrow> b < n \<Longrightarrow> f b" and "j \<le> n"
    and "\<forall>k<i. \<not> f k" and "\<forall>k. j \<le> k \<and> k < n \<longrightarrow> f k"
  shows "sort_search_from f i j \<le> n \<and> (\<forall>k < sort_search_from f i j. \<not> f k)
    \<and> (\<forall>k. sort_search_from f i j \<le> k \<and> k < n \<longrightarrow> f k)"
  using assms
proof (induction f i j rule: sort_search_from.induct)
  case (1 f i j)
  show ?case
  proof (cases "i < j")
    case False
    then have "sort_search_from f i j = i" by (simp add: sort_search_from.simps)
    with False "1.prems" show ?thesis by auto
  next
    case True
    let ?h = "(i + j) div 2"
    have h: "i \<le> ?h" "?h < j" using True by auto
    show ?thesis
    proof (cases "f ?h")
      case hit: True
      have "\<forall>k. ?h \<le> k \<and> k < n \<longrightarrow> f k" using "1.prems"(2) hit by blast
      with "1.IH"(2)[OF True refl] hit h "1.prems" True show ?thesis
        by (simp add: sort_search_from.simps[of f i j] Let_def)
    next
      case miss: False
      have "\<not> f k" if "k < ?h + 1" for k
        using that miss "1.prems"(2)[of k ?h] h "1.prems"(3) by auto
      with "1.IH"(1)[OF True refl miss] miss h "1.prems" True show ?thesis
        by (simp add: sort_search_from.simps[of f i j] Let_def)
    qed
  qed
qed

lemma sort_search_sorted:
  fixes xs :: "'a::linorder list"
  assumes "sorted xs"
  shows "(let i = sort_search (length xs) (\<lambda>i. xs ! i \<ge> x) in i < length xs \<and> xs ! i = x) \<longleftrightarrow> x \<in> set xs"
proof -
  let ?f = "\<lambda>i. xs ! i \<ge> x" and ?i = "sort_search (length xs) (\<lambda>i. xs ! i \<ge> x)"
  have mono: "?f b" if "a \<le> b" "?f a" "b < length xs" for a b
    using that sorted_nth_mono[OF assms, of a b] by auto
  have "?i \<le> length xs \<and> (\<forall>k < ?i. \<not> ?f k) \<and> (\<forall>k. ?i \<le> k \<and> k < length xs \<longrightarrow> ?f k)"
    unfolding sort_search_def
  proof (rule sort_search_from_spec)
    show "?f b" if "a \<le> b" "?f a" "b < length xs" for a b
      using that by (rule mono)
  qed auto
  then have spec: "?i \<le> length xs" "\<forall>k < ?i. \<not> ?f k" "\<forall>k. ?i \<le> k \<and> k < length xs \<longrightarrow> ?f k"
    by blast+
  have "?i < length xs \<and> xs ! ?i = x" if "x \<in> set xs"
  proof -
    from that obtain k where k: "k < length xs" "xs ! k = x" by (auto simp: in_set_conv_nth)
    then have "?i \<le> k" using spec(2) by (metis linorder_not_le order_refl)
    moreover from this k have "xs ! ?i \<le> x" using sorted_nth_mono[OF assms, of ?i k] by simp
    ultimately show ?thesis using spec(3) k by (auto intro: antisym)
  qed
  moreover have "x \<in> set xs" if "?i < length xs" "xs ! ?i = x"
    using that by (metis nth_mem)
  ultimately show ?thesis unfolding Let_def by blast
qed

end
