(* ===== verification/GoText.thy ===== *)
theory GoText
  imports GoPrelude
begin

text \<open>
  The parts of Go's \<open>unicode/utf8\<close>, \<open>unicode\<close>, \<open>strings\<close> and \<open>strconv\<close> packages the
  modelled code calls, on byte strings. Decoding follows Go's tables: an invalid or truncated
  sequence decodes to U+FFFD with width 1. Character classes are exact up to U+00FF, which is
  what Go's Latin-1 table covers; the Unicode tables above it are a parameter (\<open>wide\<close>) of the
  definitions that consult them, so every theorem holds for any Unicode version.
\<close>

type_synonym rune = nat

definition bval :: "char \<Rightarrow> nat" where
  "bval c = of_char c"

lemma bval_char_of [simp]: "n < 256 \<Longrightarrow> bval (char_of n) = n"
  by (simp add: bval_def)

lemma bval_inject [simp]: "bval a = bval b \<longleftrightarrow> a = b"
  by (simp add: bval_def)

abbreviation rune_error :: rune where
  "rune_error \<equiv> 0xFFFD"

subsection \<open>UTF-8\<close>

definition second_lo :: "nat \<Rightarrow> nat" where
  "second_lo b = (if b = 0xE0 then 0xA0 else if b = 0xF0 then 0x90 else 0x80)"

definition second_hi :: "nat \<Rightarrow> nat" where
  "second_hi b = (if b = 0xED then 0x9F else if b = 0xF4 then 0x8F else 0xBF)"

definition is_cont :: "char \<Rightarrow> bool" where
  "is_cont c \<longleftrightarrow> 0x80 \<le> bval c \<and> bval c \<le> 0xBF"

definition second_ok :: "nat \<Rightarrow> char \<Rightarrow> bool" where
  "second_ok b c \<longleftrightarrow> second_lo b \<le> bval c \<and> bval c \<le> second_hi b"

fun decode_rune :: "string \<Rightarrow> rune \<times> nat" where
  "decode_rune [] = (rune_error, 0)"
| "decode_rune (c # cs) =
    (let b = bval c in
     if b < 0x80 then (b, 1)
     else if 0xC2 \<le> b \<and> b \<le> 0xDF then
       (case cs of
          c1 # _ \<Rightarrow> if second_ok b c1 then ((b - 0xC0) * 64 + (bval c1 - 0x80), 2)
                    else (rune_error, 1)
        | [] \<Rightarrow> (rune_error, 1))
     else if 0xE0 \<le> b \<and> b \<le> 0xEF then
       (case cs of
          c1 # c2 # _ \<Rightarrow>
            if second_ok b c1 \<and> is_cont c2
            then ((b - 0xE0) * 4096 + (bval c1 - 0x80) * 64 + (bval c2 - 0x80), 3)
            else (rune_error, 1)
        | _ \<Rightarrow> (rune_error, 1))
     else if 0xF0 \<le> b \<and> b \<le> 0xF4 then
       (case cs of
          c1 # c2 # c3 # _ \<Rightarrow>
            if second_ok b c1 \<and> is_cont c2 \<and> is_cont c3
            then ((b - 0xF0) * 262144 + (bval c1 - 0x80) * 4096 + (bval c2 - 0x80) * 64
                    + (bval c3 - 0x80), 4)
            else (rune_error, 1)
        | _ \<Rightarrow> (rune_error, 1))
     else (rune_error, 1))"

lemma decode_rune_width:
  "s \<noteq> [] \<Longrightarrow> 1 \<le> snd (decode_rune s) \<and> snd (decode_rune s) \<le> length s"
  by (cases s) (auto simp: Let_def split: list.splits)

lemma decode_rune_ascii [simp]: "bval c < 0x80 \<Longrightarrow> decode_rune (c # cs) = (bval c, 1)"
  by (simp add: Let_def)

declare decode_rune.simps(2) [simp del]

function runes :: "string \<Rightarrow> (rune \<times> nat) list" where
  "runes s = (if s = [] then []
     else decode_rune s # runes (drop (snd (decode_rune s)) s))"
  by pat_completeness auto
termination
  by (relation "measure length") (use decode_rune_width in \<open>fastforce dest: Suc_le_lessD\<close>)+

declare runes.simps [simp del]

lemma runes_Nil [simp]: "runes [] = []"
  by (simp add: runes.simps)

lemma runes_Cons_ascii [simp]: "bval c < 0x80 \<Longrightarrow> runes (c # cs) = (bval c, 1) # runes cs"
  by (subst runes.simps) simp

definition valid_utf8 :: "string \<Rightarrow> bool" where
  "valid_utf8 s = list_all (\<lambda>r. r \<noteq> (rune_error, 1)) (runes s)"

lemma valid_utf8_Nil [simp]: "valid_utf8 []"
  by (simp add: valid_utf8_def)

definition rune_count :: "string \<Rightarrow> nat" where
  "rune_count s = length (runes s)"

definition encode_rune :: "rune \<Rightarrow> string" where
  "encode_rune r =
    (if r < 0x80 then [char_of r]
     else if r < 0x800 then [char_of (0xC0 + r div 64), char_of (0x80 + r mod 64)]
     else if (0xD800 \<le> r \<and> r \<le> 0xDFFF) \<or> 0x10FFFF < r then [CHR 0xEF, CHR 0xBF, CHR 0xBD]
     else if r < 0x10000 then
       [char_of (0xE0 + r div 4096), char_of (0x80 + (r div 64) mod 64), char_of (0x80 + r mod 64)]
     else [char_of (0xF0 + r div 262144), char_of (0x80 + (r div 4096) mod 64),
           char_of (0x80 + (r div 64) mod 64), char_of (0x80 + r mod 64)])"

text \<open>
  \<open>DecodeLastRuneInString\<close>: step back over at most three further bytes to one that is not a
  continuation byte, and accept what decodes there only if it ends at the end of the string.
\<close>

fun rune_start_back :: "string \<Rightarrow> nat \<Rightarrow> nat \<Rightarrow> nat" where
  "rune_start_back s start 0 = start - 1"
| "rune_start_back s start (Suc k) =
     (if start = 0 then 0
      else if \<not> is_cont (s ! (start - 1)) then start - 1
      else rune_start_back s (start - 1) k)"

definition decode_last_rune :: "string \<Rightarrow> rune \<times> nat" where
  "decode_last_rune s =
    (if s = [] then (rune_error, 0)
     else if bval (last s) < 0x80 then (bval (last s), 1)
     else
       let n = length s;
           start = rune_start_back s (n - 1) 3;
           rw = decode_rune (drop start s)
       in if start + snd rw = n then rw else (rune_error, 1))"

lemma decode_last_rune_width:
  assumes "s \<noteq> []"
  shows "1 \<le> snd (decode_last_rune s) \<and> snd (decode_last_rune s) \<le> length s"
proof -
  have bound: "rune_start_back s k j \<le> k" for k j
    by (induction s k j rule: rune_start_back.induct) auto
  have pos: "0 < length s"
    using assms by simp
  have start: "rune_start_back s (length s - 1) 3 < length s"
    using bound[of "length s - 1" 3] pos by linarith
  have "drop (rune_start_back s (length s - 1) 3) s \<noteq> []"
    using start by simp
  from decode_rune_width[OF this] start pos show ?thesis
    by (auto simp: decode_last_rune_def Let_def Suc_le_eq)
qed

subsection \<open>Character classes\<close>

definition is_space :: "rune \<Rightarrow> bool" where
  "is_space r \<longleftrightarrow> r \<in> {0x09, 0x0A, 0x0B, 0x0C, 0x0D, 0x20, 0x85, 0xA0, 0x1680, 0x2028, 0x2029,
     0x202F, 0x205F, 0x3000} \<or> (0x2000 \<le> r \<and> r \<le> 0x200A)"

definition is_control :: "rune \<Rightarrow> bool" where
  "is_control r \<longleftrightarrow> r < 0x20 \<or> (0x7F \<le> r \<and> r < 0xA0)"

definition latin1_letter :: "rune \<Rightarrow> bool" where
  "latin1_letter r \<longleftrightarrow> (0x41 \<le> r \<and> r \<le> 0x5A) \<or> (0x61 \<le> r \<and> r \<le> 0x7A) \<or> r = 0xAA \<or> r = 0xB5
     \<or> r = 0xBA \<or> (0xC0 \<le> r \<and> r \<le> 0xFF \<and> r \<noteq> 0xD7 \<and> r \<noteq> 0xF7)"

definition latin1_number :: "rune \<Rightarrow> bool" where
  "latin1_number r \<longleftrightarrow> (0x30 \<le> r \<and> r \<le> 0x39) \<or> r \<in> {0xB2, 0xB3, 0xB9, 0xBC, 0xBD, 0xBE}"

text \<open>\<open>unicode.IsLetter\<close> or \<open>unicode.IsNumber\<close>; \<open>wide\<close> is the union of both tables above U+00FF.\<close>

definition letter_or_number :: "(rune \<Rightarrow> bool) \<Rightarrow> rune \<Rightarrow> bool" where
  "letter_or_number wide r = (if r \<le> 0xFF then latin1_letter r \<or> latin1_number r else wide r)"

definition digit_char :: "char \<Rightarrow> bool" where
  "digit_char c \<longleftrightarrow> 0x30 \<le> bval c \<and> bval c \<le> 0x39"

definition lower_char :: "char \<Rightarrow> bool" where
  "lower_char c \<longleftrightarrow> 0x61 \<le> bval c \<and> bval c \<le> 0x7A"

definition upper_char :: "char \<Rightarrow> bool" where
  "upper_char c \<longleftrightarrow> 0x41 \<le> bval c \<and> bval c \<le> 0x5A"

definition ascii_char :: "char \<Rightarrow> bool" where
  "ascii_char c \<longleftrightarrow> bval c < 0x80"

lemma runes_ascii: "list_all ascii_char s \<Longrightarrow> runes s = map (\<lambda>c. (bval c, 1)) s"
  by (induction s) (simp_all add: ascii_char_def)

lemma valid_utf8_ascii: "list_all ascii_char s \<Longrightarrow> valid_utf8 s"
  by (induction s) (simp_all add: valid_utf8_def ascii_char_def)

subsection \<open>Trimming and fields\<close>

function trim_left_fun :: "(rune \<Rightarrow> bool) \<Rightarrow> string \<Rightarrow> string" where
  "trim_left_fun p s = (if s \<noteq> [] \<and> p (fst (decode_rune s))
     then trim_left_fun p (drop (snd (decode_rune s)) s) else s)"
  by pat_completeness auto
termination
  by (relation "measure (length \<circ> snd)") (use decode_rune_width in \<open>fastforce dest: Suc_le_lessD\<close>)+

function trim_right_fun :: "(rune \<Rightarrow> bool) \<Rightarrow> string \<Rightarrow> string" where
  "trim_right_fun p s = (if s \<noteq> [] \<and> p (fst (decode_last_rune s))
     then trim_right_fun p (take (length s - snd (decode_last_rune s)) s) else s)"
  by pat_completeness auto
termination
proof (relation "measure (length \<circ> snd)", goal_cases)
  case (2 p s)
  then show ?case using decode_last_rune_width[of s] by auto
qed simp

declare trim_left_fun.simps [simp del] trim_right_fun.simps [simp del]

definition trim_space :: "string \<Rightarrow> string" where
  "trim_space s = trim_right_fun is_space (trim_left_fun is_space s)"

lemma trim_left_fun_ascii:
  "list_all ascii_char s \<Longrightarrow> trim_left_fun p s = dropWhile (\<lambda>c. p (bval c)) s"
  by (induction s) (auto simp: trim_left_fun.simps ascii_char_def)

lemma trim_right_fun_ascii:
  "list_all ascii_char s \<Longrightarrow> trim_right_fun p s = rev (dropWhile (\<lambda>c. p (bval c)) (rev s))"
proof (induction s rule: rev_induct)
  case Nil
  then show ?case by (simp add: trim_right_fun.simps)
next
  case (snoc c s)
  then have "decode_last_rune (s @ [c]) = (bval c, 1)"
    by (simp add: decode_last_rune_def ascii_char_def)
  with snoc show ?case by (simp add: trim_right_fun.simps[of _ "s @ [c]"])
qed

lemma list_all_dropWhile: "list_all P xs \<Longrightarrow> list_all P (dropWhile Q xs)"
  by (induction xs) auto

lemma trim_space_ascii:
  "list_all ascii_char s \<Longrightarrow> trim_space s =
     rev (dropWhile (\<lambda>c. is_space (bval c)) (rev (dropWhile (\<lambda>c. is_space (bval c)) s)))"
  by (simp add: trim_space_def trim_left_fun_ascii trim_right_fun_ascii list_all_dropWhile)

text \<open>Evaluation of trimming and validity on closed ASCII strings.\<close>

lemmas ascii_eval = trim_space_ascii valid_utf8_ascii ascii_char_def is_space_def bval_def

text \<open>\<open>strings.TrimLeft\<close> and \<open>strings.TrimRight\<close> with a cutset of ASCII bytes.\<close>

definition trim_left_set :: "char set \<Rightarrow> string \<Rightarrow> string" where
  "trim_left_set cs s = dropWhile (\<lambda>c. c \<in> cs) s"

definition trim_right_set :: "char set \<Rightarrow> string \<Rightarrow> string" where
  "trim_right_set cs s = rev (dropWhile (\<lambda>c. c \<in> cs) (rev s))"

text \<open>\<open>strings.Fields\<close>: the maximal runs of bytes between white space runes.\<close>

function fields_from :: "string \<Rightarrow> string \<Rightarrow> string list" where
  "fields_from cur s =
    (if s = [] then (if cur = [] then [] else [cur])
     else let rw = decode_rune s in
       if is_space (fst rw)
       then (if cur = [] then [] else [cur]) @ fields_from [] (drop (snd rw) s)
       else fields_from (cur @ take (snd rw) s) (drop (snd rw) s))"
  by pat_completeness auto
termination
  by (relation "measure (length \<circ> snd)") (use decode_rune_width in \<open>fastforce dest: Suc_le_lessD\<close>)+

declare fields_from.simps [simp del]

definition fields :: "string \<Rightarrow> string list" where
  "fields s = fields_from [] s"

fun join :: "string \<Rightarrow> string list \<Rightarrow> string" where
  "join sep [] = []"
| "join sep [x] = x"
| "join sep (x # y # ys) = x @ sep @ join sep (y # ys)"

subsection \<open>Searching and splitting\<close>

definition has_prefix :: "string \<Rightarrow> string \<Rightarrow> bool" where
  "has_prefix s p \<longleftrightarrow> take (length p) s = p"

definition has_suffix :: "string \<Rightarrow> string \<Rightarrow> bool" where
  "has_suffix s p \<longleftrightarrow> length p \<le> length s \<and> drop (length s - length p) s = p"

fun index_of_byte :: "char \<Rightarrow> string \<Rightarrow> nat option" where
  "index_of_byte c [] = None"
| "index_of_byte c (x # xs) = (if x = c then Some 0 else map_option Suc (index_of_byte c xs))"

fun contains_str :: "string \<Rightarrow> string \<Rightarrow> bool" where
  "contains_str [] p \<longleftrightarrow> p = []"
| "contains_str (x # xs) p \<longleftrightarrow> has_prefix (x # xs) p \<or> contains_str xs p"

fun last_index_from :: "string \<Rightarrow> string \<Rightarrow> nat \<Rightarrow> nat option" where
  "last_index_from s p 0 = (if has_prefix s p then Some 0 else None)"
| "last_index_from s p (Suc i) =
     (if has_prefix (drop (Suc i) s) p then Some (Suc i) else last_index_from s p i)"

definition last_index :: "string \<Rightarrow> string \<Rightarrow> nat option" where
  "last_index s p = last_index_from s p (length s)"

text \<open>\<open>strings.Split\<close> and \<open>strings.Cut\<close> at a one-byte separator.\<close>

fun split_byte :: "char \<Rightarrow> string \<Rightarrow> string list" where
  "split_byte c [] = [[]]"
| "split_byte c (x # xs) =
     (if x = c then [] # split_byte c xs
      else case split_byte c xs of [] \<Rightarrow> [[x]] | y # ys \<Rightarrow> (x # y) # ys)"

definition cut_byte :: "char \<Rightarrow> string \<Rightarrow> string \<times> string \<times> bool" where
  "cut_byte c s = (case index_of_byte c s of
     None \<Rightarrow> (s, [], False)
   | Some i \<Rightarrow> (take i s, drop (Suc i) s, True))"

definition replace_byte :: "char \<Rightarrow> char \<Rightarrow> string \<Rightarrow> string" where
  "replace_byte old new s = map (\<lambda>c. if c = old then new else c) s"

subsection \<open>Case and numerals\<close>

definition ascii_lower :: "char \<Rightarrow> char" where
  "ascii_lower c = (if upper_char c then char_of (bval c + 32) else c)"

text \<open>
  \<open>strings.ToLower\<close>: bytewise on an ASCII string, else rune by rune with \<open>unicode.ToLower\<close>,
  whose mapping above U+007F is the parameter \<open>low\<close>; an invalid byte becomes U+FFFD.
\<close>

definition rune_lower :: "(rune \<Rightarrow> rune) \<Rightarrow> rune \<Rightarrow> rune" where
  "rune_lower low r = (if r < 0x80 then bval (ascii_lower (char_of r)) else low r)"

definition to_lower :: "(rune \<Rightarrow> rune) \<Rightarrow> string \<Rightarrow> string" where
  "to_lower low s = (if list_all ascii_char s then map ascii_lower s
     else concat (map (\<lambda>rw. encode_rune (rune_lower low (fst rw))) (runes s)))"

definition base36_digit :: "nat \<Rightarrow> char" where
  "base36_digit d = (if d < 10 then char_of (0x30 + d) else char_of (0x61 + (d - 10)))"

text \<open>\<open>strconv.FormatInt(n, 36)\<close> for a non-negative \<open>n\<close>.\<close>

fun format36 :: "nat \<Rightarrow> string" where
  "format36 n = (if n < 36 then [base36_digit n] else format36 (n div 36) @ [base36_digit (n mod 36)])"

declare format36.simps [simp del]

definition digit36_value :: "char \<Rightarrow> nat option" where
  "digit36_value c =
    (if digit_char c then Some (bval c - 0x30)
     else if lower_char c then Some (bval c - 0x61 + 10)
     else if upper_char c then Some (bval c - 0x41 + 10)
     else None)"

text \<open>\<open>strconv.ParseInt(s, 36, 64)\<close>: an optional sign, then at least one digit, in range of int64.\<close>

fun parse36_digits :: "nat \<Rightarrow> string \<Rightarrow> nat option" where
  "parse36_digits acc [] = Some acc"
| "parse36_digits acc (c # cs) =
     (case digit36_value c of None \<Rightarrow> None | Some d \<Rightarrow> parse36_digits (acc * 36 + d) cs)"

definition parse36 :: "string \<Rightarrow> int option" where
  "parse36 s =
    (let neg = (s \<noteq> [] \<and> hd s = CHR ''-'');
         ds = (if s \<noteq> [] \<and> hd s \<in> {CHR ''-'', CHR ''+''} then tl s else s)
     in if ds = [] then None
        else case parse36_digits 0 ds of
          None \<Rightarrow> None
        | Some n \<Rightarrow>
            if neg then (if n \<le> 2 ^ 63 then Some (- int n) else None)
            else (if n < 2 ^ 63 then Some (int n) else None))"

end
