(* ===== verification/AgentErrors.thy ===== *)
theory AgentErrors
  imports GoText
begin

text \<open>
  The error values of the system (\<open>internal/agent/errors.go\<close>): a code, an operation and a cause,
  together with the plain, wrapped and joined errors of Go's library. \<open>code_of\<close> is \<open>CodeOf\<close>: the
  code of the first typed error found by \<open>errors.As\<close>, which walks causes depth first.
\<close>

datatype error_code =
    NoCode
  | ErrorInvalidArgument | ErrorNotFound | ErrorPermissionDenied | ErrorConflict
  | ErrorInProgress | ErrorNotReady | ErrorUnsupported | ErrorRateLimited
  | ErrorResourceExhausted | ErrorTimeout | ErrorCancelled | ErrorUnavailable
  | ErrorStorageFailure | ErrorProviderFailure | ErrorIntegrityFailure
  | ErrorDeliveryPending | ErrorUnknownOutcome | ErrorInternal

fun error_code_text :: "error_code \<Rightarrow> string" where
  "error_code_text NoCode = []"
| "error_code_text ErrorInvalidArgument = ''invalid_argument''"
| "error_code_text ErrorNotFound = ''not_found''"
| "error_code_text ErrorPermissionDenied = ''permission_denied''"
| "error_code_text ErrorConflict = ''conflict''"
| "error_code_text ErrorInProgress = ''in_progress''"
| "error_code_text ErrorNotReady = ''not_ready''"
| "error_code_text ErrorUnsupported = ''unsupported''"
| "error_code_text ErrorRateLimited = ''rate_limited''"
| "error_code_text ErrorResourceExhausted = ''resource_exhausted''"
| "error_code_text ErrorTimeout = ''timeout''"
| "error_code_text ErrorCancelled = ''cancelled''"
| "error_code_text ErrorUnavailable = ''unavailable''"
| "error_code_text ErrorStorageFailure = ''storage_failure''"
| "error_code_text ErrorProviderFailure = ''provider_failure''"
| "error_code_text ErrorIntegrityFailure = ''integrity_failure''"
| "error_code_text ErrorDeliveryPending = ''delivery_pending''"
| "error_code_text ErrorUnknownOutcome = ''unknown_outcome''"
| "error_code_text ErrorInternal = ''internal''"

text \<open>
  \<open>Typed\<close> is \<open>*agent.Error\<close>. \<open>Plain\<close> is \<open>errors.New\<close> or \<open>fmt.Errorf\<close> without a wrapped error,
  \<open>Wrapped\<close> is \<open>fmt.Errorf\<close> with \<open>%w\<close>, \<open>Joined\<close> is \<open>errors.Join\<close> of non-nil errors, and the two
  context errors are the sentinels of package \<open>context\<close>.
\<close>

datatype go_error =
    Plain string
  | Wrapped string go_error
  | Joined "go_error list"
  | DeadlineExceeded
  | ContextCanceled
  | Typed error_code string "go_error option"

definition new_error :: "error_code \<Rightarrow> string \<Rightarrow> go_error option \<Rightarrow> go_error" where
  "new_error code oper cause = Typed (if code = NoCode then ErrorInternal else code) oper cause"

text \<open>\<open>Errorf\<close> with a message that carries no wrapped error.\<close>

definition errorf :: "error_code \<Rightarrow> string \<Rightarrow> string \<Rightarrow> go_error" where
  "errorf code oper msg = new_error code oper (Some (Plain msg))"

text \<open>The message of an error; \<open>fmt.Errorf\<close> with \<open>%w\<close> at the end prints the cause after its text.\<close>

fun error_text :: "go_error \<Rightarrow> string" where
  "error_text (Plain msg) = msg"
| "error_text (Wrapped msg e) = msg @ error_text e"
| "error_text (Joined es) = join ''\<newline>'' (map error_text es)"
| "error_text DeadlineExceeded = ''context deadline exceeded''"
| "error_text ContextCanceled = ''context canceled''"
| "error_text (Typed code oper cause) =
    (case cause of
       Some e \<Rightarrow> if oper \<noteq> [] then oper @ '': '' @ error_text e else error_text e
     | None \<Rightarrow> if oper \<noteq> [] then oper @ '': '' @ error_code_text code else error_code_text code)"

fun typed_code :: "go_error \<Rightarrow> error_code option"
  and typed_code_list :: "go_error list \<Rightarrow> error_code option" where
  "typed_code (Typed code _ _) = Some code"
| "typed_code (Plain _) = None"
| "typed_code (Wrapped _ e) = typed_code e"
| "typed_code (Joined es) = typed_code_list es"
| "typed_code DeadlineExceeded = None"
| "typed_code ContextCanceled = None"
| "typed_code_list [] = None"
| "typed_code_list (e # es) =
     (case typed_code e of None \<Rightarrow> typed_code_list es | Some c \<Rightarrow> Some c)"

definition error_code_of :: "go_error \<Rightarrow> error_code" where
  "error_code_of e = (case typed_code e of None \<Rightarrow> ErrorInternal | Some c \<Rightarrow> c)"

definition code_of :: "go_error option \<Rightarrow> error_code" where
  "code_of e = (case e of None \<Rightarrow> NoCode | Some x \<Rightarrow> error_code_of x)"

definition is_code :: "go_error option \<Rightarrow> error_code \<Rightarrow> bool" where
  "is_code e code \<longleftrightarrow> code_of e = code"

text \<open>\<open>errors.Is(err, target)\<close> for the two context sentinels, and \<open>errors.Join\<close>.\<close>

fun wraps_sentinel :: "go_error \<Rightarrow> go_error \<Rightarrow> bool"
  and wraps_sentinel_list :: "go_error \<Rightarrow> go_error list \<Rightarrow> bool" where
  "wraps_sentinel t (Typed _ _ cause) =
     (case cause of None \<Rightarrow> False | Some e \<Rightarrow> wraps_sentinel t e)"
| "wraps_sentinel t (Plain _) = False"
| "wraps_sentinel t (Wrapped _ e) = wraps_sentinel t e"
| "wraps_sentinel t (Joined es) = wraps_sentinel_list t es"
| "wraps_sentinel t DeadlineExceeded = (t = DeadlineExceeded)"
| "wraps_sentinel t ContextCanceled = (t = ContextCanceled)"
| "wraps_sentinel_list t [] = False"
| "wraps_sentinel_list t (e # es) = (wraps_sentinel t e \<or> wraps_sentinel_list t es)"

definition join_errors :: "go_error option list \<Rightarrow> go_error option" where
  "join_errors es = (let xs = concat (map (\<lambda>e. case e of None \<Rightarrow> [] | Some x \<Rightarrow> [x]) es) in
     if xs = [] then None else Some (Joined xs))"

lemma error_code_of_new_error [simp]:
  "error_code_of (new_error code oper cause) = (if code = NoCode then ErrorInternal else code)"
  by (simp add: error_code_of_def new_error_def)

lemma error_code_of_errorf [simp]:
  "error_code_of (errorf code oper msg) = (if code = NoCode then ErrorInternal else code)"
  by (simp add: errorf_def)

lemma code_of_None [simp]: "code_of None = NoCode"
  by (simp add: code_of_def)

lemma code_of_Some [simp]: "code_of (Some e) = error_code_of e"
  by (simp add: code_of_def)

text \<open>
  Values built by the package's constructors carry a real code (\<open>NewError\<close> replaces the empty
  code), so for them the code is empty exactly when there is no error.
\<close>

fun proper_error :: "go_error \<Rightarrow> bool" where
  "proper_error (Typed code _ cause) \<longleftrightarrow>
     code \<noteq> NoCode \<and> (case cause of None \<Rightarrow> True | Some e \<Rightarrow> proper_error e)"
| "proper_error (Wrapped _ e) = proper_error e"
| "proper_error (Joined es) = list_all proper_error es"
| "proper_error _ = True"

lemma proper_typed_code: "proper_error e \<Longrightarrow> typed_code e \<noteq> Some NoCode"
  and "list_all proper_error es \<Longrightarrow> typed_code_list es \<noteq> Some NoCode"
  by (induction e and es rule: typed_code_typed_code_list.induct) (auto split: option.splits)

lemma proper_error_code: "proper_error e \<Longrightarrow> error_code_of e \<noteq> NoCode"
  using proper_typed_code by (fastforce simp: error_code_of_def split: option.splits)

subsection \<open>Fallible steps\<close>

text \<open>
  A sequence of calls in which the first error is returned: a step either panics, fails with an
  error, or goes on with its value.
\<close>

type_synonym 'a result = "(go_error + 'a) outcome"

definition res_ok :: "'a \<Rightarrow> 'a result" where
  "res_ok a = Done (Inr a)"

definition res_fail :: "go_error \<Rightarrow> 'a result" where
  "res_fail e = Done (Inl e)"

fun res_bind :: "'a result \<Rightarrow> ('a \<Rightarrow> 'b result) \<Rightarrow> 'b result" where
  "res_bind Panic f = Panic"
| "res_bind (Done (Inl e)) f = Done (Inl e)"
| "res_bind (Done (Inr a)) f = f a"

text \<open>\<open>if err != nil { return err }\<close>, and a guard that returns its error when it applies.\<close>

definition res_check :: "go_error option \<Rightarrow> (unit \<Rightarrow> 'b result) \<Rightarrow> 'b result" where
  "res_check c f = (case c of Some e \<Rightarrow> res_fail e | None \<Rightarrow> f ())"

definition res_guard :: "bool \<Rightarrow> go_error \<Rightarrow> (unit \<Rightarrow> 'b result) \<Rightarrow> 'b result" where
  "res_guard b e f = (if b then res_fail e else f ())"

definition res_lift :: "go_error + 'a \<Rightarrow> 'a result" where
  "res_lift r = Done r"

fun res_validated :: "go_error option outcome \<Rightarrow> (unit \<Rightarrow> 'b result) \<Rightarrow> 'b result" where
  "res_validated Panic f = Panic"
| "res_validated (Done c) f = res_check c f"

lemma res_bind_ok [simp]: "res_bind r f = Done (Inr b) \<longleftrightarrow> (\<exists>a. r = Done (Inr a) \<and> f a = Done (Inr b))"
  by (cases "(r, f)" rule: res_bind.cases) auto

lemma res_check_ok [simp]: "res_check c f = Done (Inr b) \<longleftrightarrow> c = None \<and> f () = Done (Inr b)"
  by (simp add: res_check_def res_fail_def split: option.splits)

lemma res_guard_ok [simp]: "res_guard g e f = Done (Inr b) \<longleftrightarrow> \<not> g \<and> f () = Done (Inr b)"
  by (simp add: res_guard_def res_fail_def)

lemma res_validated_ok [simp]:
  "res_validated r f = Done (Inr b) \<longleftrightarrow> r = Done None \<and> f () = Done (Inr b)"
  by (cases "(r, f)" rule: res_validated.cases) auto

lemma res_ok_eq [simp]: "res_ok a = Done (Inr b) \<longleftrightarrow> a = b" "res_ok a \<noteq> Done (Inl e)" "res_ok a \<noteq> Panic"
  by (simp_all add: res_ok_def)

lemma res_fail_eq [simp]: "res_fail e \<noteq> Done (Inr b)" "res_fail e = Done (Inl e') \<longleftrightarrow> e = e'" "res_fail e \<noteq> Panic"
  by (simp_all add: res_fail_def)

lemma res_lift_ok [simp]: "res_lift r = Done (Inr b) \<longleftrightarrow> r = Inr b"
  by (simp add: res_lift_def)

lemma res_passes [simp]:
  "res_check None f = f ()" "res_guard False e f = f ()" "res_guard True e f = res_fail e"
  "res_bind (res_ok a) g = g a" "res_bind (res_fail e) g = res_fail e" "res_lift (Inr a) = res_ok a"
  "res_check (Some e) f = res_fail e" "res_lift (Inl e) = res_fail e"
  by (simp_all add: res_check_def res_guard_def res_ok_def res_fail_def res_lift_def)

end
