(* ===== verification/Identity.thy ===== *)
theory Identity
  imports AgentErrors "HOL-Library.Word"
begin

text \<open>
  Semantic identifiers (\<open>internal/identity/identity.go\<close>). The Go package wraps one string per
  identifier type; the model has one wrapper with a phantom tag per type, so the kinds stay
  apart. Parsing of UUIDs is \<open>github.com/google/uuid\<close>, a parameter \<open>uuid_parse\<close> that returns
  the canonical spelling of what it parsed; the regular expressions are written out as checks on
  bytes. Where a Go message quotes its input with \<open>%q\<close>, the model's text keeps it unquoted.
\<close>

datatype 'k ident = Ident (ident_value: string)

datatype tenant_tag = TenantTag
datatype account_tag = AccountTag
datatype chat_tag = ChatTag
datatype participant_tag = ParticipantTag
datatype message_tag = MessageTag
datatype action_tag = ActionTag
datatype effect_tag = EffectTag
datatype invocation_tag = InvocationTag
datatype causation_tag = CausationTag
datatype sender_ref_tag = SenderRefTag
datatype lid_tag = LidTag
datatype provider_tag = ProviderTag
datatype policy_tag = PolicyTag

type_synonym tenant_id = "tenant_tag ident"
type_synonym account_id = "account_tag ident"
type_synonym chat_id = "chat_tag ident"
type_synonym participant_id = "participant_tag ident"
type_synonym message_id = "message_tag ident"
type_synonym action_id = "action_tag ident"
type_synonym effect_id = "effect_tag ident"
type_synonym invocation_id = "invocation_tag ident"
type_synonym causation_id = "causation_tag ident"
type_synonym sender_ref = "sender_ref_tag ident"
type_synonym lid = "lid_tag ident"
type_synonym provider_id = "provider_tag ident"
type_synonym policy_id = "policy_tag ident"

definition is_zero :: "'k ident \<Rightarrow> bool" where
  "is_zero i \<longleftrightarrow> ident_value i = []"

definition zero_id :: "'k ident" where
  "zero_id = Ident []"

lemma is_zero_zero_id [simp]: "is_zero zero_id"
  by (simp add: is_zero_def zero_id_def)

lemma is_zero_iff: "is_zero i \<longleftrightarrow> i = zero_id"
  by (cases i) (simp add: is_zero_def zero_id_def)

text \<open>Identifiers are ordered by their text, the order SQL gives them.\<close>

instantiation ident :: (type) linorder
begin

definition less_eq_ident :: "'a ident \<Rightarrow> 'a ident \<Rightarrow> bool" where
  "less_eq_ident i j \<longleftrightarrow> ident_value i \<le> ident_value j"

definition less_ident :: "'a ident \<Rightarrow> 'a ident \<Rightarrow> bool" where
  "less_ident i j \<longleftrightarrow> ident_value i < ident_value j"

instance
  by standard
    (auto simp: less_eq_ident_def less_ident_def less_le_not_le intro: ident.expand)

end

subsection \<open>Patterns\<close>

definition base36_char :: "char \<Rightarrow> bool" where
  "base36_char c \<longleftrightarrow> digit_char c \<or> lower_char c"

definition slug_rest_char :: "char \<Rightarrow> bool" where
  "slug_rest_char c \<longleftrightarrow> base36_char c \<or> c \<in> {CHR ''_'', CHR ''.'', CHR ''-''}"

definition slug_pattern :: "string \<Rightarrow> bool" where
  "slug_pattern s = (case s of
     [] \<Rightarrow> False
   | c # cs \<Rightarrow> lower_char c \<and> length cs \<le> 62 \<and> list_all slug_rest_char cs)"

definition sender_ref_pattern :: "string \<Rightarrow> bool" where
  "sender_ref_pattern s \<longleftrightarrow> length s = 6 \<and> list_all base36_char s"

definition lid_pattern :: "string \<Rightarrow> bool" where
  "lid_pattern s =
    (let ds = takeWhile digit_char s; rest = dropWhile digit_char s in
     1 \<le> length ds \<and> length ds \<le> 32 \<and> (rest = ''@lid'' \<or> rest = ''@hosted.lid''))"

subsection \<open>Parsing\<close>

definition parse_uuid :: "(string \<Rightarrow> string option) \<Rightarrow> string \<Rightarrow> string \<Rightarrow> go_error + string" where
  "parse_uuid uuid_parse name value =
    (if value = [] then Inl (Plain (name @ '' is required''))
     else if uuid_parse value \<noteq> Some value
       then Inl (Plain (name @ '' must be a canonical lowercase UUID: '' @ value))
     else Inr value)"

definition parse_slug :: "string \<Rightarrow> string \<Rightarrow> go_error + string" where
  "parse_slug name value =
    (if \<not> slug_pattern value then Inl (Plain (name @ '' must be a lowercase slug'')) else Inr value)"

definition parse_tenant_id :: "(string \<Rightarrow> string option) \<Rightarrow> string \<Rightarrow> go_error + tenant_id" where
  "parse_tenant_id u value = map_sum id Ident (parse_uuid u ''tenant ID'' value)"

definition parse_account_id :: "(string \<Rightarrow> string option) \<Rightarrow> string \<Rightarrow> go_error + account_id" where
  "parse_account_id u value = map_sum id Ident (parse_uuid u ''account ID'' value)"

definition parse_chat_id :: "(string \<Rightarrow> string option) \<Rightarrow> string \<Rightarrow> go_error + chat_id" where
  "parse_chat_id u value = map_sum id Ident (parse_uuid u ''chat ID'' value)"

definition parse_participant_id :: "(string \<Rightarrow> string option) \<Rightarrow> string \<Rightarrow> go_error + participant_id"
  where "parse_participant_id u value = map_sum id Ident (parse_uuid u ''participant ID'' value)"

definition parse_message_id :: "(string \<Rightarrow> string option) \<Rightarrow> string \<Rightarrow> go_error + message_id" where
  "parse_message_id u value = map_sum id Ident (parse_uuid u ''message ID'' value)"

definition parse_action_id :: "(string \<Rightarrow> string option) \<Rightarrow> string \<Rightarrow> go_error + action_id" where
  "parse_action_id u value = map_sum id Ident (parse_uuid u ''action ID'' value)"

definition parse_effect_id :: "(string \<Rightarrow> string option) \<Rightarrow> string \<Rightarrow> go_error + effect_id" where
  "parse_effect_id u value = map_sum id Ident (parse_uuid u ''effect ID'' value)"

definition parse_invocation_id :: "(string \<Rightarrow> string option) \<Rightarrow> string \<Rightarrow> go_error + invocation_id"
  where "parse_invocation_id u value = map_sum id Ident (parse_uuid u ''invocation ID'' value)"

definition parse_causation_id :: "(string \<Rightarrow> string option) \<Rightarrow> string \<Rightarrow> go_error + causation_id"
  where "parse_causation_id u value = map_sum id Ident (parse_uuid u ''causation ID'' value)"

definition parse_sender_ref :: "string \<Rightarrow> go_error + sender_ref" where
  "parse_sender_ref value =
    (if \<not> sender_ref_pattern value
     then Inl (Plain ''sender ref must use 6 lowercase base36 characters'')
     else Inr (Ident value))"

definition parse_lid :: "string \<Rightarrow> go_error + lid" where
  "parse_lid value =
    (if \<not> lid_pattern value
     then Inl (Plain ''LID must be a numeric WhatsApp @lid or @hosted.lid address'')
     else Inr (Ident value))"

definition parse_provider_id :: "string \<Rightarrow> go_error + provider_id" where
  "parse_provider_id value = map_sum id Ident (parse_slug ''provider ID'' value)"

definition parse_policy_id :: "string \<Rightarrow> go_error + policy_id" where
  "parse_policy_id value = map_sum id Ident (parse_slug ''policy ID'' value)"

lemma parse_uuid_Inr: "parse_uuid u name value = Inr v \<Longrightarrow> v = value \<and> value \<noteq> []"
  by (auto simp: parse_uuid_def split: if_splits)

subsection \<open>Sender references\<close>

text \<open>
  \<open>NewSenderRef\<close> reads 32-bit words until one lies below the sampling limit, and writes it in
  base 36. Each element of the source is one \<open>rand.Read\<close>: a word, or \<open>None\<close> where the reader
  fails. \<open>None\<close> as the result means the source ended while the loop was still sampling.
\<close>

definition sender_ref_alphabet :: string where
  "sender_ref_alphabet = ''0123456789abcdefghijklmnopqrstuvwxyz''"

definition sender_ref_space :: nat where
  "sender_ref_space = 36 * 36 * 36 * 36 * 36 * 36"

definition sender_ref_sampling_limit :: nat where
  "sender_ref_sampling_limit = 2 ^ 32 - 2 ^ 32 mod sender_ref_space"

fun sender_ref_digits :: "nat \<Rightarrow> nat \<Rightarrow> string \<Rightarrow> string" where
  "sender_ref_digits 0 number value = value"
| "sender_ref_digits (Suc k) number value =
     sender_ref_digits k (number div 36) (sender_ref_alphabet ! (number mod 36) # value)"

fun new_sender_ref :: "32 word option list \<Rightarrow> (go_error + sender_ref) option" where
  "new_sender_ref [] = None"
| "new_sender_ref (None # _) = Some (Inl (Wrapped ''generate sender ref: '' (Plain ''read failed'')))"
| "new_sender_ref (Some w # rest) =
     (if unat w \<ge> sender_ref_sampling_limit then new_sender_ref rest
      else Some (parse_sender_ref (sender_ref_digits 6 (unat w mod sender_ref_space) [])))"

lemma sampling_limit_eq_space: "sender_ref_sampling_limit = 36 ^ 6"
  by (simp add: sender_ref_sampling_limit_def sender_ref_space_def)

lemma space_eq: "sender_ref_space = 36 ^ 6"
  by (simp add: sender_ref_space_def)

lemma less_36_cases:
  assumes "d < (36::nat)"
  shows "d \<in> set [0..<36]"
  using assms by simp

definition alphabet_index :: "char \<Rightarrow> nat" where
  "alphabet_index c = (if digit_char c then bval c - 0x30 else bval c - 0x61 + 10)"

lemma alphabet_digits:
  "\<forall>d \<in> set [0..<36]. base36_char (sender_ref_alphabet ! d) \<and>
     alphabet_index (sender_ref_alphabet ! d) = d"
  by code_simp

lemma alphabet_digit:
  assumes "d < 36"
  shows "base36_char (sender_ref_alphabet ! d)" and "alphabet_index (sender_ref_alphabet ! d) = d"
  using alphabet_digits less_36_cases[OF assms] by blast+

lemma alphabet_index_inj: "inj_on alphabet_index {c. base36_char c}"
proof (rule inj_onI)
  fix x y
  assume "x \<in> {c. base36_char c}" and "y \<in> {c. base36_char c}"
    and "alphabet_index x = alphabet_index y"
  then have "bval x = bval y"
    by (auto simp: alphabet_index_def base36_char_def digit_char_def lower_char_def
      simp del: bval_inject split: if_splits)
  then show "x = y" by simp
qed

lemma sender_ref_digits_shape:
  "length (sender_ref_digits k n v) = k + length v \<and>
   (list_all base36_char v \<longrightarrow> list_all base36_char (sender_ref_digits k n v))"
  by (induction k arbitrary: n v) (auto simp: alphabet_digit)

definition ref_number :: "string \<Rightarrow> nat" where
  "ref_number s = foldl (\<lambda>a c. 36 * a + alphabet_index c) 0 s"

lemma foldl_sender_ref_digits:
  "foldl (\<lambda>a c. 36 * a + alphabet_index c) a (sender_ref_digits k n v) =
   foldl (\<lambda>a c. 36 * a + alphabet_index c) (36 ^ k * a + n mod 36 ^ k) v"
proof (induction k arbitrary: n v a)
  case 0
  then show ?case by simp
next
  case (Suc k)
  have "36 * (36 ^ k * a + n div 36 mod 36 ^ k) + n mod 36 = 36 ^ Suc k * a + n mod 36 ^ Suc k"
    using mod_mult2_eq[of n 36 "36 ^ k"] by (simp add: algebra_simps)
  then show ?case by (simp only: sender_ref_digits.simps Suc.IH foldl_Cons alphabet_digit
    mod_less_divisor zero_less_numeral)
qed

lemma ref_number_digits: "n < 36 ^ k \<Longrightarrow> ref_number (sender_ref_digits k n []) = n"
  by (simp add: ref_number_def foldl_sender_ref_digits)

lemma base36_chars_finite: "finite {c. base36_char c}"
  by simp

lemma base36_chars_card: "card {c. base36_char c} = 36"
proof -
  have "alphabet_index ` {c. base36_char c} = {..<36}"
  proof
    show "alphabet_index ` {c. base36_char c} \<subseteq> {..<36}"
      by (auto simp: alphabet_index_def base36_char_def digit_char_def lower_char_def)
    show "{..<36} \<subseteq> alphabet_index ` {c. base36_char c}"
    proof
      fix d :: nat
      assume "d \<in> {..<36}"
      then have "base36_char (sender_ref_alphabet ! d)" "d = alphabet_index (sender_ref_alphabet ! d)"
        by (simp_all add: alphabet_digit)
      then show "d \<in> alphabet_index ` {c. base36_char c}" by blast
    qed
  qed
  with card_image[OF alphabet_index_inj] show ?thesis by simp
qed

lemma sender_ref_strings_card: "card {s. sender_ref_pattern s} = 36 ^ 6"
proof -
  have "{s. sender_ref_pattern s} = {xs. set xs \<subseteq> {c. base36_char c} \<and> length xs = 6}"
    by (auto simp: sender_ref_pattern_def list_all_iff)
  then show ?thesis
    using card_lists_length_eq[OF base36_chars_finite, of 6] by (simp add: base36_chars_card)
qed


text \<open>
  A reference \<open>NewSenderRef\<close> returns is always well formed: the final \<open>ParseSenderRef\<close> never
  rejects what the loop wrote, so the only error is a failing random source, and the loop goes
  on only while every word read is at or above the sampling limit.
\<close>
theorem new_sender_ref_valid:
  "case new_sender_ref src of
     None \<Rightarrow> list_all (\<lambda>r. \<exists>w. r = Some w \<and> sender_ref_sampling_limit \<le> unat w) src
   | Some (Inl e) \<Rightarrow> None \<in> set src
   | Some (Inr ref) \<Rightarrow> sender_ref_pattern (ident_value ref)"
  by (induction src rule: new_sender_ref.induct)
    (auto simp: parse_sender_ref_def sender_ref_pattern_def sender_ref_digits_shape
       split: if_splits option.splits sum.splits)

end
