(* ===== verification/Mention.thy ===== *)
theory Mention
  imports AgentErrors "HOL-Library.Product_Lexorder"
begin

text \<open>
  Raw WhatsApp mention tokens (\<open>internal/mention/token.go\<close>): which tokens are valid, whether a
  token occurs in a text as a whole word, and the one-pass rewriting of tokens into display
  names. Texts are byte strings and positions are byte offsets, as in Go. The parameter \<open>wide\<close>
  is the Unicode letter and number tables above U+00FF. \<open>Contains\<close> slices the text at
  \<open>start + len(token)\<close> without comparing it with the text's length, so it can panic; its model
  has an outcome.
\<close>

definition max_token_digits :: nat where
  "max_token_digits = 32"

definition max_bindings :: nat where
  "max_bindings = 128"

definition valid_token :: "string \<Rightarrow> bool" where
  "valid_token token =
    (if length token < 2 \<or> length token > max_token_digits + 1 \<or> hd token \<noteq> CHR ''@'' then False
     else list_all digit_char (tl token))"

definition mention_word_rune :: "(rune \<Rightarrow> bool) \<Rightarrow> rune \<Rightarrow> bool" where
  "mention_word_rune wide r \<longleftrightarrow> r = bval (CHR ''_'') \<or> letter_or_number wide r"

definition boundary_before :: "(rune \<Rightarrow> bool) \<Rightarrow> string \<Rightarrow> nat \<Rightarrow> bool" where
  "boundary_before wide text index =
    (if index = 0 then True
     else let r = fst (decode_last_rune (take index text)) in
       \<not> mention_word_rune wide r \<and> r \<noteq> bval (CHR ''@''))"

definition boundary_after :: "(rune \<Rightarrow> bool) \<Rightarrow> string \<Rightarrow> nat \<Rightarrow> bool" where
  "boundary_after wide text index =
    (if index = length text then True
     else let r = fst (decode_rune (drop index text)) in \<not> mention_word_rune wide r)"

lemma index_of_byte_Some:
  "index_of_byte c s = Some i \<Longrightarrow> i < length s \<and> s ! i = c \<and> (\<forall>j<i. s ! j \<noteq> c)"
proof (induction s arbitrary: i)
  case Nil
  then show ?case by simp
next
  case (Cons x xs)
  show ?case
  proof (cases "x = c")
    case True
    with Cons.prems show ?thesis by auto
  next
    case False
    with Cons.prems obtain k where "index_of_byte c xs = Some k" "i = Suc k" by auto
    with Cons.IH[of k] False show ?thesis by (auto simp: nth_Cons split: nat.splits)
  qed
qed

lemma index_of_byte_None: "index_of_byte c s = None \<longleftrightarrow> c \<notin> set s"
  by (induction s) auto

lemma index_of_byte_drop:
  assumes "index_of_byte c (drop index text) = Some k"
  shows "index + k < length text" and "text ! (index + k) = c"
    and "\<forall>j. index \<le> j \<and> j < index + k \<longrightarrow> text ! j \<noteq> c"
proof -
  note found = index_of_byte_Some[OF assms]
  then show "index + k < length text" and "text ! (index + k) = c"
    by (auto simp: less_diff_conv add.commute)
  show "\<forall>j. index \<le> j \<and> j < index + k \<longrightarrow> text ! j \<noteq> c"
  proof (intro allI impI)
    fix j assume "index \<le> j \<and> j < index + k"
    then have "j - index < k" by auto
    with found have "drop index text ! (j - index) \<noteq> c" by blast
    with \<open>index \<le> j \<and> j < index + k\<close> \<open>index + k < length text\<close> show "text ! j \<noteq> c" by simp
  qed
qed

lemma index_of_byte_drop_None:
  assumes "index_of_byte c (drop index text) = None" and "index \<le> j" and "j < length text"
  shows "text ! j \<noteq> c"
proof
  assume "text ! j = c"
  with assms have "c = drop index text ! (j - index)" by simp
  moreover have "j - index < length (drop index text)" using assms by simp
  ultimately have "c \<in> set (drop index text)" by (metis nth_mem)
  with assms show False by (simp add: index_of_byte_None)
qed

subsection \<open>Contains\<close>

text \<open>The loop of \<open>Contains\<close>; a slice past the end of the text panics.\<close>

function contains_from :: "(rune \<Rightarrow> bool) \<Rightarrow> string \<Rightarrow> string \<Rightarrow> nat \<Rightarrow> bool outcome" where
  "contains_from wide text token index =
    (if index + length token \<le> length text then
       (case index_of_byte (CHR ''@'') (drop index text) of
          None \<Rightarrow> Done False
        | Some relative \<Rightarrow>
            let start = index + relative; end' = start + length token in
            if end' > length text then Panic
            else if take (length token) (drop start text) = token
                    \<and> boundary_before wide text start \<and> boundary_after wide text end'
              then Done True
            else contains_from wide text token (start + 1))
     else Done False)"
  by pat_completeness auto
termination
  by (relation "measure (\<lambda>(wide, text, token, index). length text - index)")
    (use index_of_byte_drop(1) in \<open>fastforce+\<close>)

declare contains_from.simps [simp del]

definition contains :: "(rune \<Rightarrow> bool) \<Rightarrow> string \<Rightarrow> string \<Rightarrow> bool outcome" where
  "contains wide text token =
    (if \<not> valid_token token then Done False else contains_from wide text token 0)"

text \<open>The specification: the token stands at \<open>start\<close> as a whole word.\<close>

definition mention_at :: "(rune \<Rightarrow> bool) \<Rightarrow> string \<Rightarrow> string \<Rightarrow> nat \<Rightarrow> bool" where
  "mention_at wide text token start \<longleftrightarrow> start + length token \<le> length text
     \<and> take (length token) (drop start text) = token
     \<and> boundary_before wide text start \<and> boundary_after wide text (start + length token)"

lemma mention_at_at:
  assumes "valid_token token" and "mention_at wide text token start"
  shows "start < length text" and "text ! start = CHR ''@''"
proof -
  obtain c cs where "token = c # cs"
    using assms(1) by (cases token) (simp_all add: valid_token_def)
  with assms(1) have "token ! 0 = CHR ''@''" and "2 \<le> length token"
    by (cases cs; simp add: valid_token_def split: if_splits)+
  moreover from assms(2) have fits: "start + length token \<le> length text"
    and slice: "take (length token) (drop start text) = token"
    by (simp_all add: mention_at_def)
  moreover have "token ! 0 = text ! start"
    using \<open>token = c # cs\<close> fits by (subst slice [symmetric]) simp
  ultimately show "start < length text" and "text ! start = CHR ''@''"
    by simp_all
qed

lemma contains_from_sound:
  assumes "valid_token token" and "contains_from wide text token index = Done b"
  shows "b \<longleftrightarrow> (\<exists>start \<ge> index. mention_at wide text token start)"
  using assms
proof (induction wide "text" token index rule: contains_from.induct)
  case (1 wide "text" token index)
  show ?case
  proof (cases "index + length token \<le> length text")
    case False
    then have "\<not> mention_at wide text token start" if "start \<ge> index" for start
      using that by (auto simp: mention_at_def)
    with False "1.prems" show ?thesis by (auto simp: contains_from.simps)
  next
    case fits: True
    show ?thesis
    proof (cases "index_of_byte (CHR ''@'') (drop index text)")
      case None
      have "\<not> mention_at wide text token start" if "start \<ge> index" for start
        using mention_at_at[OF "1.prems"(1)] index_of_byte_drop_None[OF None that] by blast
      with fits None "1.prems" show ?thesis by (auto simp: contains_from.simps)
    next
      case (Some k)
      note hit = index_of_byte_drop[OF Some]
      have skip: "\<not> mention_at wide text token start"
        if "start \<ge> index" "start < index + k" for start
        using that hit(3) mention_at_at[OF "1.prems"(1)] by blast
      show ?thesis
      proof (cases "mention_at wide text token (index + k)")
        case True
        with fits Some have "contains_from wide text token index = Done True"
          by (subst contains_from.simps) (simp add: mention_at_def)
        with "1.prems"(2) True show ?thesis by (metis le_add1 outcome.inject)
      next
        case False
        with fits Some "1.prems"(2)
        have rest: "contains_from wide text token (index + k + 1) = Done b"
          and small: "\<not> index + k + length token > length text"
          by (subst (asm) contains_from.simps, auto simp: mention_at_def Let_def split: if_splits)+
        have "\<not> (take (length token) (drop (index + k) text) = token
            \<and> boundary_before wide text (index + k)
            \<and> boundary_after wide text (index + k + length token))"
          using False small by (simp add: mention_at_def)
        with "1.IH"[OF fits Some refl refl small] "1.prems"(1) rest
        have IH: "b \<longleftrightarrow> (\<exists>start \<ge> index + k + 1. mention_at wide text token start)" by blast
        have "start \<ge> index + k + 1" if "start \<ge> index" "mention_at wide text token start" for start
          using that False skip by (metis Suc_eq_plus1 Suc_leI linorder_neqE_nat)
        with IH show ?thesis by (meson le_trans le_add1 add_leE)
      qed
    qed
  qed
qed

text \<open>
  C27: whenever \<open>Contains\<close> returns, its answer is exactly whether the token stands somewhere in
  the text as a whole word; for a token that is not valid the answer is no.
\<close>
theorem contains_correct:
  "contains wide text token = Done b \<Longrightarrow>
     b \<longleftrightarrow> valid_token token \<and> (\<exists>start. mention_at wide text token start)"
  using contains_from_sound[of token wide "text" 0 b] by (auto simp: contains_def split: if_splits)

theorem contains_correct_witness:
  "contains (\<lambda>_. False) ''halo @123!'' ''@123'' = Done True \<and>
   (\<exists>start. mention_at (\<lambda>_. False) ''halo @123!'' ''@123'' start)"
proof -
  have "contains (\<lambda>_. False) ''halo @123!'' ''@123'' = Done True"
    by code_simp
  with contains_correct[OF this] show ?thesis by simp
qed

text \<open>
  C28: \<open>Contains\<close> panics when an at sign stands too close to the end of the text for the token
  to fit after it and no complete mention precedes it. The statement gives the family of texts
  \<open>p @ '@' @ q\<close> where the prefix has no at sign: a valid token longer than \<open>'@' @ q\<close> but no
  longer than the whole text makes the slice run out of range.
\<close>
theorem contains_out_of_range:
  assumes "valid_token token" and "CHR ''@'' \<notin> set p"
    and "length token \<le> length p + 1 + length q" and "length q + 1 < length token"
  shows "contains wide (p @ CHR ''@'' # q) token = Panic"
proof -
  have "index_of_byte (CHR ''@'') (p @ CHR ''@'' # q) = Some (length p)"
    using assms(2) by (induction p) auto
  with assms show ?thesis by (simp add: contains_def contains_from.simps)
qed

theorem contains_out_of_range_witness:
  "contains (\<lambda>_. False) ''halo @12'' ''@1234'' = Panic"
  using contains_out_of_range[of "''@1234''" "''halo ''" "''12''" "\<lambda>_. False"]
  by (simp add: valid_token_def max_token_digits_def digit_char_def bval_def)

text \<open>A text in which the token fits after every at sign never makes \<open>Contains\<close> panic.\<close>

lemma contains_from_no_panic:
  assumes "\<forall>i < length text. text ! i = CHR ''@'' \<longrightarrow> i + length token \<le> length text"
  shows "contains_from wide text token index \<noteq> Panic"
  using assms
proof (induction wide "text" token index rule: contains_from.induct)
  case (1 wide "text" token index)
  show ?case
  proof (cases "index_of_byte (CHR ''@'') (drop index text)")
    case None
    then show ?thesis by (simp add: contains_from.simps)
  next
    case (Some k)
    note hit = index_of_byte_drop[OF Some]
    with "1.prems" have "\<not> index + k + length token > length text" by auto
    with "1.IH"[OF _ Some refl refl this] "1.prems" Some show ?thesis
      by (subst contains_from.simps) (auto simp: Let_def)
  qed
qed

subsection \<open>Rewrite\<close>

text \<open>
  A Go map of replacements is an association list (its iteration order does not matter: the
  tokens are sorted, longest first and then by text).
\<close>

definition rewrite_tokens :: "(string \<times> string) list \<Rightarrow> string list" where
  "rewrite_tokens replacements =
    sort_key (\<lambda>t. (- int (length t), t)) (filter valid_token (map fst replacements))"

definition rewrite_match :: "(rune \<Rightarrow> bool) \<Rightarrow> string \<Rightarrow> string list \<Rightarrow> nat \<Rightarrow> string" where
  "rewrite_match wide text tokens start =
    (if boundary_before wide text start then
       (case find (\<lambda>token. start + length token \<le> length text
                 \<and> take (length token) (drop start text) = token
                 \<and> boundary_after wide text (start + length token)) tokens of
          None \<Rightarrow> [] | Some token \<Rightarrow> token)
     else [])"

function rewrite_from :: "(rune \<Rightarrow> bool) \<Rightarrow> string \<Rightarrow> (string \<times> string) list \<Rightarrow> string list \<Rightarrow>
    nat \<Rightarrow> nat \<Rightarrow> string \<Rightarrow> string \<times> nat" where
  "rewrite_from wide text replacements tokens index written result =
    (if index < length text then
       (case index_of_byte (CHR ''@'') (drop index text) of
          None \<Rightarrow> (result, written)
        | Some relative \<Rightarrow>
            let start = index + relative; matched = rewrite_match wide text tokens start in
            if matched = [] then
              rewrite_from wide text replacements tokens (start + 1) written result
            else
              let past = start + length matched in
              rewrite_from wide text replacements tokens past past
                (result @ take (start - written) (drop written text)
                   @ the (map_of replacements matched)))
     else (result, written))"
  by pat_completeness auto
termination
proof (relation "measure (\<lambda>(wide, text, reps, tokens, index, written, result). length text - index)",
    goal_cases)
  case (3 wide "text" reps tokens index written result k start m nx)
  then have "0 < length m" by simp
  with 3(3,6) have "index < nx" by linarith
  with 3(1) show ?case by (simp add: diff_less_mono2)
qed auto

declare rewrite_from.simps [simp del]

definition rewrite :: "(rune \<Rightarrow> bool) \<Rightarrow> string \<Rightarrow> (string \<times> string) list \<Rightarrow> string" where
  "rewrite wide text replacements =
    (if replacements = [] \<or> text = [] then text
     else let tokens = rewrite_tokens replacements in
       if tokens = [] then text
       else let (result, written) = rewrite_from wide text replacements tokens 0 0 [] in
         if written = 0 then text else result @ drop written text)"

text \<open>
  The specification: a text is cut into kept stretches and mentions, each mention is a known
  token standing as a whole word at its place in the original text, and the rewritten text is
  the same sequence with each mention replaced once.
\<close>

datatype piece = Kept string | Mentioned string

fun piece_text :: "piece \<Rightarrow> string" where
  "piece_text (Kept s) = s"
| "piece_text (Mentioned t) = t"

fun piece_new :: "(string \<times> string) list \<Rightarrow> piece \<Rightarrow> string" where
  "piece_new reps (Kept s) = s"
| "piece_new reps (Mentioned t) = the (map_of reps t)"

definition pieces_ok :: "(rune \<Rightarrow> bool) \<Rightarrow> string \<Rightarrow> (string \<times> string) list \<Rightarrow> piece list \<Rightarrow> bool"
  where "pieces_ok wide text reps ps \<longleftrightarrow>
    (\<forall>i < length ps. \<forall>t. ps ! i = Mentioned t \<longrightarrow>
       t \<in> set (map fst reps) \<and> valid_token t
       \<and> mention_at wide text t (length (concat (map piece_text (take i ps)))))"

lemma pieces_ok_snoc:
  "pieces_ok wide text reps (ps @ [p]) \<longleftrightarrow> pieces_ok wide text reps ps \<and>
     (\<forall>t. p = Mentioned t \<longrightarrow> t \<in> set (map fst reps) \<and> valid_token t
        \<and> mention_at wide text t (length (concat (map piece_text ps))))"
  by (auto simp: pieces_ok_def nth_append less_Suc_eq split: if_splits)

lemma rewrite_match_spec:
  assumes "rewrite_match wide text tokens start = m" and "m \<noteq> []"
  shows "m \<in> set tokens \<and> mention_at wide text m start"
  using assms
  by (auto simp: rewrite_match_def mention_at_def find_Some_iff split: if_splits option.splits)

definition rewrite_inv :: "(rune \<Rightarrow> bool) \<Rightarrow> string \<Rightarrow> (string \<times> string) list \<Rightarrow> nat \<Rightarrow> string \<Rightarrow> bool"
  where "rewrite_inv wide text reps written result \<longleftrightarrow> written \<le> length text \<and>
    (\<exists>ps. concat (map piece_text ps) = take written text
        \<and> concat (map (piece_new reps) ps) = result \<and> pieces_ok wide text reps ps)"

lemma rewrite_inv_step:
  assumes inv: "rewrite_inv wide text reps written result" and le: "written \<le> start"
    and m: "m \<in> set (map fst reps)" "valid_token m" "mention_at wide text m start"
  shows "rewrite_inv wide text reps (start + length m)
    (result @ take (start - written) (drop written text) @ the (map_of reps m))"
proof -
  from inv obtain ps where ps: "concat (map piece_text ps) = take written text"
    "concat (map (piece_new reps) ps) = result" "pieces_ok wide text reps ps"
    by (auto simp: rewrite_inv_def)
  let ?gap = "take (start - written) (drop written text)"
  let ?qs = "(ps @ [Kept ?gap]) @ [Mentioned m]"
  have fits: "start + length m \<le> length text" and slice: "take (length m) (drop start text) = m"
    using m(3) by (simp_all add: mention_at_def)
  have upto: "take written text @ ?gap = take start text"
    using le take_add[of written "start - written" "text"] by simp
  have "concat (map piece_text ?qs) = take (start + length m) text"
    using ps(1) upto slice by (simp add: take_add)
  moreover have "concat (map (piece_new reps) ?qs) = result @ ?gap @ the (map_of reps m)"
    using ps(2) by simp
  moreover have "length (concat (map piece_text (ps @ [Kept ?gap]))) = start"
    using ps(1) upto fits by simp
  then have "pieces_ok wide text reps ?qs"
    using ps(3) m by (simp only: pieces_ok_snoc) simp
  ultimately show ?thesis
    using fits unfolding rewrite_inv_def by blast
qed

lemma rewrite_from_inv:
  assumes "rewrite_inv wide text reps written result" and "written \<le> index"
    and "\<forall>t \<in> set tokens. t \<in> set (map fst reps) \<and> valid_token t"
    and "rewrite_from wide text reps tokens index written result = (r, w)"
  shows "rewrite_inv wide text reps w r"
  using assms
proof (induction wide "text" reps tokens index written result arbitrary: r w rule: rewrite_from.induct)
  case (1 wide "text" reps tokens index written result)
  show ?case
  proof (cases "index < length text")
    case False
    with "1.prems" show ?thesis by (simp add: rewrite_from.simps)
  next
    case more: True
    show ?thesis
    proof (cases "index_of_byte (CHR ''@'') (drop index text)")
      case None
      with more "1.prems" show ?thesis by (simp add: rewrite_from.simps)
    next
      case (Some k)
      let ?m = "rewrite_match wide text tokens (index + k)"
      show ?thesis
      proof (cases "?m = []")
        case True
        with more Some "1.prems"(4)
        have "rewrite_from wide text reps tokens (index + k + 1) written result = (r, w)"
          by (simp add: rewrite_from.simps[of _ _ _ _ index] Let_def)
        with "1.IH"(1)[OF more Some refl refl True] "1.prems" show ?thesis by simp
      next
        case False
        with more Some "1.prems"(4)
        have rest: "rewrite_from wide text reps tokens (index + k + length ?m) (index + k + length ?m)
           (result @ take (index + k - written) (drop written text) @ the (map_of reps ?m)) = (r, w)"
          by (simp add: rewrite_from.simps[of _ _ _ _ index] Let_def)
        have "rewrite_inv wide text reps (index + k + length ?m)
           (result @ take (index + k - written) (drop written text) @ the (map_of reps ?m))"
          using "1.prems" rewrite_match_spec[OF refl False] by (intro rewrite_inv_step) auto
        with "1.IH"(2)[OF more Some refl refl False refl] "1.prems"(3) rest show ?thesis by simp
      qed
    qed
  qed
qed


end
