(* ===== verification/AgentTypes.thy ===== *)
theory AgentTypes
  imports Identity Mention
begin

text \<open>
  The value types of the agent (\<open>internal/agent/types.go\<close>, \<open>turn.go\<close>, \<open>memory.go\<close>) with their
  validation: chat keys, capability sets, model effects and invocations. The quote and content
  checks of \<open>history.go\<close> and \<open>context.go\<close> that invocations share are here too. A Go integer enum
  is a datatype with the declared values and one constructor for any other value.
\<close>

definition max_input_bytes :: nat where
  "max_input_bytes = 32 * 1024"

definition max_display_name_bytes :: nat where
  "max_display_name_bytes = 512"

definition max_response_bytes :: nat where
  "max_response_bytes = 16 * 1024"

record agent_key =
  key_tenant :: tenant_id
  key_account :: account_id
  key_chat :: chat_id

definition key_validate :: "agent_key \<Rightarrow> go_error option" where
  "key_validate key =
    (if is_zero (key_tenant key) \<or> is_zero (key_account key) \<or> is_zero (key_chat key)
     then Some (errorf ErrorInvalidArgument ''validate agent key''
       ''tenant, account, and chat IDs are required'')
     else None)"

datatype invocation_cause =
  CauseInboundMessage | CauseScheduledTask | CauseDirectRequest | CauseSubagentResult
  | CauseOther nat

datatype causation_kind =
  CausationMessage | CausationTask | CausationRequest | CausationSubagent | CausationOther nat

record causation_ref =
  cref_kind :: causation_kind
  cref_id :: causation_id

record sender_context =
  sc_participant_id :: participant_id
  sc_ref :: sender_ref
  sc_display_name :: string
  sc_is_admin :: bool
  sc_is_super_admin :: bool

record mention_context =
  mc_token :: string
  mc_sender_ref :: sender_ref
  mc_display_name :: string
  mc_bot :: bool

subsection \<open>Capabilities\<close>

datatype capability = Capability (capability_text: string)

definition capability_command_execute :: capability where
  "capability_command_execute = Capability ''command.execute''"

definition capability_message_react :: capability where
  "capability_message_react = Capability ''message.react''"

definition capability_message_delete :: capability where
  "capability_message_delete = Capability ''message.delete''"

definition capability_message_sticker :: capability where
  "capability_message_sticker = Capability ''message.sticker''"

instantiation capability :: linorder
begin

definition less_eq_capability :: "capability \<Rightarrow> capability \<Rightarrow> bool" where
  "less_eq_capability a b \<longleftrightarrow> capability_text a \<le> capability_text b"

definition less_capability :: "capability \<Rightarrow> capability \<Rightarrow> bool" where
  "less_capability a b \<longleftrightarrow> capability_text a < capability_text b"

instance
  by standard
    (auto simp: less_eq_capability_def less_capability_def less_le_not_le intro: capability.expand)

end

definition capability_valid :: "capability \<Rightarrow> bool" where
  "capability_valid c \<longleftrightarrow> c \<in> {capability_command_execute, capability_message_react,
     capability_message_delete, capability_message_sticker}"

datatype capability_set = CapabilitySet (cap_values: "capability list")

text \<open>The loop over the sorted copy: \<open>previous\<close> is the element before the current one.\<close>

fun capability_loop :: "capability option \<Rightarrow> capability list \<Rightarrow> go_error option" where
  "capability_loop previous [] = None"
| "capability_loop previous (value # rest) =
     (if \<not> capability_valid value
      then Some (errorf ErrorInvalidArgument ''create capability set'' ''invalid capability'')
      else if previous = Some value
      then Some (errorf ErrorInvalidArgument ''create capability set'' ''duplicate capability'')
      else capability_loop (Some value) rest)"

definition new_capability_set :: "capability list \<Rightarrow> go_error + capability_set" where
  "new_capability_set vals =
    (case capability_loop None (sort vals) of
       Some e \<Rightarrow> Inl e | None \<Rightarrow> Inr (CapabilitySet (sort vals)))"

definition capability_has :: "capability_set \<Rightarrow> capability \<Rightarrow> bool" where
  "capability_has s wanted =
    (let vs = cap_values s; index = sort_search (length vs) (\<lambda>i. vs ! i \<ge> wanted) in
     index < length vs \<and> vs ! index = wanted)"

lemma capability_loop_ok:
  assumes "sorted vs"
  shows "capability_loop previous vs = None \<longleftrightarrow>
    (\<forall>v \<in> set vs. capability_valid v) \<and> distinct vs \<and> (vs \<noteq> [] \<longrightarrow> previous \<noteq> Some (hd vs))"
  using assms
proof (induction vs arbitrary: previous)
  case Nil
  then show ?case by simp
next
  case (Cons v vs)
  have "v \<notin> set vs \<longleftrightarrow> (vs \<noteq> [] \<longrightarrow> v \<noteq> hd vs)" if "distinct vs"
    using Cons.prems that by (cases vs) auto
  with Cons show ?case by auto
qed

lemma sorted_capability_has: "sorted (cap_values s) \<Longrightarrow> capability_has s c \<longleftrightarrow> c \<in> set (cap_values s)"
  using sort_search_sorted[of "cap_values s" c] by (simp add: capability_has_def Let_def)

text \<open>
  A capability set is created exactly from distinct known capabilities, and its binary search
  then finds exactly those capabilities.
\<close>
theorem capability_set_correct:
  "case new_capability_set vals of
     Inl e \<Rightarrow> \<not> (distinct vals \<and> (\<forall>v \<in> set vals. capability_valid v))
   | Inr s \<Rightarrow> distinct vals \<and> (\<forall>c. capability_has s c \<longleftrightarrow> c \<in> set vals \<and> capability_valid c)"
proof -
  have "capability_loop None (sort vals) = None \<longleftrightarrow>
      (\<forall>v \<in> set vals. capability_valid v) \<and> distinct vals"
    using capability_loop_ok[of "sort vals" None] by simp
  then show ?thesis
    using sorted_capability_has[of "CapabilitySet (sort vals)"]
    by (auto simp: new_capability_set_def split: option.splits)
qed

subsection \<open>Content, quotes and mentions\<close>

text \<open>\<open>NilPart\<close> is a nil \<open>ContentPart\<close> interface, the one part that is not a text part.\<close>

datatype content_part = TextPart string | NilPart

fun flatten_content :: "content_part list \<Rightarrow> string outcome" where
  "flatten_content [] = Done []"
| "flatten_content (NilPart # _) = Panic"
| "flatten_content [TextPart s] = Done s"
| "flatten_content (TextPart s # p # ps) =
     (case flatten_content (p # ps) of Panic \<Rightarrow> Panic | Done r \<Rightarrow> Done (s @ ''\<newline>'' @ r))"

datatype history_role = HistoryUser | HistoryAssistant | HistorySystem | HistoryRoleOther nat

record quote_context =
  qc_sequence :: nat
  qc_message_id :: message_id
  qc_role :: history_role
  qc_sender_ref :: sender_ref
  qc_sender_is_admin :: bool
  qc_sender_is_super_admin :: bool
  qc_text :: string
  qc_mentions :: "mention_context list"

fun mention_contexts_loop ::
  "(rune \<Rightarrow> bool) \<Rightarrow> string \<Rightarrow> string set \<Rightarrow> mention_context list \<Rightarrow> go_error option outcome" where
  "mention_contexts_loop wide body seen [] = Done None"
| "mention_contexts_loop wide body seen (b # bs) =
     first_error
       [check (\<not> valid_token (mc_token b)) (Plain ''mention token is invalid or absent from text''),
        (case contains wide body (mc_token b) of
           Panic \<Rightarrow> Panic
         | Done found \<Rightarrow> check (\<not> found) (Plain ''mention token is invalid or absent from text'')),
        check (mc_token b \<in> seen) (Plain ''mention token is duplicated''),
        check (mc_bot b \<noteq> is_zero (mc_sender_ref b)) (Plain ''mention identity is invalid''),
        check (\<not> valid_utf8 (mc_display_name b) \<or> length (mc_display_name b) > max_display_name_bytes)
          (Plain ''mention display name is invalid''),
        mention_contexts_loop wide body (insert (mc_token b) seen) bs]"

definition validate_mention_contexts ::
  "(rune \<Rightarrow> bool) \<Rightarrow> string \<Rightarrow> mention_context list \<Rightarrow> go_error option outcome" where
  "validate_mention_contexts wide body mentions =
    (if length mentions > max_bindings then Done (Some (Plain ''mentions exceed 128''))
     else mention_contexts_loop wide body {} mentions)"

definition quote_fail :: "string \<Rightarrow> go_error" where
  "quote_fail msg = errorf ErrorInvalidArgument ''validate quote context'' msg"

definition validate_quote_context ::
  "(rune \<Rightarrow> bool) \<Rightarrow> quote_context option \<Rightarrow> go_error option outcome" where
  "validate_quote_context wide quote = (case quote of
     None \<Rightarrow> Done None
   | Some q \<Rightarrow> first_error
      [check (is_zero (qc_message_id q) \<or> (qc_role q \<noteq> HistoryUser \<and> qc_role q \<noteq> HistoryAssistant)
           \<or> qc_text q = [] \<or> \<not> valid_utf8 (qc_text q) \<or> length (qc_text q) > max_input_bytes)
         (quote_fail ''quote identity, role, and bounded text are required''),
       check (qc_role q = HistoryUser \<and> is_zero (qc_sender_ref q))
         (quote_fail ''quoted user requires sender ref''),
       check (qc_role q = HistoryAssistant \<and> \<not> is_zero (qc_sender_ref q))
         (quote_fail ''quoted assistant must not carry sender ref''),
       check (qc_role q = HistoryAssistant \<and> length (qc_mentions q) \<noteq> 0)
         (quote_fail ''quoted assistant must not carry raw mention bindings''),
       check (qc_sender_is_super_admin q \<and> \<not> qc_sender_is_admin q)
         (quote_fail ''quoted superadmin must also be an admin''),
       check (qc_role q = HistoryAssistant \<and> (qc_sender_is_admin q \<or> qc_sender_is_super_admin q))
         (quote_fail ''quoted assistant cannot have a group admin role''),
       validate_mention_contexts wide (qc_text q) (qc_mentions q)])"

definition quote_mentions :: "quote_context option \<Rightarrow> mention_context list" where
  "quote_mentions quote = (case quote of None \<Rightarrow> [] | Some q \<Rightarrow> qc_mentions q)"

subsection \<open>Model effects\<close>

definition max_model_effects :: nat where
  "max_model_effects = 8"

datatype effect_kind = EffectReact | EffectRunCommand | EffectSticker | EffectKindOther nat

record effect_intent =
  ei_kind :: effect_kind
  ei_target_message_id :: message_id
  ei_emoji :: string
  ei_command :: string
  ei_sticker :: string

definition sticker_rune :: "rune \<Rightarrow> bool" where
  "sticker_rune r \<longleftrightarrow> (0x61 \<le> r \<and> r \<le> 0x7A) \<or> (0x30 \<le> r \<and> r \<le> 0x39) \<or> r = 0x5F \<or> r = 0x2D"

definition valid_sticker_name :: "string \<Rightarrow> bool" where
  "valid_sticker_name name =
    (if name = [] \<or> length name > 64 then False
     else list_all (\<lambda>rw. sticker_rune (fst rw)) (runes name))"

definition intent_capability :: "effect_intent \<Rightarrow> capability" where
  "intent_capability i = (case ei_kind i of
     EffectReact \<Rightarrow> capability_message_react
   | EffectSticker \<Rightarrow> capability_message_sticker
   | _ \<Rightarrow> Capability [])"

definition malformed_command :: "string \<Rightarrow> bool" where
  "malformed_command cmd \<longleftrightarrow> trim_space cmd \<noteq> cmd \<or> \<not> has_prefix cmd ''/'' \<or> length cmd = 0
     \<or> length cmd > max_input_bytes \<or> \<not> valid_utf8 cmd"

definition bad_reaction :: "message_id \<Rightarrow> string \<Rightarrow> bool" where
  "bad_reaction target emoji \<longleftrightarrow> is_zero target \<or> trim_space emoji = [] \<or> \<not> valid_utf8 emoji
     \<or> length emoji > 64"

definition intent_validate :: "effect_intent \<Rightarrow> go_error option" where
  "intent_validate i = (case ei_kind i of
     EffectReact \<Rightarrow>
       if bad_reaction (ei_target_message_id i) (ei_emoji i) \<or> ei_command i \<noteq> [] \<or> ei_sticker i \<noteq> []
       then Some (errorf ErrorInvalidArgument ''validate reaction intent''
         ''target and bounded emoji are required'') else None
   | EffectRunCommand \<Rightarrow>
       if malformed_command (ei_command i) \<or> ei_emoji i \<noteq> [] \<or> ei_sticker i \<noteq> []
       then Some (errorf ErrorInvalidArgument ''validate command intent''
         ''registered command is malformed'') else None
   | EffectSticker \<Rightarrow>
       if \<not> valid_sticker_name (ei_sticker i) \<or> ei_emoji i \<noteq> [] \<or> ei_command i \<noteq> []
       then Some (errorf ErrorInvalidArgument ''validate sticker intent''
         ''sticker name is malformed'') else None
   | EffectKindOther _ \<Rightarrow>
       Some (errorf ErrorInvalidArgument ''validate effect intent'' ''effect kind is invalid''))"

record model_effect =
  me_call_id :: string
  me_intent :: effect_intent

definition model_effect_validate :: "capability_set \<Rightarrow> model_effect \<Rightarrow> go_error option" where
  "model_effect_validate capabilities e =
    (if trim_space (me_call_id e) \<noteq> me_call_id e \<or> length (me_call_id e) = 0
        \<or> length (me_call_id e) > 128 \<or> \<not> valid_utf8 (me_call_id e)
     then Some (errorf ErrorInvalidArgument ''validate model effect'' ''tool call ID is invalid'')
     else case intent_validate (me_intent e) of
       Some err \<Rightarrow> Some (new_error ErrorInvalidArgument ''validate model effect'' (Some err))
     | None \<Rightarrow>
         let capability = intent_capability (me_intent e) in
         if capability \<noteq> Capability [] \<and> \<not> capability_has capabilities capability
         then Some (errorf ErrorPermissionDenied ''validate model effect''
           ''effect capability was not granted'')
         else None)"

record model_result =
  mr_text :: string
  mr_reply_to_message_id :: message_id
  mr_effects :: "model_effect list"

subsection \<open>Invocations\<close>

record invocation =
  inv_id :: invocation_id
  inv_causation :: causation_ref
  inv_cause :: invocation_cause
  inv_sender :: "sender_context option"
  inv_quote :: "quote_context option"
  inv_input :: "content_part list"
  inv_mentions :: "mention_context list"
  inv_capabilities :: capability_set
  inv_commands :: "string list"
  inv_stickers :: "string list"
  inv_policy_version :: nat
  inv_requested_at :: instant

definition expected_causation :: "invocation_cause \<Rightarrow> causation_kind option" where
  "expected_causation cause = (case cause of
     CauseInboundMessage \<Rightarrow> Some CausationMessage
   | CauseScheduledTask \<Rightarrow> Some CausationTask
   | CauseDirectRequest \<Rightarrow> Some CausationRequest
   | CauseSubagentResult \<Rightarrow> Some CausationSubagent
   | CauseOther _ \<Rightarrow> None)"

definition invocation_fail :: "string \<Rightarrow> go_error" where
  "invocation_fail msg = errorf ErrorInvalidArgument ''validate invocation'' msg"

fun input_loop :: "nat \<Rightarrow> content_part list \<Rightarrow> go_error option" where
  "input_loop sofar [] = None"
| "input_loop sofar (NilPart # _) =
     Some (errorf ErrorUnsupported ''validate invocation'' ''Part 2 accepts text only'')"
| "input_loop sofar (TextPart t # ps) =
     (if t = [] \<or> \<not> valid_utf8 t
      then Some (invocation_fail ''text must be non-empty valid UTF-8'')
      else if sofar + length t > max_input_bytes
      then Some (invocation_fail ''text exceeds 32768 bytes'')
      else input_loop (sofar + length t) ps)"

fun command_names_loop :: "string option \<Rightarrow> string list \<Rightarrow> go_error option" where
  "command_names_loop previous [] = None"
| "command_names_loop previous (name # names) =
     (if name = [] \<or> trim_space name \<noteq> name \<or> set name \<inter> {CHR '' '', CHR ''/'', CHR 0x09, CHR 0x0D, CHR 0x0A} \<noteq> {}
      then Some (invocation_fail ''model command name is invalid'')
      else if (case previous of None \<Rightarrow> False | Some p \<Rightarrow> p \<ge> name)
      then Some (invocation_fail ''model command names must be sorted and unique'')
      else command_names_loop (Some name) names)"

fun sticker_names_loop :: "string option \<Rightarrow> string list \<Rightarrow> go_error option" where
  "sticker_names_loop previous [] = None"
| "sticker_names_loop previous (name # names) =
     (if \<not> valid_sticker_name name \<or> (case previous of None \<Rightarrow> False | Some p \<Rightarrow> p \<ge> name)
      then Some (invocation_fail ''sticker names must be valid, sorted and unique'')
      else sticker_names_loop (Some name) names)"

definition sender_missing :: "sender_context option \<Rightarrow> bool" where
  "sender_missing s = (case s of
     None \<Rightarrow> True | Some c \<Rightarrow> is_zero (sc_participant_id c) \<or> is_zero (sc_ref c))"

definition sender_name_invalid :: "sender_context option \<Rightarrow> bool" where
  "sender_name_invalid s = (case s of
     None \<Rightarrow> False
   | Some c \<Rightarrow> \<not> valid_utf8 (sc_display_name c) \<or> length (sc_display_name c) > max_display_name_bytes)"

definition sender_role_invalid :: "sender_context option \<Rightarrow> bool" where
  "sender_role_invalid s = (case s of
     None \<Rightarrow> False | Some c \<Rightarrow> sc_is_super_admin c \<and> \<not> sc_is_admin c)"

definition validate_invocation ::
  "(rune \<Rightarrow> bool) \<Rightarrow> agent_key \<Rightarrow> invocation \<Rightarrow> go_error option outcome" where
  "validate_invocation wide key ivc =
    (let wrap = (\<lambda>e. new_error ErrorInvalidArgument ''validate invocation'' (Some e)) in
     first_error
      [Done (map_option wrap (key_validate key)),
       check (is_zero (inv_id ivc) \<or> is_zero (cref_id (inv_causation ivc)))
         (invocation_fail ''invocation and causation IDs are required''),
       check (expected_causation (inv_cause ivc) \<noteq> Some (cref_kind (inv_causation ivc)))
         (invocation_fail ''cause and causation kind do not match''),
       check (inv_cause ivc = CauseInboundMessage \<and> sender_missing (inv_sender ivc))
         (invocation_fail ''inbound invocation requires trusted sender context''),
       check ((inv_cause ivc = CauseScheduledTask \<or> inv_cause ivc = CauseSubagentResult)
           \<and> inv_sender ivc \<noteq> None)
         (invocation_fail ''system invocation must not carry sender context''),
       check (sender_name_invalid (inv_sender ivc)) (invocation_fail ''invalid sender display name''),
       check (sender_role_invalid (inv_sender ivc))
         (invocation_fail ''superadmin sender must also be an admin''),
       map_error wrap (validate_quote_context wide (inv_quote ivc)),
       check (length (inv_input ivc) = 0) (invocation_fail ''input is required''),
       Done (input_loop 0 (inv_input ivc)),
       (case flatten_content (inv_input ivc) of
          Panic \<Rightarrow> Panic
        | Done body \<Rightarrow> map_error wrap (validate_mention_contexts wide body (inv_mentions ivc))),
       Done (command_names_loop None (inv_commands ivc)),
       Done (sticker_names_loop None (inv_stickers ivc)),
       check (inv_policy_version ivc = 0) (invocation_fail ''policy version is required''),
       check (inv_requested_at ivc = 0) (invocation_fail ''request time is required'')])"

subsection \<open>Turns\<close>

datatype turn_state =
  TurnGenerating | TurnFailedRetryable | TurnResponsePlanned | TurnDeliveryPending
  | TurnSucceeded | TurnFailedTerminal | TurnUnknownOutcome | TurnStateOther nat

datatype delivery_status =
  DeliveryNotStarted | DeliveryPending | DeliverySucceeded | DeliveryFailedTerminal
  | DeliveryUnknownOutcome | DeliveryStatusOther nat

record dispatch_ref =
  dr_key :: agent_key
  dr_action_id :: action_id

record effect_dispatch_ref =
  edr_key :: agent_key
  edr_effect_id :: effect_id

definition effect_dispatch_ref_validate :: "effect_dispatch_ref \<Rightarrow> go_error option" where
  "effect_dispatch_ref_validate ref =
    (if key_validate (edr_key ref) \<noteq> None \<or> is_zero (edr_effect_id ref)
     then Some (errorf ErrorInvalidArgument ''validate effect dispatch reference''
       ''agent key and effect ID are required'')
     else None)"

record delivery_result =
  dres_action_id :: action_id
  dres_status :: delivery_status
  dres_completed_at :: "instant option"

definition zero_delivery_result :: delivery_result where
  "zero_delivery_result =
     \<lparr>dres_action_id = zero_id, dres_status = DeliveryNotStarted, dres_completed_at = None\<rparr>"

record stored_plan =
  sp_invocation_id :: invocation_id
  sp_config_version :: nat
  sp_response_id :: message_id
  sp_reply_to_message_id :: message_id
  sp_action_id :: action_id
  sp_text :: string
  sp_created_at :: instant
  sp_dispatch :: dispatch_ref
  sp_effects :: "effect_dispatch_ref list"

record turn_claim =
  tc_state :: turn_state
  tc_message_id :: message_id
  tc_plan :: "stored_plan option"

record commit_plan_request =
  cp_key :: agent_key
  cp_invocation_id :: invocation_id
  cp_current_message_id :: message_id
  cp_config_version :: nat
  cp_response_text :: string
  cp_reply_to_message_id :: message_id
  cp_capabilities :: capability_set
  cp_effects :: "model_effect list"

record fail_generation_request =
  fg_key :: agent_key
  fg_invocation_id :: invocation_id
  fg_code :: error_code
  fg_retryable :: bool

record turn_record =
  tr_key :: agent_key
  tr_invocation_id :: invocation_id
  tr_message_id :: message_id
  tr_state :: turn_state
  tr_plan :: "stored_plan option"
  tr_delivery :: delivery_status
  tr_updated_at :: instant

record invoke_result =
  ir_invocation_id :: invocation_id
  ir_config_version :: nat
  ir_response_id :: message_id
  ir_action_id :: action_id
  ir_text :: string
  ir_delivery :: delivery_status

definition zero_invoke_result :: invoke_result where
  "zero_invoke_result = \<lparr>ir_invocation_id = zero_id, ir_config_version = 0,
     ir_response_id = zero_id, ir_action_id = zero_id, ir_text = [], ir_delivery = DeliveryNotStarted\<rparr>"

subsection \<open>Memories\<close>

definition max_memory_runes :: nat where
  "max_memory_runes = 500"

definition validate_memory_text :: "string \<Rightarrow> go_error option" where
  "validate_memory_text body =
    (if trim_space body = [] \<or> \<not> valid_utf8 body \<or> rune_count body > max_memory_runes
     then Some (Plain ''a memory must be valid text of 1 to 500 characters'') else None)"

end
