(* ===== verification/AgentConfig.thy ===== *)
theory AgentConfig
  imports AgentTypes
begin

text \<open>
  A chat's configuration (\<open>internal/agent/config.go\<close>): model, prompts, permission reference and
  group triggers, their validation, and the versioned updates of \<open>Config\<close> over its store. The
  store is an interface of the code, a record of calls that pass the world. Regular expressions
  compile through the parameter \<open>rx\<close> (Go's \<open>regexp\<close>: the matcher, or \<open>None\<close> for a pattern that
  does not compile) and \<open>low\<close> is \<open>unicode.ToLower\<close> above U+007F. Cloning values in Go is the
  identity here, since HOL values are not shared.
\<close>

definition initial_config_version :: nat where
  "initial_config_version = 1"

definition max_prompt_bytes :: nat where
  "max_prompt_bytes = 16 * 1024"

definition max_model_name_bytes :: nat where
  "max_model_name_bytes = 256"

definition max_trigger_pattern_bytes :: nat where
  "max_trigger_pattern_bytes = 512"

definition max_smart_rules_bytes :: nat where
  "max_smart_rules_bytes = 2000"

definition max_smart_rules :: nat where
  "max_smart_rules = 10"

definition max_output_tokens :: nat where
  "max_output_tokens = 65536"

record model_config =
  mdl_provider_id :: provider_id
  mdl_model :: string
  mdl_max_output_tokens :: nat

datatype prompt_override_mode = PromptAppend | PromptReplace | PromptModeOther nat

record prompt_override =
  po_mode :: prompt_override_mode
  po_text :: string

text \<open>Moderation levels are the integers 0 to 3: none, delete, mute, kick.\<close>

definition moderation_none :: nat where
  "moderation_none = 0"

definition moderation_delete_mute_kick :: nat where
  "moderation_delete_mute_kick = 3"

definition moderation_valid :: "nat \<Rightarrow> bool" where
  "moderation_valid level \<longleftrightarrow> level \<le> moderation_delete_mute_kick"

record permission_config =
  perm_policy_id :: policy_id
  perm_revision :: nat
  perm_moderation_level :: nat

record trigger_config =
  trg_mention :: bool
  trg_name :: bool
  trg_reply :: bool
  trg_name_regex :: bool
  trg_name_pattern :: string
  trg_smart :: bool
  trg_smart_rules :: string

definition smart_rule_list :: "trigger_config \<Rightarrow> string list" where
  "smart_rule_list triggers =
    filter (\<lambda>rule. rule \<noteq> []) (map trim_space (split_byte (CHR 0x0A) (trg_smart_rules triggers)))"

definition default_trigger_config :: trigger_config where
  "default_trigger_config = \<lparr>trg_mention = True, trg_name = False, trg_reply = True,
     trg_name_regex = False, trg_name_pattern = [], trg_smart = False, trg_smart_rules = []\<rparr>"

type_synonym regexp_compile = "string \<Rightarrow> (string \<Rightarrow> bool) option"

definition trigger_fail :: "string \<Rightarrow> go_error" where
  "trigger_fail msg = errorf ErrorInvalidArgument ''validate trigger config'' msg"

definition trigger_validate :: "regexp_compile \<Rightarrow> trigger_config \<Rightarrow> go_error option" where
  "trigger_validate rx t =
    (if \<not> valid_utf8 (trg_name_pattern t) \<or> length (trg_name_pattern t) > max_trigger_pattern_bytes
     then Some (trigger_fail ''name trigger pattern must be valid UTF-8 and at most 512 bytes'')
     else if \<not> valid_utf8 (trg_smart_rules t) \<or> length (trg_smart_rules t) > max_smart_rules_bytes
       \<or> length (smart_rule_list t) > max_smart_rules
     then Some (trigger_fail ''smart rules must be valid UTF-8, at most 10 rules and 2000 bytes'')
     else if trg_name_regex t then
       (if trg_name t \<and> trim_space (trg_name_pattern t) = []
        then Some (trigger_fail ''a name pattern is required when regex mode is enabled'')
        else if trg_name_pattern t \<noteq> [] \<and> rx (trg_name_pattern t) = None
        then Some (trigger_fail ''error parsing regexp'')
        else None)
     else None)"

definition trigger_matches ::
  "regexp_compile \<Rightarrow> (rune \<Rightarrow> rune) \<Rightarrow> trigger_config \<Rightarrow> bool \<Rightarrow> bool \<Rightarrow> string \<Rightarrow> string \<Rightarrow> bool" where
  "trigger_matches rx low t mentions_bot replied_to_bot body assistant_name =
    (if (trg_mention t \<and> mentions_bot) \<or> (trg_reply t \<and> replied_to_bot) then True
     else if \<not> trg_name t then False
     else if trg_name_regex t then
       (if trim_space (trg_name_pattern t) = [] then False
        else case rx (trg_name_pattern t) of None \<Rightarrow> False | Some matcher \<Rightarrow> matcher body)
     else let name = trim_space assistant_name in
       name \<noteq> [] \<and> contains_str (to_lower low body) (to_lower low name))"

definition model_tool_capabilities :: "permission_config \<Rightarrow> capability_set" where
  "model_tool_capabilities permission =
    (case new_capability_set [capability_message_react, capability_message_sticker] of
       Inl _ \<Rightarrow> CapabilitySet [] | Inr s \<Rightarrow> s)"

definition permission_validate :: "permission_config \<Rightarrow> go_error option" where
  "permission_validate p =
    (if is_zero (perm_policy_id p) \<or> perm_revision p = 0
     then Some (errorf ErrorInvalidArgument ''validate permission config''
       ''permission policy reference is required'')
     else if \<not> moderation_valid (perm_moderation_level p)
     then Some (errorf ErrorInvalidArgument ''validate permission config''
       ''moderation level must be 0-3'')
     else None)"

record config_values =
  cv_model :: model_config
  cv_prompt :: string
  cv_prompt_override :: "prompt_override option"
  cv_permission :: permission_config
  cv_triggers :: trigger_config

record config_snapshot =
  snap_version :: nat
  snap_model :: model_config
  snap_prompt :: string
  snap_prompt_override :: "prompt_override option"
  snap_permission :: permission_config
  snap_triggers :: trigger_config

definition snapshot_values :: "config_snapshot \<Rightarrow> config_values" where
  "snapshot_values s = \<lparr>cv_model = snap_model s, cv_prompt = snap_prompt s,
     cv_prompt_override = snap_prompt_override s, cv_permission = snap_permission s,
     cv_triggers = snap_triggers s\<rparr>"

definition config_fail :: "string \<Rightarrow> go_error" where
  "config_fail msg = errorf ErrorInvalidArgument ''validate config'' msg"

definition override_validate :: "prompt_override option \<Rightarrow> go_error option" where
  "override_validate override = (case override of
     None \<Rightarrow> None
   | Some po \<Rightarrow>
       if po_mode po \<noteq> PromptAppend \<and> po_mode po \<noteq> PromptReplace
       then Some (config_fail ''invalid prompt override mode'')
       else if trim_space (po_text po) = [] \<or> \<not> valid_utf8 (po_text po)
         \<or> length (po_text po) > max_prompt_bytes
       then Some (config_fail ''prompt override must be non-empty valid UTF-8 within 16384 bytes'')
       else None)"

definition validate_config_values :: "regexp_compile \<Rightarrow> config_values \<Rightarrow> go_error option" where
  "validate_config_values rx v =
    (let m = cv_model v in
     if is_zero (mdl_provider_id m) \<or> trim_space (mdl_model m) = [] \<or> \<not> valid_utf8 (mdl_model m)
       \<or> length (mdl_model m) > max_model_name_bytes
     then Some (config_fail ''valid provider and model are required'')
     else if mdl_max_output_tokens m = 0 \<or> mdl_max_output_tokens m > max_output_tokens
     then Some (config_fail ''max output tokens must be between 1 and 65536'')
     else if trim_space (cv_prompt v) = [] \<or> \<not> valid_utf8 (cv_prompt v)
       \<or> length (cv_prompt v) > max_prompt_bytes
     then Some (config_fail ''base prompt must be non-empty valid UTF-8 within 16384 bytes'')
     else case override_validate (cv_prompt_override v) of
       Some e \<Rightarrow> Some e
     | None \<Rightarrow>
         (case permission_validate (cv_permission v) of
            Some e \<Rightarrow> Some (new_error ErrorInvalidArgument ''validate config'' (Some e))
          | None \<Rightarrow>
              map_option (\<lambda>e. new_error ErrorInvalidArgument ''validate config'' (Some e))
                (trigger_validate rx (cv_triggers v))))"

definition validate_config_snapshot :: "regexp_compile \<Rightarrow> config_snapshot \<Rightarrow> go_error option" where
  "validate_config_snapshot rx s =
    (if snap_version s = 0
     then Some (errorf ErrorIntegrityFailure ''validate config snapshot'' ''version is zero'')
     else map_option (\<lambda>e. new_error ErrorIntegrityFailure ''validate config snapshot'' (Some e))
       (validate_config_values rx (snapshot_values s)))"

subsection \<open>The versioned config of one chat\<close>

record 'w config_store =
  cs_load_or_create :: "agent_key \<Rightarrow> config_values \<Rightarrow> ('w, go_error + config_snapshot) call"
  cs_load :: "agent_key \<Rightarrow> ('w, go_error + config_snapshot) call"
  cs_compare_and_swap ::
    "agent_key \<Rightarrow> nat \<Rightarrow> config_values \<Rightarrow> ('w, go_error + config_snapshot) call"

definition checked_snapshot ::
  "regexp_compile \<Rightarrow> string \<Rightarrow> go_error + config_snapshot \<Rightarrow> go_error + config_snapshot" where
  "checked_snapshot rx oper r = (case r of
     Inl e \<Rightarrow> Inl (new_error ErrorStorageFailure oper (Some e))
   | Inr s \<Rightarrow> (case validate_config_snapshot rx s of
       Some e \<Rightarrow> Inl (new_error ErrorIntegrityFailure oper (Some e)) | None \<Rightarrow> Inr s))"

definition new_config :: "regexp_compile \<Rightarrow> 'w config_store option \<Rightarrow> agent_key \<Rightarrow> config_values \<Rightarrow>
    ('w, go_error + agent_key \<times> 'w config_store) call" where
  "new_config rx store key defaults w = (case store of
     None \<Rightarrow> (Inl (errorf ErrorInvalidArgument ''create config'' ''store is required''), w)
   | Some st \<Rightarrow>
       (case validate_config_values rx defaults of
          Some e \<Rightarrow> (Inl (new_error ErrorInvalidArgument ''create config'' (Some e)), w)
        | None \<Rightarrow>
            (case cs_load_or_create st key defaults w of (r, w') \<Rightarrow>
               (map_sum id (\<lambda>_. (key, st)) (checked_snapshot rx ''create config'' r), w'))))"

definition config_refresh ::
  "regexp_compile \<Rightarrow> 'w config_store \<Rightarrow> agent_key \<Rightarrow> ('w, go_error + config_snapshot) call" where
  "config_refresh rx store key w =
    (case cs_load store key w of (r, w') \<Rightarrow> (checked_snapshot rx ''refresh config'' r, w'))"

definition config_update :: "regexp_compile \<Rightarrow> 'w config_store \<Rightarrow> agent_key \<Rightarrow> nat \<Rightarrow>
    (config_values \<Rightarrow> config_values) option \<Rightarrow> ('w, go_error + config_snapshot) call" where
  "config_update rx store key expected change w = (case change of
     None \<Rightarrow> (Inl (errorf ErrorInvalidArgument ''update config''
       ''expected version and change are required''), w)
   | Some f \<Rightarrow>
       if expected = 0 then (Inl (errorf ErrorInvalidArgument ''update config''
         ''expected version and change are required''), w)
       else (case config_refresh rx store key w of
         (Inl e, w1) \<Rightarrow> (Inl e, w1)
       | (Inr current, w1) \<Rightarrow>
           if snap_version current \<noteq> expected
           then (Inl (errorf ErrorConflict ''update config'' ''stale config version''), w1)
           else let vals = f (snapshot_values current) in
             (case validate_config_values rx vals of
                Some e \<Rightarrow> (Inl (new_error ErrorInvalidArgument ''update config'' (Some e)), w1)
              | None \<Rightarrow>
                  (case cs_compare_and_swap store key expected vals w1 of (r, w2) \<Rightarrow>
                     (checked_snapshot rx ''update config'' r, w2)))))"

definition config_set_model where
  "config_set_model rx store key expected v =
     config_update rx store key expected (Some (\<lambda>values. values\<lparr>cv_model := v\<rparr>))"

definition config_set_prompt where
  "config_set_prompt rx store key expected v =
     config_update rx store key expected (Some (\<lambda>values. values\<lparr>cv_prompt := v\<rparr>))"

definition config_set_prompt_override where
  "config_set_prompt_override rx store key expected v =
     config_update rx store key expected (Some (\<lambda>values. values\<lparr>cv_prompt_override := Some v\<rparr>))"

definition config_clear_prompt_override where
  "config_clear_prompt_override rx store key expected =
     config_update rx store key expected (Some (\<lambda>values. values\<lparr>cv_prompt_override := None\<rparr>))"

definition config_set_permission where
  "config_set_permission rx store key expected v =
     config_update rx store key expected (Some (\<lambda>values. values\<lparr>cv_permission := v\<rparr>))"

definition config_set_triggers where
  "config_set_triggers rx store key expected v =
     config_update rx store key expected (Some (\<lambda>values. values\<lparr>cv_triggers := v\<rparr>))"

lemma checked_snapshot_Inr:
  "checked_snapshot rx oper r = Inr s \<longleftrightarrow> r = Inr s \<and> validate_config_snapshot rx s = None"
  by (auto simp: checked_snapshot_def split: sum.splits option.splits)

lemma validate_config_snapshot_ok:
  "validate_config_snapshot rx s = None \<longleftrightarrow>
     snap_version s \<noteq> 0 \<and> validate_config_values rx (snapshot_values s) = None"
  by (simp add: validate_config_snapshot_def)

text \<open>
  An update that succeeds was made from the version the caller expected: the store's current
  snapshot had that version, the change applied to exactly its values passed validation, the
  store accepted those values as a compare-and-swap on that version, and what it returned is
  itself a valid snapshot.
\<close>
theorem config_update_success:
  assumes "config_update rx store key expected change w = (Inr s, w2)"
  shows "\<exists>f current w1. change = Some f \<and> expected \<noteq> 0
    \<and> cs_load store key w = (Inr current, w1) \<and> snap_version current = expected
    \<and> validate_config_values rx (f (snapshot_values current)) = None
    \<and> cs_compare_and_swap store key expected (f (snapshot_values current)) w1 = (Inr s, w2)
    \<and> validate_config_snapshot rx s = None"
proof -
  obtain f where f: "change = Some f" "expected \<noteq> 0"
    using assms by (auto simp: config_update_def split: option.splits if_splits)
  obtain r0 w1 where load: "cs_load store key w = (r0, w1)" by fastforce
  have refreshed: "config_refresh rx store key w = (checked_snapshot rx ''refresh config'' r0, w1)"
    by (simp add: config_refresh_def load)
  with assms f obtain current where cur: "checked_snapshot rx ''refresh config'' r0 = Inr current"
    by (auto simp: config_update_def split: sum.splits)
  let ?vals = "f (snapshot_values current)"
  have fits: "snap_version current = expected" "validate_config_values rx ?vals = None"
    using assms f refreshed cur
    by (auto simp: config_update_def Let_def split: if_splits option.splits)
  obtain r2 w2' where swap: "cs_compare_and_swap store key expected ?vals w1 = (r2, w2')" by fastforce
  have "checked_snapshot rx ''update config'' r2 = Inr s" "w2' = w2"
    using assms f refreshed cur fits swap by (auto simp: config_update_def Let_def)
  with f load cur fits swap show ?thesis
    by (auto simp: checked_snapshot_Inr)
qed

text \<open>
  C32: the versioned update does not report every lost race as a conflict. When another writer
  moves the version between the read and the swap, the store's conflict is wrapped, and the
  caller sees a storage failure instead.
\<close>
theorem config_update_lost_race_code:
  assumes "cs_load store key w = (Inr current, w1)" and "validate_config_snapshot rx current = None"
    and "snap_version current = expected" and "change = Some f"
    and "validate_config_values rx (f (snapshot_values current)) = None"
    and "cs_compare_and_swap store key expected (f (snapshot_values current)) w1 = (Inl e, w2)"
  shows "\<exists>err. config_update rx store key expected change w = (Inl err, w2)
    \<and> error_code_of err = ErrorStorageFailure"
proof -
  have "expected \<noteq> 0" using assms(2,3) by (simp add: validate_config_snapshot_ok)
  with assms show ?thesis
    by (auto simp: config_update_def config_refresh_def checked_snapshot_def)
qed

definition sample_values :: config_values where
  "sample_values = \<lparr>cv_model = \<lparr>mdl_provider_id = Ident ''openai'', mdl_model = ''gpt'',
       mdl_max_output_tokens = 100\<rparr>,
     cv_prompt = ''be kind'', cv_prompt_override = None,
     cv_permission = \<lparr>perm_policy_id = Ident ''fixed'', perm_revision = 1,
       perm_moderation_level = 0\<rparr>,
     cv_triggers = default_trigger_config\<rparr>"

definition snapshot_at :: "nat \<Rightarrow> config_values \<Rightarrow> config_snapshot" where
  "snapshot_at version v = \<lparr>snap_version = version, snap_model = cv_model v,
     snap_prompt = cv_prompt v, snap_prompt_override = cv_prompt_override v,
     snap_permission = cv_permission v, snap_triggers = cv_triggers v\<rparr>"

lemma snapshot_values_at [simp]: "snapshot_values (snapshot_at n v) = v"
  by (simp add: snapshot_values_def snapshot_at_def)

lemma snap_version_at [simp]: "snap_version (snapshot_at n v) = n"
  by (simp add: snapshot_at_def)

text \<open>A store of one chat whose world is the current snapshot, for the witnesses.\<close>

definition cell_store :: "config_snapshot config_store" where
  "cell_store = \<lparr>cs_load_or_create = (\<lambda>key v w. (Inr w, w)),
     cs_load = (\<lambda>key w. (Inr w, w)),
     cs_compare_and_swap = (\<lambda>key expected v w.
       if snap_version w = expected
       then (Inr (snapshot_at (expected + 1) v), snapshot_at (expected + 1) v)
       else (Inl (errorf ErrorConflict ''config'' ''stale''), w))\<rparr>"

lemma sample_values_valid: "validate_config_values rx sample_values = None"
  by (simp add: validate_config_values_def sample_values_def is_zero_def ascii_eval
      max_model_name_bytes_def max_output_tokens_def max_prompt_bytes_def
      override_validate_def permission_validate_def moderation_valid_def
      moderation_delete_mute_kick_def trigger_validate_def default_trigger_config_def
      max_trigger_pattern_bytes_def max_smart_rules_bytes_def max_smart_rules_def smart_rule_list_def)

lemma snapshot_at_valid: "n \<noteq> 0 \<Longrightarrow> validate_config_snapshot rx (snapshot_at n sample_values) = None"
  by (simp add: validate_config_snapshot_ok sample_values_valid)

definition sample_key :: agent_key where
  "sample_key = \<lparr>key_tenant = Ident ''acme'', key_account = Ident ''work'', key_chat = Ident ''1@g.us''\<rparr>"

lemma sample_key_valid [simp]: "key_validate sample_key = None"
  by (simp add: key_validate_def sample_key_def is_zero_def)

definition sample_snapshot :: config_snapshot where
  "sample_snapshot = snapshot_at 1 sample_values"

definition racing_store :: "config_snapshot config_store" where
  "racing_store = cell_store\<lparr>cs_load := (\<lambda>key w. (Inr w, snapshot_at 2 (snapshot_values w)))\<rparr>"

theorem config_update_success_witness:
  "\<exists>f current w1. Some id = Some f \<and> (1::nat) \<noteq> 0 \<and>
     cs_load cell_store sample_key (snapshot_at 1 sample_values) = (Inr current, w1) \<and> snap_version current = 1
    \<and> validate_config_values (\<lambda>_. None) (f (snapshot_values current)) = None
    \<and> cs_compare_and_swap cell_store sample_key 1 (f (snapshot_values current)) w1
        = (Inr (snapshot_at 2 sample_values), snapshot_at 2 sample_values)
    \<and> validate_config_snapshot (\<lambda>_. None) (snapshot_at 2 sample_values) = None"
proof -
  have "config_update (\<lambda>_. None) cell_store sample_key 1 (Some id) (snapshot_at 1 sample_values) =
      (Inr (snapshot_at 2 sample_values), snapshot_at 2 sample_values)"
    by (simp add: config_update_def config_refresh_def cell_store_def checked_snapshot_def
      snapshot_at_valid sample_values_valid numeral_2_eq_2)
  from config_update_success[OF this] show ?thesis .
qed

theorem config_update_lost_race_code_witness:
  "\<exists>err. config_update (\<lambda>_. None) racing_store sample_key 1 (Some id) (snapshot_at 1 sample_values)
     = (Inl err, snapshot_at 2 sample_values) \<and> error_code_of err = ErrorStorageFailure"
  by (rule config_update_lost_race_code[where current = "snapshot_at 1 sample_values"
      and ?w1.0 = "snapshot_at 2 sample_values" and f = id
      and e = "errorf ErrorConflict ''config'' ''stale''"])
    (simp_all add: racing_store_def cell_store_def snapshot_at_valid sample_values_valid)

end
