(* ===== verification/AgentHistory.thy ===== *)
theory AgentHistory
  imports AgentTypes
begin

text \<open>
  The chat transcript of an agent (\<open>internal/agent/history.go\<close>, \<open>gate.go\<close>): entries and their
  validation, list queries with their cursors, retention policies, and the \<open>History\<close> operations
  over the store interface. The gate is one token shared by an agent's operations; waiting for it
  is a call of the world that either takes the token or reports why the context ended.
\<close>

definition max_history_page_size :: nat where
  "max_history_page_size = 256"

definition max_history_bytes :: nat where
  "max_history_bytes = max_input_bytes"

record history_entry =
  he_sequence :: nat
  he_message_id :: message_id
  he_invocation_id :: invocation_id
  he_causation :: causation_ref
  he_role :: history_role
  he_sender :: "sender_context option"
  he_quote :: "quote_context option"
  he_content :: "content_part list"
  he_mentions :: "mention_context list"
  he_delivery :: delivery_status
  he_created_at :: instant

record history_query =
  hq_before :: string
  hq_through_invocation_id :: invocation_id
  hq_limit :: nat

record history_page =
  hp_entries :: "history_entry list"
  hp_next :: "string option"

record retention_policy =
  rp_keep_latest :: nat
  rp_max_age :: int

subsection \<open>Cursors\<close>

text \<open>Sequences are positive; a stored row numbers from 1.\<close>

definition format_history_cursor :: "nat \<Rightarrow> string" where
  "format_history_cursor sequence = ''h1_'' @ format36 sequence"

definition cursor_error :: go_error where
  "cursor_error = errorf ErrorInvalidArgument ''parse history cursor'' ''cursor is invalid''"

definition parse_history_cursor :: "string \<Rightarrow> go_error + int" where
  "parse_history_cursor cursor =
    (if \<not> has_prefix cursor ''h1_'' \<or> length cursor \<le> 3 then Inl cursor_error
     else case parse36 (drop 3 cursor) of
       None \<Rightarrow> Inl cursor_error
     | Some sequence \<Rightarrow> if sequence \<le> 0 then Inl cursor_error else Inr sequence)"

subsection \<open>Validation\<close>

definition validate_history_query :: "history_query \<Rightarrow> go_error option" where
  "validate_history_query q =
    (if hq_limit q = 0 \<or> hq_limit q > max_history_page_size
     then Some (errorf ErrorInvalidArgument ''validate history query'' ''limit must be between 1 and 256'')
     else if hq_before q \<noteq> [] \<and> (\<exists>e. parse_history_cursor (hq_before q) = Inl e)
     then Some (new_error ErrorInvalidArgument ''validate history query'' (Some cursor_error))
     else if hq_before q \<noteq> [] \<and> \<not> is_zero (hq_through_invocation_id q)
     then Some (errorf ErrorInvalidArgument ''validate history query''
       ''before cursor and invocation boundary cannot be combined'')
     else None)"

definition validate_retention_policy :: "retention_policy \<Rightarrow> go_error option" where
  "validate_retention_policy p =
    (if rp_keep_latest p = 0 \<and> rp_max_age p \<le> 0
     then Some (errorf ErrorInvalidArgument ''validate history retention''
       ''keep-latest or max-age is required'')
     else if rp_keep_latest p > 1000000 \<or> rp_max_age p < 0
     then Some (errorf ErrorInvalidArgument ''validate history retention'' ''retention bounds are invalid'')
     else None)"

definition entry_fail :: "string \<Rightarrow> go_error" where
  "entry_fail msg = errorf ErrorInvalidArgument ''validate history entry'' msg"

definition known_causation :: "causation_kind \<Rightarrow> bool" where
  "known_causation k \<longleftrightarrow> k \<in> {CausationMessage, CausationTask, CausationRequest, CausationSubagent}"

definition known_role :: "history_role \<Rightarrow> bool" where
  "known_role r \<longleftrightarrow> r \<in> {HistoryUser, HistoryAssistant, HistorySystem}"

definition entry_delivery_check :: "history_entry \<Rightarrow> go_error option" where
  "entry_delivery_check e = (case he_role e of
     HistoryUser \<Rightarrow>
       if he_delivery e \<noteq> DeliveryNotStarted
       then Some (entry_fail ''user history cannot have outbound delivery state'') else None
   | HistoryAssistant \<Rightarrow>
       if he_delivery e \<noteq> DeliveryPending \<and> he_delivery e \<noteq> DeliverySucceeded
         \<and> he_delivery e \<noteq> DeliveryFailedTerminal \<and> he_delivery e \<noteq> DeliveryUnknownOutcome
       then Some (entry_fail ''assistant delivery state is invalid'') else None
   | HistorySystem \<Rightarrow>
       if he_delivery e \<noteq> DeliveryNotStarted
       then Some (entry_fail ''system history cannot have outbound delivery state'') else None
   | HistoryRoleOther _ \<Rightarrow> None)"

fun entry_content_loop :: "nat \<Rightarrow> content_part list \<Rightarrow> go_error option" where
  "entry_content_loop sofar [] = None"
| "entry_content_loop sofar (NilPart # _) =
     Some (errorf ErrorUnsupported ''validate history entry'' ''Part 2 history accepts text only'')"
| "entry_content_loop sofar (TextPart t # ps) =
     (if t = [] \<or> \<not> valid_utf8 t then Some (entry_fail ''history text must be non-empty valid UTF-8'')
      else if sofar + length t > max_history_bytes
      then Some (entry_fail ''history content exceeds 32768 bytes'')
      else entry_content_loop (sofar + length t) ps)"

definition validate_history_entry ::
  "(rune \<Rightarrow> bool) \<Rightarrow> history_entry \<Rightarrow> go_error option outcome" where
  "validate_history_entry wide e =
    (let wrap = (\<lambda>err. new_error ErrorInvalidArgument ''validate history entry'' (Some err)) in
     first_error
      [check (is_zero (he_message_id e) \<or> is_zero (he_invocation_id e)
           \<or> is_zero (cref_id (he_causation e)) \<or> he_created_at e = 0)
         (entry_fail ''message, invocation, causation, and creation time are required''),
       check (\<not> known_causation (cref_kind (he_causation e))) (entry_fail ''causation kind is invalid''),
       check (\<not> known_role (he_role e)) (entry_fail ''history role is invalid''),
       check (he_role e = HistoryUser \<and> sender_missing (he_sender e))
         (entry_fail ''user history requires trusted sender context''),
       check (he_role e \<noteq> HistoryUser \<and> he_sender e \<noteq> None)
         (entry_fail ''assistant and system history must not carry sender context''),
       check (sender_name_invalid (he_sender e)) (entry_fail ''sender display name is invalid''),
       check (sender_role_invalid (he_sender e)) (entry_fail ''superadmin sender must also be an admin''),
       map_error wrap (validate_quote_context wide (he_quote e)),
       check (he_role e = HistorySystem \<and> he_quote e \<noteq> None)
         (entry_fail ''system history must not carry quote context''),
       check (he_role e \<noteq> HistoryUser \<and> length (he_mentions e) \<noteq> 0)
         (entry_fail ''only user history may carry raw mention bindings''),
       check (length (he_content e) \<noteq> 1)
         (errorf ErrorUnsupported ''validate history entry''
            ''Part 2 history requires exactly one text part''),
       Done (entry_content_loop 0 (he_content e)),
       (case flatten_content (he_content e) of
          Panic \<Rightarrow> Panic
        | Done body \<Rightarrow> map_error wrap (validate_mention_contexts wide body (he_mentions e))),
       Done (entry_delivery_check e)])"

subsection \<open>Operations\<close>

record 'w history_store =
  hs_list_if_config_version ::
    "agent_key \<Rightarrow> nat \<Rightarrow> history_query \<Rightarrow> ('w, go_error + history_page) call"
  hs_append :: "agent_key \<Rightarrow> history_entry \<Rightarrow> ('w, go_error option) call"
  hs_reset_if_config_version :: "agent_key \<Rightarrow> nat \<Rightarrow> instant \<Rightarrow> ('w, go_error option) call"
  hs_trim :: "agent_key \<Rightarrow> retention_policy \<Rightarrow> ('w, go_error + nat) call"

text \<open>\<open>contextError\<close>: the cancellation of a wait, by its cause.\<close>

definition context_error :: "string \<Rightarrow> go_error \<Rightarrow> go_error" where
  "context_error operation err =
    (if err = DeadlineExceeded then new_error ErrorTimeout operation (Some err)
     else new_error ErrorCancelled operation (Some err))"

text \<open>
  The gate: \<open>gate_wait\<close> is the select of the two channels, the token (\<open>None\<close>) or the context's
  end with its error; \<open>gate_put\<close> returns the token.
\<close>

record 'w operation_gate =
  gate_wait :: "('w, go_error option) call"
  gate_put :: "'w \<Rightarrow> 'w"

definition gate_acquire :: "'w operation_gate \<Rightarrow> ('w, go_error option) call" where
  "gate_acquire gate w = (case gate_wait gate w of (r, w') \<Rightarrow>
     (map_option (context_error ''wait for agent operation gate'') r, w'))"

definition gate_release :: "'w operation_gate \<Rightarrow> 'w \<Rightarrow> 'w" where
  "gate_release gate w = gate_put gate w"

record 'w history =
  hist_key :: agent_key
  hist_store :: "'w history_store"
  hist_gate :: "'w operation_gate"
  hist_clock :: "'w \<Rightarrow> instant"

definition new_history :: "agent_key \<Rightarrow> 'w history_store option \<Rightarrow> 'w operation_gate option \<Rightarrow>
    ('w \<Rightarrow> instant) option \<Rightarrow> go_error + 'w history" where
  "new_history key store gate clock = (case key_validate key of
     Some e \<Rightarrow> Inl e
   | None \<Rightarrow>
       (case (store, gate, clock) of
          (Some s, Some g, Some c) \<Rightarrow>
            Inr \<lparr>hist_key = key, hist_store = s, hist_gate = g, hist_clock = c\<rparr>
        | _ \<Rightarrow> Inl (errorf ErrorInvalidArgument ''create history''
            ''store, operation gate, and clock are required'')))"

definition history_list ::
  "'w history \<Rightarrow> nat \<Rightarrow> history_query \<Rightarrow> ('w, go_error + history_page) call" where
  "history_list h version query w =
    (if version = 0
     then (Inl (errorf ErrorInvalidArgument ''list history'' ''authorized config version is required''), w)
     else case validate_history_query query of
       Some e \<Rightarrow> (Inl (new_error ErrorInvalidArgument ''list history'' (Some e)), w)
     | None \<Rightarrow> hs_list_if_config_version (hist_store h) (hist_key h) version query w)"

definition append_check :: "(rune \<Rightarrow> bool) \<Rightarrow> history_entry \<Rightarrow> go_error option outcome" where
  "append_check wide e =
    (if he_sequence e \<noteq> 0
     then Done (Some (errorf ErrorInvalidArgument ''append history'' ''history sequence is store-assigned''))
     else map_error (\<lambda>err. new_error ErrorInvalidArgument ''append history'' (Some err))
       (validate_history_entry wide e))"

definition history_append_within_gate ::
  "(rune \<Rightarrow> bool) \<Rightarrow> 'w history \<Rightarrow> history_entry \<Rightarrow> ('w, go_error option outcome) call" where
  "history_append_within_gate wide h e w = (case append_check wide e of
     Panic \<Rightarrow> (Panic, w)
   | Done (Some err) \<Rightarrow> (Done (Some err), w)
   | Done None \<Rightarrow> (case hs_append (hist_store h) (hist_key h) e w of (r, w') \<Rightarrow> (Done r, w')))"

definition history_append ::
  "(rune \<Rightarrow> bool) \<Rightarrow> 'w history \<Rightarrow> history_entry \<Rightarrow> ('w, go_error option outcome) call" where
  "history_append wide h e w = (case append_check wide e of
     Panic \<Rightarrow> (Panic, w)
   | Done (Some err) \<Rightarrow> (Done (Some err), w)
   | Done None \<Rightarrow>
       (case gate_acquire (hist_gate h) w of
          (Some err, w1) \<Rightarrow> (Done (Some err), w1)
        | (None, w1) \<Rightarrow>
            (case hs_append (hist_store h) (hist_key h) e w1 of
               (r, w2) \<Rightarrow> (Done r, gate_release (hist_gate h) w2))))"

definition history_reset :: "'w history \<Rightarrow> nat \<Rightarrow> ('w, go_error option) call" where
  "history_reset h version w =
    (if version = 0
     then (Some (errorf ErrorInvalidArgument ''reset history'' ''authorized config version is required''), w)
     else hs_reset_if_config_version (hist_store h) (hist_key h) version (hist_clock h w) w)"

definition history_trim :: "'w history \<Rightarrow> retention_policy \<Rightarrow> ('w, go_error + nat) call" where
  "history_trim h policy w = (case validate_retention_policy policy of
     Some e \<Rightarrow> (Inl (new_error ErrorInvalidArgument ''trim history'' (Some e)), w)
   | None \<Rightarrow>
       (case gate_acquire (hist_gate h) w of
          (Some err, w1) \<Rightarrow> (Inl err, w1)
        | (None, w1) \<Rightarrow>
            (case hs_trim (hist_store h) (hist_key h) policy w1 of
               (r, w2) \<Rightarrow> (r, gate_release (hist_gate h) w2))))"

subsection \<open>Properties\<close>

lemma digit36_value_base36 [simp]: "d < 36 \<Longrightarrow> digit36_value (base36_digit d) = Some d"
  by (auto simp: digit36_value_def base36_digit_def digit_char_def lower_char_def bval_def)

lemma parse36_digits_append:
  "parse36_digits acc (xs @ ys) =
    (case parse36_digits acc xs of None \<Rightarrow> None | Some n \<Rightarrow> parse36_digits n ys)"
  by (induction acc xs rule: parse36_digits.induct) (auto split: option.splits)

lemma parse36_digits_format36: "parse36_digits 0 (format36 n) = Some n"
  by (induction n rule: format36.induct)
    (subst format36.simps, simp add: parse36_digits_append)

lemma format36_chars: "c \<in> set (format36 n) \<Longrightarrow> \<exists>d < 36. c = base36_digit d"
proof (induction n rule: format36.induct)
  case (1 n)
  have "c \<in> (if n < 36 then {base36_digit n}
      else set (format36 (n div 36)) \<union> {base36_digit (n mod 36)})"
    using "1.prems" by (subst (asm) format36.simps) (auto split: if_splits)
  with "1.IH" show ?case
    by (auto split: if_splits intro: exI[of _ n] exI[of _ "n mod 36"])
qed

lemma format36_nonempty [simp]: "format36 n \<noteq> []"
  by (subst format36.simps) simp

lemma base36_digit_unsigned: "d < 36 \<Longrightarrow> base36_digit d \<notin> {CHR ''-'', CHR ''+''}"
  using digit36_value_base36[of d] by (auto simp: digit36_value_def digit_char_def lower_char_def
    upper_char_def bval_def)

lemma parse36_format36:
  assumes "n < 2 ^ 63"
  shows "parse36 (format36 n) = Some (int n)"
proof -
  have "hd (format36 n) \<in> set (format36 n)" by simp
  then have "hd (format36 n) \<notin> {CHR ''-'', CHR ''+''}"
    using format36_chars base36_digit_unsigned by metis
  with assms show ?thesis
    by (simp add: parse36_def parse36_digits_format36)
qed

text \<open>
  Paging round trip. A cursor written for a stored row's sequence (a positive 64-bit number)
  parses back to exactly that sequence, so the next page starts where the last one ended.
\<close>
theorem history_cursor_roundtrip:
  assumes "0 < n" and "n < 2 ^ 63"
  shows "parse_history_cursor (format_history_cursor n) = Inr (int n)"
  using assms by (simp add: parse_history_cursor_def format_history_cursor_def has_prefix_def
    parse36_format36)

theorem history_cursor_roundtrip_witness:
  "parse_history_cursor (format_history_cursor 1234567) = Inr 1234567"
  using history_cursor_roundtrip[of 1234567] by simp

lemma entry_content_single:
  "length ps = 1 \<Longrightarrow> entry_content_loop 0 ps = None \<longleftrightarrow>
     (\<exists>t. ps = [TextPart t] \<and> t \<noteq> [] \<and> valid_utf8 t \<and> length t \<le> max_history_bytes)"
proof (cases ps)
  case (Cons p qs)
  then show "length ps = 1 \<Longrightarrow> ?thesis" by (cases p) (auto simp: not_less)
qed simp

text \<open>
  What a validated transcript entry guarantees to the context builder: one non-empty bounded
  text part; a sender exactly on user entries; no quote on a system entry; mentions only on user
  entries; and a delivery state only on the assistant's own messages.
\<close>
theorem validate_history_entry_sound:
  assumes "validate_history_entry wide e = Done None"
  shows "(\<exists>t. he_content e = [TextPart t] \<and> t \<noteq> [] \<and> valid_utf8 t \<and> length t \<le> 32768)
    \<and> (he_role e = HistoryUser \<longleftrightarrow> he_sender e \<noteq> None)
    \<and> (he_role e = HistorySystem \<longrightarrow> he_quote e = None)
    \<and> (he_mentions e \<noteq> [] \<longrightarrow> he_role e = HistoryUser)
    \<and> (he_delivery e \<noteq> DeliveryNotStarted \<longleftrightarrow> he_role e = HistoryAssistant)"
proof -
  have "length (he_content e) = 1" "entry_content_loop 0 (he_content e) = None"
    using assms by (simp_all add: validate_history_entry_def Let_def)
  then have content: "\<exists>t. he_content e = [TextPart t] \<and> t \<noteq> [] \<and> valid_utf8 t \<and> length t \<le> 32768"
    by (simp add: entry_content_single max_history_bytes_def max_input_bytes_def)
  have role: "known_role (he_role e)" "entry_delivery_check e = None"
    and rest: "he_role e = HistoryUser \<longrightarrow> \<not> sender_missing (he_sender e)"
      "he_role e = HistoryUser \<or> he_sender e = None"
      "he_role e = HistorySystem \<longrightarrow> he_quote e = None"
      "he_role e = HistoryUser \<or> he_mentions e = []"
    using assms by (auto simp: validate_history_entry_def Let_def)
  have "he_delivery e \<noteq> DeliveryNotStarted \<longleftrightarrow> he_role e = HistoryAssistant"
    using role by (auto simp: entry_delivery_check_def known_role_def split: if_splits)
  with content rest show ?thesis by (auto simp: sender_missing_def split: option.splits)
qed

definition sample_entry :: history_entry where
  "sample_entry = \<lparr>he_sequence = 0, he_message_id = Ident ''m1'', he_invocation_id = Ident ''i1'',
     he_causation = \<lparr>cref_kind = CausationMessage, cref_id = Ident ''c1''\<rparr>, he_role = HistoryUser,
     he_sender = Some \<lparr>sc_participant_id = Ident ''p1'', sc_ref = Ident ''abc123'',
       sc_display_name = ''Alice'', sc_is_admin = False, sc_is_super_admin = False\<rparr>,
     he_quote = None, he_content = [TextPart ''hello''], he_mentions = [],
     he_delivery = DeliveryNotStarted, he_created_at = 7\<rparr>"

lemma sample_entry_valid: "validate_history_entry wide sample_entry = Done None"
  by (simp add: validate_history_entry_def Let_def sample_entry_def is_zero_def known_causation_def
    known_role_def sender_missing_def sender_name_invalid_def sender_role_invalid_def ascii_eval
    max_display_name_bytes_def validate_quote_context_def max_history_bytes_def max_input_bytes_def
    validate_mention_contexts_def max_bindings_def entry_delivery_check_def)

theorem validate_history_entry_sound_witness:
  "he_role sample_entry = HistoryUser \<longleftrightarrow> he_sender sample_entry \<noteq> None"
  using validate_history_entry_sound[OF sample_entry_valid[of "\<lambda>_. False"]] by blast

end
