(* ===== verification/AgentContext.thy ===== *)
theory AgentContext
  imports AgentConfig AgentHistory
begin

text \<open>
  What the model is shown (\<open>internal/agent/context.go\<close> and the model types of \<open>types.go\<close>): chat
  metadata, model messages with the provenance that fixes their role, the check every provider
  adapter runs on a message list, its size, and the compact message numbers of the transcript.
  Rendering of transcript entries and of the chat state is not modelled here; \<open>ContextBuilder\<close> is
  an interface of the agent.
\<close>

record task_summary =
  ts_code :: string
  ts_fire_at :: instant
  ts_daily :: bool
  ts_prompt :: string

record memory =
  mem_code :: string
  mem_text :: string

text \<open>The location is the name of a time zone; \<open>None\<close> is the nil location, UTC.\<close>

record chat_context =
  cc_kind :: string
  cc_name :: string
  cc_description :: string
  cc_bot_is_admin :: bool
  cc_tasks :: "task_summary list"
  cc_memories :: "memory list"
  cc_stickers :: "string list"
  cc_location :: "string option"

definition chat_context_validate :: "chat_context \<Rightarrow> go_error option" where
  "chat_context_validate chat =
    (if cc_kind chat \<noteq> ''group'' \<and> cc_kind chat \<noteq> ''private''
     then Some (Plain ''chat kind must be group or private'')
     else if \<not> valid_utf8 (cc_name chat) \<or> \<not> valid_utf8 (cc_description chat)
       \<or> length (cc_name chat) > 512 \<or> length (cc_description chat) > 4096
     then Some (Plain ''chat metadata is invalid'')
     else if cc_kind chat = ''private'' \<and> cc_bot_is_admin chat
     then Some (Plain ''private chat cannot have group admin role'')
     else None)"

subsection \<open>Compact message numbers\<close>

definition compact_context_id_modulus :: nat where
  "compact_context_id_modulus = 1000000"

text \<open>\<open>fmt.Sprintf\<close> with \<open>%06d\<close> of a number below the modulus: its six decimal digits.\<close>

definition decimal_digit :: "nat \<Rightarrow> char" where
  "decimal_digit d = char_of (0x30 + d)"

definition format_compact_context_id :: "nat \<Rightarrow> string" where
  "format_compact_context_id sequence = (let n = sequence mod compact_context_id_modulus in
     map (\<lambda>p. decimal_digit (n div p mod 10)) [100000, 10000, 1000, 100, 10, 1])"

lemma decimal_digit_inject:
  assumes "a < 10" and "b < 10"
  shows "decimal_digit a = decimal_digit b \<longleftrightarrow> a = b"
proof
  assume "decimal_digit a = decimal_digit b"
  then have "of_char (decimal_digit a) = (of_char (decimal_digit b) :: nat)" by simp
  then have "(0x30 + a) mod 256 = (0x30 + b) mod (256 :: nat)"
    by (simp only: decimal_digit_def of_char_of)
  with assms show "a = b" by simp
qed simp

lemma last_digit_eq: "a div 10 = b div 10 \<Longrightarrow> a mod 10 = b mod 10 \<Longrightarrow> a = (b::nat)"
  by (metis div_mult_mod_eq)

lemma six_digits_eq:
  fixes m n :: nat
  assumes "m < 1000000" and "n < 1000000"
    and "\<And>p. p \<in> {100000, 10000, 1000, 100, 10, 1} \<Longrightarrow> m div p mod 10 = n div p mod 10"
  shows "m = n"
proof -
  have "m div 100000 = n div 100000"
    using assms(1,2) assms(3)[of 100000] by simp
  then have "m div 10000 = n div 10000"
    using assms(3)[of 10000] last_digit_eq[of "m div 10000" "n div 10000"]
    by (simp add: div_mult2_eq[symmetric])
  then have "m div 1000 = n div 1000"
    using assms(3)[of 1000] last_digit_eq[of "m div 1000" "n div 1000"]
    by (simp add: div_mult2_eq[symmetric])
  then have "m div 100 = n div 100"
    using assms(3)[of 100] last_digit_eq[of "m div 100" "n div 100"]
    by (simp add: div_mult2_eq[symmetric])
  then have "m div 10 = n div 10"
    using assms(3)[of 10] last_digit_eq[of "m div 10" "n div 10"]
    by (simp add: div_mult2_eq[symmetric])
  then show ?thesis
    using assms(3)[of 1] last_digit_eq[of m n] by simp
qed

text \<open>
  The number the model sees for a message identifies the message among those whose stored
  sequences lie within one million of each other, and only there: the six digits are equal
  exactly when the sequences agree modulo a million.
\<close>
theorem compact_context_id_eq_iff:
  "format_compact_context_id a = format_compact_context_id b \<longleftrightarrow> a mod 1000000 = b mod 1000000"
proof -
  define m n where "m = a mod 1000000" and "n = b mod 1000000"
  have "m < 1000000" "n < 1000000" by (simp_all add: m_def n_def)
  then have "(\<forall>p \<in> {100000, 10000, 1000, 100, 10, 1}. m div p mod 10 = n div p mod 10) \<longleftrightarrow> m = n"
    using six_digits_eq[of m n] by blast
  then show ?thesis
    by (simp add: format_compact_context_id_def compact_context_id_modulus_def Let_def
      decimal_digit_inject m_def[symmetric] n_def[symmetric])
qed

subsection \<open>Model messages\<close>

datatype model_role = ModelSystem | ModelUser | ModelAssistant | ModelRoleOther nat

datatype model_provenance =
    ProvenanceBasePrompt | ProvenancePromptOverride | ProvenanceChatInformation
  | ProvenanceHistoryUser | ProvenanceHistoryAssistant | ProvenanceHistorySystem
  | ProvenanceCurrentUser | ProvenanceHistoryTranscript | ProvenanceChatState
  | ProvenanceOther nat

record model_message =
  mm_role :: model_role
  mm_provenance :: model_provenance
  mm_content :: string
  mm_additional_prompt :: string

fun model_messages_bytes :: "model_message list \<Rightarrow> nat" where
  "model_messages_bytes [] = 0"
| "model_messages_bytes (m # ms) =
     length (mm_content m) + 8
     + (if mm_additional_prompt m \<noteq> []
        then length (mm_additional_prompt m) + length ''<additional>.'' + length ''.</additional>''
          + (if mm_content m \<noteq> [] then 2 else 0)
        else 0)
     + model_messages_bytes ms"

definition role_label :: "model_role \<Rightarrow> string" where
  "role_label r = (case r of ModelSystem \<Rightarrow> ''SYSTEM'' | ModelUser \<Rightarrow> ''USER''
     | ModelAssistant \<Rightarrow> ''ASSISTANT'' | ModelRoleOther _ \<Rightarrow> ''UNKNOWN'')"

definition message_section :: "model_message \<Rightarrow> string" where
  "message_section m = (let content =
     (if mm_provenance m = ProvenanceBasePrompt \<and> mm_additional_prompt m \<noteq> []
      then mm_content m @ (if mm_content m \<noteq> [] then ''\<newline>\<newline>'' else [])
        @ ''<additional>\<newline>'' @ mm_additional_prompt m @ ''\<newline></additional>''
      else mm_content m)
     in ''=== '' @ role_label (mm_role m) @ '' ===\<newline>'' @ content)"

definition serialize_model_messages :: "model_message list \<Rightarrow> string" where
  "serialize_model_messages messages = join ''\<newline>\<newline>'' (map message_section messages)"

text \<open>The counters of the validating loop.\<close>

record message_counts =
  n_current :: nat
  n_base_prompt :: nat
  n_override :: nat
  n_chat_information :: nat
  n_chat_state :: nat
  n_transcript :: nat
  in_prompt_phase :: bool

definition start_counts :: message_counts where
  "start_counts = \<lparr>n_current = 0, n_base_prompt = 0, n_override = 0, n_chat_information = 0,
     n_chat_state = 0, n_transcript = 0, in_prompt_phase = True\<rparr>"

definition wrapped_in :: "string \<Rightarrow> string \<Rightarrow> string \<Rightarrow> bool" where
  "wrapped_in opening closing content \<longleftrightarrow> has_prefix content opening \<and> has_suffix content closing"

text \<open>One case of the switch: whether the message is valid there, and the counters after it.\<close>

definition message_step :: "message_counts \<Rightarrow> model_message \<Rightarrow> bool \<times> message_counts" where
  "message_step c m = (let content = mm_content m; role = mm_role m in
    case mm_provenance m of
      ProvenanceBasePrompt \<Rightarrow>
        (in_prompt_phase c \<and> n_override c = 0 \<and> role = ModelSystem,
         c\<lparr>n_base_prompt := n_base_prompt c + 1\<rparr>)
    | ProvenancePromptOverride \<Rightarrow>
        (in_prompt_phase c \<and> role = ModelUser
           \<and> wrapped_in ''<prompt_override>\<newline>'' ''\<newline></prompt_override>'' content,
         c\<lparr>n_override := n_override c + 1, in_prompt_phase := False\<rparr>)
    | ProvenanceChatInformation \<Rightarrow>
        (role = ModelUser \<and> n_transcript c = 0 \<and> n_current c = 0,
         c\<lparr>n_chat_information := n_chat_information c + 1, in_prompt_phase := False\<rparr>)
    | ProvenanceChatState \<Rightarrow>
        (role = ModelUser \<and> n_transcript c = 0 \<and> n_current c = 0
           \<and> wrapped_in ''<chat_state>\<newline>'' ''\<newline></chat_state>'' content,
         c\<lparr>n_chat_state := n_chat_state c + 1, in_prompt_phase := False\<rparr>)
    | ProvenanceHistorySystem \<Rightarrow> (role = ModelSystem, c\<lparr>in_prompt_phase := False\<rparr>)
    | ProvenanceHistoryUser \<Rightarrow> (role = ModelUser, c\<lparr>in_prompt_phase := False\<rparr>)
    | ProvenanceCurrentUser \<Rightarrow>
        (role = ModelUser, c\<lparr>n_current := n_current c + 1, in_prompt_phase := False\<rparr>)
    | ProvenanceHistoryAssistant \<Rightarrow> (role = ModelAssistant, c\<lparr>in_prompt_phase := False\<rparr>)
    | ProvenanceHistoryTranscript \<Rightarrow>
        (role = ModelUser
           \<and> wrapped_in ''<untrusted_chat_history>\<newline>'' ''\<newline></untrusted_chat_history>'' content,
         c\<lparr>n_transcript := n_transcript c + 1, in_prompt_phase := False\<rparr>)
    | ProvenanceOther _ \<Rightarrow> (False, c))"

definition messages_fail :: "string \<Rightarrow> go_error" where
  "messages_fail msg = errorf ErrorInvalidArgument ''validate model messages'' msg"

fun messages_loop :: "message_counts \<Rightarrow> model_message list \<Rightarrow> go_error + message_counts" where
  "messages_loop c [] = Inr c"
| "messages_loop c (m # ms) =
    (if mm_provenance m = ProvenanceBasePrompt \<and> mm_content m \<noteq> []
     then Inl (messages_fail ''base prompt text belongs in the additional prompt'')
     else if mm_provenance m \<noteq> ProvenanceBasePrompt \<and> mm_additional_prompt m \<noteq> []
     then Inl (messages_fail ''additional prompt must be on the base prompt message'')
     else if mm_additional_prompt m \<noteq> [] \<and> \<not> valid_utf8 (mm_additional_prompt m)
     then Inl (messages_fail ''additional prompt is invalid'')
     else if mm_provenance m \<noteq> ProvenanceBasePrompt \<and> trim_space (mm_content m) = []
     then Inl (messages_fail ''model message content is required'')
     else case message_step c m of (valid, c') \<Rightarrow>
       if \<not> valid then Inl (messages_fail ''model role and provenance do not match'')
       else messages_loop c' ms)"

definition validate_model_messages :: "model_message list \<Rightarrow> go_error option" where
  "validate_model_messages messages =
    (if messages = [] then Some (messages_fail ''model messages are required'')
     else case messages_loop start_counts messages of
       Inl e \<Rightarrow> Some e
     | Inr c \<Rightarrow>
         let last_one = mm_provenance (last messages) in
         if n_transcript c > 0 \<and>
           (n_transcript c \<noteq> 1 \<or> n_current c \<noteq> 0 \<or> last_one \<noteq> ProvenanceHistoryTranscript)
         then Some (messages_fail ''history transcript must be one final user block'')
         else if n_transcript c = 0 \<and> (n_current c \<noteq> 1 \<or> last_one \<noteq> ProvenanceCurrentUser)
         then Some (messages_fail ''current user message must be last'')
         else if n_base_prompt c > 1 \<or> n_override c > 1 \<or> n_chat_information c > 1
           \<or> n_chat_state c > 1
         then Some (messages_fail ''model prompts must not be duplicated'')
         else None)"

subsection \<open>What validated messages guarantee\<close>

definition count_of :: "model_provenance \<Rightarrow> model_message list \<Rightarrow> nat" where
  "count_of p ms = length (filter (\<lambda>m. mm_provenance m = p) ms)"

lemma count_of_simps [simp]:
  "count_of p [] = 0" "count_of p (m # ms) = (if mm_provenance m = p then 1 else 0) + count_of p ms"
  by (simp_all add: count_of_def)

lemma messages_loop_Cons:
  assumes "messages_loop c (m # ms) = Inr d"
  obtains c' where "message_step c m = (True, c')" and "messages_loop c' ms = Inr d"
  using assms by (auto split: if_splits prod.splits)

lemma message_step_counts:
  assumes "message_step c m = (v, c')"
  shows "n_transcript c' = n_transcript c + count_of ProvenanceHistoryTranscript [m]
    \<and> n_current c' = n_current c + count_of ProvenanceCurrentUser [m]"
  using assms by (cases "mm_provenance m") (auto simp: message_step_def Let_def)

lemma message_step_role:
  assumes "message_step c m = (True, c')"
  shows "mm_role m = ModelSystem \<longrightarrow>
      mm_provenance m = ProvenanceBasePrompt \<or> mm_provenance m = ProvenanceHistorySystem"
    and "mm_provenance m = ProvenanceHistoryTranscript \<longrightarrow> mm_role m = ModelUser \<and>
        wrapped_in ''<untrusted_chat_history>\<newline>'' ''\<newline></untrusted_chat_history>'' (mm_content m)"
  using assms by (cases "mm_provenance m"; simp add: message_step_def Let_def)+

lemma messages_loop_counts:
  "messages_loop c ms = Inr d \<Longrightarrow>
    n_transcript d = n_transcript c + count_of ProvenanceHistoryTranscript ms
    \<and> n_current d = n_current c + count_of ProvenanceCurrentUser ms"
proof (induction ms arbitrary: c)
  case (Cons m ms)
  from Cons.prems obtain c' where "message_step c m = (True, c')" "messages_loop c' ms = Inr d"
    by (rule messages_loop_Cons)
  with Cons.IH[of c'] message_step_counts[of c m True c'] show ?case by simp
qed simp

lemma messages_loop_step:
  "messages_loop c ms = Inr d \<Longrightarrow> m \<in> set ms \<Longrightarrow> \<exists>c1 c2. message_step c1 m = (True, c2)"
proof (induction ms arbitrary: c)
  case (Cons x ms)
  from Cons.prems(1) obtain c' where "message_step c x = (True, c')" "messages_loop c' ms = Inr d"
    by (rule messages_loop_Cons)
  with Cons.IH[of c'] Cons.prems(2) show ?case by auto
qed simp

text \<open>
  C31: the guard before every provider call. A message list that passes the check gives the system
  role only to the base prompt and to system history entries; the chat transcript, whenever it is
  present, is one user message inside its untrusted wrapper and the last message of the list; and
  otherwise the current user message is last.
\<close>
theorem validate_model_messages_sound:
  assumes "validate_model_messages ms = None"
  shows "(\<forall>m \<in> set ms. mm_role m = ModelSystem \<longrightarrow>
      mm_provenance m = ProvenanceBasePrompt \<or> mm_provenance m = ProvenanceHistorySystem)
    \<and> (\<forall>m \<in> set ms. mm_provenance m = ProvenanceHistoryTranscript \<longrightarrow> m = last ms
        \<and> mm_role m = ModelUser \<and>
        wrapped_in ''<untrusted_chat_history>\<newline>'' ''\<newline></untrusted_chat_history>'' (mm_content m))
    \<and> mm_provenance (last ms) \<in> {ProvenanceHistoryTranscript, ProvenanceCurrentUser}
    \<and> count_of (mm_provenance (last ms)) ms = 1"
proof -
  from assms obtain c where loop: "messages_loop start_counts ms = Inr c" and nonempty: "ms \<noteq> []"
    by (auto simp: validate_model_messages_def split: if_splits sum.splits)
  have counts: "n_transcript c = count_of ProvenanceHistoryTranscript ms"
    "n_current c = count_of ProvenanceCurrentUser ms"
    using messages_loop_counts[OF loop] by (simp_all add: start_counts_def)
  have verdict: "count_of ProvenanceHistoryTranscript ms > 0 \<longrightarrow>
      count_of ProvenanceHistoryTranscript ms = 1 \<and> mm_provenance (last ms) = ProvenanceHistoryTranscript"
    "count_of ProvenanceHistoryTranscript ms = 0 \<longrightarrow>
      count_of ProvenanceCurrentUser ms = 1 \<and> mm_provenance (last ms) = ProvenanceCurrentUser"
    using assms nonempty
    by (simp_all add: validate_model_messages_def loop Let_def counts split: if_split_asm) linarith+
  then have final: "mm_provenance (last ms) \<in> {ProvenanceHistoryTranscript, ProvenanceCurrentUser}"
    "count_of (mm_provenance (last ms)) ms = 1"
    "count_of ProvenanceHistoryTranscript ms > 0 \<longrightarrow>
       mm_provenance (last ms) = ProvenanceHistoryTranscript"
    by (cases "count_of ProvenanceHistoryTranscript ms > 0"; simp)+
  have only: "m = last ms" if "m \<in> set ms" "mm_provenance m = ProvenanceHistoryTranscript" for m
  proof -
    let ?ts = "filter (\<lambda>m. mm_provenance m = ProvenanceHistoryTranscript) ms"
    have in_ts: "m \<in> set ?ts" using that by simp
    then have "0 < length ?ts" by (cases ?ts) auto
    then have kind: "mm_provenance (last ms) = ProvenanceHistoryTranscript"
      using final(3) by (simp add: count_of_def)
    with final(2) obtain x where "?ts = [x]"
      by (auto simp: count_of_def length_Suc_conv)
    moreover have "last ms \<in> set ?ts" using nonempty kind by simp
    ultimately show "m = last ms" using in_ts by (metis empty_set list.simps(15) singletonD)
  qed
  show ?thesis
    using messages_loop_step[OF loop] message_step_role only final(1,2) by blast
qed

definition sample_messages :: "model_message list" where
  "sample_messages =
    [\<lparr>mm_role = ModelSystem, mm_provenance = ProvenanceBasePrompt, mm_content = [],
       mm_additional_prompt = ''be kind''\<rparr>,
     \<lparr>mm_role = ModelUser, mm_provenance = ProvenanceHistoryTranscript,
       mm_content = ''<untrusted_chat_history>\<newline>hi\<newline></untrusted_chat_history>'',
       mm_additional_prompt = []\<rparr>]"

lemma sample_messages_valid: "validate_model_messages sample_messages = None"
  by (simp add: validate_model_messages_def sample_messages_def message_step_def start_counts_def
    wrapped_in_def has_prefix_def has_suffix_def ascii_eval)

theorem validate_model_messages_sound_witness:
  "mm_provenance (last sample_messages) \<in> {ProvenanceHistoryTranscript, ProvenanceCurrentUser}
   \<and> count_of (mm_provenance (last sample_messages)) sample_messages = 1"
  using validate_model_messages_sound[OF sample_messages_valid] by blast

end
