(* ===== verification/AgentCore.thy ===== *)
theory AgentCore
  imports AgentContext "HOL-Library.AList"
begin

text \<open>
  The agent of one chat (\<open>internal/agent/agent.go\<close>, \<open>registry.go\<close>): claiming a turn, building its
  input, calling the model, validating what came back, committing a plan and dispatching it. The
  interfaces the agent is built on (turn store, context builder, model, dispatchers, observer) are
  fields of the record \<open>agent\<close>, calls that pass the world; \<open>ag_wall_time\<close> is \<open>time.Now\<close>. An operation's result has type
  \<open>outcome\<close> because the validators can panic (see the Mention theory).
\<close>

record claim_turn_request =
  ct_key :: agent_key
  ct_invocation :: invocation
  ct_now :: instant

record 'w turn_store =
  ts_claim :: "claim_turn_request \<Rightarrow> ('w, go_error + turn_claim) call"
  ts_commit_plan :: "commit_plan_request \<Rightarrow> ('w, go_error + stored_plan) call"
  ts_fail_generation :: "fail_generation_request \<Rightarrow> ('w, go_error option) call"
  ts_load :: "agent_key \<Rightarrow> invocation_id \<Rightarrow> ('w, go_error + turn_record) call"

record context_build_request =
  cb_config :: config_snapshot
  cb_chat :: chat_context
  cb_history :: "history_entry list"
  cb_current_invocation_id :: invocation_id

type_synonym context_messages = "(string \<times> message_id) list"

record model_request =
  rq_key :: agent_key
  rq_invocation_id :: invocation_id
  rq_current_message_id :: message_id
  rq_config_version :: nat
  rq_model :: model_config
  rq_messages :: "model_message list"
  rq_capabilities :: capability_set
  rq_commands :: "string list"
  rq_stickers :: "string list"
  rq_context_messages :: context_messages

text \<open>The two dispatcher interfaces; a value that implements the batch one is asked for the batch.\<close>

datatype 'w effect_dispatcher =
    BatchDispatcher "effect_dispatch_ref list \<Rightarrow> ('w, go_error option) call"
  | SingleDispatcher "effect_dispatch_ref \<Rightarrow> ('w, go_error option) call"

record 'w agent =
  ag_key :: agent_key
  ag_config :: "'w config_store"
  ag_history :: "'w history"
  ag_turns :: "'w turn_store"
  ag_model :: "model_request \<Rightarrow> ('w, go_error + model_result) call"
  ag_context :: "context_build_request \<Rightarrow> ('w, go_error + model_message list) call"
  ag_chat_context :: "agent_key \<Rightarrow> ('w, go_error + chat_context) call"
  ag_history_window :: nat
  ag_responses :: "dispatch_ref \<Rightarrow> ('w, delivery_result \<times> go_error option) call"
  ag_effects :: "'w effect_dispatcher"
  ag_started :: "agent_key \<Rightarrow> model_config \<Rightarrow> string \<Rightarrow> 'w \<Rightarrow> 'w"
  ag_finished :: "agent_key \<Rightarrow> model_config \<Rightarrow> string \<Rightarrow> int \<Rightarrow> model_result \<Rightarrow> go_error option \<Rightarrow> 'w \<Rightarrow> 'w"
  ag_clock :: "'w \<Rightarrow> instant"
  ag_wall_time :: "'w \<Rightarrow> instant"
  ag_gate :: "'w operation_gate"

type_synonym 'w invoke_call = "('w, (invoke_result \<times> go_error option) outcome) call"

definition failed :: "go_error \<Rightarrow> (invoke_result \<times> go_error option) outcome" where
  "failed e = Done (zero_invoke_result, Some e)"

definition zero_model_result :: model_result where
  "zero_model_result = \<lparr>mr_text = [], mr_reply_to_message_id = zero_id, mr_effects = []\<rparr>"

subsection \<open>Generation failures and model results\<close>

definition retryable_generation :: "go_error option \<Rightarrow> bool" where
  "retryable_generation err \<longleftrightarrow> code_of err \<in> {ErrorRateLimited, ErrorTimeout, ErrorCancelled,
     ErrorUnavailable, ErrorProviderFailure, ErrorInternal}"

definition fail_generation :: "'w agent \<Rightarrow> invocation_id \<Rightarrow> go_error \<Rightarrow> 'w \<Rightarrow> 'w" where
  "fail_generation a iid err w = snd (ts_fail_generation (ag_turns a)
     \<lparr>fg_key = ag_key a, fg_invocation_id = iid, fg_code = code_of (Some err),
      fg_retryable = retryable_generation (Some err)\<rparr> w)"

definition result_fail :: "string \<Rightarrow> go_error" where
  "result_fail msg = errorf ErrorProviderFailure ''validate model result'' msg"

fun effects_loop ::
  "capability_set \<Rightarrow> message_id set \<Rightarrow> string set \<Rightarrow> model_effect list \<Rightarrow> go_error option" where
  "effects_loop capabilities allowed call_ids [] = None"
| "effects_loop capabilities allowed call_ids (planned # rest) =
    (case model_effect_validate capabilities planned of
       Some e \<Rightarrow> Some (new_error ErrorProviderFailure ''validate model result'' (Some e))
     | None \<Rightarrow>
         if \<not> is_zero (ei_target_message_id (me_intent planned))
           \<and> ei_target_message_id (me_intent planned) \<notin> allowed
         then Some (result_fail ''model effect target is outside supplied history'')
         else if me_call_id planned \<in> call_ids
         then Some (result_fail ''provider duplicated a tool call ID'')
         else effects_loop capabilities allowed (insert (me_call_id planned) call_ids) rest)"

definition validate_model_result ::
  "model_result \<Rightarrow> capability_set \<Rightarrow> context_messages \<Rightarrow> go_error option" where
  "validate_model_result result capabilities context_messages =
    (let allowed = snd ` set context_messages in
     if \<not> valid_utf8 (mr_text result)
     then Some (result_fail ''provider returned invalid UTF-8 text'')
     else if trim_space (mr_text result) = [] \<and> length (mr_effects result) = 0
     then Some (result_fail ''provider returned neither text nor an effect'')
     else if trim_space (mr_text result) = [] \<and> \<not> is_zero (mr_reply_to_message_id result)
     then Some (result_fail ''reply target requires text'')
     else if length (mr_text result) > max_response_bytes
     then Some (result_fail ''provider response exceeds 16384 bytes'')
     else if length (mr_effects result) > max_model_effects
     then Some (result_fail ''provider returned too many effects'')
     else if \<not> is_zero (mr_reply_to_message_id result) \<and> mr_reply_to_message_id result \<notin> allowed
     then Some (result_fail ''reply target is outside supplied history'')
     else effects_loop capabilities allowed {} (mr_effects result))"

fun context_message_map :: "history_entry list \<Rightarrow> context_messages \<Rightarrow> context_messages" where
  "context_message_map [] acc = acc"
| "context_message_map (e # es) acc = context_message_map es
     (if he_sequence e > 0 \<and> \<not> is_zero (he_message_id e)
      then AList.update (format_compact_context_id (he_sequence e)) (he_message_id e) acc else acc)"

subsection \<open>Dispatching a plan\<close>

fun dispatch_each ::
  "(effect_dispatch_ref \<Rightarrow> ('w, go_error option) call) \<Rightarrow> effect_dispatch_ref list \<Rightarrow>
    ('w, go_error option) call" where
  "dispatch_each f [] w = (None, w)"
| "dispatch_each f (ref # refs) w =
    (case f ref w of (Some e, w') \<Rightarrow> (Some e, w') | (None, w') \<Rightarrow> dispatch_each f refs w')"

definition dispatch_plan_effects ::
  "'w agent \<Rightarrow> effect_dispatch_ref list \<Rightarrow> ('w, go_error option) call" where
  "dispatch_plan_effects a refs w = (case ag_effects a of
     BatchDispatcher f \<Rightarrow> f refs w
   | SingleDispatcher f \<Rightarrow> dispatch_each f refs w)"

definition known_delivery :: "delivery_status \<Rightarrow> bool" where
  "known_delivery s \<longleftrightarrow> s \<in> {DeliveryPending, DeliverySucceeded, DeliveryFailedTerminal,
     DeliveryUnknownOutcome}"

definition plan_result :: "stored_plan \<Rightarrow> invoke_result" where
  "plan_result plan = \<lparr>ir_invocation_id = sp_invocation_id plan,
     ir_config_version = sp_config_version plan, ir_response_id = sp_response_id plan,
     ir_action_id = sp_action_id plan, ir_text = sp_text plan, ir_delivery = DeliveryPending\<rparr>"

definition dispatch_fail :: "string \<Rightarrow> go_error" where
  "dispatch_fail msg = errorf ErrorIntegrityFailure ''dispatch response'' msg"

definition dispatch_plan ::
  "'w agent \<Rightarrow> stored_plan \<Rightarrow> ('w, invoke_result \<times> go_error option) call" where
  "dispatch_plan a plan w =
    (let result = plan_result plan in
     if is_zero (sp_action_id plan) then
       (if trim_space (sp_text plan) \<noteq> [] \<or> \<not> is_zero (sp_response_id plan)
          \<or> length (sp_effects plan) = 0
        then ((result, Some (dispatch_fail ''effect-only plan is invalid'')), w)
        else case dispatch_plan_effects a (sp_effects plan) w of (e, w') \<Rightarrow>
          ((result\<lparr>ir_delivery := DeliverySucceeded\<rparr>, e), w'))
     else case ag_responses a (sp_dispatch plan) w of ((delivery, err), w1) \<Rightarrow>
       if is_zero (dres_action_id delivery) \<and> err \<noteq> None then ((result, err), w1)
       else if dres_action_id delivery \<noteq> sp_action_id plan
       then ((result, Some (dispatch_fail ''dispatcher returned a different action ID'')), w1)
       else if \<not> known_delivery (dres_status delivery)
       then ((result, Some (dispatch_fail ''dispatcher returned an invalid delivery status'')), w1)
       else let result' = result\<lparr>ir_delivery := dres_status delivery\<rparr> in
         if err \<noteq> None then ((result', err), w1)
         else case dispatch_plan_effects a (sp_effects plan) w1 of (e, w2) \<Rightarrow> ((result', e), w2))"

definition delivery_for_turn_state :: "turn_state \<Rightarrow> delivery_status" where
  "delivery_for_turn_state state = (case state of
     TurnSucceeded \<Rightarrow> DeliverySucceeded
   | TurnFailedTerminal \<Rightarrow> DeliveryFailedTerminal
   | TurnUnknownOutcome \<Rightarrow> DeliveryUnknownOutcome
   | _ \<Rightarrow> DeliveryPending)"

subsection \<open>Restoring the transcript of an invocation\<close>

definition invocation_history_entry :: "message_id \<Rightarrow> invocation \<Rightarrow> history_entry" where
  "invocation_history_entry mid ivc = \<lparr>he_sequence = 0, he_message_id = mid,
     he_invocation_id = inv_id ivc, he_causation = inv_causation ivc,
     he_role = (if inv_sender ivc = None then HistorySystem else HistoryUser),
     he_sender = inv_sender ivc, he_quote = inv_quote ivc, he_content = inv_input ivc,
     he_mentions = inv_mentions ivc, he_delivery = DeliveryNotStarted,
     he_created_at = inv_requested_at ivc\<rparr>"

definition restore_fail :: "string \<Rightarrow> go_error" where
  "restore_fail msg = errorf ErrorIntegrityFailure ''restore invocation history'' msg"

definition reply_quote :: "history_entry \<Rightarrow> go_error + quote_context" where
  "reply_quote e =
    (if he_role e \<noteq> HistoryUser \<and> (he_role e \<noteq> HistoryAssistant \<or> he_delivery e \<noteq> DeliverySucceeded)
     then Inl (restore_fail ''reply target is not a sent chat message'')
     else case he_content e of
       [TextPart t] \<Rightarrow>
         (let quote = \<lparr>qc_sequence = he_sequence e, qc_message_id = he_message_id e,
            qc_role = he_role e, qc_sender_ref = zero_id, qc_sender_is_admin = False,
            qc_sender_is_super_admin = False, qc_text = t, qc_mentions = []\<rparr> in
          if he_role e = HistoryUser then
            (case he_sender e of
               None \<Rightarrow> Inl (restore_fail ''reply target sender is missing'')
             | Some s \<Rightarrow>
                 if is_zero (sc_ref s) then Inl (restore_fail ''reply target sender is missing'')
                 else Inr (quote\<lparr>qc_sender_ref := sc_ref s, qc_sender_is_admin := sc_is_admin s,
                   qc_sender_is_super_admin := sc_is_super_admin s, qc_mentions := he_mentions e\<rparr>))
          else Inr quote)
     | [NilPart] \<Rightarrow> Inl (restore_fail ''reply target content is unsupported'')
     | _ \<Rightarrow> Inl (restore_fail ''reply target content is invalid''))"

definition window_query :: "'w agent \<Rightarrow> invocation_id \<Rightarrow> history_query" where
  "window_query a iid =
     \<lparr>hq_before = [], hq_through_invocation_id = iid, hq_limit = ag_history_window a\<rparr>"

definition restored_quote ::
  "'w agent \<Rightarrow> invocation_id \<Rightarrow> stored_plan \<Rightarrow> ('w, go_error + quote_context option) call" where
  "restored_quote a iid plan w =
    (if is_zero (sp_reply_to_message_id plan) then (Inr None, w)
     else case history_list (ag_history a) (sp_config_version plan) (window_query a iid) w of
       (Inl e, w1) \<Rightarrow>
         (Inl (new_error ErrorStorageFailure ''restore invocation history'' (Some e)), w1)
     | (Inr page, w1) \<Rightarrow>
         (case find (\<lambda>e. he_message_id e = sp_reply_to_message_id plan) (hp_entries page) of
            None \<Rightarrow> (Inl (restore_fail ''reply target is no longer in the supplied history''), w1)
          | Some e \<Rightarrow> (map_sum id Some (reply_quote e), w1)))"

definition response_history_entry ::
  "invocation \<Rightarrow> stored_plan \<Rightarrow> quote_context option \<Rightarrow> delivery_status \<Rightarrow> history_entry" where
  "response_history_entry ivc plan quote delivery = \<lparr>he_sequence = 0,
     he_message_id = sp_response_id plan, he_invocation_id = inv_id ivc,
     he_causation = inv_causation ivc, he_role = HistoryAssistant, he_sender = None,
     he_quote = quote, he_content = [TextPart (sp_text plan)], he_mentions = [],
     he_delivery = delivery, he_created_at = sp_created_at plan\<rparr>"

definition ensure_invocation_history :: "(rune \<Rightarrow> bool) \<Rightarrow> 'w agent \<Rightarrow> message_id \<Rightarrow> invocation \<Rightarrow>
    stored_plan option \<Rightarrow> delivery_status \<Rightarrow> ('w, go_error option outcome) call" where
  "ensure_invocation_history wide a mid ivc plan delivery w =
    (let wrap = map_option (\<lambda>e. new_error ErrorStorageFailure ''restore invocation history'' (Some e)) in
     if is_zero mid then (Done (Some (restore_fail ''turn message ID is missing'')), w)
     else case history_append_within_gate wide (ag_history a) (invocation_history_entry mid ivc) w of
       (Panic, w1) \<Rightarrow> (Panic, w1)
     | (Done (Some e), w1) \<Rightarrow> (Done (wrap (Some e)), w1)
     | (Done None, w1) \<Rightarrow>
         (case plan of None \<Rightarrow> (Done None, w1)
          | Some p \<Rightarrow>
              if trim_space (sp_text p) = [] then (Done None, w1)
              else case restored_quote a (inv_id ivc) p w1 of
                (Inl e, w2) \<Rightarrow> (Done (Some e), w2)
              | (Inr quote, w2) \<Rightarrow>
                  (case history_append_within_gate wide (ag_history a)
                      (response_history_entry ivc p quote delivery) w2 of
                     (Panic, w3) \<Rightarrow> (Panic, w3)
                   | (Done r, w3) \<Rightarrow> (Done (wrap r), w3))))"

subsection \<open>Invoking the model\<close>

text \<open>White-space text that is valid UTF-8 becomes the empty text.\<close>

definition normalized_result :: "model_result \<Rightarrow> model_result" where
  "normalized_result g =
    (if trim_space (mr_text g) = [] \<and> valid_utf8 (mr_text g) then g\<lparr>mr_text := []\<rparr> else g)"

definition commit_request ::
  "'w agent \<Rightarrow> invocation \<Rightarrow> config_snapshot \<Rightarrow> model_request \<Rightarrow> model_result \<Rightarrow> commit_plan_request" where
  "commit_request a ivc snapshot request generated = \<lparr>cp_key = ag_key a,
     cp_invocation_id = inv_id ivc, cp_current_message_id = rq_current_message_id request,
     cp_config_version = snap_version snapshot, cp_response_text = mr_text generated,
     cp_reply_to_message_id = mr_reply_to_message_id generated,
     cp_capabilities = rq_capabilities request, cp_effects = mr_effects generated\<rparr>"

definition provider_failed :: "go_error \<Rightarrow> go_error" where
  "provider_failed e = new_error ErrorProviderFailure ''invoke agent'' (Some e)"

definition invoke_model :: "'w agent \<Rightarrow> invocation \<Rightarrow> config_snapshot \<Rightarrow> string \<Rightarrow> model_request \<Rightarrow>
    'w invoke_call" where
  "invoke_model a ivc snapshot chat_name request w =
    (let started = ag_wall_time a w;
         w1 = ag_started a (ag_key a) (rq_model request) chat_name w in
     case ag_model a request w1 of
       (Inl e, w2) \<Rightarrow>
         (let w3 = ag_finished a (ag_key a) (rq_model request) chat_name (ag_wall_time a w2 - started)
            zero_model_result (Some e) w2
          in (failed (provider_failed e), fail_generation a (inv_id ivc) (provider_failed e) w3))
     | (Inr reply, w2) \<Rightarrow>
         (let generated = normalized_result reply;
              verdict = validate_model_result generated (rq_capabilities request)
                (rq_context_messages request);
              w3 = ag_finished a (ag_key a) (rq_model request) chat_name (ag_wall_time a w2 - started)
                generated verdict w2 in
          case verdict of
            Some e \<Rightarrow>
              (failed (provider_failed e), fail_generation a (inv_id ivc) (provider_failed e) w3)
          | None \<Rightarrow>
              (case ts_commit_plan (ag_turns a) (commit_request a ivc snapshot request generated) w3 of
                 (Inl e, w4) \<Rightarrow> (failed e, w4)
               | (Inr plan, w4) \<Rightarrow> (case dispatch_plan a plan w4 of (r, w5) \<Rightarrow> (Done r, w5)))))"

definition invoke_chat_name :: "chat_context \<Rightarrow> invocation \<Rightarrow> string" where
  "invoke_chat_name chat ivc = (case inv_sender ivc of
     Some s \<Rightarrow> if cc_kind chat = ''private'' then sc_display_name s else cc_name chat
   | None \<Rightarrow> cc_name chat)"

definition invoke_request :: "'w agent \<Rightarrow> invocation \<Rightarrow> config_snapshot \<Rightarrow> message_id \<Rightarrow>
    model_message list \<Rightarrow> history_page \<Rightarrow> model_request" where
  "invoke_request a ivc snapshot mid messages page = \<lparr>rq_key = ag_key a,
     rq_invocation_id = inv_id ivc, rq_current_message_id = mid,
     rq_config_version = snap_version snapshot, rq_model = snap_model snapshot,
     rq_messages = messages, rq_capabilities = inv_capabilities ivc,
     rq_commands = inv_commands ivc, rq_stickers = inv_stickers ivc,
     rq_context_messages = context_message_map (hp_entries page) []\<rparr>"

definition integrity_failed :: "go_error \<Rightarrow> go_error" where
  "integrity_failed e = new_error ErrorIntegrityFailure ''invoke agent'' (Some e)"

text \<open>From the claim of a turn to its generation: every failure here is recorded on the turn.\<close>

definition invoke_generate :: "(rune \<Rightarrow> bool) \<Rightarrow> 'w agent \<Rightarrow> invocation \<Rightarrow> config_snapshot \<Rightarrow>
    chat_context option \<Rightarrow> message_id \<Rightarrow> 'w invoke_call" where
  "invoke_generate wide a ivc snapshot observed mid w =
    (let fail = (\<lambda>e w. (failed e, fail_generation a (inv_id ivc) e w)) in
     case history_append_within_gate wide (ag_history a) (invocation_history_entry mid ivc) w of
       (Panic, w1) \<Rightarrow> (Panic, w1)
     | (Done (Some e), w1) \<Rightarrow> fail e w1
     | (Done None, w1) \<Rightarrow>
         (case history_list (ag_history a) (snap_version snapshot) (window_query a (inv_id ivc)) w1 of
            (Inl e, w2) \<Rightarrow> fail (integrity_failed e) w2
          | (Inr page, w2) \<Rightarrow>
              (case (case observed of Some c \<Rightarrow> (Inr c, w2) | None \<Rightarrow> ag_chat_context a (ag_key a) w2) of
                 (Inl e, w3) \<Rightarrow> fail e w3
               | (Inr chat, w3) \<Rightarrow>
                   (case ag_context a \<lparr>cb_config = snapshot, cb_chat = chat,
                       cb_history = hp_entries page, cb_current_invocation_id = inv_id ivc\<rparr> w3 of
                      (Inl e, w4) \<Rightarrow> fail (integrity_failed e) w4
                    | (Inr messages, w4) \<Rightarrow>
                        invoke_model a ivc snapshot (invoke_chat_name chat ivc)
                          (invoke_request a ivc snapshot mid messages page) w4))))"

definition invoke_replay :: "(rune \<Rightarrow> bool) \<Rightarrow> 'w agent \<Rightarrow> invocation \<Rightarrow> message_id \<Rightarrow> stored_plan \<Rightarrow>
    delivery_status \<Rightarrow> 'w invoke_call" where
  "invoke_replay wide a ivc mid plan delivery w =
    (case ensure_invocation_history wide a mid ivc (Some plan) delivery w of
       (Panic, w1) \<Rightarrow> (Panic, w1)
     | (Done (Some e), w1) \<Rightarrow> (failed e, w1)
     | (Done None, w1) \<Rightarrow> (case dispatch_plan a plan w1 of (r, w2) \<Rightarrow> (Done r, w2)))"

definition invoke_claim :: "regexp_compile \<Rightarrow> (rune \<Rightarrow> bool) \<Rightarrow> 'w agent \<Rightarrow> invocation \<Rightarrow>
    config_snapshot option \<Rightarrow> chat_context option \<Rightarrow> 'w invoke_call" where
  "invoke_claim rx wide a ivc config observed w =
    (case (case config of Some s \<Rightarrow> (Inr s, w) | None \<Rightarrow> config_refresh rx (ag_config a) (ag_key a) w) of
       (Inl e, w1) \<Rightarrow> (failed (integrity_failed e), w1)
     | (Inr snapshot, w1) \<Rightarrow>
         if snap_version snapshot \<noteq> inv_policy_version ivc
         then (failed (errorf ErrorConflict ''invoke agent'' ''policy decision used a stale config version''), w1)
         else case ts_claim (ag_turns a)
             \<lparr>ct_key = ag_key a, ct_invocation = ivc, ct_now = ag_clock a w1\<rparr> w1 of
           (Inl e, w2) \<Rightarrow> (failed (new_error ErrorStorageFailure ''invoke agent'' (Some e)), w2)
         | (Inr claim, w2) \<Rightarrow>
             (case tc_plan claim of
                Some plan \<Rightarrow> invoke_replay wide a ivc (tc_message_id claim) plan
                  (delivery_for_turn_state (tc_state claim)) w2
              | None \<Rightarrow>
                  if tc_state claim \<noteq> TurnGenerating
                  then (failed (errorf ErrorIntegrityFailure ''invoke agent''
                    ''turn store returned invalid generation claim''), w2)
                  else if is_zero (tc_message_id claim)
                  then (failed (errorf ErrorIntegrityFailure ''invoke agent''
                    ''turn store returned an empty message ID''), w2)
                  else invoke_generate wide a ivc snapshot observed (tc_message_id claim) w2))"

definition invoke_within_gate :: "regexp_compile \<Rightarrow> (rune \<Rightarrow> bool) \<Rightarrow> 'w agent \<Rightarrow> invocation \<Rightarrow>
    config_snapshot option \<Rightarrow> chat_context option \<Rightarrow> 'w invoke_call" where
  "invoke_within_gate rx wide a ivc config observed w =
    (case validate_invocation wide (ag_key a) ivc of
       Panic \<Rightarrow> (Panic, w)
     | Done (Some e) \<Rightarrow> (failed e, w)
     | Done None \<Rightarrow>
         (case ts_load (ag_turns a) (ag_key a) (inv_id ivc) w of
            (Inr rec, w1) \<Rightarrow>
              (case tr_plan rec of
                 Some plan \<Rightarrow> invoke_replay wide a ivc (tr_message_id rec) plan (tr_delivery rec) w1
               | None \<Rightarrow>
                   if tr_state rec = TurnFailedTerminal
                   then (failed (errorf ErrorProviderFailure ''invoke agent''
                     ''generation previously failed terminally''), w1)
                   else invoke_claim rx wide a ivc config observed w1)
          | (Inl e, w1) \<Rightarrow>
              if is_code (Some e) ErrorNotFound then invoke_claim rx wide a ivc config observed w1
              else (failed e, w1)))"

definition invoke :: "regexp_compile \<Rightarrow> (rune \<Rightarrow> bool) \<Rightarrow> 'w agent \<Rightarrow> invocation \<Rightarrow>
    config_snapshot option \<Rightarrow> chat_context option \<Rightarrow> 'w invoke_call" where
  "invoke rx wide a ivc config observed w = (case gate_acquire (ag_gate a) w of
     (Some e, w1) \<Rightarrow> (failed e, w1)
   | (None, w1) \<Rightarrow> (case invoke_within_gate rx wide a ivc config observed w1 of
       (r, w2) \<Rightarrow> (r, gate_release (ag_gate a) w2)))"

definition invoke_with :: "regexp_compile \<Rightarrow> (rune \<Rightarrow> bool) \<Rightarrow> 'w agent \<Rightarrow> invocation \<Rightarrow>
    config_snapshot \<Rightarrow> chat_context option \<Rightarrow> 'w invoke_call" where
  "invoke_with rx wide a ivc config chat w = (case validate_config_snapshot rx config of
     Some e \<Rightarrow> (failed (new_error ErrorInvalidArgument ''invoke agent with config'' (Some e)), w)
   | None \<Rightarrow>
       (case (case chat of None \<Rightarrow> None | Some c \<Rightarrow> chat_context_validate c) of
          Some e \<Rightarrow>
            (failed (new_error ErrorInvalidArgument ''invoke agent with chat context'' (Some e)), w)
        | None \<Rightarrow> invoke rx wide a ivc (Some config) chat w))"

subsection \<open>Building the input without invoking\<close>

definition build_input :: "regexp_compile \<Rightarrow> 'w agent \<Rightarrow> nat \<Rightarrow> invocation_id \<Rightarrow>
    ('w, go_error + model_message list) call" where
  "build_input rx a version current w =
    (let wrap = (\<lambda>e. new_error ErrorIntegrityFailure ''build agent input'' (Some e)) in
     if version = 0 \<or> is_zero current
     then (Inl (errorf ErrorInvalidArgument ''build agent input''
       ''config version and current invocation are required''), w)
     else case gate_acquire (ag_gate a) w of
       (Some e, w1) \<Rightarrow> (Inl e, w1)
     | (None, w1) \<Rightarrow>
         (case (case config_refresh rx (ag_config a) (ag_key a) w1 of
            (Inl e, w2) \<Rightarrow> (Inl (wrap e), w2)
          | (Inr snapshot, w2) \<Rightarrow>
              if snap_version snapshot \<noteq> version
              then (Inl (errorf ErrorConflict ''build agent input''
                ''authorized config version changed''), w2)
              else case history_list (ag_history a) version (window_query a current) w2 of
                (Inl e, w3) \<Rightarrow> (Inl (wrap e), w3)
              | (Inr page, w3) \<Rightarrow>
                  (case ag_chat_context a (ag_key a) w3 of
                     (Inl e, w4) \<Rightarrow> (Inl e, w4)
                   | (Inr chat, w4) \<Rightarrow>
                       (case ag_context a \<lparr>cb_config = snapshot, cb_chat = chat,
                           cb_history = hp_entries page, cb_current_invocation_id = current\<rparr> w4 of
                          (Inl e, w5) \<Rightarrow> (Inl (wrap e), w5)
                        | (Inr messages, w5) \<Rightarrow> (Inr messages, w5)))) of
            (r, w6) \<Rightarrow> (r, gate_release (ag_gate a) w6)))"

subsection \<open>Creating agents\<close>

text \<open>A dependency that may be nil is an option; the gate is the one \<open>newOperationGate\<close> creates.\<close>

record 'w dependencies =
  dep_defaults :: config_values
  dep_config_store :: "'w config_store option"
  dep_history_store :: "'w history_store option"
  dep_turns :: "'w turn_store option"
  dep_context :: "(context_build_request \<Rightarrow> ('w, go_error + model_message list) call) option"
  dep_chat_context :: "(agent_key \<Rightarrow> ('w, go_error + chat_context) call) option"
  dep_history_window :: nat
  dep_model :: "(model_request \<Rightarrow> ('w, go_error + model_result) call) option"
  dep_responses :: "(dispatch_ref \<Rightarrow> ('w, delivery_result \<times> go_error option) call) option"
  dep_effects :: "'w effect_dispatcher option"
  dep_started :: "(agent_key \<Rightarrow> model_config \<Rightarrow> string \<Rightarrow> 'w \<Rightarrow> 'w) option"
  dep_finished ::
    "(agent_key \<Rightarrow> model_config \<Rightarrow> string \<Rightarrow> int \<Rightarrow> model_result \<Rightarrow> go_error option \<Rightarrow> 'w \<Rightarrow> 'w) option"
  dep_clock :: "('w \<Rightarrow> instant) option"
  dep_wall_time :: "'w \<Rightarrow> instant"

definition rejected_effect_dispatcher :: "'w effect_dispatcher" where
  "rejected_effect_dispatcher = SingleDispatcher (\<lambda>_ w.
     (Some (errorf ErrorPermissionDenied ''dispatch effect'' ''no effect executor is configured''), w))"

definition new_agent :: "regexp_compile \<Rightarrow> 'w operation_gate \<Rightarrow> agent_key \<Rightarrow> 'w dependencies \<Rightarrow>
    ('w, go_error + 'w agent) call" where
  "new_agent rx gate key d w = (case key_validate key of
     Some e \<Rightarrow> (Inl e, w)
   | None \<Rightarrow>
       (case (dep_config_store d, dep_history_store d, dep_turns d, dep_context d, dep_chat_context d,
           dep_model d, dep_responses d, dep_clock d) of
          (Some configs, Some entries, Some turns, Some builder, Some reader, Some model,
           Some responses, Some clock) \<Rightarrow>
            if dep_history_window d = 0 \<or> dep_history_window d > max_history_page_size
            then (Inl (errorf ErrorInvalidArgument ''create agent''
              ''history window must be between 1 and 256''), w)
            else (case new_config rx (Some configs) key (dep_defaults d) w of
              (Inl e, w1) \<Rightarrow> (Inl e, w1)
            | (Inr _, w1) \<Rightarrow>
                (case new_history key (Some entries) (Some gate) (Some clock) of
                   Inl e \<Rightarrow> (Inl e, w1)
                 | Inr h \<Rightarrow> (Inr \<lparr>ag_key = key, ag_config = configs, ag_history = h,
                     ag_turns = turns, ag_model = model, ag_context = builder,
                     ag_chat_context = reader, ag_history_window = dep_history_window d,
                     ag_responses = responses,
                     ag_effects = (case dep_effects d of
                       None \<Rightarrow> rejected_effect_dispatcher | Some f \<Rightarrow> f),
                     ag_started = (case dep_started d of None \<Rightarrow> (\<lambda>_ _ _ w. w) | Some f \<Rightarrow> f),
                     ag_finished = (case dep_finished d of None \<Rightarrow> (\<lambda>_ _ _ _ _ _ w. w) | Some f \<Rightarrow> f),
                     ag_clock = clock, ag_wall_time = dep_wall_time d, ag_gate = gate\<rparr>, w1)))
        | _ \<Rightarrow> (Inl (errorf ErrorInvalidArgument ''create agent''
            ''all Part 2 dependencies are required''), w)))"

text \<open>
  The registry keeps one agent per chat. Its map is guarded by a mutex and creation runs outside
  the lock, so the model has the two critical sections apart: \<open>registry_lookup\<close>, and
  \<open>registry_store\<close>, which keeps what a faster caller stored. \<open>agent_for\<close> composes them around the
  factory; \<open>w\<close> is the world the factory sees, and \<open>during\<close> what other callers did to the map
  while the factory ran.
\<close>

type_synonym 'w registry = "agent_key \<rightharpoonup> 'w agent"

definition registry_store :: "agent_key \<Rightarrow> 'w agent \<Rightarrow> 'w registry \<Rightarrow> 'w agent \<times> 'w registry" where
  "registry_store key a m = (case m key of Some existing \<Rightarrow> (existing, m) | None \<Rightarrow> (a, m(key \<mapsto> a)))"

definition agent_for :: "(agent_key \<Rightarrow> ('w, go_error + 'w agent option) call) \<Rightarrow>
    ('w registry \<Rightarrow> 'w registry) \<Rightarrow> agent_key \<Rightarrow> 'w registry \<Rightarrow> 'w \<Rightarrow>
    (go_error + 'w agent) \<times> 'w registry \<times> 'w" where
  "agent_for factory during key m w = (case key_validate key of
     Some e \<Rightarrow> (Inl (new_error ErrorInvalidArgument ''get agent'' (Some e)), m, w)
   | None \<Rightarrow>
       (case m key of
          Some existing \<Rightarrow> (Inr existing, m, w)
        | None \<Rightarrow>
            (case factory key w of
               (Inl e, w') \<Rightarrow> (Inl e, during m, w')
             | (Inr None, w') \<Rightarrow> (Inl (errorf ErrorIntegrityFailure ''construct agent''
                 ''factory returned no agent or the wrong chat's agent''), during m, w')
             | (Inr (Some a), w') \<Rightarrow>
                 if ag_key a \<noteq> key
                 then (Inl (errorf ErrorIntegrityFailure ''construct agent''
                   ''factory returned no agent or the wrong chat's agent''), during m, w')
                 else (case registry_store key a (during m) of (r, m') \<Rightarrow> (Inr r, m', w')))))"

end
