(* ===== verification/AgentProps.thy ===== *)
theory AgentProps
  imports AgentCore
begin

text \<open>
  What holds of the agent's operations (the AgentCore theory): what a model result must satisfy
  before it becomes a plan, that a planned turn is never generated twice, that a claimed turn is
  always resolved, and that the registry keeps one agent per chat.
\<close>

subsection \<open>Model results\<close>

lemma model_effect_validate_granted:
  assumes "model_effect_validate capabilities e = None"
  shows "intent_validate (me_intent e) = None
    \<and> (intent_capability (me_intent e) \<noteq> Capability [] \<longrightarrow>
        capability_has capabilities (intent_capability (me_intent e)))"
  using assms by (auto simp: model_effect_validate_def Let_def split: if_splits option.splits)

lemma effects_loop_ok:
  assumes "effects_loop capabilities allowed call_ids effects = None"
  shows "(\<forall>e \<in> set effects. model_effect_validate capabilities e = None
      \<and> (is_zero (ei_target_message_id (me_intent e)) \<or> ei_target_message_id (me_intent e) \<in> allowed))
    \<and> distinct (map me_call_id effects) \<and> set (map me_call_id effects) \<inter> call_ids = {}"
  using assms
  by (induction capabilities allowed call_ids effects rule: effects_loop.induct)
    (auto split: if_splits option.splits)

text \<open>The conditions a reply of the model must meet, whatever it says.\<close>

definition acceptable_result :: "capability_set \<Rightarrow> message_id set \<Rightarrow> model_result \<Rightarrow> bool" where
  "acceptable_result capabilities targets r \<longleftrightarrow>
     valid_utf8 (mr_text r) \<and> length (mr_text r) \<le> 16384 \<and> length (mr_effects r) \<le> 8
     \<and> (trim_space (mr_text r) = [] \<longrightarrow> mr_effects r \<noteq> [] \<and> is_zero (mr_reply_to_message_id r))
     \<and> (is_zero (mr_reply_to_message_id r) \<or> mr_reply_to_message_id r \<in> targets)
     \<and> distinct (map me_call_id (mr_effects r))
     \<and> (\<forall>e \<in> set (mr_effects r). intent_validate (me_intent e) = None
          \<and> (is_zero (ei_target_message_id (me_intent e)) \<or> ei_target_message_id (me_intent e) \<in> targets)
          \<and> (intent_capability (me_intent e) \<noteq> Capability [] \<longrightarrow>
              capability_has capabilities (intent_capability (me_intent e))))"

text \<open>
  C13: a model result that passes validation is within its bounds, refers only to messages of the
  history it was shown, repeats no tool call ID, and uses only capabilities the invocation granted.
\<close>
theorem validate_model_result_sound:
  assumes "validate_model_result r capabilities messages = None"
  shows "acceptable_result capabilities (snd ` set messages) r"
proof -
  have "effects_loop capabilities (snd ` set messages) {} (mr_effects r) = None"
    using assms by (simp add: validate_model_result_def Let_def split: if_splits)
  note effects = effects_loop_ok[OF this] model_effect_validate_granted
  have "valid_utf8 (mr_text r) \<and> length (mr_text r) \<le> 16384 \<and> length (mr_effects r) \<le> 8
     \<and> (trim_space (mr_text r) = [] \<longrightarrow> mr_effects r \<noteq> [] \<and> is_zero (mr_reply_to_message_id r))
     \<and> (is_zero (mr_reply_to_message_id r) \<or> mr_reply_to_message_id r \<in> snd ` set messages)"
    using assms
    by (simp add: validate_model_result_def Let_def max_response_bytes_def max_model_effects_def
      not_less split: if_splits)
  with effects show ?thesis unfolding acceptable_result_def by blast
qed

definition sample_result :: model_result where
  "sample_result = \<lparr>mr_text = ''hello'', mr_reply_to_message_id = Ident ''m1'',
     mr_effects = [\<lparr>me_call_id = ''call-1'', me_intent = \<lparr>ei_kind = EffectReact,
       ei_target_message_id = Ident ''m1'', ei_emoji = ''+'', ei_command = [], ei_sticker = []\<rparr>\<rparr>]\<rparr>"

definition sample_capabilities :: capability_set where
  "sample_capabilities = CapabilitySet [capability_message_react]"

lemma sample_result_valid:
  "validate_model_result sample_result sample_capabilities [(''000001'', Ident ''m1'')] = None"
proof -
  have "capability_has sample_capabilities capability_message_react"
    by (subst sorted_capability_has) (simp_all add: sample_capabilities_def)
  then show ?thesis
    by (simp add: validate_model_result_def sample_result_def is_zero_def ascii_eval
      max_response_bytes_def max_model_effects_def model_effect_validate_def intent_validate_def
      bad_reaction_def intent_capability_def)
qed

theorem validate_model_result_sound_witness:
  "acceptable_result sample_capabilities {Ident ''m1''} sample_result"
  using validate_model_result_sound[OF sample_result_valid] by simp

subsection \<open>Plans that are committed\<close>

text \<open>
  A predicate of the world that every call of an agent keeps. For the commit of a plan, only
  commits whose content passed the check of the model result are asked to keep it; the request
  must name some message targets the result was checked against.
\<close>

definition valid_commit :: "commit_plan_request \<Rightarrow> bool" where
  "valid_commit r \<longleftrightarrow> (\<exists>messages. validate_model_result
     \<lparr>mr_text = cp_response_text r, mr_reply_to_message_id = cp_reply_to_message_id r,
      mr_effects = cp_effects r\<rparr> (cp_capabilities r) messages = None)"

definition calls_keep :: "('w \<Rightarrow> bool) \<Rightarrow> 'w agent \<Rightarrow> bool" where
  "calls_keep P a \<longleftrightarrow>
     (\<forall>key w. P w \<longrightarrow> P (snd (cs_load (ag_config a) key w)))
   \<and> (\<forall>key v q w. P w \<longrightarrow> P (snd (hs_list_if_config_version (hist_store (ag_history a)) key v q w)))
   \<and> (\<forall>key e w. P w \<longrightarrow> P (snd (hs_append (hist_store (ag_history a)) key e w)))
   \<and> (\<forall>r w. P w \<longrightarrow> P (snd (ts_claim (ag_turns a) r w)))
   \<and> (\<forall>r w. P w \<longrightarrow> P (snd (ts_fail_generation (ag_turns a) r w)))
   \<and> (\<forall>key iid w. P w \<longrightarrow> P (snd (ts_load (ag_turns a) key iid w)))
   \<and> (\<forall>r w. valid_commit r \<longrightarrow> P w \<longrightarrow> P (snd (ts_commit_plan (ag_turns a) r w)))
   \<and> (\<forall>r w. P w \<longrightarrow> P (snd (ag_model a r w)))
   \<and> (\<forall>r w. P w \<longrightarrow> P (snd (ag_context a r w)))
   \<and> (\<forall>key w. P w \<longrightarrow> P (snd (ag_chat_context a key w)))
   \<and> (\<forall>ref w. P w \<longrightarrow> P (snd (ag_responses a ref w)))
   \<and> (\<forall>refs w. P w \<longrightarrow> P (snd (dispatch_plan_effects a refs w)))
   \<and> (\<forall>key m n w. P w \<longrightarrow> P (ag_started a key m n w))
   \<and> (\<forall>key m n t r e w. P w \<longrightarrow> P (ag_finished a key m n t r e w))
   \<and> (\<forall>w. P w \<longrightarrow> P (snd (gate_wait (ag_gate a) w)))
   \<and> (\<forall>w. P w \<longrightarrow> P (gate_put (ag_gate a) w))"

lemma calls_keepD:
  assumes "calls_keep P a" and "P w"
  shows "P (snd (cs_load (ag_config a) key w))"
    and "P (snd (hs_list_if_config_version (hist_store (ag_history a)) key v q w))"
    and "P (snd (hs_append (hist_store (ag_history a)) key e w))"
    and "P (snd (ts_claim (ag_turns a) cr w))"
    and "P (snd (ts_fail_generation (ag_turns a) fr w))"
    and "P (snd (ts_load (ag_turns a) key iid w))"
    and "P (snd (ag_model a mr w))"
    and "P (snd (ag_context a br w))"
    and "P (snd (ag_chat_context a key w))"
    and "P (snd (ag_responses a ref w))"
    and "P (snd (dispatch_plan_effects a refs w))"
    and "P (ag_started a key m n w)"
    and "P (ag_finished a key m n t r err w)"
    and "P (snd (gate_wait (ag_gate a) w))"
    and "P (gate_put (ag_gate a) w)"
  using assms by (simp_all add: calls_keep_def)

lemma calls_keep_commit:
  "calls_keep P a \<Longrightarrow> P w \<Longrightarrow> valid_commit r \<Longrightarrow> P (snd (ts_commit_plan (ag_turns a) r w))"
  by (simp add: calls_keep_def)

text \<open>An equation for a call's result carries the predicate to the world it ends in.\<close>

lemma after_call: "P (snd (f w)) \<Longrightarrow> f w = (r, w') \<Longrightarrow> P w'"
  by simp

lemma dispatch_plan_keeps:
  assumes "calls_keep P a" and "P w"
  shows "P (snd (dispatch_plan a plan w))"
proof -
  note keep = calls_keepD[OF assms(1)]
  obtain delivery err w1 where reply: "ag_responses a (sp_dispatch plan) w = ((delivery, err), w1)"
    by (metis prod.collapse)
  have "P w1" using keep(10)[OF assms(2), of "sp_dispatch plan"] reply by simp
  then have "P (snd (dispatch_plan_effects a refs w1))" for refs by (rule keep)
  then show ?thesis
    using reply assms(2) \<open>P w1\<close> keep(11)[OF assms(2), of "sp_effects plan"]
    by (simp add: dispatch_plan_def Let_def case_prod_unfold)
qed

lemma append_keeps:
  assumes "calls_keep P a" and "P w"
  shows "P (snd (history_append_within_gate wide (ag_history a) e w))"
  using assms calls_keepD(3)[OF assms]
  by (auto simp: history_append_within_gate_def split: outcome.splits option.splits prod.splits
    intro: after_call)

lemma history_list_keeps:
  assumes "calls_keep P a" and "P w"
  shows "P (snd (history_list (ag_history a) v q w))"
  using assms calls_keepD(2)[OF assms] by (simp add: history_list_def split: option.splits)

lemma restored_quote_keeps:
  assumes "calls_keep P a" and "P w"
  shows "P (snd (restored_quote a iid plan w))"
  using assms history_list_keeps[OF assms, of "sp_config_version plan" "window_query a iid"]
  by (auto simp: restored_quote_def split: prod.splits sum.splits option.splits)

lemma invoke_replay_keeps:
  assumes "calls_keep P a" and "P w"
  shows "P (snd (invoke_replay wide a ivc mid plan delivery w))"
proof -
  have "P (snd (ensure_invocation_history wide a mid ivc (Some plan) delivery w))"
  proof -
    obtain r w1 where first: "history_append_within_gate wide (ag_history a)
        (invocation_history_entry mid ivc) w = (r, w1)" by fastforce
    then have w1: "P w1" using append_keeps[OF assms] by (metis snd_conv)
    obtain q w2 where quote: "restored_quote a (inv_id ivc) plan w1 = (q, w2)" by fastforce
    then have w2: "P w2" using restored_quote_keeps[OF assms(1) w1] by (metis snd_conv)
    have "P (snd (history_append_within_gate wide (ag_history a) e w2))" for e
      by (rule append_keeps[OF assms(1) w2])
    with first quote w1 w2 assms(2) show ?thesis
      by (auto simp: ensure_invocation_history_def Let_def
        split: outcome.splits option.splits prod.splits sum.splits intro: after_call)
  qed
  then show ?thesis
    using dispatch_plan_keeps[OF assms(1)]
    by (simp add: invoke_replay_def case_prod_unfold split: outcome.splits option.splits)
qed

lemma fail_generation_keeps:
  "calls_keep P a \<Longrightarrow> P w \<Longrightarrow> P (fail_generation a iid e w)"
  by (simp add: fail_generation_def calls_keepD)

lemma normalized_valid_commit:
  assumes "validate_model_result generated (rq_capabilities request) (rq_context_messages request) = None"
  shows "valid_commit (commit_request a ivc snapshot request generated)"
  unfolding valid_commit_def commit_request_def
  using assms by (cases generated) (auto intro: exI[of _ "rq_context_messages request"])

lemma invoke_model_keeps:
  assumes "calls_keep P a" and "P w"
  shows "P (snd (invoke_model a ivc snapshot n request w))"
proof -
  note keep = calls_keepD[OF assms(1)]
  let ?w1 = "ag_started a (ag_key a) (rq_model request) n w"
  obtain r w2 where model: "ag_model a request ?w1 = (r, w2)" by fastforce
  have w2: "P w2" using keep(7)[OF keep(12)[OF assms(2)], of request] model by (metis snd_conv)
  then have finished: "P (ag_finished a key m nm t res err w2)" for key m nm t res err
    by (rule keep)
  have commit: "P (snd (ts_commit_plan (ag_turns a) (commit_request a ivc snapshot request generated)
      (ag_finished a key m nm t res err w2)))"
    if "validate_model_result generated (rq_capabilities request) (rq_context_messages request) = None"
    for generated key m nm t res err
    by (rule calls_keep_commit[OF assms(1) finished normalized_valid_commit[OF that]])
  show ?thesis
  proof (cases r)
    case (Inl e)
    with model show ?thesis
      by (simp add: invoke_model_def fail_generation_keeps[OF assms(1) finished])
  next
    case (Inr reply)
    show ?thesis
    proof (cases "validate_model_result (normalized_result reply) (rq_capabilities request)
        (rq_context_messages request)")
      case None
      let ?g = "normalized_result reply"
      let ?w3 = "ag_finished a (ag_key a) (rq_model request) n
        (ag_wall_time a w2 - ag_wall_time a w) ?g None w2"
      obtain c w4 where swap: "ts_commit_plan (ag_turns a) (commit_request a ivc snapshot request ?g) ?w3
          = (c, w4)" by fastforce
      then have "P w4" using commit[OF None] by (metis snd_conv)
      with dispatch_plan_keeps[OF assms(1)] have "P (snd (dispatch_plan a plan w4))" for plan by blast
      with None Inr model swap \<open>P w4\<close> show ?thesis
        by (cases c) (simp_all add: invoke_model_def Let_def case_prod_unfold)
    next
      case (Some e)
      with Inr model show ?thesis
        by (simp add: invoke_model_def Let_def fail_generation_keeps[OF assms(1) finished])
    qed
  qed
qed

lemma invoke_generate_keeps:
  assumes "calls_keep P a" and "P w"
  shows "P (snd (invoke_generate wide a ivc snapshot observed mid w))"
proof -
  note keep = calls_keepD[OF assms(1)]
  obtain r1 w1 where append: "history_append_within_gate wide (ag_history a)
      (invocation_history_entry mid ivc) w = (r1, w1)" by fastforce
  obtain r2 w2 where page: "history_list (ag_history a) (snap_version snapshot)
      (window_query a (inv_id ivc)) w1 = (r2, w2)" by fastforce
  obtain r3 w3 where chat: "(case observed of Some c \<Rightarrow> (Inr c, w2) |
      None \<Rightarrow> ag_chat_context a (ag_key a) w2) = (r3, w3)" by fastforce
  have w1: "P w1" using append_keeps[OF assms] append by (metis snd_conv)
  have w2: "P w2" using history_list_keeps[OF assms(1) w1] page by (metis snd_conv)
  have w3: "P w3" using keep(9)[OF w2] chat w2 by (metis option.case_eq_if snd_conv)
  have build: "P (snd (ag_context a b w3))" for b by (rule keep(8)[OF w3])
  show ?thesis
    using append page chat w1 w2 w3 build fail_generation_keeps[OF assms(1)]
      invoke_model_keeps[OF assms(1)]
    by (simp add: invoke_generate_def Let_def case_prod_unfold
      split: outcome.splits option.splits sum.splits)
qed

lemma invoke_claim_keeps:
  assumes "calls_keep P a" and "P w"
  shows "P (snd (invoke_claim rx wide a ivc config observed w))"
proof -
  note keep = calls_keepD[OF assms(1)]
  obtain r1 w1 where read: "(case config of Some s \<Rightarrow> (Inr s, w) |
      None \<Rightarrow> config_refresh rx (ag_config a) (ag_key a) w) = (r1, w1)" by fastforce
  have w1: "P w1"
    using keep(1)[OF assms(2)] read assms(2)
    by (cases config) (auto simp: config_refresh_def case_prod_unfold)
  have claim: "P (snd (ts_claim (ag_turns a) r w1))" for r by (rule keep(4)[OF w1])
  show ?thesis
    using read w1 claim invoke_replay_keeps[OF assms(1)] invoke_generate_keeps[OF assms(1)]
    by (simp add: invoke_claim_def case_prod_unfold split: option.splits sum.splits)
qed

lemma invoke_within_gate_keeps:
  assumes "calls_keep P a" and "P w"
  shows "P (snd (invoke_within_gate rx wide a ivc config observed w))"
  using calls_keepD(6)[OF assms, of "ag_key a" "inv_id ivc"] assms(2)
    invoke_replay_keeps[OF assms(1)] invoke_claim_keeps[OF assms(1)]
  by (simp add: invoke_within_gate_def case_prod_unfold
    split: option.splits sum.splits outcome.splits)

text \<open>
  C12: whatever happens during an invocation, it asks the turn store to commit only plans whose
  text, reply target and effects passed the check of the model's result under the capabilities
  recorded with them. Stated as an invariant: a predicate of the world that every call keeps,
  where the commit of a plan is only required to keep it for such plans, holds afterwards.
\<close>
theorem invoke_commits_only_valid_plans:
  assumes "calls_keep P a" and "P w"
  shows "P (snd (invoke rx wide a ivc config observed w))"
proof -
  note keep = calls_keepD[OF assms(1)]
  have "P (snd (gate_acquire (ag_gate a) w))"
    using keep(14)[OF assms(2)] by (simp add: gate_acquire_def case_prod_unfold)
  with invoke_within_gate_keeps[OF assms(1)] keep(15) show ?thesis
    by (simp add: invoke_def gate_release_def case_prod_unfold split: option.splits)
qed

subsection \<open>Replays, failures and dispatch\<close>

text \<open>
  C16: a planned turn is never generated again. When the turn store already has a plan for the
  invocation, the result and everything the invocation does are the same whatever the model, the
  context builder, the chat reader, the config given or stored, and the chat observed are.
\<close>
theorem replay_never_generates:
  assumes "gate_acquire (ag_gate a) w = (None, w1)"
    and "ts_load (ag_turns a) (ag_key a) (inv_id ivc) w1 = (Inr rec, w2)" and "tr_plan rec = Some plan"
  shows "invoke rx wide a ivc config observed w =
    invoke rx wide (a\<lparr>ag_model := model, ag_context := builder, ag_chat_context := reader,
      ag_config := configs\<rparr>) ivc config' observed' w"
proof -
  let ?b = "a\<lparr>ag_model := model, ag_context := builder, ag_chat_context := reader, ag_config := configs\<rparr>"
  have effects: "dispatch_plan_effects ?b refs w1 = dispatch_plan_effects a refs w1" for refs w1
    by (simp add: dispatch_plan_effects_def)
  have plan: "dispatch_plan ?b plan w1 = dispatch_plan a plan w1" for plan w1
    by (simp add: dispatch_plan_def effects Let_def cong: if_cong)
  have quote: "restored_quote ?b iid plan w1 = restored_quote a iid plan w1" for iid plan w1
    by (simp add: restored_quote_def window_query_def cong: if_cong)
  have history_eq: "ag_history ?b = ag_history a" by simp
  have ensure: "ensure_invocation_history wide ?b mid ivc plan d w1 =
      ensure_invocation_history wide a mid ivc plan d w1" for mid plan d w1
    unfolding ensure_invocation_history_def quote history_eq ..
  have replay: "invoke_replay wide ?b ivc mid plan d w1 = invoke_replay wide a ivc mid plan d w1"
    for mid plan d w1
    unfolding invoke_replay_def ensure plan ..
  have "invoke_within_gate rx wide ?b ivc config' observed' w1 =
      invoke_within_gate rx wide a ivc config observed w1"
    using assms(2,3) replay
    by (simp add: invoke_within_gate_def split: outcome.splits option.splits)
  with assms(1) show ?thesis
    by (simp add: invoke_def)
qed

text \<open>
  C33: a failed model call is recorded on the turn as a provider failure that may be generated
  again, whatever the error was, and the caller gets that error.
\<close>
theorem model_failure_recorded:
  assumes "ag_model a request (ag_started a (ag_key a) (rq_model request) n w) = (Inl e, w2)"
  shows "\<exists>t. invoke_model a ivc snapshot n request w =
    (failed (provider_failed e),
     snd (ts_fail_generation (ag_turns a)
       \<lparr>fg_key = ag_key a, fg_invocation_id = inv_id ivc, fg_code = ErrorProviderFailure,
        fg_retryable = True\<rparr>
       (ag_finished a (ag_key a) (rq_model request) n t zero_model_result (Some e) w2)))"
  using assms
  by (simp add: invoke_model_def Let_def fail_generation_def provider_failed_def
    retryable_generation_def) blast

text \<open>
  C21: effects run only after the reply they belong to. When a plan has a reply and its dispatcher
  reports an error, a foreign action or an impossible status, no effect of the plan is dispatched:
  the world is the one the reply's dispatcher left.
\<close>
theorem failed_reply_stops_effects:
  assumes "\<not> is_zero (sp_action_id plan)"
    and "ag_responses a (sp_dispatch plan) w = ((delivery, err), w1)"
    and "err \<noteq> None \<or> dres_action_id delivery \<noteq> sp_action_id plan
      \<or> \<not> known_delivery (dres_status delivery)"
  shows "\<exists>r e. dispatch_plan a plan w = ((r, Some e), w1)"
  using assms by (auto simp: dispatch_plan_def Let_def)

lemma dispatch_plan_closed:
  assumes "\<And>ref w. R w \<Longrightarrow> R (snd (ag_responses a ref w))"
    and "\<And>refs w. R w \<Longrightarrow> R (snd (dispatch_plan_effects a refs w))" and "R w"
  shows "R (snd (dispatch_plan a plan w))"
  using assms(2)[OF assms(3), of "sp_effects plan"] assms(1)[OF assms(3), of "sp_dispatch plan"]
    assms(2)[OF assms(1)[OF assms(3), of "sp_dispatch plan"], of "sp_effects plan"] assms(3)
  by (simp add: dispatch_plan_def Let_def case_prod_unfold)

lemma invoke_model_closed:
  assumes "\<And>r w. R (snd (ts_fail_generation (ag_turns a) r w))"
    and "\<And>r w. R (snd (ts_commit_plan (ag_turns a) r w))"
    and "\<And>ref w. R w \<Longrightarrow> R (snd (ag_responses a ref w))"
    and "\<And>refs w. R w \<Longrightarrow> R (snd (dispatch_plan_effects a refs w))"
  shows "R (snd (invoke_model a ivc snapshot n request w))"
proof -
  have "R (fail_generation a iid e w1)" for iid e w1
    by (simp add: fail_generation_def assms(1))
  moreover have "R (snd (dispatch_plan a plan (snd (ts_commit_plan (ag_turns a) r w1))))" for plan r w1
    by (rule dispatch_plan_closed[OF assms(3,4) assms(2)])
  ultimately show ?thesis
    using assms(2) by (simp add: invoke_model_def Let_def case_prod_unfold split: sum.splits option.splits)
qed


subsection \<open>The registry\<close>

text \<open>
  C35: one agent per chat. Provided that callers only ever add agents under their own key, what
  \<open>AgentFor\<close> returns is the agent registered for the chat afterwards; no agent registered before
  or meanwhile is replaced, and every registered agent stays registered under its own chat.
\<close>
theorem agent_for_one_per_chat:
  assumes "\<forall>k a. m k = Some a \<longrightarrow> ag_key a = k"
    and "\<forall>k a. during m k = Some a \<longrightarrow> ag_key a = k" and "m \<subseteq>\<^sub>m during m"
    and "agent_for factory during key m w = (Inr a, m', w')"
  shows "m' key = Some a \<and> ag_key a = key \<and> m \<subseteq>\<^sub>m m' \<and> (m key = None \<longrightarrow> during m \<subseteq>\<^sub>m m')
    \<and> (\<forall>k b. m' k = Some b \<longrightarrow> ag_key b = k)"
proof (cases "m key")
  case (Some b)
  with assms show ?thesis by (auto simp: agent_for_def split: option.splits)
next
  case None
  with assms(4) obtain b where b: "ag_key b = key" "(a, m') = registry_store key b (during m)"
    by (auto simp: agent_for_def split: option.splits prod.splits sum.splits if_splits)
  have stored: "m' key = Some a \<and> during m \<subseteq>\<^sub>m m'"
    using b(2) by (auto simp: registry_store_def map_le_def split: option.splits)
  have keyed: "\<forall>k c. m' k = Some c \<longrightarrow> ag_key c = k"
    using b assms(2) by (auto simp: registry_store_def split: option.splits if_splits)
  show ?thesis
    using stored keyed map_le_trans[OF assms(3)] by blast
qed

subsection \<open>Witnesses\<close>

definition sample_invocation :: invocation where
  "sample_invocation = \<lparr>inv_id = Ident ''i1'',
     inv_causation = \<lparr>cref_kind = CausationMessage, cref_id = Ident ''c1''\<rparr>,
     inv_cause = CauseInboundMessage,
     inv_sender = Some \<lparr>sc_participant_id = Ident ''p1'', sc_ref = Ident ''abc123'',
       sc_display_name = ''Alice'', sc_is_admin = False, sc_is_super_admin = False\<rparr>,
     inv_quote = None, inv_input = [TextPart ''hello''], inv_mentions = [],
     inv_capabilities = sample_capabilities, inv_commands = [], inv_stickers = [],
     inv_policy_version = 1, inv_requested_at = 7\<rparr>"

definition sample_chat :: chat_context where
  "sample_chat = \<lparr>cc_kind = ''group'', cc_name = ''team'', cc_description = [],
     cc_bot_is_admin = False, cc_tasks = [], cc_memories = [], cc_stickers = [], cc_location = None\<rparr>"

definition sample_plan :: stored_plan where
  "sample_plan = \<lparr>sp_invocation_id = Ident ''i1'', sp_config_version = 1,
     sp_response_id = Ident ''r1'', sp_reply_to_message_id = zero_id, sp_action_id = Ident ''a1'',
     sp_text = ''hello'', sp_created_at = 9,
     sp_dispatch = \<lparr>dr_key = sample_key, dr_action_id = Ident ''a1''\<rparr>, sp_effects = []\<rparr>"

definition sample_record :: turn_record where
  "sample_record = \<lparr>tr_key = sample_key, tr_invocation_id = Ident ''i1'', tr_message_id = Ident ''m1'',
     tr_state = TurnResponsePlanned, tr_plan = Some sample_plan, tr_delivery = DeliveryPending,
     tr_updated_at = 9\<rparr>"

definition open_gate :: "'w operation_gate" where
  "open_gate = \<lparr>gate_wait = (\<lambda>w. (None, w)), gate_put = id\<rparr>"

text \<open>An agent over an empty transcript, with what its turn store records and its model returns.\<close>

definition sample_agent :: "(commit_plan_request \<Rightarrow> 'w \<Rightarrow> 'w) \<Rightarrow> (fail_generation_request \<Rightarrow> 'w \<Rightarrow> 'w) \<Rightarrow>
    (go_error + turn_record) \<Rightarrow> (go_error + model_result) \<Rightarrow> 'w agent" where
  "sample_agent on_commit on_fail loaded reply =
    \<lparr>ag_key = sample_key,
     ag_config = \<lparr>cs_load_or_create = (\<lambda>key v w. (Inr (snapshot_at 1 sample_values), w)),
       cs_load = (\<lambda>key w. (Inr (snapshot_at 1 sample_values), w)),
       cs_compare_and_swap = (\<lambda>key n v w. (Inr (snapshot_at (n + 1) v), w))\<rparr>,
     ag_history = \<lparr>hist_key = sample_key,
       hist_store = \<lparr>hs_list_if_config_version = (\<lambda>key v q w. (Inr \<lparr>hp_entries = [], hp_next = None\<rparr>, w)),
         hs_append = (\<lambda>key e w. (None, w)), hs_reset_if_config_version = (\<lambda>key v t w. (None, w)),
         hs_trim = (\<lambda>key p w. (Inr 0, w))\<rparr>,
       hist_gate = open_gate, hist_clock = (\<lambda>_. 9)\<rparr>,
     ag_turns = \<lparr>ts_claim = (\<lambda>r w. (Inr \<lparr>tc_state = TurnGenerating, tc_message_id = Ident ''m1'',
         tc_plan = None\<rparr>, w)),
       ts_commit_plan = (\<lambda>r w. (Inr sample_plan, on_commit r w)),
       ts_fail_generation = (\<lambda>r w. (None, on_fail r w)), ts_load = (\<lambda>key iid w. (loaded, w))\<rparr>,
     ag_model = (\<lambda>r w. (reply, w)), ag_context = (\<lambda>r w. (Inr sample_messages, w)),
     ag_chat_context = (\<lambda>key w. (Inr sample_chat, w)), ag_history_window = 64,
     ag_responses = (\<lambda>ref w. ((\<lparr>dres_action_id = dr_action_id ref, dres_status = DeliverySucceeded,
       dres_completed_at = Some 9\<rparr>, None), w)),
     ag_effects = rejected_effect_dispatcher, ag_started = (\<lambda>_ _ _ w. w),
     ag_finished = (\<lambda>_ _ _ _ _ _ w. w), ag_clock = (\<lambda>_. 9), ag_wall_time = (\<lambda>_. 9),
     ag_gate = open_gate\<rparr>"

lemma sample_agent_turns [simp]:
  "ts_fail_generation (ag_turns (sample_agent c f l r)) req w = (None, f req w)"
  "ts_commit_plan (ag_turns (sample_agent c f l r)) creq w = (Inr sample_plan, c creq w)"
  "ts_load (ag_turns (sample_agent c f l r)) key iid w = (l, w)"
  "ag_model (sample_agent c f l r) mreq w = (r, w)"
  "gate_acquire (ag_gate (sample_agent c f l r)) w = (None, w)"
  "snd (ag_responses (sample_agent c f l r) ref w) = w"
  by (simp_all add: sample_agent_def gate_acquire_def open_gate_def)

lemma sample_agent_effects [simp]: "snd (dispatch_plan_effects (sample_agent c f l r) refs w) = w"
  by (induction refs) (simp_all add: sample_agent_def dispatch_plan_effects_def rejected_effect_dispatcher_def)

theorem invoke_commits_only_valid_plans_witness:
  "list_all valid_commit (snd (invoke (\<lambda>_. None) (\<lambda>_. False)
      (sample_agent (\<lambda>r w. w @ [r]) (\<lambda>_ w. w) (Inl (errorf ErrorNotFound ''load'' ''none'')) (Inr sample_result))
      sample_invocation None None []))"
  by (rule invoke_commits_only_valid_plans[where P = "list_all valid_commit"])
    (simp_all add: calls_keep_def, simp_all add: sample_agent_def open_gate_def)

theorem replay_never_generates_witness:
  "invoke (\<lambda>_. None) (\<lambda>_. False) (sample_agent (\<lambda>_ w. w + 1) (\<lambda>_ w. w + 1) (Inr sample_record) (Inr sample_result))
      sample_invocation None None (0 :: nat) =
   invoke (\<lambda>_. None) (\<lambda>_. False)
      ((sample_agent (\<lambda>_ w. w + 1) (\<lambda>_ w. w + 1) (Inr sample_record) (Inr sample_result))
        \<lparr>ag_model := (\<lambda>_ w. (Inl DeadlineExceeded, w + 100)), ag_context := (\<lambda>_ w. (Inr [], w + 100)),
         ag_chat_context := (\<lambda>_ w. (Inl DeadlineExceeded, w + 100)), ag_config := undefined\<rparr>)
      sample_invocation None None 0"
  by (rule replay_never_generates[where rec = sample_record and plan = sample_plan])
    (simp_all add: sample_record_def)

theorem model_failure_recorded_witness:
  "\<exists>t. invoke_model (sample_agent (\<lambda>_ w. w) (\<lambda>r w. w @ [r]) (Inr sample_record) (Inl DeadlineExceeded))
      sample_invocation (snapshot_at 1 sample_values) ''team''
      (invoke_request (sample_agent (\<lambda>_ w. w) (\<lambda>r w. w @ [r]) (Inr sample_record) (Inl DeadlineExceeded))
        sample_invocation (snapshot_at 1 sample_values) (Ident ''m1'') sample_messages
        \<lparr>hp_entries = [], hp_next = None\<rparr>) [] =
    (failed (provider_failed DeadlineExceeded), [\<lparr>fg_key = sample_key, fg_invocation_id = Ident ''i1'',
        fg_code = ErrorProviderFailure, fg_retryable = True\<rparr>])"
proof -
  let ?a = "sample_agent (\<lambda>_ w. w) (\<lambda>r w. w @ [r]) (Inr sample_record) (Inl DeadlineExceeded)
    :: fail_generation_request list agent"
  have quiet: "ag_started ?a k m n w = w" "ag_finished ?a k m n t r e w = w" "ag_key ?a = sample_key"
    for k m n t r e w by (simp_all add: sample_agent_def)
  show ?thesis
    using model_failure_recorded[of ?a _ _ "[]" DeadlineExceeded "[]" sample_invocation]
    by (simp add: quiet sample_invocation_def)
qed

theorem failed_reply_stops_effects_witness:
  "\<exists>r e. dispatch_plan ((sample_agent (\<lambda>_ w. w) (\<lambda>_ w. w) (Inr sample_record) (Inr sample_result))
        \<lparr>ag_responses := (\<lambda>_ w. ((zero_delivery_result, Some DeadlineExceeded), Suc w))\<rparr>)
      sample_plan 0 = ((r, Some e), 1)"
  by (rule failed_reply_stops_effects[of sample_plan _ _ zero_delivery_result "Some DeadlineExceeded"])
    (simp_all add: sample_plan_def is_zero_def)


theorem agent_for_one_per_chat_witness:
  "\<exists>m' w'. agent_for (\<lambda>key w. (Inr (Some (sample_agent (\<lambda>_ w. w) (\<lambda>_ w. w) (Inr sample_record) (Inr sample_result))), w))
      id sample_key Map.empty (0 :: nat) =
      (Inr (sample_agent (\<lambda>_ w. w) (\<lambda>_ w. w) (Inr sample_record) (Inr sample_result)), m', w')
    \<and> m' sample_key = Some (sample_agent (\<lambda>_ w. w) (\<lambda>_ w. w) (Inr sample_record) (Inr sample_result))"
proof -
  let ?a = "sample_agent (\<lambda>_ w. w) (\<lambda>_ w. w) (Inr sample_record) (Inr sample_result) :: nat agent"
  have "ag_key ?a = sample_key" by (simp add: sample_agent_def)
  then have run: "agent_for (\<lambda>key w. (Inr (Some ?a), w)) id sample_key Map.empty 0 =
      (Inr ?a, [sample_key \<mapsto> ?a], 0)"
    by (simp add: agent_for_def registry_store_def key_validate_def sample_key_def is_zero_def)
  from agent_for_one_per_chat[OF _ _ _ run] show ?thesis using run by simp
qed

end
