(* ===== verification/GoJson.thy ===== *)
theory GoJson
  imports GoText
begin

text \<open>
  \<open>json.Valid\<close> of Go's \<open>encoding/json\<close>: the library's scanner, a pushdown automaton that takes
  one byte at a time. The stack holds what each open object or array expects next; nesting is
  limited to 10000 levels.
\<close>

datatype json_ctx = ObjectKey | ObjectValue | ArrayValue

datatype json_state =
    BeginValue | BeginValueOrEmpty | BeginString | BeginStringOrEmpty
  | InString | InEsc | InEscU nat
  | Neg | Num1 | Num0 | Dot | Dot0 | Exp | ExpSign | Exp0
  | Lit string | EndValue | EndTop

type_synonym json_config = "json_state \<times> json_ctx list"

definition json_space :: "char \<Rightarrow> bool" where
  "json_space c \<longleftrightarrow> bval c \<in> {0x20, 0x09, 0x0A, 0x0D}"

definition hex_char :: "char \<Rightarrow> bool" where
  "hex_char c \<longleftrightarrow> digit_char c \<or> (0x61 \<le> bval c \<and> bval c \<le> 0x66) \<or> (0x41 \<le> bval c \<and> bval c \<le> 0x46)"

definition json_push :: "json_ctx \<Rightarrow> json_state \<Rightarrow> json_ctx list \<Rightarrow> json_config option" where
  "json_push k st stack = (if length stack + 1 \<le> 10000 then Some (st, k # stack) else None)"

definition json_pop :: "json_ctx list \<Rightarrow> json_config option" where
  "json_pop stack = Some (if stack = [] then EndTop else EndValue, stack)"

definition json_end_value :: "json_ctx list \<Rightarrow> char \<Rightarrow> json_config option" where
  "json_end_value stack c = (case stack of
     [] \<Rightarrow> if json_space c then Some (EndTop, []) else None
   | k # rest \<Rightarrow>
       if json_space c then Some (EndValue, stack)
       else (case k of
         ObjectKey \<Rightarrow> if c = CHR '':'' then Some (BeginValue, ObjectValue # rest) else None
       | ObjectValue \<Rightarrow>
           if c = CHR '','' then Some (BeginString, ObjectKey # rest)
           else if c = CHR ''}'' then json_pop rest else None
       | ArrayValue \<Rightarrow>
           if c = CHR '','' then Some (BeginValue, stack)
           else if c = CHR '']'' then json_pop rest else None))"

definition json_begin_value :: "json_ctx list \<Rightarrow> char \<Rightarrow> json_config option" where
  "json_begin_value stack c =
    (if c = CHR ''{'' then json_push ObjectKey BeginStringOrEmpty stack
     else if c = CHR ''['' then json_push ArrayValue BeginValueOrEmpty stack
     else if c = CHR 0x22 then Some (InString, stack)
     else if c = CHR ''-'' then Some (Neg, stack)
     else if c = CHR ''0'' then Some (Num0, stack)
     else if c = CHR ''t'' then Some (Lit ''rue'', stack)
     else if c = CHR ''f'' then Some (Lit ''alse'', stack)
     else if c = CHR ''n'' then Some (Lit ''ull'', stack)
     else if digit_char c then Some (Num1, stack)
     else None)"

definition json_num0 :: "json_ctx list \<Rightarrow> char \<Rightarrow> json_config option" where
  "json_num0 stack c =
    (if c = CHR ''.'' then Some (Dot, stack)
     else if c = CHR ''e'' \<or> c = CHR ''E'' then Some (Exp, stack)
     else json_end_value stack c)"

fun json_step :: "json_config \<Rightarrow> char \<Rightarrow> json_config option" where
  "json_step (BeginValue, stack) c =
     (if json_space c then Some (BeginValue, stack) else json_begin_value stack c)"
| "json_step (BeginValueOrEmpty, stack) c =
     (if json_space c then Some (BeginValueOrEmpty, stack)
      else if c = CHR '']'' then json_end_value stack c else json_begin_value stack c)"
| "json_step (BeginString, stack) c =
     (if json_space c then Some (BeginString, stack)
      else if c = CHR 0x22 then Some (InString, stack) else None)"
| "json_step (BeginStringOrEmpty, stack) c =
     (if json_space c then Some (BeginStringOrEmpty, stack)
      else if c = CHR ''}'' then json_end_value (ObjectValue # tl stack) c
      else if c = CHR 0x22 then Some (InString, stack) else None)"
| "json_step (InString, stack) c =
     (if c = CHR 0x22 then Some (EndValue, stack)
      else if c = CHR 0x5C then Some (InEsc, stack)
      else if bval c < 0x20 then None else Some (InString, stack))"
| "json_step (InEsc, stack) c =
     (if c \<in> set ''bfnrt/'' \<or> c = CHR 0x22 \<or> c = CHR 0x5C then Some (InString, stack)
      else if c = CHR ''u'' then Some (InEscU 4, stack) else None)"
| "json_step (InEscU n, stack) c =
     (if hex_char c then Some (if n \<le> 1 then InString else InEscU (n - 1), stack) else None)"
| "json_step (Neg, stack) c =
     (if c = CHR ''0'' then Some (Num0, stack)
      else if digit_char c then Some (Num1, stack) else None)"
| "json_step (Num1, stack) c = (if digit_char c then Some (Num1, stack) else json_num0 stack c)"
| "json_step (Num0, stack) c = json_num0 stack c"
| "json_step (Dot, stack) c = (if digit_char c then Some (Dot0, stack) else None)"
| "json_step (Dot0, stack) c =
     (if digit_char c then Some (Dot0, stack)
      else if c = CHR ''e'' \<or> c = CHR ''E'' then Some (Exp, stack)
      else json_end_value stack c)"
| "json_step (Exp, stack) c =
     (if c = CHR ''+'' \<or> c = CHR ''-'' then Some (ExpSign, stack)
      else if digit_char c then Some (Exp0, stack) else None)"
| "json_step (ExpSign, stack) c = (if digit_char c then Some (Exp0, stack) else None)"
| "json_step (Exp0, stack) c = (if digit_char c then Some (Exp0, stack) else json_end_value stack c)"
| "json_step (Lit rest, stack) c =
     (case rest of
        [] \<Rightarrow> None
      | x # xs \<Rightarrow> if c = x then Some (if xs = [] then EndValue else Lit xs, stack) else None)"
| "json_step (EndValue, stack) c = json_end_value stack c"
| "json_step (EndTop, stack) c = (if json_space c then Some (EndTop, stack) else None)"

fun json_run :: "json_config \<Rightarrow> string \<Rightarrow> json_config option" where
  "json_run st [] = Some st"
| "json_run st (c # cs) = (case json_step st c of None \<Rightarrow> None | Some st' \<Rightarrow> json_run st' cs)"

definition json_valid :: "string \<Rightarrow> bool" where
  "json_valid s = (case json_run (BeginValue, []) s of
     None \<Rightarrow> False
   | Some st \<Rightarrow> (case json_step st (CHR '' '') of Some (EndTop, _) \<Rightarrow> True | _ \<Rightarrow> False))"

end
