(* ===== verification/Conversation.thy ===== *)
theory Conversation
  imports Identity Mention GoJson
begin

text \<open>
  Incoming messages (\<open>internal/conversation/message.go\<close>): what a provider adapter hands to
  intake, what intake hands to the core, and the validation both pass. Pointers are options,
  instants are nanoseconds since Go's zero time, and the validators return an outcome because
  checking a mention can panic (see the Mention theory).
\<close>

definition max_text_bytes :: nat where
  "max_text_bytes = 32 * 1024"

definition max_mentions :: nat where
  "max_mentions = max_bindings"

definition max_raw_quoted_message_bytes :: nat where
  "max_raw_quoted_message_bytes = 1024 * 1024"

text \<open>The placeholders stand between U+3010 and U+3011, three bytes each in UTF-8.\<close>

definition bracketed :: "string \<Rightarrow> string" where
  "bracketed s = [CHR 0xE3, CHR 0x80, CHR 0x90] @ s @ [CHR 0xE3, CHR 0x80, CHR 0x91]"

definition media_placeholders :: "string list" where
  "media_placeholders = [bracketed ''image'', bracketed ''video'', bracketed ''gif'',
     bracketed ''document'', bracketed ''audio'', bracketed ''voice note'', bracketed ''sticker'']"

fun authored_after :: "string \<Rightarrow> string list \<Rightarrow> string" where
  "authored_after body [] = body"
| "authored_after body (placeholder # more) =
     (let rest = drop (length placeholder) body in
      if has_prefix body placeholder \<and> (rest = [] \<or> hd rest = CHR '' '')
      then (if has_prefix rest '' '' then tl rest else rest)
      else authored_after body more)"

definition authored_text :: "string \<Rightarrow> string" where
  "authored_text body = authored_after body media_placeholders"

datatype chat_kind = ChatDirect | ChatGroup | ChatStatus | ChatKindOther nat

definition known_chat_kind :: "chat_kind \<Rightarrow> bool" where
  "known_chat_kind k \<longleftrightarrow> k = ChatDirect \<or> k = ChatGroup \<or> k = ChatStatus"

record incoming_mention =
  inm_token :: string
  inm_target_lid :: lid
  inm_display_name :: string
  inm_bot :: bool

record mention_binding =
  mb_token :: string
  mb_sender_ref :: sender_ref
  mb_bot :: bool

record incoming_candidate =
  cand_tenant_id :: tenant_id
  cand_account_id :: account_id
  cand_provider_message_id :: string
  cand_quoted_message_id :: string
  cand_quoted_message_json :: string
  cand_quoted_from_me :: "bool option"
  cand_media_json :: string
  cand_chat_address :: string
  cand_sender_lid :: lid
  cand_sender_phone :: string
  cand_sender_name :: string
  cand_sender_is_admin :: bool
  cand_sender_is_super_admin :: bool
  cand_chat_kind :: chat_kind
  cand_text :: string
  cand_mentions :: "incoming_mention list"
  cand_mentions_bot :: bool
  cand_from_me :: bool
  cand_owner :: bool
  cand_allowlisted :: bool
  cand_occurred_at :: instant
  cand_received_at :: instant

text \<open>Running the mention check of one binding: invalid or absent tokens are an error.\<close>

definition token_check :: "(rune \<Rightarrow> bool) \<Rightarrow> string \<Rightarrow> string \<Rightarrow> go_error option outcome" where
  "token_check wide body token =
    (let e = Some (Plain ''mention token is invalid or absent from text'') in
     if \<not> valid_token token then Done e
     else case contains wide body token of
       Panic \<Rightarrow> Panic | Done b \<Rightarrow> Done (if b then None else e))"

fun incoming_mentions_loop ::
  "(rune \<Rightarrow> bool) \<Rightarrow> string \<Rightarrow> string set \<Rightarrow> incoming_mention list \<Rightarrow> go_error option outcome" where
  "incoming_mentions_loop wide body seen [] = Done None"
| "incoming_mentions_loop wide body seen (b # bs) =
     first_error
       [token_check wide body (inm_token b),
        check (inm_token b \<in> seen) (Plain ''mention token is duplicated''),
        check (inm_bot b \<noteq> is_zero (inm_target_lid b)) (Plain ''mention target is invalid''),
        check (\<not> valid_utf8 (inm_display_name b) \<or> length (inm_display_name b) > 512)
          (Plain ''mention display name is invalid''),
        incoming_mentions_loop wide body (insert (inm_token b) seen) bs]"

definition validate_incoming_mentions ::
  "(rune \<Rightarrow> bool) \<Rightarrow> string \<Rightarrow> incoming_mention list \<Rightarrow> go_error option outcome" where
  "validate_incoming_mentions wide body mentions =
    (if length mentions > max_mentions then Done (Some (Plain ''mentions exceed 128''))
     else incoming_mentions_loop wide body {} mentions)"

fun mention_bindings_loop ::
  "(rune \<Rightarrow> bool) \<Rightarrow> string \<Rightarrow> string set \<Rightarrow> mention_binding list \<Rightarrow> go_error option outcome" where
  "mention_bindings_loop wide body seen [] = Done None"
| "mention_bindings_loop wide body seen (b # bs) =
     first_error
       [token_check wide body (mb_token b),
        check (mb_token b \<in> seen) (Plain ''mention token is duplicated''),
        check (mb_bot b \<noteq> is_zero (mb_sender_ref b)) (Plain ''mention binding is invalid''),
        mention_bindings_loop wide body (insert (mb_token b) seen) bs]"

definition validate_mention_bindings ::
  "(rune \<Rightarrow> bool) \<Rightarrow> string \<Rightarrow> mention_binding list \<Rightarrow> go_error option outcome" where
  "validate_mention_bindings wide body mentions =
    (if length mentions > max_mentions then Done (Some (Plain ''mentions exceed 128''))
     else mention_bindings_loop wide body {} mentions)"

definition text_error :: go_error where
  "text_error = Plain ''text must be non-empty valid UTF-8 within 32768 bytes''"

definition bad_text :: "nat \<Rightarrow> string \<Rightarrow> bool" where
  "bad_text limit s \<longleftrightarrow> s = [] \<or> \<not> valid_utf8 s \<or> length s > limit"

definition candidate_validate :: "(rune \<Rightarrow> bool) \<Rightarrow> incoming_candidate \<Rightarrow> go_error option outcome"
  where "candidate_validate wide c = first_error
    [check (is_zero (cand_tenant_id c) \<or> is_zero (cand_account_id c))
       (Plain ''tenant and account IDs are required''),
     check (trim_space (cand_provider_message_id c) = [] \<or> length (cand_provider_message_id c) > 512)
       (Plain ''provider message ID is invalid''),
     check (length (cand_quoted_message_id c) > 512)
       (Plain ''provider quoted message ID is invalid''),
     check (length (cand_quoted_message_json c) > max_raw_quoted_message_bytes
         \<or> (length (cand_quoted_message_json c) > 0
            \<and> (trim_space (cand_quoted_message_id c) = [] \<or> \<not> json_valid (cand_quoted_message_json c))))
       (Plain ''provider quoted message payload is invalid''),
     check (length (cand_media_json c) > max_raw_quoted_message_bytes
         \<or> (length (cand_media_json c) > 0 \<and> \<not> json_valid (cand_media_json c)))
       (Plain ''provider media payload is invalid''),
     check (cand_quoted_from_me c \<noteq> None \<and> length (cand_quoted_message_json c) = 0)
       (Plain ''provider quoted message origin has no payload''),
     check (trim_space (cand_chat_address c) = [] \<or> length (cand_chat_address c) > 512)
       (Plain ''provider chat address is invalid''),
     check (is_zero (cand_sender_lid c)) (Plain ''sender LID is required''),
     check (length (cand_sender_phone c) > 512) (Plain ''provider sender phone alias is invalid''),
     check (\<not> known_chat_kind (cand_chat_kind c)) (Plain ''chat kind is invalid''),
     check (bad_text max_text_bytes (cand_text c)) text_error,
     validate_incoming_mentions wide (cand_text c) (cand_mentions c),
     check (\<not> valid_utf8 (cand_sender_name c) \<or> length (cand_sender_name c) > 512)
       (Plain ''sender name is invalid''),
     check (cand_sender_is_super_admin c \<and> \<not> cand_sender_is_admin c)
       (Plain ''superadmin sender must also be an admin''),
     check (cand_chat_kind c \<noteq> ChatGroup \<and> (cand_sender_is_admin c \<or> cand_sender_is_super_admin c))
       (Plain ''non-group sender cannot have a group admin role''),
     check (cand_occurred_at c = 0 \<or> cand_received_at c = 0) (Plain ''timestamps are required'')]"

datatype quote_role = QuoteUser | QuoteAssistant | QuoteRoleOther nat

record quoted_message =
  qm_sequence :: nat
  qm_id :: message_id
  qm_role :: quote_role
  qm_sender_ref :: sender_ref
  qm_sender_is_admin :: bool
  qm_sender_is_super_admin :: bool
  qm_text :: string
  qm_mentions :: "mention_binding list"

record incoming_message =
  im_id :: message_id
  im_invocation_id :: invocation_id
  im_causation_id :: causation_id
  im_tenant_id :: tenant_id
  im_account_id :: account_id
  im_chat_id :: chat_id
  im_sender_id :: participant_id
  im_sender_lid :: lid
  im_sender_ref :: sender_ref
  im_sender_name :: string
  im_sender_is_admin :: bool
  im_sender_is_super_admin :: bool
  im_chat_kind :: chat_kind
  im_text :: string
  im_mentions :: "mention_binding list"
  im_quote :: "quoted_message option"
  im_replied_to_bot :: bool
  im_mentions_bot :: bool
  im_from_me :: bool
  im_owner :: bool
  im_allowlisted :: bool
  im_occurred_at :: instant
  im_received_at :: instant

text \<open>The checks of a quote, in the order \<open>IncomingMessage.Validate\<close> makes them.\<close>

definition quote_validate :: "(rune \<Rightarrow> bool) \<Rightarrow> quoted_message \<Rightarrow> go_error option outcome" where
  "quote_validate wide q = first_error
    [check (is_zero (qm_id q) \<or> (qm_role q \<noteq> QuoteUser \<and> qm_role q \<noteq> QuoteAssistant)
         \<or> bad_text max_text_bytes (qm_text q))
       (Plain ''quoted message is invalid''),
     check (qm_role q = QuoteUser \<and> is_zero (qm_sender_ref q))
       (Plain ''quoted user sender ref is required''),
     check (qm_role q = QuoteAssistant \<and> \<not> is_zero (qm_sender_ref q))
       (Plain ''quoted assistant must not have a sender ref''),
     check (qm_role q = QuoteAssistant \<and> qm_mentions q \<noteq> [])
       (Plain ''quoted assistant must not carry raw mention bindings''),
     check (qm_sender_is_super_admin q \<and> \<not> qm_sender_is_admin q)
       (Plain ''quoted superadmin must also be an admin''),
     check (qm_role q = QuoteAssistant \<and> (qm_sender_is_admin q \<or> qm_sender_is_super_admin q))
       (Plain ''assistant quote cannot have a group admin role''),
     map_error (Wrapped ''quoted message: '')
       (validate_mention_bindings wide (qm_text q) (qm_mentions q))]"

definition message_validate :: "(rune \<Rightarrow> bool) \<Rightarrow> incoming_message \<Rightarrow> go_error option outcome" where
  "message_validate wide m = first_error
    [check (is_zero (im_id m) \<or> is_zero (im_invocation_id m) \<or> is_zero (im_causation_id m)
         \<or> is_zero (im_tenant_id m) \<or> is_zero (im_account_id m) \<or> is_zero (im_chat_id m)
         \<or> is_zero (im_sender_id m) \<or> is_zero (im_sender_lid m) \<or> is_zero (im_sender_ref m))
       (Plain ''canonical message identities are required''),
     check (\<not> known_chat_kind (im_chat_kind m)) (Plain ''chat kind is invalid''),
     check (bad_text max_text_bytes (im_text m)) text_error,
     validate_mention_bindings wide (im_text m) (im_mentions m),
     check (\<not> valid_utf8 (im_sender_name m) \<or> length (im_sender_name m) > 512)
       (Plain ''sender name is invalid''),
     check (im_sender_is_super_admin m \<and> \<not> im_sender_is_admin m)
       (Plain ''superadmin sender must also be an admin''),
     check (im_chat_kind m \<noteq> ChatGroup \<and> (im_sender_is_admin m \<or> im_sender_is_super_admin m))
       (Plain ''non-group sender cannot have a group admin role''),
     (case im_quote m of None \<Rightarrow> Done None | Some q \<Rightarrow> quote_validate wide q),
     check (im_replied_to_bot m \<noteq>
         (case im_quote m of None \<Rightarrow> False | Some q \<Rightarrow> qm_role q = QuoteAssistant))
       (Plain ''replied-to-bot marker does not match quote''),
     check (im_occurred_at m = 0 \<or> im_received_at m = 0) (Plain ''timestamps are required'')]"

definition message_agent_key :: "incoming_message \<Rightarrow> tenant_id \<times> account_id \<times> chat_id" where
  "message_agent_key m = (im_tenant_id m, im_account_id m, im_chat_id m)"

subsection \<open>What validation gives\<close>

lemma token_check_ok:
  assumes "token_check wide body t = Done None"
  shows "valid_token t \<and> (\<exists>start. mention_at wide body t start)"
proof -
  from assms have "valid_token t" and "contains wide body t = Done True"
    by (auto simp: token_check_def Let_def split: if_splits outcome.splits)
  with contains_from_sound[of t wide body 0 True] show ?thesis
    by (auto simp: contains_def)
qed

lemma mention_bindings_loop_ok:
  assumes "mention_bindings_loop wide body seen bs = Done None"
  shows "distinct (map mb_token bs) \<and> set (map mb_token bs) \<inter> seen = {} \<and>
    (\<forall>b \<in> set bs. (\<exists>start. mention_at wide body (mb_token b) start)
       \<and> mb_bot b = is_zero (mb_sender_ref b))"
  using assms
proof (induction wide body seen bs rule: mention_bindings_loop.induct)
  case (1 wide body seen)
  then show ?case by simp
next
  case (2 wide body seen b bs)
  then have "token_check wide body (mb_token b) = Done None" by simp
  with 2 token_check_ok[OF this] show ?case by auto
qed

lemma validate_mention_bindings_ok:
  assumes "validate_mention_bindings wide body bs = Done None"
  shows "length bs \<le> 128 \<and> distinct (map mb_token bs) \<and>
    (\<forall>b \<in> set bs. (\<exists>start. mention_at wide body (mb_token b) start)
       \<and> mb_bot b = is_zero (mb_sender_ref b))"
  using assms mention_bindings_loop_ok[of wide body "{}" bs]
  by (auto simp: validate_mention_bindings_def max_mentions_def max_bindings_def split: if_splits)


definition sample_message :: incoming_message where
  "sample_message = \<lparr>im_id = Ident ''m1'', im_invocation_id = Ident ''i1'',
     im_causation_id = Ident ''c1'', im_tenant_id = Ident ''t1'', im_account_id = Ident ''a1'',
     im_chat_id = Ident ''h1'', im_sender_id = Ident ''p1'', im_sender_lid = Ident ''1@lid'',
     im_sender_ref = Ident ''abc123'', im_sender_name = ''Alice'', im_sender_is_admin = True,
     im_sender_is_super_admin = False, im_chat_kind = ChatGroup, im_text = ''hi @12 there'',
     im_mentions = [\<lparr>mb_token = ''@12'', mb_sender_ref = Ident ''xyz789'', mb_bot = False\<rparr>],
     im_quote = None, im_replied_to_bot = False, im_mentions_bot = False, im_from_me = False,
     im_owner = False, im_allowlisted = True, im_occurred_at = 5, im_received_at = 6\<rparr>"

lemma sample_message_mention: "contains (\<lambda>_. False) ''hi @12 there'' ''@12'' = Done True"
  by code_simp

lemma sample_message_valid: "message_validate (\<lambda>_. False) sample_message = Done None"
  by (simp add: message_validate_def sample_message_def is_zero_def known_chat_kind_def bad_text_def
    valid_utf8_ascii ascii_char_def bval_def max_text_bytes_def validate_mention_bindings_def
    max_mentions_def max_bindings_def token_check_def valid_token_def max_token_digits_def
    digit_char_def sample_message_mention)


text \<open>
  A message validator can panic, and only through a mention: a message without bindings,
  and whose quote has none, is always either accepted or refused with an error.
\<close>
theorem message_validate_panic_only_by_mention:
  assumes "im_mentions m = []" and "\<forall>q. im_quote m = Some q \<longrightarrow> qm_mentions q = []"
  shows "message_validate wide m \<noteq> Panic"
proof
  have quoted: "quote_validate wide q \<noteq> Panic" if "im_quote m = Some q" for q
    using assms(2) that first_error_Panic[of "[_, _, _, _, _, _, _]"]
    by (auto simp: quote_validate_def validate_mention_bindings_def max_mentions_def
      dest!: first_error_Panic)
  assume "message_validate wide m = Panic"
  with assms(1) quoted show False
    by (auto simp: message_validate_def validate_mention_bindings_def max_mentions_def
      dest!: first_error_Panic split: option.splits)
qed

theorem message_validate_panic_only_by_mention_witness:
  "message_validate (\<lambda>_. False) (sample_message\<lparr>im_mentions := []\<rparr>) \<noteq> Panic"
  by (rule message_validate_panic_only_by_mention) (simp_all add: sample_message_def)

end
