(* ===== verification/PermissionDSL.thy ===== *)
theory PermissionDSL
  imports AgentErrors
begin

text \<open>
  The permission language of command descriptors (\<open>internal/policy/permission.go\<close>): its
  tokenizer, the recursive-descent parser that evaluates while it parses, and the atoms. The
  parser's index into the token slice is the list of tokens still to read; reading past the last
  one gives the end-of-input token, as the code's \<open>peek\<close> does. Messages that quote a token with
  \<open>%q\<close> carry it unquoted.
\<close>

record permission_facts =
  pf_is_owner :: bool
  pf_is_admin :: bool
  pf_bot_is_admin :: bool
  pf_is_group :: bool
  pf_is_private :: bool
  pf_from_me :: bool

definition zero_facts :: permission_facts where
  "zero_facts = \<lparr>pf_is_owner = False, pf_is_admin = False, pf_bot_is_admin = False,
     pf_is_group = False, pf_is_private = False, pf_from_me = False\<rparr>"

datatype token_kind =
  PermissionEOF | PermissionAtom | PermissionAnd | PermissionOr | PermissionNot
  | PermissionOpen | PermissionClose

datatype perm_token = Token (tok_kind: token_kind) (tok_text: string)

subsection \<open>Tokens\<close>

definition identifier_start :: "rune \<Rightarrow> bool" where
  "identifier_start r \<longleftrightarrow>
     r = 0x5F \<or> (r < 0x80 \<and> ((0x61 \<le> r \<and> r \<le> 0x7A) \<or> (0x41 \<le> r \<and> r \<le> 0x5A)))"

definition identifier_part :: "rune \<Rightarrow> bool" where
  "identifier_part r \<longleftrightarrow> identifier_start r \<or> (0x30 \<le> r \<and> r \<le> 0x39) \<or> r = 0x2D"

definition utf8_error :: go_error where
  "utf8_error = Plain ''permission expression contains invalid UTF-8''"

text \<open>The inner loop: the identifier read so far and the bytes after it.\<close>

function scan_identifier :: "string \<Rightarrow> string \<Rightarrow> go_error + string \<times> string" where
  "scan_identifier acc s =
    (if s = [] then Inr (acc, [])
     else if decode_rune s = (rune_error, 1) then Inl utf8_error
     else if \<not> identifier_part (fst (decode_rune s)) then Inr (acc, s)
     else scan_identifier (acc @ take (snd (decode_rune s)) s) (drop (snd (decode_rune s)) s))"
  by pat_completeness auto
termination
  by (relation "measure (length \<circ> snd)") (use decode_rune_width in \<open>fastforce dest: Suc_le_lessD\<close>)+

declare scan_identifier.simps [simp del]

lemma scan_identifier_length:
  "scan_identifier acc s = Inr (name, rest) \<Longrightarrow> length rest \<le> length s"
proof (induction acc s rule: scan_identifier.induct)
  case (1 acc s)
  then show ?case
    by (subst (asm) (2) scan_identifier.simps) (fastforce split: if_splits)
qed

text \<open>Identifiers are ASCII, where \<open>strings.ToLower\<close> works byte by byte.\<close>

definition identifier_token :: "string \<Rightarrow> perm_token" where
  "identifier_token name = (let lower = map ascii_lower name in
     if lower = ''and'' then Token PermissionAnd name
     else if lower = ''or'' then Token PermissionOr name
     else Token PermissionAtom name)"

lemma tokenize_shrinks:
  assumes "s \<noteq> []" and "(r, width) = decode_rune s"
  shows "length s - width < length s" and "n \<le> length s - width \<Longrightarrow> n < length s"
  using decode_rune_width[OF assms(1)] assms(2)[symmetric] by auto

function tokenize_from :: "string \<Rightarrow> go_error + perm_token list" where
  "tokenize_from s =
    (if s = [] then Inr [Token PermissionEOF []]
     else let (r, width) = decode_rune s; rest = drop width s in
       if r = rune_error \<and> width = 1 then Inl utf8_error
       else if is_space r then tokenize_from rest
       else if r = 0x21 then map_sum id ((#) (Token PermissionNot ''!'')) (tokenize_from rest)
       else if r = 0x28 then map_sum id ((#) (Token PermissionOpen ''('')) (tokenize_from rest)
       else if r = 0x29 then map_sum id ((#) (Token PermissionClose '')'')) (tokenize_from rest)
       else if identifier_start r then
         (case scan_identifier (take width s) rest of
            Inl e \<Rightarrow> Inl e
          | Inr (name, after) \<Rightarrow> map_sum id ((#) (identifier_token name)) (tokenize_from after))
       else Inl (Plain ''invalid character in permission expression''))"
  by pat_completeness auto
termination
  by (relation "measure length")
    (auto dest!: scan_identifier_length intro: tokenize_shrinks)

declare tokenize_from.simps [simp del]

definition tokenize_permission :: "string \<Rightarrow> go_error + perm_token list" where
  "tokenize_permission expression = tokenize_from expression"

subsection \<open>Parsing\<close>

definition resolve_permission_atom :: "string \<Rightarrow> permission_facts \<Rightarrow> go_error + bool" where
  "resolve_permission_atom name facts = (let lower = map ascii_lower name in
     if lower = ''public'' then Inr True
     else if lower \<in> {''owner'', ''isowner''} then Inr (pf_is_owner facts)
     else if lower \<in> {''admin'', ''isadmin'', ''senderisadmin'', ''sender_is_admin'', ''sender-is-admin''}
     then Inr (pf_is_admin facts)
     else if lower \<in> {''group'', ''isgroup''} then Inr (pf_is_group facts)
     else if lower \<in> {''private'', ''isprivate''} then Inr (pf_is_private facts)
     else if lower \<in> {''from_me'', ''fromme'', ''from-me''} then Inr (pf_from_me facts)
     else Inl (Plain (''unknown permission atom '' @ name)))"

definition peek :: "perm_token list \<Rightarrow> perm_token" where
  "peek ts = (case ts of [] \<Rightarrow> Token PermissionEOF [] | t # _ \<Rightarrow> t)"

text \<open>Taking a token leaves \<open>tl ts\<close>, which is empty once the tokens are used up.\<close>

function parse_or :: "permission_facts \<Rightarrow> perm_token list \<Rightarrow> go_error + bool \<times> perm_token list"
  and or_loop :: "permission_facts \<Rightarrow> bool \<Rightarrow> perm_token list \<Rightarrow> go_error + bool \<times> perm_token list"
  and parse_and :: "permission_facts \<Rightarrow> perm_token list \<Rightarrow> go_error + bool \<times> perm_token list"
  and and_loop :: "permission_facts \<Rightarrow> bool \<Rightarrow> perm_token list \<Rightarrow> go_error + bool \<times> perm_token list"
  and parse_unary :: "permission_facts \<Rightarrow> perm_token list \<Rightarrow> go_error + bool \<times> perm_token list"
  and parse_primary :: "permission_facts \<Rightarrow> perm_token list \<Rightarrow> go_error + bool \<times> perm_token list"
where
  "parse_or facts ts = (case parse_and facts ts of
     Inl e \<Rightarrow> Inl e | Inr (v, rest) \<Rightarrow> or_loop facts v rest)"
| "or_loop facts v ts =
     (if tok_kind (peek ts) = PermissionOr
      then (case parse_and facts (tl ts) of
        Inl e \<Rightarrow> Inl e | Inr (right, rest) \<Rightarrow> or_loop facts (v \<or> right) rest)
      else Inr (v, ts))"
| "parse_and facts ts = (case parse_unary facts ts of
     Inl e \<Rightarrow> Inl e | Inr (v, rest) \<Rightarrow> and_loop facts v rest)"
| "and_loop facts v ts =
     (if tok_kind (peek ts) = PermissionAnd
      then (case parse_unary facts (tl ts) of
        Inl e \<Rightarrow> Inl e | Inr (right, rest) \<Rightarrow> and_loop facts (v \<and> right) rest)
      else Inr (v, ts))"
| "parse_unary facts ts =
     (if tok_kind (peek ts) = PermissionNot
      then (case parse_unary facts (tl ts) of Inl e \<Rightarrow> Inl e | Inr (v, rest) \<Rightarrow> Inr (\<not> v, rest))
      else parse_primary facts ts)"
| "parse_primary facts ts =
     (case tok_kind (peek ts) of
        PermissionAtom \<Rightarrow> map_sum id (\<lambda>v. (v, tl ts)) (resolve_permission_atom (tok_text (peek ts)) facts)
      | PermissionOpen \<Rightarrow> (case parse_or facts (tl ts) of
          Inl e \<Rightarrow> Inl e
        | Inr (v, rest) \<Rightarrow>
            if tok_kind (peek rest) = PermissionClose then Inr (v, tl rest)
            else if tok_kind (peek rest) = PermissionEOF
            then Inl (Plain ''missing closing parenthesis'')
            else Inl (Plain (''expected closing parenthesis, got '' @ tok_text (peek rest))))
      | PermissionEOF \<Rightarrow> Inl (Plain ''permission expression is empty or incomplete'')
      | PermissionClose \<Rightarrow> Inl (Plain ''unexpected closing parenthesis'')
      | PermissionAnd \<Rightarrow> Inl (Plain (''unexpected operator '' @ tok_text (peek ts)))
      | PermissionOr \<Rightarrow> Inl (Plain (''unexpected operator '' @ tok_text (peek ts)))
      | PermissionNot \<Rightarrow> Inl (Plain (''unexpected permission token '' @ tok_text (peek ts))))"
  by pat_completeness auto

lemma peek_not_eof: "tok_kind (peek ts) \<noteq> PermissionEOF \<Longrightarrow> length ts - 1 < length ts"
  by (cases ts) (simp_all add: peek_def)

text \<open>
  Every parser but the two loops uses up a token when it succeeds, so the tokens left and the
  level of the grammar decrease through every call.
\<close>

lemma parse_shrinks:
  "parse_or_or_loop_parse_and_and_loop_parse_unary_parse_primary_dom (Inl (Inl (facts, ts))) \<Longrightarrow>
    (\<forall>v rest. parse_or facts ts = Inr (v, rest) \<longrightarrow> length rest < length ts)"
  "parse_or_or_loop_parse_and_and_loop_parse_unary_parse_primary_dom (Inl (Inr (Inl (facts, b, ts)))) \<Longrightarrow>
    (\<forall>v rest. or_loop facts b ts = Inr (v, rest) \<longrightarrow> length rest \<le> length ts)"
  "parse_or_or_loop_parse_and_and_loop_parse_unary_parse_primary_dom (Inl (Inr (Inr (facts, ts)))) \<Longrightarrow>
    (\<forall>v rest. parse_and facts ts = Inr (v, rest) \<longrightarrow> length rest < length ts)"
  "parse_or_or_loop_parse_and_and_loop_parse_unary_parse_primary_dom (Inr (Inl (facts, b, ts))) \<Longrightarrow>
    (\<forall>v rest. and_loop facts b ts = Inr (v, rest) \<longrightarrow> length rest \<le> length ts)"
  "parse_or_or_loop_parse_and_and_loop_parse_unary_parse_primary_dom (Inr (Inr (Inl (facts, ts)))) \<Longrightarrow>
    (\<forall>v rest. parse_unary facts ts = Inr (v, rest) \<longrightarrow> length rest < length ts)"
  "parse_or_or_loop_parse_and_and_loop_parse_unary_parse_primary_dom (Inr (Inr (Inr (facts, ts)))) \<Longrightarrow>
    (\<forall>v rest. parse_primary facts ts = Inr (v, rest) \<longrightarrow> length rest < length ts)"
proof (induction rule: parse_or_or_loop_parse_and_and_loop_parse_unary_parse_primary.pinduct)
  case (1 facts ts)
  then show ?case by (fastforce simp: parse_or.psimps split: sum.splits)
next
  case (2 facts v ts)
  then show ?case using peek_not_eof[of ts]
    by (fastforce simp: or_loop.psimps split: sum.splits if_splits)
next
  case (3 facts ts)
  then show ?case by (fastforce simp: parse_and.psimps split: sum.splits)
next
  case (4 facts v ts)
  then show ?case using peek_not_eof[of ts]
    by (fastforce simp: and_loop.psimps split: sum.splits if_splits)
next
  case (5 facts ts)
  then show ?case using peek_not_eof[of ts]
    by (fastforce simp: parse_unary.psimps split: sum.splits if_splits)
next
  case (6 facts ts)
  have shorter: "length rest < length ts"
    if "length rest \<le> length ts - 1" "tok_kind (peek ts) \<noteq> PermissionEOF" for rest :: "perm_token list"
    using that peek_not_eof[of ts] by simp
  have close: "length (tl r) \<le> length ts - 1" if "length r < length ts - 1" for r :: "perm_token list"
    using that by simp
  from 6 show ?case
    by (cases "tok_kind (peek ts)")
      (auto simp: parse_primary.psimps map_sum_def peek_not_eof[simplified] split: sum.splits if_splits intro!: shorter close)
qed

termination parse_or
proof (relation "measures
    [\<lambda>x. case x of Inl (Inl (_, ts)) \<Rightarrow> length ts | Inl (Inr (Inl (_, _, ts))) \<Rightarrow> length ts
       | Inl (Inr (Inr (_, ts))) \<Rightarrow> length ts | Inr (Inl (_, _, ts)) \<Rightarrow> length ts
       | Inr (Inr (Inl (_, ts))) \<Rightarrow> length ts | Inr (Inr (Inr (_, ts))) \<Rightarrow> length ts,
     \<lambda>x. case x of Inl (Inl _) \<Rightarrow> 3 | Inl (Inr (Inl _)) \<Rightarrow> 4 | Inl (Inr (Inr _)) \<Rightarrow> 2
       | Inr (Inl _) \<Rightarrow> 3 | Inr (Inr (Inl _)) \<Rightarrow> 1 | Inr (Inr (Inr _)) \<Rightarrow> 0]", goal_cases)
  case 1
  show ?case by simp
qed (auto dest: parse_shrinks simp: peek_not_eof[simplified])

declare parse_or.simps [simp del] or_loop.simps [simp del] parse_and.simps [simp del]
  and_loop.simps [simp del] parse_unary.simps [simp del] parse_primary.simps [simp del]

definition evaluate_permission :: "string \<Rightarrow> permission_facts \<Rightarrow> go_error + bool" where
  "evaluate_permission expression facts = (case tokenize_permission expression of
     Inl e \<Rightarrow> Inl e
   | Inr ts \<Rightarrow>
       (case parse_or facts ts of
          Inl e \<Rightarrow> Inl e
        | Inr (v, rest) \<Rightarrow>
            if tok_kind (peek rest) \<noteq> PermissionEOF
            then Inl (Plain (''unexpected token '' @ tok_text (peek rest))) else Inr v))"

definition validate_permission :: "string \<Rightarrow> go_error option" where
  "validate_permission expression =
    (case evaluate_permission expression zero_facts of Inl e \<Rightarrow> Some e | Inr _ \<Rightarrow> None)"

subsection \<open>The facts decide values, never errors\<close>

definition same_reading :: "go_error + 'a \<times> perm_token list \<Rightarrow> go_error + 'a \<times> perm_token list \<Rightarrow> bool"
  where "same_reading p q \<longleftrightarrow> map_sum id snd p = map_sum id snd q"

lemma same_reading_simps [simp]:
  "same_reading (Inl e) (Inl e') \<longleftrightarrow> e = e'" "same_reading (Inr (a, ts)) (Inr (b, us)) \<longleftrightarrow> ts = us"
  "\<not> same_reading (Inl e) (Inr x)" "\<not> same_reading (Inr x) (Inl e)"
  by (simp_all add: same_reading_def)

lemma same_reading_cases:
  assumes "same_reading p q"
  obtains e where "p = Inl e" "q = Inl e" | a b ts where "p = Inr (a, ts)" "q = Inr (b, ts)"
  using assms by (cases p; cases q) (auto simp: same_reading_def)

lemma resolve_atom_same_error:
  "map_sum id (\<lambda>_. ()) (resolve_permission_atom name f) =
   map_sum id (\<lambda>_. ()) (resolve_permission_atom name g)"
  by (simp add: resolve_permission_atom_def Let_def)

lemma parse_same_reading:
  "same_reading (parse_or f ts) (parse_or g ts)"
  "\<forall>w. same_reading (or_loop f v ts) (or_loop g w ts)"
  "same_reading (parse_and f ts) (parse_and g ts)"
  "\<forall>w. same_reading (and_loop f v ts) (and_loop g w ts)"
  "same_reading (parse_unary f ts) (parse_unary g ts)"
  "same_reading (parse_primary f ts) (parse_primary g ts)"
proof (induction f ts and f v ts and f ts and f v ts and f ts and f ts
    rule: parse_or_or_loop_parse_and_and_loop_parse_unary_parse_primary.induct)
  case (1 f ts)
  from 1(1) show ?case
    by (rule same_reading_cases) (use 1(2) in \<open>auto simp: parse_or.simps[of _ ts]\<close>)
next
  case (2 f v ts)
  show ?case
  proof (cases "tok_kind (peek ts) = PermissionOr")
    case True
    from 2(1)[OF True] show ?thesis
      by (rule same_reading_cases) (use 2(2)[OF True] True in \<open>auto simp: or_loop.simps[of _ _ ts]\<close>)
  qed (simp add: or_loop.simps[of _ _ ts])
next
  case (3 f ts)
  from 3(1) show ?case
    by (rule same_reading_cases) (use 3(2) in \<open>auto simp: parse_and.simps[of _ ts]\<close>)
next
  case (4 f v ts)
  show ?case
  proof (cases "tok_kind (peek ts) = PermissionAnd")
    case True
    from 4(1)[OF True] show ?thesis
      by (rule same_reading_cases) (use 4(2)[OF True] True in \<open>auto simp: and_loop.simps[of _ _ ts]\<close>)
  qed (simp add: and_loop.simps[of _ _ ts])
next
  case (5 f ts)
  show ?case
  proof (cases "tok_kind (peek ts) = PermissionNot")
    case True
    from 5(1)[OF True] show ?thesis
      by (rule same_reading_cases) (simp_all add: parse_unary.simps[of _ ts] True)
  next
    case False
    with 5(2) show ?thesis by (simp add: parse_unary.simps[of _ ts])
  qed
next
  case (6 f ts)
  show ?case
  proof (cases "tok_kind (peek ts)")
    case PermissionAtom
    with resolve_atom_same_error[of "tok_text (peek ts)" f g] show ?thesis
      by (cases "resolve_permission_atom (tok_text (peek ts)) f";
          cases "resolve_permission_atom (tok_text (peek ts)) g")
        (simp_all add: parse_primary.simps[of _ ts])
  next
    case PermissionOpen
    from 6(1)[OF PermissionOpen] show ?thesis
      by (rule same_reading_cases) (simp_all add: parse_primary.simps[of _ ts] PermissionOpen)
  qed (simp_all add: parse_primary.simps[of _ ts])
qed

text \<open>
  C23: a permission expression that passes the check a command's registration runs never fails
  when it is evaluated, and one that fails the check fails with the same error whatever the facts
  are; so whether a registered command's permission evaluates does not depend on the caller.
\<close>
theorem validate_permission_decides_errors:
  "(case evaluate_permission expression facts of Inl e \<Rightarrow> Some e | Inr _ \<Rightarrow> None) =
   validate_permission expression"
proof (cases "tokenize_permission expression")
  case (Inl e)
  then show ?thesis by (simp add: validate_permission_def evaluate_permission_def)
next
  case (Inr ts)
  have "same_reading (parse_or facts ts) (parse_or zero_facts ts)" by (rule parse_same_reading)
  then show ?thesis
    by (rule same_reading_cases) (simp_all add: validate_permission_def evaluate_permission_def Inr)
qed

subsection \<open>Printing and reading back\<close>

datatype perm_expr = PAtom string | PNot perm_expr | PAnd perm_expr perm_expr | POr perm_expr perm_expr

definition known_atoms :: "string set" where
  "known_atoms = {''public'', ''owner'', ''isowner'', ''admin'', ''isadmin'', ''senderisadmin'',
     ''sender_is_admin'', ''sender-is-admin'', ''group'', ''isgroup'', ''private'', ''isprivate'',
     ''from_me'', ''fromme'', ''from-me''}"

fun known_expr :: "perm_expr \<Rightarrow> bool" where
  "known_expr (PAtom n) \<longleftrightarrow> n \<in> known_atoms"
| "known_expr (PNot e) \<longleftrightarrow> known_expr e"
| "known_expr (PAnd a b) \<longleftrightarrow> known_expr a \<and> known_expr b"
| "known_expr (POr a b) \<longleftrightarrow> known_expr a \<and> known_expr b"

fun expr_value :: "permission_facts \<Rightarrow> perm_expr \<Rightarrow> bool" where
  "expr_value f (PAtom n) = (case resolve_permission_atom n f of Inl _ \<Rightarrow> False | Inr v \<Rightarrow> v)"
| "expr_value f (PNot e) = (\<not> expr_value f e)"
| "expr_value f (PAnd a b) = (expr_value f a \<and> expr_value f b)"
| "expr_value f (POr a b) = (expr_value f a \<or> expr_value f b)"

text \<open>
  An expression's tokens at the three levels of the grammar (0: or, 1: and, 2: unary), in
  parentheses where its operator binds weaker than the level.
\<close>

fun show_at :: "nat \<Rightarrow> perm_expr \<Rightarrow> perm_token list" where
  "show_at level (PAtom n) = [Token PermissionAtom n]"
| "show_at level (PNot e) = Token PermissionNot ''!'' # show_at 2 e"
| "show_at level (PAnd a b) =
     (let ts = show_at 1 a @ Token PermissionAnd ''and'' # show_at 2 b in
      if level \<le> 1 then ts else Token PermissionOpen ''('' # ts @ [Token PermissionClose '')''])"
| "show_at level (POr a b) =
     (let ts = show_at 0 a @ Token PermissionOr ''or'' # show_at 1 b in
      if level = 0 then ts else Token PermissionOpen ''('' # ts @ [Token PermissionClose '')''])"

definition print_tokens :: "perm_token list \<Rightarrow> string" where
  "print_tokens ts = concat (map (\<lambda>t. tok_text t @ '' '') ts)"

definition print_expr :: "perm_expr \<Rightarrow> string" where
  "print_expr e = print_tokens (show_at 0 e)"

lemma peek_Cons [simp]: "peek (t # ts) = t"
  by (simp add: peek_def)

lemma known_atom_resolves:
  "n \<in> known_atoms \<Longrightarrow> \<exists>v. resolve_permission_atom n f = Inr v"
  by (auto simp: known_atoms_def resolve_permission_atom_def ascii_lower_def upper_char_def bval_def)

lemma loops_stop [simp]:
  "tok_kind (peek ts) \<noteq> PermissionOr \<Longrightarrow> or_loop f v ts = Inr (v, ts)"
  "tok_kind (peek ts) \<noteq> PermissionAnd \<Longrightarrow> and_loop f v ts = Inr (v, ts)"
  by (simp_all add: or_loop.simps and_loop.simps)

text \<open>What each level of the parser makes of an expression shown at that level.\<close>

definition reads_back :: "permission_facts \<Rightarrow> perm_expr \<Rightarrow> bool" where
  "reads_back f e \<longleftrightarrow> (\<forall>rest.
     (tok_kind (peek rest) \<noteq> PermissionAnd \<longrightarrow>
        parse_or f (show_at 0 e @ rest) = or_loop f (expr_value f e) rest)
   \<and> parse_and f (show_at 1 e @ rest) = and_loop f (expr_value f e) rest
   \<and> parse_unary f (show_at 2 e @ rest) = Inr (expr_value f e, rest))"

lemma reads_back_from_unary:
  assumes "show_at 0 e = show_at 2 e" and "show_at 1 e = show_at 2 e"
    and "\<And>rest. parse_unary f (show_at 2 e @ rest) = Inr (expr_value f e, rest)"
  shows "reads_back f e"
  using assms by (simp add: reads_back_def parse_or.simps parse_and.simps)

lemma parse_parenthesised:
  assumes "\<And>rest. tok_kind (peek rest) \<noteq> PermissionAnd \<Longrightarrow> parse_or f (ts @ rest) = or_loop f v rest"
  shows "parse_unary f (Token PermissionOpen ''('' # ts @ Token PermissionClose '')'' # rest) = Inr (v, rest)"
  by (simp add: parse_unary.simps parse_primary.simps assms)

lemma reads_back_known: "known_expr e \<Longrightarrow> reads_back f e"
proof (induction e)
  case (PAtom n)
  then have "parse_unary f (Token PermissionAtom n # rest) = Inr (expr_value f (PAtom n), rest)" for rest
    using known_atom_resolves[of n f] by (auto simp: parse_unary.simps parse_primary.simps)
  then show ?case by (intro reads_back_from_unary) simp_all
next
  case (PNot e)
  then have "parse_unary f (show_at 2 (PNot e) @ rest) = Inr (expr_value f (PNot e), rest)" for rest
    by (simp add: reads_back_def parse_unary.simps[of _ "Token PermissionNot _ # _"])
  then show ?case by (intro reads_back_from_unary) simp_all
next
  case (PAnd a b)
  then have ab: "reads_back f a" "reads_back f b" by simp_all
  have conj: "parse_and f (show_at 1 (PAnd a b) @ rest) = and_loop f (expr_value f (PAnd a b)) rest" for rest
    using ab by (simp add: reads_back_def and_loop.simps[of _ _ "Token PermissionAnd _ # _"])
  then have disj: "parse_or f (show_at 1 (PAnd a b) @ rest) = or_loop f (expr_value f (PAnd a b)) rest"
    if "tok_kind (peek rest) \<noteq> PermissionAnd" for rest
    using that by (simp add: parse_or.simps)
  have "parse_unary f (show_at 2 (PAnd a b) @ rest) = Inr (expr_value f (PAnd a b), rest)" for rest
    using parse_parenthesised[of f "show_at 1 (PAnd a b)", OF disj, of rest] by (simp add: Let_def)
  with conj disj show ?case by (simp add: reads_back_def Let_def)
next
  case (POr a b)
  then have ab: "reads_back f a" "reads_back f b" by simp_all
  have disj: "parse_or f (show_at 0 (POr a b) @ rest) = or_loop f (expr_value f (POr a b)) rest"
    if "tok_kind (peek rest) \<noteq> PermissionAnd" for rest
    using ab that by (simp add: reads_back_def or_loop.simps[of _ _ "Token PermissionOr _ # _"])
  have unary: "parse_unary f (show_at 2 (POr a b) @ rest) = Inr (expr_value f (POr a b), rest)" for rest
    using parse_parenthesised[of f "show_at 0 (POr a b)", OF disj, of rest] by (simp add: Let_def)
  then have "parse_and f (show_at 1 (POr a b) @ rest) = and_loop f (expr_value f (POr a b)) rest" for rest
    using unary[of rest] by (simp add: parse_and.simps Let_def)
  with disj unary show ?case by (simp add: reads_back_def Let_def)
qed

subsubsection \<open>Tokens of a printed expression\<close>

definition word :: "string \<Rightarrow> bool" where
  "word n \<longleftrightarrow> n \<noteq> [] \<and> list_all ascii_char n \<and> identifier_start (bval (hd n))
     \<and> list_all (\<lambda>c. identifier_part (bval c)) n"

lemma scan_word:
  "list_all (\<lambda>c. ascii_char c \<and> identifier_part (bval c)) n \<Longrightarrow>
    scan_identifier acc (n @ '' '' @ s) = Inr (acc @ n, '' '' @ s)"
proof (induction n arbitrary: acc)
  case Nil
  show ?case
    by (simp add: scan_identifier.simps identifier_part_def identifier_start_def bval_def)
next
  case (Cons c n)
  then have "decode_rune (c # n @ '' '' @ s) = (bval c, 1)" by (simp add: ascii_char_def)
  with Cons show ?case
    by (subst scan_identifier.simps) (simp add: ascii_char_def)
qed

lemma tokenize_space: "tokenize_from ('' '' @ s) = tokenize_from s"
  by (subst tokenize_from.simps) (simp add: bval_def is_space_def)

lemma tokenize_word:
  assumes "word n"
  shows "tokenize_from (n @ '' '' @ s) = map_sum id ((#) (identifier_token n)) (tokenize_from s)"
proof -
  obtain c cs where n: "n = c # cs" using assms by (cases n) (auto simp: word_def)
  have c: "ascii_char c" "identifier_start (bval c)" using assms by (simp_all add: word_def n)
  then have kind: "\<not> is_space (bval c)" "bval c \<noteq> 0x21" "bval c \<noteq> 0x28" "bval c \<noteq> 0x29" "bval c \<noteq> rune_error"
    by (auto simp: identifier_start_def is_space_def)
  have "list_all (\<lambda>c. ascii_char c \<and> identifier_part (bval c)) cs"
    using assms by (auto simp: word_def n list_all_iff)
  from scan_word[OF this, of "[c]" s] c kind show ?thesis
    by (subst tokenize_from.simps) (simp add: n ascii_char_def tokenize_space[simplified] id_def)
qed

lemma tokenize_symbol:
  "tokenize_from (''!'' @ '' '' @ s) = map_sum id ((#) (Token PermissionNot ''!'')) (tokenize_from s)"
  "tokenize_from (''('' @ '' '' @ s) = map_sum id ((#) (Token PermissionOpen ''('')) (tokenize_from s)"
  "tokenize_from ('')'' @ '' '' @ s) = map_sum id ((#) (Token PermissionClose '')'')) (tokenize_from s)"
  by (subst tokenize_from.simps, simp add: bval_def is_space_def tokenize_space[simplified])+

definition printable :: "perm_token \<Rightarrow> bool" where
  "printable t \<longleftrightarrow> t \<in> {Token PermissionNot ''!'', Token PermissionOpen ''('', Token PermissionClose '')''}
     \<or> (word (tok_text t) \<and> identifier_token (tok_text t) = t)"

lemma tokenize_printed:
  "list_all printable ts \<Longrightarrow> tokenize_from (print_tokens ts) = Inr (ts @ [Token PermissionEOF []])"
proof (induction ts)
  case Nil
  show ?case by (simp add: print_tokens_def tokenize_from.simps)
next
  case (Cons t ts)
  then show ?case
    using tokenize_symbol[of "print_tokens ts"] tokenize_word[of "tok_text t" "print_tokens ts"]
    by (auto simp: printable_def print_tokens_def)
qed

lemma known_atom_printable: "n \<in> known_atoms \<Longrightarrow> printable (Token PermissionAtom n)"
  by (auto simp: known_atoms_def printable_def word_def identifier_token_def identifier_part_def
    identifier_start_def ascii_char_def ascii_lower_def upper_char_def bval_def)

lemma operator_printable: "printable (Token PermissionAnd ''and'')" "printable (Token PermissionOr ''or'')"
  by (simp_all add: printable_def word_def identifier_token_def identifier_part_def
    identifier_start_def ascii_char_def ascii_lower_def upper_char_def bval_def)

lemma symbol_printable [simp]: "printable (Token PermissionNot ''!'')"
  "printable (Token PermissionOpen ''('')" "printable (Token PermissionClose '')'')"
  by (simp_all add: printable_def)

lemma shown_printable: "known_expr e \<Longrightarrow> list_all printable (show_at level e)"
  by (induction level e rule: show_at.induct)
    (auto simp: Let_def known_atom_printable operator_printable)

text \<open>
  C18: precedence and grouping. Writing any expression over the known atoms with as few
  parentheses as the grammar needs (negation binds tightest, then and, then or, both associating
  to the left) and evaluating the text gives the expression's Boolean value, and never an error.
\<close>
theorem evaluate_permission_printed:
  assumes "known_expr e"
  shows "evaluate_permission (print_expr e) facts = Inr (expr_value facts e)"
proof -
  have "tokenize_permission (print_expr e) = Inr (show_at 0 e @ [Token PermissionEOF []])"
    by (simp add: tokenize_permission_def print_expr_def tokenize_printed shown_printable assms)
  moreover have "parse_or facts (show_at 0 e @ [Token PermissionEOF []]) =
      Inr (expr_value facts e, [Token PermissionEOF []])"
    using reads_back_known[OF assms, of facts] by (simp add: reads_back_def)
  ultimately show ?thesis by (simp add: evaluate_permission_def)
qed

theorem evaluate_permission_printed_witness:
  "evaluate_permission (print_expr (PAnd (POr (PAtom ''owner'') (PAtom ''admin'')) (PNot (PAtom ''private''))))
     (zero_facts\<lparr>pf_is_admin := True\<rparr>) = Inr True"
  using evaluate_permission_printed[of "PAnd (POr (PAtom ''owner'') (PAtom ''admin'')) (PNot (PAtom ''private''))"
      "zero_facts\<lparr>pf_is_admin := True\<rparr>"]
  by (simp add: known_atoms_def resolve_permission_atom_def zero_facts_def ascii_lower_def
    upper_char_def bval_def)

end
