(* ===== verification/Policy.thy ===== *)
theory Policy
  imports AgentConfig Conversation PermissionDSL
begin

text \<open>
  Authorization (\<open>internal/policy\<close>): the chat allowlist and owner test of incoming messages
  (\<open>allowlist.go\<close>), principals and what policy may read about them (\<open>principal.go\<close>), and the
  fixed gate that authorizes invocations, sends and effects (\<open>fixed.go\<close>). The stores and the
  smart trigger's judge are calls that pass the world; the gate's own state is the kill switch
  and the remembered judgments.
\<close>

subsection \<open>The allowlist\<close>

definition chat_allowlist_all :: string where
  "chat_allowlist_all = ''*''"

definition chat_allowlist_direct :: string where
  "chat_allowlist_direct = ''*@lid''"

definition chat_allowlist_group :: string where
  "chat_allowlist_group = ''*@g.us''"

definition is_chat_allowlist_wildcard :: "string \<Rightarrow> bool" where
  "is_chat_allowlist_wildcard v \<longleftrightarrow>
     v \<in> {chat_allowlist_all, chat_allowlist_direct, chat_allowlist_group}"

definition chat_allowlist_wildcard_matches :: "string \<Rightarrow> chat_kind \<Rightarrow> bool" where
  "chat_allowlist_wildcard_matches v kind =
    (if v = chat_allowlist_all then kind = ChatDirect \<or> kind = ChatGroup
     else if v = chat_allowlist_direct then kind = ChatDirect
     else if v = chat_allowlist_group then kind = ChatGroup
     else False)"

text \<open>The allowlist is a set of addresses: the keys of the code's map.\<close>

record inbound_gate =
  ig_owner :: string
  ig_allowlist :: "string set"

definition new_inbound_gate :: "string \<Rightarrow> string list \<Rightarrow> go_error + inbound_gate" where
  "new_inbound_gate owner allowlist =
    (let entries = set (filter (\<lambda>a. a \<noteq> []) allowlist) in
     if entries = {} then Inl (Plain ''allowlist must fail closed'')
     else Inr \<lparr>ig_owner = owner, ig_allowlist = entries\<rparr>)"

definition gate_allowlist :: "inbound_gate \<Rightarrow> string list" where
  "gate_allowlist gate = sorted_list_of_set (ig_allowlist gate)"

definition gate_is_owner :: "inbound_gate \<Rightarrow> string list \<Rightarrow> bool" where
  "gate_is_owner gate addresses =
    (if ig_owner gate = [] then False else list_ex (\<lambda>a. a = ig_owner gate) addresses)"

definition chat_allowlisted :: "inbound_gate \<Rightarrow> chat_kind \<Rightarrow> string \<Rightarrow> string list \<Rightarrow> bool" where
  "chat_allowlisted gate kind address alternatives =
    (if address \<in> ig_allowlist gate then True
     else if list_ex (\<lambda>w. w \<in> ig_allowlist gate \<and> chat_allowlist_wildcard_matches w kind)
       [chat_allowlist_all, chat_allowlist_direct, chat_allowlist_group] then True
     else if kind = ChatGroup then False
     else list_ex (\<lambda>a. a \<noteq> [] \<and> a \<in> ig_allowlist gate) alternatives)"

text \<open>
  A group is admitted only by its own address or a wildcard: whatever alternative addresses
  its sender has, the verdict on the group is the same.
\<close>
theorem group_alias_never_admits:
  "chat_allowlisted gate ChatGroup address alternatives \<longleftrightarrow>
     address \<in> ig_allowlist gate \<or> chat_allowlist_all \<in> ig_allowlist gate
     \<or> chat_allowlist_group \<in> ig_allowlist gate"
  by (auto simp: chat_allowlisted_def chat_allowlist_wildcard_matches_def chat_allowlist_all_def
    chat_allowlist_direct_def chat_allowlist_group_def)

subsection \<open>Principals\<close>

datatype principal_kind =
  PrincipalHuman | PrincipalModel | PrincipalSystem | PrincipalRecovery | PrincipalOther nat

record principal =
  pr_kind :: principal_kind
  pr_tenant_id :: tenant_id
  pr_account_id :: account_id
  pr_chat_id :: chat_id
  pr_participant_id :: participant_id
  pr_lid :: lid
  pr_invocation_id :: invocation_id

definition principal_key :: "principal \<Rightarrow> agent_key" where
  "principal_key p =
     \<lparr>key_tenant = pr_tenant_id p, key_account = pr_account_id p, key_chat = pr_chat_id p\<rparr>"

definition principal_fail :: "string \<Rightarrow> go_error" where
  "principal_fail msg = errorf ErrorInvalidArgument ''validate principal'' msg"

definition principal_validate :: "principal \<Rightarrow> go_error option" where
  "principal_validate p = (case key_validate (principal_key p) of
     Some e \<Rightarrow> Some (new_error ErrorInvalidArgument ''validate principal'' (Some e))
   | None \<Rightarrow>
       (case pr_kind p of
          PrincipalHuman \<Rightarrow>
            if is_zero (pr_participant_id p) \<or> is_zero (pr_lid p) \<or> \<not> is_zero (pr_invocation_id p)
            then Some (principal_fail ''human principal requires participant and LID only'') else None
        | PrincipalSystem \<Rightarrow>
            if \<not> is_zero (pr_invocation_id p) \<or> \<not> is_zero (pr_participant_id p) \<or> \<not> is_zero (pr_lid p)
            then Some (principal_fail ''system principal must not carry actor identity'') else None
        | PrincipalOther _ \<Rightarrow> Some (principal_fail ''principal kind is invalid'')
        | _ \<Rightarrow>
            if is_zero (pr_invocation_id p) \<or> \<not> is_zero (pr_participant_id p) \<or> \<not> is_zero (pr_lid p)
            then Some (principal_fail ''model and recovery principals require invocation only'')
            else None))"

definition keyed_principal :: "principal_kind \<Rightarrow> agent_key \<Rightarrow> invocation_id \<Rightarrow> principal" where
  "keyed_principal kind key iid = \<lparr>pr_kind = kind, pr_tenant_id = key_tenant key,
     pr_account_id = key_account key, pr_chat_id = key_chat key, pr_participant_id = zero_id,
     pr_lid = zero_id, pr_invocation_id = iid\<rparr>"

text \<open>The message's check can panic (see the Mention theory), so the human principal has an outcome.\<close>

definition human_principal ::
  "(rune \<Rightarrow> bool) \<Rightarrow> incoming_message \<Rightarrow> (go_error + principal) outcome" where
  "human_principal wide m = (case message_validate wide m of
     Panic \<Rightarrow> Panic
   | Done (Some e) \<Rightarrow> Done (Inl (new_error ErrorInvalidArgument ''create human principal'' (Some e)))
   | Done None \<Rightarrow>
       (let p = \<lparr>pr_kind = PrincipalHuman, pr_tenant_id = im_tenant_id m,
          pr_account_id = im_account_id m, pr_chat_id = im_chat_id m,
          pr_participant_id = im_sender_id m, pr_lid = im_sender_lid m, pr_invocation_id = zero_id\<rparr>
        in case principal_validate p of Some e \<Rightarrow> Done (Inl e) | None \<Rightarrow> Done (Inr p)))"

definition model_principal :: "agent_key \<Rightarrow> invocation_id \<Rightarrow> go_error + principal" where
  "model_principal key iid =
    (if key_validate key \<noteq> None \<or> is_zero iid
     then Inl (errorf ErrorInvalidArgument ''create model principal''
       ''valid agent key and invocation ID are required'')
     else Inr (keyed_principal PrincipalModel key iid))"

definition system_principal :: "agent_key \<Rightarrow> go_error + principal" where
  "system_principal key = (case key_validate key of
     Some e \<Rightarrow> Inl e | None \<Rightarrow> Inr (keyed_principal PrincipalSystem key zero_id))"

definition recovery_principal :: "agent_key \<Rightarrow> invocation_id \<Rightarrow> go_error + principal" where
  "recovery_principal key iid =
    (if key_validate key \<noteq> None \<or> is_zero iid
     then Inl (errorf ErrorInvalidArgument ''create recovery principal''
       ''valid agent key and invocation ID are required'')
     else Inr (keyed_principal PrincipalRecovery key iid))"

record human_access =
  ha_chat_kind :: chat_kind
  ha_allowlisted :: bool
  ha_configured_owner :: bool

definition human_access_validate :: "human_access \<Rightarrow> go_error option" where
  "human_access_validate a =
    (if \<not> known_chat_kind (ha_chat_kind a)
     then Some (errorf ErrorInvalidArgument ''validate human access'' ''chat kind is invalid'')
     else if ha_chat_kind a = ChatStatus \<and> (ha_allowlisted a \<or> ha_configured_owner a)
     then Some (errorf ErrorIntegrityFailure ''validate human access''
       ''status chat cannot have access grants'')
     else None)"

record chat_authority =
  ca_chat_kind :: chat_kind
  ca_actor_is_admin :: bool
  ca_bot_is_admin :: bool
  ca_observed_at :: int

definition chat_authority_validate :: "chat_authority \<Rightarrow> go_error option" where
  "chat_authority_validate a =
    (if ca_chat_kind a \<noteq> ChatGroup \<and> ca_chat_kind a \<noteq> ChatDirect
     then Some (errorf ErrorInvalidArgument ''validate chat authority'' ''chat kind is invalid'')
     else if ca_observed_at a \<le> 0
     then Some (errorf ErrorInvalidArgument ''validate chat authority'' ''observation time is required'')
     else if ca_chat_kind a = ChatDirect \<and> (ca_actor_is_admin a \<or> ca_bot_is_admin a)
     then Some (errorf ErrorIntegrityFailure ''validate chat authority''
       ''direct chat cannot claim group authority'')
     else None)"

record effect_authorization =
  ea_key :: agent_key
  ea_principal :: principal
  ea_capability :: capability

definition effect_authorization_validate :: "effect_authorization \<Rightarrow> go_error option" where
  "effect_authorization_validate r = (case key_validate (ea_key r) of
     Some e \<Rightarrow> Some e
   | None \<Rightarrow>
       (case principal_validate (ea_principal r) of
          Some e \<Rightarrow> Some e
        | None \<Rightarrow>
            if principal_key (ea_principal r) \<noteq> ea_key r \<or> \<not> capability_valid (ea_capability r)
            then Some (errorf ErrorInvalidArgument ''validate effect authorization''
              ''principal scope and capability are required'')
            else None))"

lemma keyed_principal_simps [simp]:
  "principal_key (keyed_principal kind key iid) = key"
  "pr_kind (keyed_principal kind key iid) = kind"
  "pr_participant_id (keyed_principal kind key iid) = zero_id"
  "pr_lid (keyed_principal kind key iid) = zero_id"
  "pr_invocation_id (keyed_principal kind key iid) = iid"
  by (simp_all add: keyed_principal_def principal_key_def)

lemma human_principal_valid:
  assumes "human_principal wide m = Done (Inr p)"
  shows "principal_validate p = None \<and> pr_kind p = PrincipalHuman"
  using assms by (auto simp: human_principal_def Let_def split: outcome.splits option.splits)

lemma valid_human_principal:
  "principal_validate p = None \<Longrightarrow> pr_kind p = PrincipalHuman \<Longrightarrow>
    \<not> is_zero (pr_participant_id p) \<and> is_zero (pr_invocation_id p)"
  by (auto simp: principal_validate_def split: option.splits if_splits)

text \<open>
  Minted principals. A principal made for a model or recovery turn, for the system, or from
  an accepted message passes the check every policy decision makes. Those made for a chat belong
  to that chat and never carry a participant; only one made from a message does.
\<close>
theorem minted_principals_valid:
  "p \<in> {p. model_principal key iid = Inr p \<or> recovery_principal key iid = Inr p
          \<or> system_principal key = Inr p} \<union> {p. human_principal wide m = Done (Inr p)} \<Longrightarrow>
   principal_validate p = None
   \<and> (pr_kind p = PrincipalHuman \<longleftrightarrow> \<not> is_zero (pr_participant_id p))
   \<and> (pr_kind p \<noteq> PrincipalHuman \<longrightarrow> principal_key p = key)"
proof -
  assume made: "p \<in> {p. model_principal key iid = Inr p \<or> recovery_principal key iid = Inr p
          \<or> system_principal key = Inr p} \<union> {p. human_principal wide m = Done (Inr p)}"
  show ?thesis
  proof (cases "human_principal wide m = Done (Inr p)")
    case True
    from human_principal_valid[OF this] valid_human_principal show ?thesis by simp
  next
    case False
    with made have "(\<exists>kind. kind \<in> {PrincipalModel, PrincipalRecovery} \<and> \<not> is_zero iid
          \<and> p = keyed_principal kind key iid) \<or> p = keyed_principal PrincipalSystem key zero_id"
      and "key_validate key = None"
      by (auto simp: model_principal_def recovery_principal_def system_principal_def
        split: if_splits option.splits)
    then show ?thesis by (auto simp: principal_validate_def)
  qed
qed

theorem minted_principals_valid_witness:
  "principal_validate (keyed_principal PrincipalModel sample_key (Ident ''i1'')) = None
   \<and> principal_key (keyed_principal PrincipalModel sample_key (Ident ''i1'')) = sample_key"
  using minted_principals_valid[of "keyed_principal PrincipalModel sample_key (Ident ''i1'')"
      sample_key "Ident ''i1''" "\<lambda>_. False" sample_message]
  by (simp add: model_principal_def key_validate_def sample_key_def is_zero_def)

end
