(* ===== verification/FixedGate.thy ===== *)
theory FixedGate
  imports Policy "HOL-Library.AList"
begin

text \<open>
  The fixed policy gate (\<open>internal/policy/fixed.go\<close>). \<open>policy_env\<close> holds what the gate is built on
  (the configuration reader, the chat access and authority readers, the judge); \<open>fixed_gate\<close> its
  own state, where \<open>fg_judged\<close> is the map of remembered judgments as an association list.
\<close>

definition max_judged :: nat where
  "max_judged = 1024"

record 'w policy_env =
  pe_load_config :: "agent_key \<Rightarrow> ('w, go_error + config_snapshot) call"
  pe_is_chat_allowlisted :: "agent_key \<Rightarrow> ('w, go_error + bool) call"
  pe_read_human_access :: "principal \<Rightarrow> ('w, go_error + human_access) call"
  pe_read_chat_authority :: "principal \<Rightarrow> ('w, go_error + chat_authority) call"
  pe_judge :: "(incoming_message \<Rightarrow> config_snapshot \<Rightarrow> ('w, go_error + bool) call) option"

record fixed_gate =
  fg_policy_id :: policy_id
  fg_revision :: nat
  fg_assistant_name :: string
  fg_enabled :: bool
  fg_judged :: "(invocation_id \<times> bool) list"

text \<open>The stores of the constructor are options: a nil interface is refused.\<close>

definition new_fixed_gate :: "policy_id \<Rightarrow> nat \<Rightarrow> 'a option \<Rightarrow> 'b option \<Rightarrow> 'c option \<Rightarrow> string \<Rightarrow> bool \<Rightarrow>
    go_error + fixed_gate" where
  "new_fixed_gate pid revision configs chats authority assistant_name enabled =
    (if is_zero pid \<or> revision = 0 \<or> configs = None \<or> chats = None \<or> authority = None
     then Inl (errorf ErrorInvalidArgument ''create fixed policy'' ''policy reference and stores are required'')
     else Inr \<lparr>fg_policy_id = pid, fg_revision = revision, fg_assistant_name = assistant_name,
       fg_enabled = enabled, fg_judged = []\<rparr>)"

definition set_enabled :: "bool \<Rightarrow> fixed_gate \<Rightarrow> fixed_gate" where
  "set_enabled enabled g = g\<lparr>fg_enabled := enabled\<rparr>"

definition denied :: "string \<Rightarrow> string \<Rightarrow> go_error" where
  "denied oper msg = errorf ErrorPermissionDenied oper msg"

definition require_policy :: "fixed_gate \<Rightarrow> permission_config \<Rightarrow> go_error option" where
  "require_policy g p = (case permission_validate p of
     Some e \<Rightarrow> Some (new_error ErrorPermissionDenied ''authorize policy reference'' (Some e))
   | None \<Rightarrow>
       if perm_policy_id p \<noteq> fg_policy_id g \<or> perm_revision p \<noteq> fg_revision g
       then Some (denied ''authorize policy reference'' ''unsupported policy revision'') else None)"

subsection \<open>Invocations\<close>

definition trigger_hit :: "regexp_compile \<Rightarrow> (rune \<Rightarrow> rune) \<Rightarrow> fixed_gate \<Rightarrow> incoming_message \<Rightarrow>
    config_snapshot \<Rightarrow> bool" where
  "trigger_hit rx low g m s = trigger_matches rx low (snap_triggers s) (im_mentions_bot m)
     (im_replied_to_bot m) (authored_text (im_text m)) (fg_assistant_name g)"

definition remember_judgment :: "invocation_id \<Rightarrow> bool \<Rightarrow> fixed_gate \<Rightarrow> fixed_gate" where
  "remember_judgment iid respond g =
    (let kept = (if length (fg_judged g) \<ge> max_judged then [] else fg_judged g)
     in g\<lparr>fg_judged := AList.update iid respond kept\<rparr>)"

definition needs_judgment :: "regexp_compile \<Rightarrow> (rune \<Rightarrow> rune) \<Rightarrow> 'w policy_env \<Rightarrow> fixed_gate \<Rightarrow>
    incoming_message \<Rightarrow> config_snapshot \<Rightarrow> bool" where
  "needs_judgment rx low env g m s =
    (if \<not> fg_enabled g \<or> im_from_me m \<or> im_chat_kind m \<noteq> ChatGroup \<or> \<not> trg_smart (snap_triggers s)
       \<or> pe_judge env = None \<or> trigger_hit rx low g m s
     then False else map_of (fg_judged g) (im_invocation_id m) = None)"

definition triggered :: "regexp_compile \<Rightarrow> (rune \<Rightarrow> rune) \<Rightarrow> 'w policy_env \<Rightarrow> fixed_gate \<Rightarrow>
    incoming_message \<Rightarrow> config_snapshot \<Rightarrow> 'w \<Rightarrow> bool \<times> fixed_gate \<times> 'w" where
  "triggered rx low env g m s w =
    (if trigger_hit rx low g m s then (True, g, w)
     else if \<not> trg_smart (snap_triggers s) then (False, g, w)
     else case pe_judge env of
       None \<Rightarrow> (False, g, w)
     | Some judge \<Rightarrow>
         (case map_of (fg_judged g) (im_invocation_id m) of
            Some respond \<Rightarrow> (respond, g, w)
          | None \<Rightarrow>
              (case judge m s w of (r, w') \<Rightarrow>
                 let respond = (case r of Inl _ \<Rightarrow> False | Inr b \<Rightarrow> b)
                 in (respond, remember_judgment (im_invocation_id m) respond g, w'))))"

definition read_access :: "'w policy_env \<Rightarrow> principal \<Rightarrow> ('w, go_error + human_access) call" where
  "read_access env p w = (case pe_read_human_access env p w of
     (Inl e, w') \<Rightarrow>
       (if is_code (Some e) ErrorNotFound
        then Inl (denied ''read human command access'' ''principal is no longer current'') else Inl e, w')
   | (Inr a, w') \<Rightarrow> (Inr a, w'))"

definition authorize_human :: "'w policy_env \<Rightarrow> fixed_gate \<Rightarrow> principal \<Rightarrow> permission_config \<Rightarrow> bool \<Rightarrow>
    ('w, go_error option) call" where
  "authorize_human env g p permission requires_owner w = (case principal_validate p of
     Some e \<Rightarrow> (Some e, w)
   | None \<Rightarrow>
       (case require_policy g permission of
          Some e \<Rightarrow> (Some e, w)
        | None \<Rightarrow>
            (case read_access env p w of
               (Inl e, w') \<Rightarrow> (Some e, w')
             | (Inr a, w') \<Rightarrow>
                 (case human_access_validate a of
                    Some e \<Rightarrow> (Some e, w')
                  | None \<Rightarrow>
                      if \<not> ha_allowlisted a \<or> ha_chat_kind a = ChatStatus
                        \<or> (requires_owner \<and> \<not> ha_configured_owner a)
                      then (Some (denied ''authorize human access'' ''current chat policy denies principal''), w')
                      else (None, w')))))"

definition authorize_invocation :: "regexp_compile \<Rightarrow> (rune \<Rightarrow> rune) \<Rightarrow> (rune \<Rightarrow> bool) \<Rightarrow> 'w policy_env \<Rightarrow>
    fixed_gate \<Rightarrow> incoming_message \<Rightarrow> config_snapshot \<Rightarrow> 'w \<Rightarrow> go_error option outcome \<times> fixed_gate \<times> 'w" where
  "authorize_invocation rx low wide env g m s w =
    (let ineligible = Done (Some (denied ''authorize invocation'' ''message is not eligible'')) in
     if \<not> fg_enabled g \<or> im_from_me m \<or> im_chat_kind m = ChatStatus then (ineligible, g, w)
     else case (if im_chat_kind m = ChatGroup then triggered rx low env g m s w else (True, g, w)) of
       (go, g', w1) \<Rightarrow>
         if \<not> go then (ineligible, g', w1)
         else case human_principal wide m of
           Panic \<Rightarrow> (Panic, g', w1)
         | Done (Inl e) \<Rightarrow> (Done (Some e), g', w1)
         | Done (Inr p) \<Rightarrow>
             (case authorize_human env g' p (snap_permission s) False w1 of
                (r, w2) \<Rightarrow> (Done r, g', w2)))"

subsection \<open>Command facts\<close>

definition facts_denied :: "string \<Rightarrow> string \<Rightarrow> go_error + permission_facts" where
  "facts_denied oper msg = Inl (denied oper msg)"

definition authority_facts ::
  "'w policy_env \<Rightarrow> principal \<Rightarrow> (chat_authority \<Rightarrow> permission_facts) \<Rightarrow>
    ('w, go_error + permission_facts) call" where
  "authority_facts env p facts w = (case pe_read_chat_authority env p w of
     (Inl e, w') \<Rightarrow> (Inl e, w')
   | (Inr a, w') \<Rightarrow>
       (case chat_authority_validate a of Some e \<Rightarrow> (Inl e, w') | None \<Rightarrow> (Inr (facts a), w')))"

definition human_facts :: "human_access \<Rightarrow> chat_authority \<Rightarrow> permission_facts" where
  "human_facts access a = \<lparr>pf_is_owner = ha_configured_owner access, pf_is_admin = ca_actor_is_admin a,
     pf_bot_is_admin = ca_bot_is_admin a, pf_is_group = (ca_chat_kind a = ChatGroup),
     pf_is_private = (ca_chat_kind a = ChatDirect), pf_from_me = False\<rparr>"

definition bot_facts :: "chat_authority \<Rightarrow> permission_facts" where
  "bot_facts a = \<lparr>pf_is_owner = False, pf_is_admin = ca_bot_is_admin a,
     pf_bot_is_admin = ca_bot_is_admin a, pf_is_group = (ca_chat_kind a = ChatGroup),
     pf_is_private = (ca_chat_kind a = ChatDirect), pf_from_me = True\<rparr>"

definition human_command_facts ::
  "'w policy_env \<Rightarrow> principal \<Rightarrow> ('w, go_error + permission_facts) call" where
  "human_command_facts env p w = (case read_access env p w of
     (Inl e, w1) \<Rightarrow> (Inl e, w1)
   | (Inr access, w1) \<Rightarrow>
       (case human_access_validate access of
          Some e \<Rightarrow>
            (Inl (new_error ErrorIntegrityFailure ''resolve human command permission facts'' (Some e)), w1)
        | None \<Rightarrow>
            if \<not> ha_allowlisted access \<or> ha_chat_kind access = ChatStatus
            then (facts_denied ''resolve human command permission facts''
              ''current chat policy denies principal'', w1)
            else authority_facts env p (human_facts access) w1))"

definition bot_command_facts :: "'w policy_env \<Rightarrow> principal \<Rightarrow> permission_config \<Rightarrow>
    ('w, go_error + permission_facts) call" where
  "bot_command_facts env p permission w = (case pe_load_config env (principal_key p) w of
     (Inl e, w1) \<Rightarrow> (Inl e, w1)
   | (Inr current, w1) \<Rightarrow>
       if snap_permission current \<noteq> permission
       then (Inl (errorf ErrorConflict ''resolve bot command permission facts''
         ''command permission snapshot is stale''), w1)
       else (case pe_is_chat_allowlisted env (principal_key p) w1 of
         (Inl e, w2) \<Rightarrow> (Inl e, w2)
       | (Inr allowed, w2) \<Rightarrow>
           if \<not> allowed
           then (facts_denied ''resolve bot command permission facts'' ''chat is not allowlisted'', w2)
           else authority_facts env p bot_facts w2))"

definition command_permission_facts :: "'w policy_env \<Rightarrow> fixed_gate \<Rightarrow> principal \<Rightarrow> permission_config \<Rightarrow>
    bool \<Rightarrow> ('w, go_error + permission_facts) call" where
  "command_permission_facts env g p permission from_me w =
    (if \<not> fg_enabled g
     then (facts_denied ''resolve command permission facts'' ''agent kill switch is disabled'', w)
     else case principal_validate p of
       Some e \<Rightarrow> (Inl e, w)
     | None \<Rightarrow>
         (case require_policy g permission of
            Some e \<Rightarrow> (Inl e, w)
          | None \<Rightarrow>
              (case pr_kind p of
                 PrincipalHuman \<Rightarrow>
                   if from_me
                   then (facts_denied ''resolve command permission facts''
                     ''human principals cannot be marked as bot-originated'', w)
                   else human_command_facts env p w
               | PrincipalModel \<Rightarrow>
                   if \<not> from_me
                   then (facts_denied ''resolve bot command permission facts''
                     ''model principals must be explicitly marked fromMe'', w)
                   else bot_command_facts env p permission w
               | _ \<Rightarrow> (facts_denied ''resolve command permission facts''
                   ''only human or model principals may dispatch commands'', w))))"

subsection \<open>Effects and sends\<close>

text \<open>The allowlist and the current policy reference, checked with the caller's operation name.\<close>

definition allowed_by_current_policy :: "'w policy_env \<Rightarrow> fixed_gate \<Rightarrow> string \<Rightarrow> agent_key \<Rightarrow>
    ('w, go_error + config_snapshot) call" where
  "allowed_by_current_policy env g oper key w = (case pe_is_chat_allowlisted env key w of
     (Inl e, w1) \<Rightarrow> (Inl e, w1)
   | (Inr allowed, w1) \<Rightarrow>
       if \<not> allowed then (Inl (denied oper ''chat is not allowlisted''), w1)
       else (case pe_load_config env key w1 of
         (Inl e, w2) \<Rightarrow> (Inl e, w2)
       | (Inr s, w2) \<Rightarrow>
           (case require_policy g (snap_permission s) of Some e \<Rightarrow> (Inl e, w2) | None \<Rightarrow> (Inr s, w2))))"

definition authorize_desktop_effect ::
  "'w policy_env \<Rightarrow> fixed_gate \<Rightarrow> effect_authorization \<Rightarrow> ('w, go_error option) call" where
  "authorize_desktop_effect env g r w =
    (if ea_capability r \<noteq> capability_message_delete
     then (Some (denied ''authorize desktop effect'' ''desktop effect capability is not supported''), w)
     else case allowed_by_current_policy env g ''authorize desktop effect'' (ea_key r) w of
       (Inl e, w') \<Rightarrow> (Some e, w') | (Inr _, w') \<Rightarrow> (None, w'))"

definition authorize_effect ::
  "'w policy_env \<Rightarrow> fixed_gate \<Rightarrow> effect_authorization \<Rightarrow> ('w, go_error option) call" where
  "authorize_effect env g r w = (case effect_authorization_validate r of
     Some e \<Rightarrow> (Some e, w)
   | None \<Rightarrow>
       if \<not> fg_enabled g then (Some (denied ''authorize effect'' ''model effect is not eligible''), w)
       else if pr_kind (ea_principal r) = PrincipalSystem then authorize_desktop_effect env g r w
       else if pr_kind (ea_principal r) \<noteq> PrincipalModel
       then (Some (denied ''authorize effect'' ''effect principal is not eligible''), w)
       else (case allowed_by_current_policy env g ''authorize effect'' (ea_key r) w of
         (Inl e, w') \<Rightarrow> (Some e, w')
       | (Inr s, w') \<Rightarrow>
           if \<not> capability_has (model_tool_capabilities (snap_permission s)) (ea_capability r)
           then (Some (denied ''authorize effect'' ''model capability is not currently granted''), w')
           else (None, w')))"

definition authorize_send :: "'w policy_env \<Rightarrow> fixed_gate \<Rightarrow> agent_key \<Rightarrow> ('w, go_error option) call" where
  "authorize_send env g key w =
    (if \<not> fg_enabled g then (Some (denied ''authorize send'' ''agent kill switch is disabled''), w)
     else case allowed_by_current_policy env g ''authorize send'' key w of
       (Inl e, w') \<Rightarrow> (Some e, w') | (Inr _, w') \<Rightarrow> (None, w'))"

definition model_capabilities :: "fixed_gate \<Rightarrow> permission_config \<Rightarrow> go_error + capability_set" where
  "model_capabilities g p = (case require_policy g p of
     Some e \<Rightarrow> Inl e | None \<Rightarrow> Inr (model_tool_capabilities p))"

subsection \<open>What the gate lets through\<close>

lemma allowed_by_current_policy_ok:
  assumes "allowed_by_current_policy env g oper key w = (Inr s, w2)"
  shows "\<exists>w1. pe_is_chat_allowlisted env key w = (Inr True, w1)
    \<and> pe_load_config env key w1 = (Inr s, w2) \<and> require_policy g (snap_permission s) = None"
  using assms
  by (auto simp: allowed_by_current_policy_def split: prod.splits sum.splits if_splits option.splits)

lemma model_tool_capabilities_has:
  "capability_has (model_tool_capabilities p) c \<longleftrightarrow>
     c = capability_message_react \<or> c = capability_message_sticker"
proof -
  let ?vs = "[capability_message_react, capability_message_sticker]"
  have "new_capability_set ?vs = Inr (CapabilitySet ?vs)"
    by (simp add: new_capability_set_def capability_valid_def capability_message_react_def
      capability_message_sticker_def less_eq_capability_def)
  then show ?thesis
    by (simp add: model_tool_capabilities_def sorted_capability_has capability_message_react_def
      capability_message_sticker_def less_eq_capability_def)
qed

text \<open>
  C14: what authorizes an effect. The kill switch is on, the chat is allowlisted and its current
  configuration carries this gate's policy reference, at the time of the call, and the request is
  either a model's reaction or sticker or the desktop's own deletion: no principal is ever
  authorized to execute a command as an effect.
\<close>
theorem authorize_effect_sound:
  assumes "authorize_effect env g r w = (None, w2)"
  shows "fg_enabled g
    \<and> (\<exists>w1 s. pe_is_chat_allowlisted env (ea_key r) w = (Inr True, w1)
        \<and> pe_load_config env (ea_key r) w1 = (Inr s, w2) \<and> require_policy g (snap_permission s) = None)
    \<and> (pr_kind (ea_principal r) = PrincipalModel
         \<and> ea_capability r \<in> {capability_message_react, capability_message_sticker}
       \<or> pr_kind (ea_principal r) = PrincipalSystem \<and> ea_capability r = capability_message_delete)"
proof -
  have on: "fg_enabled g" using assms by (auto simp: authorize_effect_def split: option.splits if_splits)
  consider (desktop) s where "pr_kind (ea_principal r) = PrincipalSystem"
      "ea_capability r = capability_message_delete"
      "allowed_by_current_policy env g ''authorize desktop effect'' (ea_key r) w = (Inr s, w2)"
    | (model) s where "pr_kind (ea_principal r) = PrincipalModel"
      "capability_has (model_tool_capabilities (snap_permission s)) (ea_capability r)"
      "allowed_by_current_policy env g ''authorize effect'' (ea_key r) w = (Inr s, w2)"
    using assms
    by (auto simp: authorize_effect_def authorize_desktop_effect_def
      split: option.splits if_splits prod.splits sum.splits)
  then show ?thesis
  proof cases
    case desktop
    with on allowed_by_current_policy_ok[OF desktop(3)] show ?thesis by blast
  next
    case model
    with on allowed_by_current_policy_ok[OF model(3)] show ?thesis
      unfolding model_tool_capabilities_has by blast
  qed
qed

text \<open>
  The kill switch. With the gate disabled nothing is authorized, and nothing is read or asked
  either: invocations, sends, effects and command facts are all refused in the world they were
  requested in, and the gate's memory is unchanged.
\<close>
theorem disabled_gate_denies_everything:
  assumes "\<not> fg_enabled g"
  shows "(\<exists>e. authorize_send env g key w = (Some e, w) \<and> error_code_of e = ErrorPermissionDenied)
    \<and> (\<exists>e. authorize_effect env g r w = (Some e, w))
    \<and> (\<exists>e. command_permission_facts env g p permission from_me w = (Inl e, w)
        \<and> error_code_of e = ErrorPermissionDenied)
    \<and> (\<exists>e. authorize_invocation rx low wide env g m s w = (Done (Some e), g, w)
        \<and> error_code_of e = ErrorPermissionDenied)"
  using assms
  by (auto simp: authorize_send_def authorize_effect_def command_permission_facts_def
    authorize_invocation_def facts_denied_def denied_def Let_def split: option.splits)

lemma authority_facts_ok:
  assumes "authority_facts env p facts w = (Inr f, w')"
  shows "\<exists>a. pe_read_chat_authority env p w = (Inr a, w') \<and> chat_authority_validate a = None \<and> f = facts a"
  using assms by (auto simp: authority_facts_def split: prod.splits sum.splits option.splits)


definition judgments_bounded :: "fixed_gate \<Rightarrow> bool" where
  "judgments_bounded g \<longleftrightarrow> length (fg_judged g) \<le> max_judged \<and> distinct (map fst (fg_judged g))"

lemma length_AList_update_le: "length (AList.update k v al) \<le> length al + 1"
  by (induction al) auto

lemma remember_judgment_bounded:
  "judgments_bounded g \<Longrightarrow> judgments_bounded (remember_judgment iid b g)"
  using length_AList_update_le[of iid b "fg_judged g"]
  by (auto simp: judgments_bounded_def remember_judgment_def Let_def distinct_update max_judged_def)

lemma remember_judgment_recalls [simp]:
  "map_of (fg_judged (remember_judgment iid b g)) iid = Some b"
  by (simp add: remember_judgment_def Let_def update_conv)

lemma remember_judgment_name [simp]:
  "fg_assistant_name (remember_judgment iid b g) = fg_assistant_name g"
  by (simp add: remember_judgment_def Let_def)

text \<open>
  The smart trigger's judge is asked at most once about a message while its judgment is
  remembered, also when it failed: asked again about the message, the gate gives the same answer
  without another call and without changing. The memory never holds more than 1024 judgments.
\<close>
theorem judgment_remembered:
  assumes "judgments_bounded g" and "triggered rx low env g m s w = (b, g', w')"
  shows "judgments_bounded g' \<and> triggered rx low env g' m s w2 = (b, g', w2)"
proof -
  have hit: "trigger_hit rx low (remember_judgment iid r g) m s = trigger_hit rx low g m s" for iid r
    by (simp add: trigger_hit_def)
  show ?thesis
    using assms remember_judgment_bounded[OF assms(1)]
    by (auto simp: triggered_def hit Let_def split: if_splits option.splits prod.splits)
qed


subsection \<open>Witnesses\<close>

definition sample_gate :: fixed_gate where
  "sample_gate = \<lparr>fg_policy_id = Ident ''fixed'', fg_revision = 1, fg_assistant_name = ''bot'',
     fg_enabled = True, fg_judged = []\<rparr>"

text \<open>An environment of one allowlisted group whose judge says yes; the world counts the judge's calls.\<close>

definition sample_env :: "nat policy_env" where
  "sample_env = \<lparr>pe_load_config = (\<lambda>key w. (Inr sample_snapshot, w)),
     pe_is_chat_allowlisted = (\<lambda>key w. (Inr True, w)),
     pe_read_human_access = (\<lambda>p w. (Inr \<lparr>ha_chat_kind = ChatGroup, ha_allowlisted = True,
       ha_configured_owner = True\<rparr>, w)),
     pe_read_chat_authority = (\<lambda>p w. (Inr \<lparr>ca_chat_kind = ChatGroup, ca_actor_is_admin = True,
       ca_bot_is_admin = False, ca_observed_at = 1\<rparr>, w)),
     pe_judge = Some (\<lambda>m s w. (Inr True, w + 1))\<rparr>"

lemma sample_permission: "require_policy sample_gate (snap_permission sample_snapshot) = None"
  by (simp add: require_policy_def permission_validate_def moderation_valid_def
    moderation_delete_mute_kick_def sample_gate_def sample_snapshot_def snapshot_at_def sample_values_def is_zero_def)

definition sample_model_principal :: principal where
  "sample_model_principal = keyed_principal PrincipalModel sample_key (Ident ''i1'')"

lemma sample_model_principal_valid: "principal_validate sample_model_principal = None"
  by (simp add: sample_model_principal_def principal_validate_def) (simp add: is_zero_def)

theorem authorize_effect_sound_witness:
  "ea_capability \<lparr>ea_key = sample_key, ea_principal = sample_model_principal,
      ea_capability = capability_message_react\<rparr> \<in> {capability_message_react, capability_message_sticker}"
proof -
  let ?r = "\<lparr>ea_key = sample_key, ea_principal = sample_model_principal,
      ea_capability = capability_message_react\<rparr>"
  have valid: "effect_authorization_validate ?r = None"
    by (simp add: effect_authorization_validate_def sample_model_principal_valid capability_valid_def)
      (simp add: sample_model_principal_def)
  have enabled: "fg_enabled sample_gate" by (simp add: sample_gate_def)
  have "pr_kind sample_model_principal = PrincipalModel" by (simp add: sample_model_principal_def)
  with valid sample_permission have "authorize_effect sample_env sample_gate ?r 0 = (None, 0)"
    by (simp add: authorize_effect_def allowed_by_current_policy_def model_tool_capabilities_has
      sample_env_def enabled)
  from authorize_effect_sound[OF this] show ?thesis by simp
qed

theorem disabled_gate_denies_everything_witness:
  "\<exists>e. authorize_send sample_env (set_enabled False sample_gate) sample_key 0 = (Some e, 0)
    \<and> error_code_of e = ErrorPermissionDenied"
  using disabled_gate_denies_everything[of "set_enabled False sample_gate" sample_env sample_key 0]
  by (simp add: set_enabled_def)


lemma sample_message_triggers_nothing:
  "trigger_hit (\<lambda>_. None) id sample_gate sample_message
     (sample_snapshot\<lparr>snap_triggers := default_trigger_config\<lparr>trg_smart := True\<rparr>\<rparr>) = False"
  by (simp add: trigger_hit_def trigger_matches_def default_trigger_config_def sample_message_def)

theorem judgment_remembered_witness:
  "\<exists>g'. triggered (\<lambda>_. None) id sample_env sample_gate sample_message
      (sample_snapshot\<lparr>snap_triggers := default_trigger_config\<lparr>trg_smart := True\<rparr>\<rparr>) 0 = (True, g', 1)
    \<and> triggered (\<lambda>_. None) id sample_env g' sample_message
      (sample_snapshot\<lparr>snap_triggers := default_trigger_config\<lparr>trg_smart := True\<rparr>\<rparr>) 5 = (True, g', 5)"
proof -
  let ?s = "sample_snapshot\<lparr>snap_triggers := default_trigger_config\<lparr>trg_smart := True\<rparr>\<rparr>"
  have ask: "triggered (\<lambda>_. None) id sample_env sample_gate sample_message ?s 0 =
      (True, remember_judgment (im_invocation_id sample_message) True sample_gate, 1)"
    unfolding triggered_def sample_message_triggers_nothing
    by (simp add: sample_env_def sample_gate_def)
  have "judgments_bounded sample_gate" by (simp add: judgments_bounded_def sample_gate_def)
  from judgment_remembered[OF this ask] ask show ?thesis by blast
qed


end
