(* ===== verification/Replies.thy ===== *)
theory Replies
  imports GoText
begin

text \<open>
  What a stored reply carries besides its text (\<open>internal/action/reply_extras.go\<close>): the choices of
  a quiz, kept as a last line of the text, and the first fenced code block, which is sent again
  behind a copy button.
\<close>

definition newline :: char where
  "newline = CHR 0x0A"

definition backquote :: char where
  "backquote = CHR 0x60"

definition tilde :: char where
  "tilde = CHR 0x7E"

text \<open>\<open>choicesMarker\<close>, between U+3010 and U+3011.\<close>

definition choices_marker :: string where
  "choices_marker = [CHR 0xE3, CHR 0x80, CHR 0x90] @ ''choices'' @ [CHR 0xE3, CHR 0x80, CHR 0x91]"

definition min_choices :: nat where
  "min_choices = 2"

definition max_choices :: nat where
  "max_choices = 5"

definition max_choice_runes :: nat where
  "max_choice_runes = 20"

subsection \<open>Choices\<close>

text \<open>One choice cleaned: bars replaced, white space collapsed, cut to twenty runes.\<close>

definition clean_choice :: "string \<Rightarrow> string" where
  "clean_choice choice =
    (let c = join '' '' (fields (replace_byte (CHR ''|'') (CHR ''/'') choice)) in
     if length (runes c) > max_choice_runes
     then trim_space (concat (map (\<lambda>rw. encode_rune (fst rw)) (take max_choice_runes (runes c))))
     else c)"

text \<open>The loop: the choices kept so far, which are also the set \<open>seen\<close>.\<close>

fun clean_choices :: "string list \<Rightarrow> string list \<Rightarrow> string list" where
  "clean_choices cleaned [] = cleaned"
| "clean_choices cleaned (choice # rest) =
    (let c = clean_choice choice in
     if c = [] \<or> c \<in> set cleaned then clean_choices cleaned rest
     else if length (cleaned @ [c]) = max_choices then cleaned @ [c]
     else clean_choices (cleaned @ [c]) rest)"

definition with_choices :: "string \<Rightarrow> string list \<Rightarrow> string" where
  "with_choices body choices = (let cleaned = clean_choices [] choices in
     if length cleaned < min_choices then body
     else trim_right_set {newline, CHR '' ''} body @ [newline, newline] @ choices_marker @ '' ''
       @ join '' | '' cleaned)"

definition split_choices :: "string \<Rightarrow> string \<times> string list" where
  "split_choices stored = (case last_index stored (newline # choices_marker) of
     None \<Rightarrow> (stored, [])
   | Some index \<Rightarrow>
       (let line = drop (index + 1 + length choices_marker) stored;
            choices = filter (\<lambda>c. c \<noteq> []) (map trim_space (split_byte (CHR ''|'') line)) in
        if newline \<in> set line then (stored, [])
        else if length choices < min_choices \<or> length choices > max_choices then (stored, [])
        else (trim_right_set {newline, CHR '' ''} (take index stored), choices)))"

subsection \<open>Code blocks\<close>

definition fence_run :: "string \<Rightarrow> string \<times> string" where
  "fence_run line = (let l = trim_left_set {CHR '' '', CHR 0x09} line in
     if l = [] \<or> (hd l \<noteq> backquote \<and> hd l \<noteq> tilde) then ([], l)
     else (takeWhile (\<lambda>c. c = hd l) l, dropWhile (\<lambda>c. c = hd l) l))"

definition opens_block :: "string \<Rightarrow> bool" where
  "opens_block line = (case fence_run line of (fence, info) \<Rightarrow>
     \<not> (length fence < 3 \<or> (hd fence = backquote \<and> backquote \<in> set info)))"

definition closes_block :: "string \<Rightarrow> string \<Rightarrow> bool" where
  "closes_block fence line = (case fence_run line of (closing, rest) \<Rightarrow>
     \<not> (length closing < length fence \<or> hd closing \<noteq> hd fence \<or> trim_space rest \<noteq> []))"

definition leading_spaces :: "string \<Rightarrow> nat" where
  "leading_spaces line = length (takeWhile (\<lambda>c. c = CHR '' '') line)"

definition block_code :: "nat \<Rightarrow> string list \<Rightarrow> string" where
  "block_code indent body =
    (let joined = join [newline] (map (\<lambda>l. drop (min indent (leading_spaces l)) l) body);
         code = trim_right_set {CHR '' '', CHR 0x09, CHR 0x0D, newline}
           (trim_left_set {CHR 0x0D, newline} joined)
     in if trim_space code = [] then [] else code)"

text \<open>The lines after an opening fence, up to the line that closes it.\<close>

fun close_block :: "string \<Rightarrow> string list \<Rightarrow> string list \<Rightarrow> string list option" where
  "close_block fence body [] = None"
| "close_block fence body (line # lines) =
     (if closes_block fence line then Some body else close_block fence (body @ [line]) lines)"

fun code_in_lines :: "string list \<Rightarrow> string" where
  "code_in_lines [] = []"
| "code_in_lines (line # lines) =
     (if \<not> opens_block line then code_in_lines lines
      else case close_block (fst (fence_run line)) [] lines of
        None \<Rightarrow> []
      | Some body \<Rightarrow> block_code (leading_spaces line) body)"

definition first_code_block :: "string \<Rightarrow> string" where
  "first_code_block body = code_in_lines (split_byte newline body)"

subsection \<open>Cleaned choices\<close>

definition space_free :: "string \<Rightarrow> bool" where
  "space_free s \<longleftrightarrow> list_all (\<lambda>c. \<not> is_space (bval c)) s"

definition ascii :: "string \<Rightarrow> bool" where
  "ascii s \<longleftrightarrow> list_all ascii_char s"

lemma fields_from_ascii:
  "ascii s \<Longrightarrow> fields_from cur s = (case s of
     [] \<Rightarrow> if cur = [] then [] else [cur]
   | c # cs \<Rightarrow> if is_space (bval c) then (if cur = [] then [] else [cur]) @ fields_from [] cs
       else fields_from (cur @ [c]) cs)"
  by (subst fields_from.simps) (cases s, auto simp: ascii_def ascii_char_def Let_def)

lemma fields_from_words:
  "ascii s \<Longrightarrow> space_free cur \<Longrightarrow> f \<in> set (fields_from cur s) \<Longrightarrow>
    f \<noteq> [] \<and> space_free f \<and> set f \<subseteq> set cur \<union> set s"
proof (induction s arbitrary: cur f)
  case Nil
  then show ?case by (auto simp: fields_from_ascii split: if_splits)
next
  case (Cons c s)
  have s: "ascii s" using Cons.prems(1) by (simp add: ascii_def)
  show ?case
  proof (cases "is_space (bval c)")
    case True
    with Cons.prems have "f = cur \<and> cur \<noteq> [] \<or> f \<in> set (fields_from [] s)"
      by (auto simp: fields_from_ascii split: if_splits)
    then show ?thesis using Cons.IH[OF s, of "[]" f] Cons.prems(2) by (auto simp: space_free_def)
  next
    case False
    with Cons.prems have "f \<in> set (fields_from (cur @ [c]) s)" "space_free (cur @ [c])"
      by (simp_all add: fields_from_ascii space_free_def)
    from Cons.IH[OF s this(2,1)] show ?thesis by auto
  qed
qed

text \<open>A tidy string: printable words separated by single blanks, none of them a bar.\<close>

definition tidy :: "string \<Rightarrow> bool" where
  "tidy s \<longleftrightarrow> ascii s \<and> newline \<notin> set s \<and> CHR ''|'' \<notin> set s
     \<and> (s \<noteq> [] \<longrightarrow> \<not> is_space (bval (hd s)) \<and> \<not> is_space (bval (last s)))"

lemma join_blank_tidy:
  assumes "\<forall>f \<in> set fs. f \<noteq> [] \<and> space_free f \<and> ascii f \<and> CHR ''|'' \<notin> set f"
  shows "tidy (join '' '' fs) \<and> (fs \<noteq> [] \<longrightarrow> join '' '' fs \<noteq> [])"
  using assms
proof (induction "'' ''" fs rule: join.induct)
  case 1
  then show ?case by (simp add: tidy_def ascii_def)
next
  case (2 x)
  then have "newline \<notin> set x" "\<not> is_space (bval (hd x))" "\<not> is_space (bval (last x))"
    by (auto simp: space_free_def list_all_iff newline_def is_space_def bval_def)
  with 2 show ?case by (simp add: tidy_def)
next
  case (3 x y ys)
  then have x: "newline \<notin> set x" "\<not> is_space (bval (hd x))" "x \<noteq> []"
    by (auto simp: space_free_def list_all_iff newline_def is_space_def bval_def)
  from 3 have "tidy (join '' '' (y # ys))" "join '' '' (y # ys) \<noteq> []" by simp_all
  with x 3 show ?case by (auto simp: tidy_def ascii_def newline_def ascii_char_def bval_def)
qed

lemma dropWhile_hd: "xs = [] \<or> \<not> P (hd xs) \<Longrightarrow> dropWhile P xs = xs"
  by (cases xs) auto

lemma trim_space_tidy: "tidy s \<Longrightarrow> trim_space s = s"
  by (cases "s = []") (simp_all add: tidy_def ascii_def trim_space_ascii dropWhile_hd hd_rev)

lemma set_dropWhile_sub: "set (dropWhile P xs) \<subseteq> set xs"
  using set_dropWhileD by fastforce

lemma set_trim_space:
  assumes "ascii s"
  shows "set (trim_space s) \<subseteq> set s"
proof -
  let ?P = "\<lambda>c. is_space (bval c)"
  have "trim_space s = rev (dropWhile ?P (rev (dropWhile ?P s)))"
    using assms by (simp add: trim_space_ascii ascii_def)
  moreover have "set (rev (dropWhile ?P (rev (dropWhile ?P s)))) \<subseteq> set (dropWhile ?P s)"
    using set_dropWhile_sub[of ?P "rev (dropWhile ?P s)"] unfolding set_rev .
  ultimately show ?thesis using set_dropWhile_sub[of ?P s] by (metis subset_trans)
qed

lemma tidy_trim_space:
  assumes "ascii s" and "newline \<notin> set s" and "CHR ''|'' \<notin> set s"
  shows "tidy (trim_space s)"
proof -
  let ?sp = "\<lambda>c. is_space (bval c)"
  let ?l = "dropWhile ?sp s"
  let ?t = "rev (dropWhile ?sp (rev ?l))"
  have t: "trim_space s = ?t" using assms(1) by (simp add: trim_space_ascii ascii_def)
  have last: "\<not> ?sp (last ?t)" if "?t \<noteq> []"
  proof -
    have "dropWhile ?sp (rev ?l) \<noteq> []" using that by (simp only: rev_is_Nil_conv not_False_eq_True)
    from hd_dropWhile[OF this] show ?thesis by (simp only: last_rev not_False_eq_True)
  qed
  have ws: "?l = ?t @ rev (takeWhile ?sp (rev ?l))"
    by (metis rev_append rev_rev_ident takeWhile_dropWhile_id)
  have first: "\<not> ?sp (hd ?t)" if "?t \<noteq> []"
  proof -
    have "?l \<noteq> []" using that by (cases "?l = []") (simp_all only: rev.simps dropWhile.simps not_False_eq_True)
    then have "\<not> ?sp (hd ?l)" using hd_dropWhile by blast
    then show ?thesis using ws that by (metis hd_append2)
  qed
  have "ascii ?t \<and> newline \<notin> set ?t \<and> CHR ''|'' \<notin> set ?t"
    using set_trim_space[OF assms(1)] assms unfolding t ascii_def list_all_iff by blast
  with first last show ?thesis unfolding t tidy_def by blast
qed

lemma runes_text_ascii:
  "ascii s \<Longrightarrow> concat (map (\<lambda>rw. encode_rune (fst rw)) (take n (runes s))) = take n s"
proof (induction s arbitrary: n)
  case (Cons c s)
  then show ?case
    by (cases n) (simp_all add: ascii_def ascii_char_def encode_rune_def bval_def)
qed simp

lemma ascii_take: "ascii s \<Longrightarrow> ascii (take n s)"
  by (auto simp: ascii_def list_all_iff dest: in_set_takeD)

lemma clean_choice_tidy:
  assumes "ascii choice"
  shows "tidy (clean_choice choice)"
proof -
  let ?s = "replace_byte (CHR ''|'') (CHR ''/'') choice"
  have s: "ascii ?s" "CHR ''|'' \<notin> set ?s"
    using assms by (auto simp: replace_byte_def ascii_def list_all_iff ascii_char_def bval_def)
  have "f \<noteq> [] \<and> space_free f \<and> ascii f \<and> CHR ''|'' \<notin> set f" if "f \<in> set (fields ?s)" for f
    using fields_from_words[OF s(1), of "[]" f] that s
    by (auto simp: fields_def space_free_def ascii_def list_all_iff)
  then have c: "tidy (join '' '' (fields ?s))" (is "tidy ?c") using join_blank_tidy by blast
  then have a: "ascii ?c" and n: "newline \<notin> set ?c" and b: "CHR ''|'' \<notin> set ?c"
    by (simp_all add: tidy_def)
  have "tidy (trim_space (take max_choice_runes ?c))"
    by (rule tidy_trim_space[OF ascii_take[OF a]]) (use n b in_set_takeD in metis)+
  with c show ?thesis
    unfolding clean_choice_def Let_def runes_text_ascii[OF a] by simp
qed

lemma clean_choices_kept:
  assumes "\<forall>c \<in> set choices. ascii c" and "\<forall>c \<in> set cleaned. tidy c \<and> c \<noteq> []"
    and "length cleaned < max_choices"
  shows "(\<forall>c \<in> set (clean_choices cleaned choices). tidy c \<and> c \<noteq> [])
    \<and> length (clean_choices cleaned choices) \<le> max_choices"
  using assms
proof (induction cleaned choices rule: clean_choices.induct)
  case (2 cleaned choice rest)
  let ?c = "clean_choice choice"
  have t: "tidy ?c" using "2.prems"(1) clean_choice_tidy by simp
  consider (skip) "?c = [] \<or> ?c \<in> set cleaned"
    | (full) "\<not> (?c = [] \<or> ?c \<in> set cleaned)" "length (cleaned @ [?c]) = max_choices"
    | (more) "\<not> (?c = [] \<or> ?c \<in> set cleaned)" "length (cleaned @ [?c]) \<noteq> max_choices" by blast
  then show ?case
  proof cases
    case skip
    have "clean_choices cleaned (choice # rest) = clean_choices cleaned rest"
      using skip by (simp add: Let_def)
    moreover have "\<forall>c \<in> set rest. ascii c" using "2.prems"(1) by simp
    ultimately show ?thesis using "2.IH"(1)[OF refl skip _ "2.prems"(2,3)] by metis
  next
    case full
    then have "clean_choices cleaned (choice # rest) = cleaned @ [?c]" by (simp add: Let_def)
    moreover have "\<forall>c \<in> set (cleaned @ [?c]). tidy c \<and> c \<noteq> []" using full t "2.prems"(2) by auto
    ultimately show ?thesis using full(2) by simp
  next
    case more
    then have "clean_choices cleaned (choice # rest) = clean_choices (cleaned @ [?c]) rest"
      by (simp add: Let_def)
    moreover have "\<forall>c \<in> set (cleaned @ [?c]). tidy c \<and> c \<noteq> []" using more t "2.prems"(2) by auto
    moreover have "length (cleaned @ [?c]) < max_choices" using more(2) "2.prems"(3) by simp
    moreover have "\<forall>c \<in> set rest. ascii c" using "2.prems"(1) by simp
    ultimately show ?thesis using "2.IH"(2)[OF refl more(1,2)] by metis
  qed
qed simp

subsection \<open>Reading choices back\<close>

lemma last_index_fromI:
  assumes "j \<le> i" and "has_prefix (drop j s) p" and "\<And>k. j < k \<Longrightarrow> k \<le> i \<Longrightarrow> \<not> has_prefix (drop k s) p"
  shows "last_index_from s p i = Some j"
  using assms
proof (induction i)
  case (Suc i)
  then show ?case by (cases "j = Suc i") auto
qed simp

lemma last_index_last_line:
  assumes "newline \<notin> set t" and "has_prefix t m"
  shows "last_index (pre @ newline # t) (newline # m) = Some (length pre)"
  unfolding last_index_def
proof (rule last_index_fromI)
  fix k assume k: "length pre < k"
  have d: "drop k (pre @ newline # t) = drop (k - length pre - 1) t"
    using k by (cases "k - length pre") auto
  have "newline \<notin> set (drop (k - length pre - 1) t)"
    using assms(1) in_set_dropD by fast
  then show "\<not> has_prefix (drop k (pre @ newline # t)) (newline # m)"
    unfolding d has_prefix_def by (cases "drop (k - length pre - 1) t") auto
qed (use assms(2) in \<open>auto simp: has_prefix_def\<close>)

lemma split_byte_none: "c \<notin> set x \<Longrightarrow> split_byte c x = [x]"
  by (induction x) auto

lemma split_byte_append: "c \<notin> set x \<Longrightarrow> split_byte c (x @ c # y) = x # split_byte c y"
  by (induction x) auto

lemma trim_space_padded:
  assumes "tidy x" and "x \<noteq> []"
  shows "trim_space (CHR '' '' # x) = x" and "trim_space (CHR '' '' # x @ '' '') = x"
proof -
  have blank: "ascii_char (CHR '' '')" "is_space (bval (CHR '' ''))"
    by (simp_all add: ascii_char_def is_space_def bval_def)
  have x: "list_all ascii_char x" "\<not> is_space (bval (hd x))" "\<not> is_space (bval (hd (rev x)))"
    using assms by (simp_all add: tidy_def ascii_def hd_rev)
  have d: "dropWhile (\<lambda>c. is_space (bval c)) (x @ y) = x @ y" for y
    using x(2) assms(2) by (intro dropWhile_hd) simp
  have d0: "dropWhile (\<lambda>c. is_space (bval c)) x = x"
    using d[of "[]"] by simp
  have r: "dropWhile (\<lambda>c. is_space (bval c)) (rev x) = rev x"
    using x(3) by (intro dropWhile_hd) simp
  show "trim_space (CHR '' '' # x) = x"
    using blank x(1) by (simp add: trim_space_ascii d0 r)
  show "trim_space (CHR '' '' # x @ '' '') = x"
    using blank x(1) by (simp add: trim_space_ascii d r)
qed

lemma split_joined_choices:
  assumes "\<forall>c \<in> set cs. tidy c \<and> c \<noteq> []" and "cs \<noteq> []"
  shows "map trim_space (split_byte (CHR ''|'') (CHR '' '' # join '' | '' cs)) = cs"
  using assms
proof (induction "'' | ''" cs rule: join.induct)
  case (2 x)
  then have "CHR ''|'' \<notin> set (CHR '' '' # x)" by (simp add: tidy_def)
  with 2 show ?case by (simp add: split_byte_none trim_space_padded del: split_byte.simps)
next
  case (3 x y ys)
  have "CHR ''|'' \<notin> set (CHR '' '' # x @ '' '')" using 3(2) by (simp add: tidy_def)
  from split_byte_append[OF this, of "CHR '' '' # join '' | '' (y # ys)"]
  have "split_byte (CHR ''|'') (CHR '' '' # join '' | '' (x # y # ys))
      = (CHR '' '' # x @ '' '') # split_byte (CHR ''|'') (CHR '' '' # join '' | '' (y # ys))" by simp
  with 3 show ?case by (simp add: trim_space_padded del: split_byte.simps)
qed simp

lemma newline_free_join:
  "\<forall>c \<in> set cs. newline \<notin> set c \<Longrightarrow> newline \<notin> set (join '' | '' cs)"
  by (induction "'' | ''" cs rule: join.induct) (auto simp: newline_def)

lemma trim_right_again:
  "trim_right_set cs (trim_right_set cs s @ w) = trim_right_set cs s" if "set w \<subseteq> cs"
proof -
  have w: "dropWhile (\<lambda>c. c \<in> cs) (rev w @ y) = dropWhile (\<lambda>c. c \<in> cs) y" for y
    using that by (intro dropWhile_append2) auto
  show ?thesis by (simp add: trim_right_set_def w)
qed

text \<open>
  C29: choices survive storage. For ASCII choices of which at least two remain after cleaning,
  whatever the body is, the stored text splits back into exactly the cleaned choices (two to five,
  none empty) and the body without its trailing blanks and newlines.
\<close>
theorem choices_roundtrip:
  assumes "\<forall>c \<in> set choices. ascii c" and "min_choices \<le> length (clean_choices [] choices)"
  shows "split_choices (with_choices body choices)
      = (trim_right_set {newline, CHR '' ''} body, clean_choices [] choices)
    \<and> length (clean_choices [] choices) \<le> max_choices"
proof -
  let ?cs = "clean_choices [] choices" and ?b = "trim_right_set {newline, CHR '' ''} body"
  let ?t = "choices_marker @ CHR '' '' # join '' | '' ?cs"
  have kept: "\<forall>c \<in> set ?cs. tidy c \<and> c \<noteq> []" "length ?cs \<le> max_choices"
    using clean_choices_kept[of choices "[]"] assms(1) by (auto simp: max_choices_def)
  have "?cs \<noteq> []" using assms(2) by (auto simp: min_choices_def)
  with kept have split: "map trim_space (split_byte (CHR ''|'') (CHR '' '' # join '' | '' ?cs)) = ?cs"
    using split_joined_choices by blast
  have joined: "newline \<notin> set (CHR '' '' # join '' | '' ?cs)"
    using newline_free_join[of ?cs] kept(1) by (auto simp: tidy_def newline_def)
  then have t: "newline \<notin> set ?t"
    by (auto simp: choices_marker_def newline_def)
  have stored: "with_choices body choices = (?b @ [newline]) @ newline # ?t"
    using assms(2) by (simp add: with_choices_def Let_def)
  have found: "last_index ((?b @ [newline]) @ newline # ?t) (newline # choices_marker) = Some (length ?b + 1)"
    using last_index_last_line[OF t, of choices_marker "?b @ [newline]"] by (simp add: has_prefix_def)
  have line: "drop (length ?b + 1 + 1 + length choices_marker) ((?b @ [newline]) @ newline # ?t)
      = CHR '' '' # join '' | '' ?cs" by simp
  have before: "take (length ?b + 1) ((?b @ [newline]) @ newline # ?t) = ?b @ [newline]" by simp
  have nonempty: "filter (\<lambda>c. c \<noteq> []) ?cs = ?cs" using kept(1) by simp
  show ?thesis
    unfolding split_choices_def stored found option.case line before split nonempty Let_def
    using joined assms(2) kept(2) trim_right_again[of "[newline]" "{newline, CHR '' ''}" body]
    by (simp del: split_byte.simps)
qed

theorem choices_roundtrip_witness:
  "split_choices (with_choices ''Pick one'' [''yes'', '' yes '', ''n | o''])
    = (''Pick one'', [''yes'', ''n / o''])"
proof -
  have cs: "clean_choices [] [''yes'', '' yes '', ''n | o''] = [''yes'', ''n / o'']"
    by (simp add: clean_choice_def Let_def max_choices_def max_choice_runes_def fields_def
      fields_from.simps replace_byte_def is_space_def bval_def runes_ascii ascii_char_def)
  have "\<forall>c \<in> set [''yes'', '' yes '', ''n | o'']. ascii c"
    by (simp add: ascii_def ascii_char_def bval_def)
  from choices_roundtrip[OF this, of "''Pick one''"] cs show ?thesis
    by (simp add: min_choices_def trim_right_set_def newline_def)
qed

end
