(* ===== verification/OutboxDb.thy ===== *)
theory OutboxDb
  imports AgentTypes "HOL-Library.AList"
begin

text \<open>
  The tables of the application database (\<open>internal/adapters/sqlite\<close>): planned replies and effects,
  turns (\<open>inbound_events\<close>), the transcript with its resets and mention bindings, and the senders
  of a chat. A table is an association list from its key to its row, in the order of insertion. SQLite itself is outside the repository: what
  it reports for a statement is the parameter \<open>io\<close>, from the operation name the code gives the
  statement to an error; a transaction that reports an error leaves the tables as they were, and
  one statement of a transaction sees the changes of those before it. Columns that hold
  identifiers the code parses when it reads them are strings.
\<close>

type_synonym io = "string \<Rightarrow> go_error option"

type_synonym ('k, 'v) table = "('k \<times> 'v) list"

abbreviation row :: "('k, 'v) table \<Rightarrow> 'k \<Rightarrow> 'v option" where
  "row t k \<equiv> map_of t k"

abbreviation put :: "'k \<Rightarrow> 'v \<Rightarrow> ('k, 'v) table \<Rightarrow> ('k, 'v) table" where
  "put k v t \<equiv> AList.update k v t"

text \<open>
  The states of \<open>action.State\<close> and \<open>effect.State\<close>, which have the same names; \<open>StateOther\<close> is any
  other number in the column.
\<close>

datatype outbox_state =
  StatePending | StateExecuting | StateSucceeded | StateFailedTerminal | StateUnknownOutcome
  | StateOther nat

definition final_state :: "outbox_state \<Rightarrow> bool" where
  "final_state s \<longleftrightarrow> s \<in> {StateSucceeded, StateFailedTerminal, StateUnknownOutcome}"

record action_row =
  act_invocation_id :: string
  act_response_id :: string
  act_reply_to :: "string option"
  act_text :: string
  act_state :: outbox_state
  act_attempts :: nat
  act_receipt :: "string option"
  act_last_error :: "error_code option"
  act_created_at_ms :: int
  act_updated_at_ms :: int
  act_completed_at_ms :: "int option"

text \<open>
  A row of \<open>inbound_events\<close>, keyed by chat and invocation. A received message that no turn has
  claimed has the state number 0, an ignored one -1, which \<open>uint8\<close> reads as 255.
\<close>

record turn_row =
  tn_state :: turn_state
  tn_claimed :: bool
  tn_message_id :: string
  tn_provider_message_id :: "string option"
  tn_cause :: invocation_cause
  tn_causation_kind :: causation_kind
  tn_causation_id :: string
  tn_participant :: "string option"
  tn_sender_ref :: "string option"
  tn_sender_name :: string
  tn_input_text :: string
  tn_occurred_at_ms :: int
  tn_received_at_ms :: int
  tn_attempts :: nat
  tn_config_version :: "nat option"
  tn_last_error :: "error_code option"
  tn_ignored_reason :: "string option"
  tn_updated_at_ms :: int

abbreviation received_state :: turn_state where "received_state \<equiv> TurnStateOther 0"
abbreviation ignored_state :: turn_state where "ignored_state \<equiv> TurnStateOther 255"

text \<open>A row of \<open>history_entries\<close>, keyed by chat and message.\<close>

record history_row =
  hr_sequence :: nat
  hr_invocation_id :: string
  hr_causation_kind :: causation_kind
  hr_causation_id :: string
  hr_role :: history_role
  hr_participant :: "string option"
  hr_sender_ref :: "string option"
  hr_sender_name :: string
  hr_sender_is_admin :: bool
  hr_sender_is_super_admin :: bool
  hr_quoted_message_id :: "string option"
  hr_quoted_sequence :: "nat option"
  hr_quoted_role :: "history_role option"
  hr_quoted_sender_ref :: "string option"
  hr_quoted_text :: "string option"
  hr_quoted_is_admin :: bool
  hr_quoted_is_super_admin :: bool
  hr_content :: string
  hr_delivery :: delivery_status
  hr_created_at_ms :: int
  hr_updated_at_ms :: int

record reset_row =
  rt_cutoff :: nat
  rt_config_version :: nat
  rt_reset_at_ms :: int

record mention_row =
  mb_token :: string
  mb_sender_ref :: "string option"
  mb_is_bot :: bool

record sender_row =
  sf_ref :: string
  sf_display_name :: string

text \<open>\<open>effectPayload\<close>, the JSON object of an effect row; an omitted field is empty.\<close>

record effect_payload =
  ep_principal :: nat
  ep_participant :: string
  ep_lid :: string
  ep_invocation :: string
  ep_emoji :: string
  ep_command :: string
  ep_sticker :: string

record effect_row =
  er_invocation_id :: string
  er_model_call_id :: "string option"
  er_kind :: nat
  er_target :: "string option"
  er_payload :: effect_payload
  er_state :: outbox_state
  er_receipt :: "string option"
  er_last_error :: "error_code option"
  er_created_at_ms :: int
  er_updated_at_ms :: int
  er_completed_at_ms :: "int option"

record effect_ref =
  ref_key :: agent_key
  ref_effect_id :: effect_id

record outbox_db =
  db_chats :: "agent_key list"
  db_actions :: "(dispatch_ref, action_row) table"
  db_turns :: "(agent_key \<times> string, turn_row) table"
  db_history :: "(agent_key \<times> string, history_row) table"
  db_effects :: "(effect_ref, effect_row) table"
  db_configs :: "(agent_key, nat) table"
  db_resets :: "(agent_key, reset_row) table"
  db_mentions :: "(agent_key \<times> string, mention_row list) table"
  db_participants :: "(tenant_id \<times> account_id \<times> string) list"
  db_senders :: "(agent_key \<times> string, sender_row) table"
  db_last_sequence :: nat

subsection \<open>Errors of the store\<close>

definition storage_error :: "string \<Rightarrow> go_error \<Rightarrow> go_error" where
  "storage_error oper err =
    (if error_code_of err \<noteq> ErrorInternal then err
     else if wraps_sentinel DeadlineExceeded err then new_error ErrorTimeout oper (Some err)
     else if wraps_sentinel ContextCanceled err then new_error ErrorCancelled oper (Some err)
     else new_error ErrorStorageFailure oper (Some err))"

text \<open>A statement whose result is not inspected further.\<close>

definition statement :: "io \<Rightarrow> string \<Rightarrow> go_error option" where
  "statement io oper = map_option (storage_error oper) (io oper)"

definition require_one :: "io \<Rightarrow> string \<Rightarrow> nat \<Rightarrow> go_error option" where
  "require_one io oper changed = (case io oper of
     Some e \<Rightarrow> Some (storage_error oper e)
   | None \<Rightarrow>
       if changed \<noteq> 1 then Some (errorf ErrorConflict oper ''row is not in the expected state'')
       else None)"

definition nullable_string :: "string \<Rightarrow> string option" where
  "nullable_string v = (if v = [] then None else Some v)"

definition nullable_error_code :: "error_code \<Rightarrow> error_code option" where
  "nullable_error_code c = (if c = NoCode then None else Some c)"

definition nullable_message_id :: "message_id \<Rightarrow> string option" where
  "nullable_message_id i = (if is_zero i then None else Some (ident_value i))"

definition max_int64 :: int where
  "max_int64 = 2 ^ 63 - 1"

definition cutoff_millis :: "instant \<Rightarrow> int" where
  "cutoff_millis before = (if before = 0 then max_int64 else unix_milli before)"

text \<open>\<open>time.UnixMilli(ms).UTC()\<close>.\<close>

definition from_unix_milli :: "int \<Rightarrow> instant" where
  "from_unix_milli ms = (ms + 62135596800000) * 1000000"

lemma unix_milli_from [simp]: "unix_milli (from_unix_milli ms) = ms"
  by (simp add: unix_milli_def from_unix_milli_def)

lemma statement_None [simp]: "statement io oper = None \<longleftrightarrow> io oper = None"
  by (simp add: statement_def)

lemma statement_calm [simp]: "statement (\<lambda>_. None) oper = None"
  by (simp add: statement_def)

lemma require_one_None [simp]: "require_one io oper n = None \<longleftrightarrow> io oper = None \<and> n = 1"
  by (simp add: require_one_def split: option.splits)

lemma require_one_conflict:
  "io oper = None \<Longrightarrow> n \<noteq> 1 \<Longrightarrow> \<exists>e. require_one io oper n = Some e \<and> error_code_of e = ErrorConflict"
  by (simp add: require_one_def)

lemma row_put [simp]: "row (put k v t) k' = (if k' = k then Some v else row t k')"
  by (simp add: update_conv')

lemma put_new: "row t k = None \<Longrightarrow> put k v t = t @ [(k, v)]"
  by (induction t) (auto split: if_splits)

text \<open>An \<open>UPDATE\<close> of the row with one primary key, when the row satisfies a condition.\<close>

definition update_where :: "'k \<Rightarrow> ('v \<Rightarrow> bool) \<Rightarrow> ('v \<Rightarrow> 'v) \<Rightarrow> ('k, 'v) table \<Rightarrow> nat \<times> ('k, 'v) table"
  where "update_where k p f t = (case row t k of
     Some v \<Rightarrow> if p v then (1, put k (f v) t) else (0, t) | None \<Rightarrow> (0, t))"

lemma update_where_one:
  "update_where k p f t = (1, t') \<longleftrightarrow> (\<exists>v. row t k = Some v \<and> p v \<and> t' = put k (f v) t)"
  by (auto simp: update_where_def split: option.splits if_splits)

lemmas update_where_one' = update_where_one[unfolded One_nat_def]

lemma update_where_row:
  "row (snd (update_where k p f t)) k' =
    (case row t k of Some v \<Rightarrow> if p v \<and> k' = k then Some (f v) else row t k' | None \<Rightarrow> row t k')"
  by (auto simp: update_where_def split: option.splits)

end
