(* ===== verification/Outbox.thy ===== *)
theory Outbox
  imports OutboxDb
begin

text \<open>
  What the dispatchers rely on. \<open>outbox_ops\<close> is the interface of an outbox (the \<open>Store\<close> interfaces
  of \<open>internal/action\<close> and \<open>internal/effect\<close>, with the startup resolution of interrupted rows),
  \<open>outbox_step\<close> the system of any number of dispatchers running against one, interleaved with new
  plans and with crashes, and the locales state the laws of an outbox and prove what the system
  then guarantees. The two stores interpret them.

  A worker has read a row as pending (\<open>Loaded\<close>), has claimed it (\<open>Claimed\<close>), or has made the
  native call it claimed the row for (\<open>Attempted\<close>); \<open>sys_sends\<close> counts native calls per row.
\<close>

record ('c, 'ref, 'db) outbox_ops =
  op_state :: "'db \<Rightarrow> 'ref \<Rightarrow> outbox_state option"
  op_start :: "'c \<Rightarrow> 'ref \<Rightarrow> 'db \<Rightarrow> go_error option \<times> 'db"
  op_complete :: "'c \<Rightarrow> 'ref \<Rightarrow> 'db \<Rightarrow> go_error option \<times> 'db"
  op_fail :: "'c \<Rightarrow> 'ref \<Rightarrow> 'db \<Rightarrow> go_error option \<times> 'db"
  op_unknown :: "'c \<Rightarrow> 'ref \<Rightarrow> 'db \<Rightarrow> go_error option \<times> 'db"
  op_recover :: "'c \<Rightarrow> 'db \<Rightarrow> go_error option \<times> 'db"

datatype phase = Loaded | Claimed | Attempted

record ('ref, 'db) outbox_sys =
  sys_db :: 'db
  sys_workers :: "nat \<rightharpoonup> 'ref \<times> phase"
  sys_sends :: "'ref \<Rightarrow> nat"

text \<open>
  What other writers of the tables may do to an outbox: plan new rows, any number in one
  transaction, and nothing to the rows that are there.
\<close>

definition only_plans :: "('c, 'ref, 'db) outbox_ops \<Rightarrow> 'db \<Rightarrow> 'db \<Rightarrow> bool" where
  "only_plans ops db db' \<longleftrightarrow> (\<forall>ref. op_state ops db' ref = op_state ops db ref
     \<or> op_state ops db ref = None \<and> op_state ops db' ref = Some StatePending)"

text \<open>
  The steps of the dispatchers (\<open>Dispatcher.Dispatch\<close> of both packages), one per call that other
  workers can observe. \<open>refusable\<close> says for which rows a claimed call may be refused before it
  does anything, which is the case of commands only.
\<close>

inductive outbox_step ::
  "('c, 'ref, 'db) outbox_ops \<Rightarrow> ('ref \<Rightarrow> bool) \<Rightarrow> ('ref, 'db) outbox_sys \<Rightarrow> ('ref, 'db) outbox_sys \<Rightarrow> bool"
  for ops refusable
where
  plan: "only_plans ops (sys_db s) db'
    \<Longrightarrow> outbox_step ops refusable s (s\<lparr>sys_db := db'\<rparr>)"
| load: "\<lbrakk>op_state ops (sys_db s) ref = Some StatePending; sys_workers s t = None\<rbrakk>
    \<Longrightarrow> outbox_step ops refusable s (s\<lparr>sys_workers := (sys_workers s)(t \<mapsto> (ref, Loaded))\<rparr>)"
| leave: "sys_workers s t = Some (ref, Loaded)
    \<Longrightarrow> outbox_step ops refusable s (s\<lparr>sys_workers := (sys_workers s)(t := None)\<rparr>)"
| deny: "\<lbrakk>sys_workers s t = Some (ref, Loaded); op_fail ops c ref (sys_db s) = (r, db')\<rbrakk>
    \<Longrightarrow> outbox_step ops refusable s
          (s\<lparr>sys_db := db', sys_workers := (sys_workers s)(t := None)\<rparr>)"
| start: "\<lbrakk>sys_workers s t = Some (ref, Loaded); op_start ops c ref (sys_db s) = (None, db')\<rbrakk>
    \<Longrightarrow> outbox_step ops refusable s
          (s\<lparr>sys_db := db', sys_workers := (sys_workers s)(t \<mapsto> (ref, Claimed))\<rparr>)"
| refuse: "\<lbrakk>sys_workers s t = Some (ref, Claimed); refusable ref; op_fail ops c ref (sys_db s) = (r, db')\<rbrakk>
    \<Longrightarrow> outbox_step ops refusable s
          (s\<lparr>sys_db := db', sys_workers := (sys_workers s)(t := None)\<rparr>)"
| attempt: "sys_workers s t = Some (ref, Claimed)
    \<Longrightarrow> outbox_step ops refusable s (s\<lparr>sys_workers := (sys_workers s)(t \<mapsto> (ref, Attempted)),
          sys_sends := (sys_sends s)(ref := sys_sends s ref + 1)\<rparr>)"
| complete: "\<lbrakk>sys_workers s t = Some (ref, Attempted); op_complete ops c ref (sys_db s) = (None, db')\<rbrakk>
    \<Longrightarrow> outbox_step ops refusable s
          (s\<lparr>sys_db := db', sys_workers := (sys_workers s)(t := None)\<rparr>)"
| unknown: "\<lbrakk>sys_workers s t = Some (ref, Attempted); op_unknown ops c ref (sys_db s) = (r, db')\<rbrakk>
    \<Longrightarrow> outbox_step ops refusable s
          (s\<lparr>sys_db := db', sys_workers := (sys_workers s)(t := None)\<rparr>)"
| crash: "op_recover ops c (sys_db s) = (None, db')
    \<Longrightarrow> outbox_step ops refusable s (s\<lparr>sys_db := db', sys_workers := Map.empty\<rparr>)"

inductive_cases outbox_stepE: "outbox_step ops refusable s s'"

definition sys_start :: "'db \<Rightarrow> ('ref, 'db) outbox_sys" where
  "sys_start db = \<lparr>sys_db = db, sys_workers = Map.empty, sys_sends = (\<lambda>_. 0)\<rparr>"

definition reachable :: "('c, 'ref, 'db) outbox_ops \<Rightarrow> ('ref \<Rightarrow> bool) \<Rightarrow> 'db \<Rightarrow>
    ('ref, 'db) outbox_sys \<Rightarrow> bool" where
  "reachable ops refusable db s \<longleftrightarrow> (outbox_step ops refusable)\<^sup>*\<^sup>* (sys_start db) s"

lemma reachable_start: "reachable ops refusable db (sys_start db)"
  by (simp add: reachable_def)

lemma reachable_step:
  "reachable ops refusable db s \<Longrightarrow> outbox_step ops refusable s s' \<Longrightarrow> reachable ops refusable db s'"
  by (simp add: reachable_def)

text \<open>A run in which one worker loads, claims and sends a row.\<close>

lemma run_one_send:
  assumes "op_state ops db ref = Some StatePending" and "op_start ops c ref db = (None, db')"
  shows "\<exists>s. reachable ops refusable db s \<and> sys_db s = db' \<and> sys_workers s = [t \<mapsto> (ref, Attempted)]
    \<and> sys_sends s ref = 1"
proof -
  define s1 where "s1 = (sys_start db)\<lparr>sys_workers := (sys_workers (sys_start db))(t \<mapsto> (ref, Loaded))\<rparr>"
  define s2 where "s2 = s1\<lparr>sys_db := db', sys_workers := (sys_workers s1)(t \<mapsto> (ref, Claimed))\<rparr>"
  define s3 where "s3 = s2\<lparr>sys_workers := (sys_workers s2)(t \<mapsto> (ref, Attempted)),
    sys_sends := (sys_sends s2)(ref := sys_sends s2 ref + 1)\<rparr>"
  have "outbox_step ops refusable (sys_start db) s1"
    unfolding s1_def by (rule outbox_step.load) (simp_all add: sys_start_def assms(1))
  moreover have "outbox_step ops refusable s1 s2"
    unfolding s2_def by (rule outbox_step.start[where c = c]) (simp_all add: s1_def sys_start_def assms(2))
  moreover have "outbox_step ops refusable s2 s3"
    unfolding s3_def by (rule outbox_step.attempt) (simp add: s2_def)
  ultimately have "reachable ops refusable db s3"
    using reachable_start reachable_step by metis
  then show ?thesis
    by (intro exI[of _ s3]) (simp add: s3_def s2_def s1_def sys_start_def)
qed

text \<open>Two workers of a row are never both past the claim; counted with the sends they are at most one.\<close>

definition holds_claim :: "('ref, 'db) outbox_sys \<Rightarrow> nat \<Rightarrow> 'ref \<Rightarrow> bool" where
  "holds_claim s t ref \<longleftrightarrow> (\<exists>p. sys_workers s t = Some (ref, p) \<and> p \<noteq> Loaded)"

lemma holds_claim_upd [simp]:
  "sys_workers s' = (sys_workers s)(t := w) \<Longrightarrow> holds_claim s' t' ref \<longleftrightarrow>
     (if t' = t then (\<exists>p. w = Some (ref, p) \<and> p \<noteq> Loaded) else holds_claim s t' ref)"
  by (simp add: holds_claim_def)

lemma not_holds_claim_Loaded:
  "sys_workers s t = Some (ref, Loaded) \<Longrightarrow> \<not> holds_claim s t r"
  by (simp add: holds_claim_def)

text \<open>A row no claim has been made on: not planned yet, or still pending.\<close>

definition row_open :: "('c, 'ref, 'db) outbox_ops \<Rightarrow> 'db \<Rightarrow> 'ref \<Rightarrow> bool" where
  "row_open ops db ref \<longleftrightarrow> op_state ops db ref = None \<or> op_state ops db ref = Some StatePending"

lemma row_open_upd:
  "op_state ops db' = (op_state ops db)(ref \<mapsto> st) \<Longrightarrow>
    row_open ops db' x \<longleftrightarrow> (if x = ref then st = StatePending else row_open ops db x)"
  by (simp add: row_open_def)

subsection \<open>The laws of an outbox\<close>

locale outbox =
  fixes ops :: "('c, 'ref, 'db) outbox_ops"
    and refusable :: "'ref \<Rightarrow> bool"
  assumes start_law: "op_start ops c ref db = (None, db') \<Longrightarrow>
      op_state ops db ref = Some StatePending
      \<and> op_state ops db' = (op_state ops db)(ref \<mapsto> StateExecuting)"
    and complete_law: "op_complete ops c ref db = (None, db') \<Longrightarrow>
      op_state ops db ref = Some StateExecuting
      \<and> op_state ops db' = (op_state ops db)(ref \<mapsto> StateSucceeded)"
    and unknown_law: "op_unknown ops c ref db = (None, db') \<Longrightarrow>
      op_state ops db ref = Some StateExecuting
      \<and> op_state ops db' = (op_state ops db)(ref \<mapsto> StateUnknownOutcome)"
    and fail_law: "op_fail ops c ref db = (None, db') \<Longrightarrow>
      op_state ops db ref \<in> {Some StatePending, Some StateExecuting}
      \<and> op_state ops db' = (op_state ops db)(ref \<mapsto> StateFailedTerminal)"
    and recover_law: "op_recover ops c db = (None, db') \<Longrightarrow>
      op_state ops db' ref = op_state ops db ref
      \<or> op_state ops db ref = Some StateExecuting \<and> op_state ops db' ref = Some StateUnknownOutcome"
    and error_law: "op_start ops c ref db = (Some e, db1) \<Longrightarrow> db1 = db"
      "op_complete ops c ref db = (Some e, db2) \<Longrightarrow> db2 = db"
      "op_unknown ops c ref db = (Some e, db3) \<Longrightarrow> db3 = db"
      "op_fail ops c ref db = (Some e, db4) \<Longrightarrow> db4 = db"
begin

text \<open>
  The invariant: a row that is still open for a claim has none and was never sent; no two workers
  hold the claim of a row; and a worker that has the claim but has not sent is the only reason a
  row may still be sent.
\<close>

definition once :: "('ref, 'db) outbox_sys \<Rightarrow> bool" where
  "once s \<longleftrightarrow> (\<forall>ref.
     (row_open ops (sys_db s) ref \<longrightarrow> sys_sends s ref = 0 \<and> (\<forall>t. \<not> holds_claim s t ref))
   \<and> (\<forall>t t'. holds_claim s t ref \<longrightarrow> holds_claim s t' ref \<longrightarrow> t = t')
   \<and> (\<forall>t. sys_workers s t = Some (ref, Claimed) \<longrightarrow> sys_sends s ref = 0)
   \<and> sys_sends s ref \<le> 1)"

lemma onceD:
  assumes "once s"
  shows "row_open ops (sys_db s) ref \<Longrightarrow> sys_sends s ref = 0"
    and "row_open ops (sys_db s) ref \<Longrightarrow> \<not> holds_claim s t ref"
    and "holds_claim s t ref \<Longrightarrow> holds_claim s t' ref \<Longrightarrow> t = t'"
    and "sys_workers s t = Some (ref, Claimed) \<Longrightarrow> sys_sends s ref = 0"
    and "sys_sends s ref \<le> 1"
  using assms unfolding once_def by blast+

text \<open>
  Steps that open no row, add no claim and no send keep the invariant; the others are the claim
  and the native call.
\<close>

lemma once_shrinks:
  assumes "once s" and "sys_sends s' = sys_sends s"
    and "\<And>t ref p. sys_workers s' t = Some (ref, p) \<Longrightarrow> p \<noteq> Loaded \<Longrightarrow> sys_workers s t = Some (ref, p)"
    and "\<And>ref. row_open ops (sys_db s') ref \<Longrightarrow> row_open ops (sys_db s) ref"
  shows "once s'"
proof -
  have claims: "holds_claim s t ref" if "holds_claim s' t ref" for t ref
    using that assms(3) unfolding holds_claim_def by blast
  have "sys_workers s t = Some (ref, Claimed)" if "sys_workers s' t = Some (ref, Claimed)" for t ref
    using assms(3)[OF that] by simp
  with claims show ?thesis
    unfolding once_def assms(2) using onceD[OF assms(1)] assms(4) by blast
qed

lemma fail_closes:
  assumes "op_fail ops c ref db = (r, db')" and "row_open ops db' x"
  shows "row_open ops db x"
proof (cases r)
  case None
  with assms(1) have "op_state ops db' = (op_state ops db)(ref \<mapsto> StateFailedTerminal)"
    using fail_law by blast
  from row_open_upd[OF this] assms(2) show ?thesis by (simp split: if_splits)
next
  case (Some e)
  with assms error_law(4) show ?thesis by blast
qed

lemma unknown_closes:
  assumes "op_unknown ops c ref db = (r, db')" and "row_open ops db' x"
  shows "row_open ops db x"
proof (cases r)
  case None
  with assms(1) have "op_state ops db' = (op_state ops db)(ref \<mapsto> StateUnknownOutcome)"
    using unknown_law by blast
  from row_open_upd[OF this] assms(2) show ?thesis by (simp split: if_splits)
next
  case (Some e)
  with assms error_law(3) show ?thesis by blast
qed

lemma recover_closes:
  assumes "op_recover ops c db = (None, db')" and "row_open ops db' x"
  shows "row_open ops db x"
  using recover_law[OF assms(1), of x] assms(2) by (auto simp: row_open_def)

lemma once_start:
  assumes "once s" and "sys_workers s t = Some (ref, Loaded)"
    and "op_start ops c ref (sys_db s) = (None, db')"
  shows "once (s\<lparr>sys_db := db', sys_workers := (sys_workers s)(t \<mapsto> (ref, Claimed))\<rparr>)"
proof -
  have law: "row_open ops (sys_db s) ref"
    "op_state ops db' = (op_state ops (sys_db s))(ref \<mapsto> StateExecuting)"
    using start_law[OF assms(3)] by (simp_all add: row_open_def)
  have free: "sys_sends s ref = 0" "\<not> holds_claim s t' ref" for t'
    using onceD(1,2)[OF assms(1) law(1)] by blast+
  have claims: "holds_claim (s\<lparr>sys_db := db', sys_workers := (sys_workers s)(t \<mapsto> (ref, Claimed))\<rparr>) t' x
      \<longleftrightarrow> (if t' = t then x = ref else holds_claim s t' x)" for t' x
    by (auto simp: holds_claim_def)
  have mine: "\<not> holds_claim s t x" for x
    using assms(2) by (rule not_holds_claim_Loaded)
  show ?thesis
    unfolding once_def claims
    using onceD[OF assms(1)] free mine by (auto simp: row_open_upd[OF law(2)] split: if_splits)
qed

lemma once_attempt:
  assumes "once s" and "sys_workers s t = Some (ref, Claimed)"
  shows "once (s\<lparr>sys_workers := (sys_workers s)(t \<mapsto> (ref, Attempted)),
      sys_sends := (sys_sends s)(ref := sys_sends s ref + 1)\<rparr>)"
proof -
  have mine: "holds_claim s t ref" using assms(2) by (simp add: holds_claim_def)
  have closed: "\<not> row_open ops (sys_db s) ref"
    using onceD(2)[OF assms(1)] mine by blast
  have unsent: "sys_sends s ref = 0" using onceD(4)[OF assms(1,2)] .
  have only: "t' = t" if "sys_workers s t' = Some (ref, Claimed)" for t'
    using onceD(3)[OF assms(1) _ mine] that by (auto simp: holds_claim_def)
  have claims: "holds_claim (s\<lparr>sys_workers := (sys_workers s)(t \<mapsto> (ref, Attempted)),
      sys_sends := (sys_sends s)(ref := sys_sends s ref + 1)\<rparr>) t' x \<longleftrightarrow> holds_claim s t' x" for t' x
    using assms(2) by (auto simp: holds_claim_def)
  show ?thesis
    unfolding once_def claims using onceD[OF assms(1)] closed unsent only by auto
qed

lemma once_step:
  assumes "once s" and "outbox_step ops refusable s s'"
  shows "once s'"
  using assms(2)
proof cases
  case (plan db')
  then have "row_open ops (sys_db s) ref" if "row_open ops db' ref" for ref
    using that unfolding only_plans_def row_open_def by metis
  with plan(1) show ?thesis by (intro once_shrinks[OF assms(1)]) auto
next
  case (deny t ref c r db')
  then show ?thesis using fail_closes by (intro once_shrinks[OF assms(1)]) (auto split: if_splits)
next
  case (start t ref c db')
  then show ?thesis using once_start[OF assms(1)] by blast
next
  case (refuse t ref c r db')
  then show ?thesis using fail_closes by (intro once_shrinks[OF assms(1)]) (auto split: if_splits)
next
  case (attempt t ref)
  then show ?thesis using once_attempt[OF assms(1)] by blast
next
  case (complete t ref c db')
  then have "row_open ops db' x \<Longrightarrow> row_open ops (sys_db s) x" for x
    using complete_law[OF complete(3)] row_open_upd[of ops db' "sys_db s" ref StateSucceeded x]
    by (auto split: if_splits)
  with complete(1) show ?thesis by (intro once_shrinks[OF assms(1)]) (auto split: if_splits)
next
  case (unknown t ref c r db')
  then show ?thesis using unknown_closes by (intro once_shrinks[OF assms(1)]) (auto split: if_splits)
next
  case (crash c db')
  then show ?thesis using recover_closes by (intro once_shrinks[OF assms(1)]) auto
qed (intro once_shrinks[OF assms(1)]; auto split: if_splits)+

lemma once_sys_start: "once (sys_start db)"
  by (simp add: once_def sys_start_def holds_claim_def)

lemma reachable_once:
  assumes "reachable ops refusable db s"
  shows "once s"
proof -
  have "(outbox_step ops refusable)\<^sup>*\<^sup>* (sys_start db) s" using assms by (simp add: reachable_def)
  then show ?thesis
    by (induction rule: rtranclp_induct) (rule once_sys_start, erule once_step)
qed

lemma at_most_once: "reachable ops refusable db s \<Longrightarrow> sys_sends s ref \<le> 1"
  using onceD(5)[OF reachable_once] .

lemma pending_never_sent:
  "reachable ops refusable db s \<Longrightarrow> op_state ops (sys_db s) ref = Some StatePending \<Longrightarrow> sys_sends s ref = 0"
  using onceD(1)[OF reachable_once] by (simp add: row_open_def)

end

subsection \<open>Outboxes whose failures are final before anything is sent\<close>

text \<open>
  An outbox of which no claimed call is ever refused, and whose \<open>FailTerminal\<close> applies to pending
  rows only: there a row that failed was never sent.
\<close>

locale strict_outbox = outbox ops refusable
  for ops :: "('c, 'ref, 'db) outbox_ops" and refusable :: "'ref \<Rightarrow> bool" +
  assumes fail_pending_law: "op_fail ops c ref db = (None, db') \<Longrightarrow> op_state ops db ref = Some StatePending"
    and never_refused: "\<not> refusable ref"
begin

definition failed_unsent :: "('ref, 'db) outbox_sys \<Rightarrow> bool" where
  "failed_unsent s \<longleftrightarrow> (\<forall>ref. op_state ops (sys_db s) ref = Some StateFailedTerminal \<longrightarrow>
     sys_sends s ref = 0 \<and> (\<forall>t. \<not> holds_claim s t ref))"

lemma failed_unsent_keeps:
  assumes "failed_unsent s" and "sys_sends s' = sys_sends s"
    and "\<And>t ref p. sys_workers s' t = Some (ref, p) \<Longrightarrow> p \<noteq> Loaded \<Longrightarrow> sys_workers s t = Some (ref, p)"
    and "\<And>ref. op_state ops (sys_db s') ref = Some StateFailedTerminal \<Longrightarrow>
      op_state ops (sys_db s) ref = Some StateFailedTerminal \<or> sys_sends s ref = 0 \<and> (\<forall>t. \<not> holds_claim s t ref)"
  shows "failed_unsent s'"
proof -
  have "holds_claim s t ref" if "holds_claim s' t ref" for t ref
    using that assms(3) unfolding holds_claim_def by blast
  with assms(1,2,4) show ?thesis unfolding failed_unsent_def by metis
qed

lemma failed_unsent_step:
  assumes "once s" and "failed_unsent s" and "outbox_step ops refusable s s'"
  shows "failed_unsent s'"
  using assms(3)
proof cases
  case (plan db')
  then have "op_state ops (sys_db s) ref = Some StateFailedTerminal"
    if "op_state ops db' ref = Some StateFailedTerminal" for ref
    using that unfolding only_plans_def by (metis option.inject outbox_state.distinct(5))
  with plan(1) show ?thesis by (intro failed_unsent_keeps[OF assms(2)]) auto
next
  case (deny t ref c r db')
  have "op_state ops (sys_db s) x = Some StateFailedTerminal
      \<or> sys_sends s x = 0 \<and> (\<forall>t. \<not> holds_claim s t x)"
    if "op_state ops db' x = Some StateFailedTerminal" for x
  proof (cases r)
    case None
    with deny(3) have "row_open ops (sys_db s) ref"
      "op_state ops db' = (op_state ops (sys_db s))(ref \<mapsto> StateFailedTerminal)"
      using fail_pending_law fail_law by (auto simp: row_open_def)
    with that onceD(1,2)[OF assms(1)] show ?thesis by (auto split: if_splits)
  next
    case (Some e)
    with deny(3) that error_law(4) show ?thesis by blast
  qed
  with deny(1) show ?thesis by (intro failed_unsent_keeps[OF assms(2)]) (auto split: if_splits)
next
  case (start t ref c db')
  have law: "row_open ops (sys_db s) ref"
    "op_state ops db' = (op_state ops (sys_db s))(ref \<mapsto> StateExecuting)"
    using start_law[OF start(3)] by (simp_all add: row_open_def)
  with assms(2) start(1) show ?thesis
    by (auto simp: failed_unsent_def holds_claim_def split: if_splits)
next
  case (attempt t ref)
  then have "op_state ops (sys_db s) ref \<noteq> Some StateFailedTerminal"
    using assms(2) by (auto simp: failed_unsent_def holds_claim_def)
  with assms(2) attempt show ?thesis
    by (auto simp: failed_unsent_def holds_claim_def split: if_splits)
next
  case (complete t ref c db')
  then show ?thesis using complete_law[OF complete(3)]
    by (intro failed_unsent_keeps[OF assms(2)]) (auto split: if_splits)
next
  case (unknown t ref c r db')
  have "op_state ops (sys_db s) x = Some StateFailedTerminal"
    if "op_state ops db' x = Some StateFailedTerminal" for x
    using that unknown(3) unknown_law error_law(3) by (cases r) (fastforce split: if_splits)+
  with unknown(1) show ?thesis by (intro failed_unsent_keeps[OF assms(2)]) (auto split: if_splits)
next
  case (crash c db')
  have "op_state ops (sys_db s) x = Some StateFailedTerminal"
    if "op_state ops db' x = Some StateFailedTerminal" for x
    using that recover_law[OF crash(2), of x] by auto
  with crash(1) show ?thesis by (intro failed_unsent_keeps[OF assms(2)]) auto
qed (use never_refused in \<open>auto intro!: failed_unsent_keeps[OF assms(2)] split: if_splits\<close>)

lemma failed_never_sent:
  assumes "reachable ops refusable db s"
    and "op_state ops (sys_db s) ref = Some StateFailedTerminal"
  shows "sys_sends s ref = 0"
proof -
  have "(outbox_step ops refusable)\<^sup>*\<^sup>* (sys_start db) s" using assms(1) by (simp add: reachable_def)
  then have "once s \<and> failed_unsent s"
  proof (induction rule: rtranclp_induct)
    case base
    show ?case using once_sys_start by (simp add: failed_unsent_def sys_start_def holds_claim_def)
  next
    case (step s s')
    then show ?case using once_step failed_unsent_step by blast
  qed
  with assms(2) show ?thesis by (simp add: failed_unsent_def)
qed

end

end
