(* ===== verification/OutboxSite.thy ===== *)
theory OutboxSite
  imports Outbox
begin

text \<open>
  Where a dispatcher runs. A site is the outbox system together with everything else a dispatcher
  calls (the provider, the policy, the clock: \<open>st_ext\<close>). A dispatcher of the code runs at a site
  as one worker; before each of its calls the rest of the system (\<open>others\<close>) may move. The session
  operations below perform a worker's call and keep its entry in the system up to date, and the
  lemmas show that each is a sequence of steps of \<open>outbox_step\<close>. The theories of the two
  dispatchers use them to show that the code's \<open>Dispatch\<close> only ever takes such steps.
\<close>

record ('ref, 'db, 'x) site =
  st_sys :: "('ref, 'db) outbox_sys"
  st_ext :: 'x

definition sess_enter :: "nat \<Rightarrow> 'ref \<Rightarrow> ('ref, 'db) outbox_sys \<Rightarrow> ('ref, 'db) outbox_sys" where
  "sess_enter t ref s = s\<lparr>sys_workers := (sys_workers s)(t \<mapsto> (ref, Loaded))\<rparr>"

definition sess_leave :: "nat \<Rightarrow> ('ref, 'db) outbox_sys \<Rightarrow> ('ref, 'db) outbox_sys" where
  "sess_leave t s = s\<lparr>sys_workers := (sys_workers s)(t := None)\<rparr>"

definition sess_start :: "('c, 'ref, 'db) outbox_ops \<Rightarrow> nat \<Rightarrow> 'c \<Rightarrow> 'ref \<Rightarrow> ('ref, 'db) outbox_sys \<Rightarrow>
    go_error option \<times> ('ref, 'db) outbox_sys" where
  "sess_start ops t c ref s = (case op_start ops c ref (sys_db s) of (r, db') \<Rightarrow>
     (r, s\<lparr>sys_db := db', sys_workers := (sys_workers s)(t := if r = None then Some (ref, Claimed) else None)\<rparr>))"

definition sess_attempt :: "nat \<Rightarrow> 'ref \<Rightarrow> ('ref, 'db) outbox_sys \<Rightarrow> ('ref, 'db) outbox_sys" where
  "sess_attempt t ref s = s\<lparr>sys_workers := (sys_workers s)(t \<mapsto> (ref, Attempted)),
     sys_sends := (sys_sends s)(ref := sys_sends s ref + 1)\<rparr>"

definition sess_complete :: "('c, 'ref, 'db) outbox_ops \<Rightarrow> nat \<Rightarrow> 'c \<Rightarrow> 'ref \<Rightarrow> ('ref, 'db) outbox_sys \<Rightarrow>
    go_error option \<times> ('ref, 'db) outbox_sys" where
  "sess_complete ops t c ref s = (case op_complete ops c ref (sys_db s) of (r, db') \<Rightarrow>
     (r, s\<lparr>sys_db := db', sys_workers := (if r = None then (sys_workers s)(t := None) else sys_workers s)\<rparr>))"

definition sess_unknown :: "('c, 'ref, 'db) outbox_ops \<Rightarrow> nat \<Rightarrow> 'c \<Rightarrow> 'ref \<Rightarrow> ('ref, 'db) outbox_sys \<Rightarrow>
    go_error option \<times> ('ref, 'db) outbox_sys" where
  "sess_unknown ops t c ref s = (case op_unknown ops c ref (sys_db s) of (r, db') \<Rightarrow>
     (r, s\<lparr>sys_db := db', sys_workers := (sys_workers s)(t := None)\<rparr>))"

definition sess_fail :: "('c, 'ref, 'db) outbox_ops \<Rightarrow> nat \<Rightarrow> 'c \<Rightarrow> 'ref \<Rightarrow> ('ref, 'db) outbox_sys \<Rightarrow>
    go_error option \<times> ('ref, 'db) outbox_sys" where
  "sess_fail ops t c ref s = (case op_fail ops c ref (sys_db s) of (r, db') \<Rightarrow>
     (r, s\<lparr>sys_db := db', sys_workers := (sys_workers s)(t := None)\<rparr>))"

lemma sess_db:
  "sess_start ops t c ref s = (r, s') \<Longrightarrow> op_start ops c ref (sys_db s) = (r, sys_db s')"
  "sess_complete ops t c ref s = (r, s') \<Longrightarrow> op_complete ops c ref (sys_db s) = (r, sys_db s')"
  "sess_unknown ops t c ref s = (r, s') \<Longrightarrow> op_unknown ops c ref (sys_db s) = (r, sys_db s')"
  "sess_fail ops t c ref s = (r, s') \<Longrightarrow> op_fail ops c ref (sys_db s) = (r, sys_db s')"
  by (auto simp: sess_start_def sess_complete_def sess_unknown_def sess_fail_def split: prod.splits)

text \<open>No call on the store alone is a native call.\<close>

lemma sess_sends [simp]:
  "sys_sends (snd (sess_start ops t c ref s)) = sys_sends s"
  "sys_sends (snd (sess_complete ops t c ref s)) = sys_sends s"
  "sys_sends (snd (sess_unknown ops t c ref s)) = sys_sends s"
  "sys_sends (snd (sess_fail ops t c ref s)) = sys_sends s"
  "sys_sends (sess_enter t ref s) = sys_sends s" "sys_sends (sess_leave t s) = sys_sends s"
  by (simp_all add: sess_start_def sess_complete_def sess_unknown_def sess_fail_def case_prod_unfold
    sess_enter_def sess_leave_def)

text \<open>A call on the system, and one on the rest, after the others have moved.\<close>

definition on_sys :: "(('ref, 'db, 'x) site \<Rightarrow> ('ref, 'db, 'x) site) \<Rightarrow>
    ('x \<Rightarrow> ('ref, 'db) outbox_sys \<Rightarrow> 'a \<times> ('ref, 'db) outbox_sys) \<Rightarrow> (('ref, 'db, 'x) site, 'a) call" where
  "on_sys others f w = (let w1 = others w in
     case f (st_ext w1) (st_sys w1) of (r, s) \<Rightarrow> (r, w1\<lparr>st_sys := s\<rparr>))"

definition on_ext :: "(('ref, 'db, 'x) site \<Rightarrow> ('ref, 'db, 'x) site) \<Rightarrow> ('x \<Rightarrow> 'a \<times> 'x) \<Rightarrow>
    (('ref, 'db, 'x) site, 'a) call" where
  "on_ext others f w = (let w1 = others w in
     case f (st_ext w1) of (r, x) \<Rightarrow> (r, w1\<lparr>st_ext := x\<rparr>))"

text \<open>At a quiet site, where nobody else moves (\<open>others\<close> is \<open>id\<close>).\<close>

lemma on_ext_quiet [simp]: "st_sys (snd (on_ext id f w)) = st_sys w"
  by (simp add: on_ext_def case_prod_unfold)

lemma on_ext_quiet_sys: "on_ext id f w = (r, w') \<Longrightarrow> st_sys w' = st_sys w"
  using on_ext_quiet[of f w] by simp

lemma on_sys_quiet:
  "on_sys id f w = (fst (f (st_ext w) (st_sys w)), w\<lparr>st_sys := snd (f (st_ext w) (st_sys w))\<rparr>)"
  by (simp add: on_sys_def case_prod_unfold)

text \<open>What a worker may rely on: the rest takes steps, none of which is the worker's.\<close>

definition others_behave :: "('c, 'ref, 'db) outbox_ops \<Rightarrow> ('ref \<Rightarrow> bool) \<Rightarrow> nat \<Rightarrow>
    (('ref, 'db, 'x) site \<Rightarrow> ('ref, 'db, 'x) site) \<Rightarrow> bool" where
  "others_behave ops refusable t others \<longleftrightarrow> (\<forall>w.
     (outbox_step ops refusable)\<^sup>*\<^sup>* (st_sys w) (st_sys (others w))
     \<and> sys_workers (st_sys (others w)) t = sys_workers (st_sys w) t)"

text \<open>\<open>w\<close> is a place of worker \<open>t\<close> that the steps lead to from \<open>w0\<close>, with the entry \<open>p\<close>.\<close>

definition gone_to :: "('c, 'ref, 'db) outbox_ops \<Rightarrow> ('ref \<Rightarrow> bool) \<Rightarrow> nat \<Rightarrow> ('ref, 'db, 'x) site \<Rightarrow>
    ('ref, 'db, 'x) site \<Rightarrow> ('ref \<times> phase) option \<Rightarrow> bool" where
  "gone_to ops refusable t w0 w p \<longleftrightarrow>
     (outbox_step ops refusable)\<^sup>*\<^sup>* (st_sys w0) (st_sys w) \<and> sys_workers (st_sys w) t = p"

lemma others_behave_id: "others_behave ops refusable t (\<lambda>w. w)"
  by (simp add: others_behave_def)

lemma gone_to_refl: "sys_workers (st_sys w) t = p \<Longrightarrow> gone_to ops refusable t w w p"
  by (simp add: gone_to_def)

lemma gone_to_others:
  "others_behave ops refusable t others \<Longrightarrow> gone_to ops refusable t w0 w p \<Longrightarrow>
    gone_to ops refusable t w0 (others w) p"
  by (auto simp: gone_to_def others_behave_def intro: rtranclp_trans)

lemma gone_to_step:
  "gone_to ops refusable t w0 w p \<Longrightarrow> outbox_step ops refusable (st_sys w) s \<Longrightarrow>
    sys_workers s t = p' \<Longrightarrow> st_sys w' = s \<Longrightarrow> gone_to ops refusable t w0 w' p'"
  by (auto simp: gone_to_def)

lemma gone_to_same:
  "gone_to ops refusable t w0 w p \<Longrightarrow> st_sys w' = st_sys w \<Longrightarrow> gone_to ops refusable t w0 w' p"
  by (simp add: gone_to_def)

lemma on_ext_gone:
  assumes "others_behave ops refusable t others" and "gone_to ops refusable t w0 w p"
    and "on_ext others f w = (r, w')"
  shows "gone_to ops refusable t w0 w' p"
  using gone_to_others[OF assms(1,2)] assms(3)
  by (auto simp: on_ext_def Let_def gone_to_def split: prod.splits)

lemma sess_enter_gone:
  assumes "gone_to ops refusable t w0 w None" and "op_state ops (sys_db (st_sys w)) ref = Some StatePending"
    and "st_sys w' = sess_enter t ref (st_sys w)"
  shows "gone_to ops refusable t w0 w' (Some (ref, Loaded))"
  using gone_to_step[OF assms(1) outbox_step.load[of ops _ ref t]] assms
  by (auto simp: gone_to_def sess_enter_def)

lemma sess_leave_gone:
  assumes "gone_to ops refusable t w0 w p" and "p = None \<or> p = Some (ref, Loaded)"
    and "st_sys w' = sess_leave t (st_sys w)"
  shows "gone_to ops refusable t w0 w' None"
proof (cases "p = None")
  case True
  with assms(1) have "sess_leave t (st_sys w) = st_sys w"
    by (simp add: sess_leave_def gone_to_def fun_upd_idem)
  with assms True show ?thesis by (auto intro: gone_to_same)
next
  case False
  with assms(1,2) have "sys_workers (st_sys w) t = Some (ref, Loaded)" by (simp add: gone_to_def)
  from gone_to_step[OF assms(1) outbox_step.leave[OF this]] assms(3) show ?thesis
    by (simp add: sess_leave_def)
qed

lemma sess_attempt_gone:
  assumes "gone_to ops refusable t w0 w (Some (ref, Claimed))"
    and "st_sys w' = sess_attempt t ref (st_sys w)"
  shows "gone_to ops refusable t w0 w' (Some (ref, Attempted))"
proof -
  have "sys_workers (st_sys w) t = Some (ref, Claimed)" using assms(1) by (simp add: gone_to_def)
  from gone_to_step[OF assms(1) outbox_step.attempt[OF this]] assms(2) show ?thesis
    by (simp add: sess_attempt_def)
qed

lemma sess_unknown_gone:
  assumes "gone_to ops refusable t w0 w (Some (ref, Attempted))"
    and "sess_unknown ops t c ref (st_sys w) = (r, st_sys w')"
  shows "gone_to ops refusable t w0 w' None"
proof -
  obtain r db' where u: "op_unknown ops c ref (sys_db (st_sys w)) = (r, db')" by fastforce
  have "sys_workers (st_sys w) t = Some (ref, Attempted)" using assms(1) by (simp add: gone_to_def)
  from gone_to_step[OF assms(1) outbox_step.unknown[OF this u]] assms(2) u show ?thesis
    by (auto simp: sess_unknown_def)
qed

lemma sess_fail_gone:
  assumes "gone_to ops refusable t w0 w (Some (ref, p))" and "p = Loaded \<or> p = Claimed \<and> refusable ref"
    and "sess_fail ops t c ref (st_sys w) = (r, st_sys w')"
  shows "gone_to ops refusable t w0 w' None"
proof -
  obtain r db' where u: "op_fail ops c ref (sys_db (st_sys w)) = (r, db')" by fastforce
  have p: "sys_workers (st_sys w) t = Some (ref, p)" using assms(1) by (simp add: gone_to_def)
  from assms(2) show ?thesis
  proof
    assume "p = Loaded"
    with gone_to_step[OF assms(1) outbox_step.deny[OF _ u]] p assms(3) u show ?thesis
      by (auto simp: sess_fail_def)
  next
    assume "p = Claimed \<and> refusable ref"
    with gone_to_step[OF assms(1) outbox_step.refuse[OF _ _ u]] p assms(3) u show ?thesis
      by (auto simp: sess_fail_def)
  qed
qed

lemma on_sys_split:
  assumes "on_sys others f w = (r, w')" and "others_behave ops refusable t others"
    and "gone_to ops refusable t w0 w p"
  shows "gone_to ops refusable t w0 (others w) p
    \<and> f (st_ext (others w)) (st_sys (others w)) = (r, st_sys w')"
  using assms(1) gone_to_others[OF assms(2,3)] by (auto simp: on_sys_def Let_def split: prod.splits)

text \<open>The claim and the completion change nothing when they fail, which is a law of the outbox.\<close>

context outbox
begin

lemma sess_start_gone:
  assumes "gone_to ops refusable t w0 w (Some (ref, Loaded))"
    and "sess_start ops t c ref (st_sys w) = (r, st_sys w')"
  shows "gone_to ops refusable t w0 w' (if r = None then Some (ref, Claimed) else None)"
proof -
  obtain db' where u: "op_start ops c ref (sys_db (st_sys w)) = (r, db')"
    using assms(2) by (auto simp: sess_start_def split: prod.splits)
  have p: "sys_workers (st_sys w) t = Some (ref, Loaded)" using assms(1) by (simp add: gone_to_def)
  show ?thesis
  proof (cases r)
    case None
    with gone_to_step[OF assms(1) outbox_step.start[OF p]] u assms(2) show ?thesis
      by (auto simp: sess_start_def)
  next
    case (Some e)
    with u error_law(1) have "db' = sys_db (st_sys w)" by blast
    with assms(2) u Some have "st_sys w' = sess_leave t (st_sys w)"
      by (auto simp: sess_start_def sess_leave_def)
    from sess_leave_gone[OF assms(1) _ this] Some show ?thesis by simp
  qed
qed

lemma sess_complete_gone:
  assumes "gone_to ops refusable t w0 w (Some (ref, Attempted))"
    and "sess_complete ops t c ref (st_sys w) = (r, st_sys w')"
  shows "gone_to ops refusable t w0 w' (if r = None then None else Some (ref, Attempted))"
proof -
  obtain db' where u: "op_complete ops c ref (sys_db (st_sys w)) = (r, db')"
    using assms(2) by (auto simp: sess_complete_def split: prod.splits)
  have p: "sys_workers (st_sys w) t = Some (ref, Attempted)" using assms(1) by (simp add: gone_to_def)
  show ?thesis
  proof (cases r)
    case None
    with gone_to_step[OF assms(1) outbox_step.complete[OF p]] u assms(2) show ?thesis
      by (auto simp: sess_complete_def)
  next
    case (Some e)
    with u error_law(2) have "db' = sys_db (st_sys w)" by blast
    with assms(2) u Some have "st_sys w' = st_sys w"
      by (auto simp: sess_complete_def)
    from gone_to_same[OF assms(1) this] Some show ?thesis by simp
  qed
qed

end

end
