(* ===== verification/ActionStore.thy ===== *)
theory ActionStore
  imports OutboxSite
begin

text \<open>
  The reply outbox in SQLite (\<open>internal/adapters/sqlite/action.go\<close>). Every operation that changes
  a row is one transaction: it takes what the database reports (\<open>io\<close>), the time, the reference
  and the tables, and returns the error, if any, and the tables after commit or rollback. \<open>u\<close>
  parses UUIDs.
\<close>

record stored_action =
  sa_ref :: dispatch_ref
  sa_invocation_id :: invocation_id
  sa_response_id :: message_id
  sa_reply_to_message_id :: message_id
  sa_text :: string
  sa_state :: outbox_state
  sa_completed_at :: "instant option"
  sa_provider_receipt :: string

definition decode_action :: "(string \<Rightarrow> string option) \<Rightarrow> dispatch_ref \<Rightarrow> action_row \<Rightarrow>
    go_error + stored_action" where
  "decode_action u ref r =
    (case parse_invocation_id u (act_invocation_id r) of
       Inl e \<Rightarrow> Inl (new_error ErrorIntegrityFailure ''decode outbound action'' (Some e))
     | Inr iid \<Rightarrow>
    (case parse_message_id u (act_response_id r) of
       Inl e \<Rightarrow> Inl (new_error ErrorIntegrityFailure ''decode outbound action'' (Some e))
     | Inr response \<Rightarrow>
    (case (case act_reply_to r of None \<Rightarrow> Inr zero_id | Some v \<Rightarrow> parse_message_id u v) of
       Inl e \<Rightarrow> Inl (new_error ErrorIntegrityFailure ''decode outbound reply target'' (Some e))
     | Inr reply_to \<Rightarrow> Inr \<lparr>sa_ref = ref, sa_invocation_id = iid, sa_response_id = response,
         sa_reply_to_message_id = reply_to, sa_text = act_text r, sa_state = act_state r,
         sa_completed_at = map_option from_unix_milli (act_completed_at_ms r),
         sa_provider_receipt = (case act_receipt r of None \<Rightarrow> [] | Some v \<Rightarrow> v)\<rparr>)))"

definition action_load :: "(string \<Rightarrow> string option) \<Rightarrow> io \<Rightarrow> dispatch_ref \<Rightarrow> outbox_db \<Rightarrow>
    go_error + stored_action" where
  "action_load u io ref db =
    (case key_validate (dr_key ref) of
       Some e \<Rightarrow> Inl e
     | None \<Rightarrow>
         if is_zero (dr_action_id ref)
         then Inl (errorf ErrorInvalidArgument ''load outbound action'' ''action ID is required'')
         else case io ''load outbound action'' of
           Some e \<Rightarrow> Inl (storage_error ''load outbound action'' e)
         | None \<Rightarrow>
             (case row (db_actions db) ref of
                None \<Rightarrow> Inl (errorf ErrorNotFound ''load outbound action'' ''action does not exist'')
              | Some r \<Rightarrow> map_sum (storage_error ''load outbound action'') id (decode_action u ref r)))"

text \<open>The turn of a reply: the row of its invocation, found through the reply's own row.\<close>

definition turn_of_action :: "dispatch_ref \<Rightarrow> outbox_db \<Rightarrow> (agent_key \<times> string) option" where
  "turn_of_action ref db =
     map_option (\<lambda>r. (dr_key ref, act_invocation_id r)) (row (db_actions db) ref)"

definition update_turn_where ::
  "dispatch_ref \<Rightarrow> (turn_row \<Rightarrow> bool) \<Rightarrow> (turn_row \<Rightarrow> turn_row) \<Rightarrow> outbox_db \<Rightarrow> nat \<times> outbox_db" where
  "update_turn_where ref p f db = (case turn_of_action ref db of
     None \<Rightarrow> (0, db)
   | Some k \<Rightarrow> (case update_where k p f (db_turns db) of (n, t) \<Rightarrow> (n, db\<lparr>db_turns := t\<rparr>)))"

definition action_start :: "io \<Rightarrow> instant \<Rightarrow> dispatch_ref \<Rightarrow> outbox_db \<Rightarrow> go_error option \<times> outbox_db"
  where "action_start io now ref db =
    (if now = 0
     then (Some (errorf ErrorInvalidArgument ''start outbound action'' ''current time is required''), db)
     else case statement io ''begin outbound action start'' of
       Some e \<Rightarrow> (Some e, db)
     | None \<Rightarrow>
         (case update_where ref (\<lambda>r. act_state r = StatePending)
             (\<lambda>r. r\<lparr>act_state := StateExecuting, act_attempts := act_attempts r + 1,
                act_updated_at_ms := unix_milli now\<rparr>) (db_actions db) of (changed, actions) \<Rightarrow>
            (case require_one io ''start outbound action'' changed of
               Some e \<Rightarrow> (Some e, db)
             | None \<Rightarrow>
                 (case update_turn_where ref (\<lambda>t. tn_state t = TurnResponsePlanned)
                     (\<lambda>t. t\<lparr>tn_state := TurnDeliveryPending, tn_updated_at_ms := unix_milli now\<rparr>)
                     (db\<lparr>db_actions := actions\<rparr>) of (_, db') \<Rightarrow>
                    (case statement io ''mark turn delivery pending'' of
                       Some e \<Rightarrow> (Some e, db)
                     | None \<Rightarrow>
                         (case statement io ''commit outbound action start'' of
                            Some e \<Rightarrow> (Some e, db)
                          | None \<Rightarrow> (None, db')))))))"

definition update_turn_delivery :: "io \<Rightarrow> dispatch_ref \<Rightarrow> delivery_status \<Rightarrow> turn_state \<Rightarrow> error_code \<Rightarrow>
    int \<Rightarrow> outbox_db \<Rightarrow> go_error option \<times> outbox_db" where
  "update_turn_delivery io ref delivery state code now_ms db =
    (case update_turn_where ref (\<lambda>_. True)
        (\<lambda>t. t\<lparr>tn_state := state, tn_last_error := nullable_error_code code, tn_updated_at_ms := now_ms\<rparr>)
        db of (changed, db1) \<Rightarrow>
       (case require_one io ''update turn delivery'' changed of
          Some e \<Rightarrow> (Some e, db)
        | None \<Rightarrow>
            let db2 = (case row (db_actions db1) ref of
                None \<Rightarrow> db1
              | Some r \<Rightarrow> db1\<lparr>db_history := snd (update_where (dr_key ref, act_response_id r) (\<lambda>_. True)
                  (\<lambda>h. h\<lparr>hr_delivery := delivery, hr_updated_at_ms := now_ms\<rparr>) (db_history db1))\<rparr>)
            in (case statement io ''update assistant history delivery'' of
                  Some e \<Rightarrow> (Some e, db) | None \<Rightarrow> (None, db2))))"

definition outcome_views :: "outbox_state \<Rightarrow> delivery_status \<times> turn_state" where
  "outcome_views s = (case s of
     StateFailedTerminal \<Rightarrow> (DeliveryFailedTerminal, TurnFailedTerminal)
   | StateUnknownOutcome \<Rightarrow> (DeliveryUnknownOutcome, TurnUnknownOutcome)
   | _ \<Rightarrow> (DeliverySucceeded, TurnSucceeded))"

text \<open>\<open>COALESCE(?, provider_receipt)\<close> keeps a receipt that is there when none is given.\<close>

definition finish_action_tx :: "io \<Rightarrow> dispatch_ref \<Rightarrow> outbox_state \<Rightarrow> outbox_state \<Rightarrow> string \<Rightarrow>
    error_code \<Rightarrow> int \<Rightarrow> outbox_db \<Rightarrow> go_error option \<times> outbox_db" where
  "finish_action_tx io ref source target receipt code now_ms db =
    (case update_where ref (\<lambda>r. act_state r = source)
        (\<lambda>r. r\<lparr>act_state := target,
           act_receipt := (case nullable_string receipt of None \<Rightarrow> act_receipt r | Some v \<Rightarrow> Some v),
           act_last_error := nullable_error_code code, act_completed_at_ms := Some now_ms,
           act_updated_at_ms := now_ms\<rparr>) (db_actions db) of (changed, actions) \<Rightarrow>
       (case require_one io ''record outbound action outcome'' changed of
          Some e \<Rightarrow> (Some e, db)
        | None \<Rightarrow>
            (case update_turn_delivery io ref (fst (outcome_views target)) (snd (outcome_views target))
                code now_ms (db\<lparr>db_actions := actions\<rparr>) of
               (Some e, _) \<Rightarrow> (Some e, db) | (None, db') \<Rightarrow> (None, db'))))"

definition action_finish :: "io \<Rightarrow> dispatch_ref \<Rightarrow> outbox_state \<Rightarrow> outbox_state \<Rightarrow> string \<Rightarrow> error_code \<Rightarrow>
    instant \<Rightarrow> outbox_db \<Rightarrow> go_error option \<times> outbox_db" where
  "action_finish io ref source target receipt code now db =
    (case statement io ''begin action outcome'' of
       Some e \<Rightarrow> (Some e, db)
     | None \<Rightarrow>
         (case finish_action_tx io ref source target receipt code (unix_milli now) db of
            (Some e, _) \<Rightarrow> (Some e, db)
          | (None, db') \<Rightarrow>
              (case statement io ''commit action outcome'' of
                 Some e \<Rightarrow> (Some e, db) | None \<Rightarrow> (None, db'))))"

definition action_complete :: "io \<Rightarrow> string \<Rightarrow> instant \<Rightarrow> dispatch_ref \<Rightarrow> outbox_db \<Rightarrow>
    go_error option \<times> outbox_db" where
  "action_complete io receipt now ref db =
    (if receipt = [] \<or> now = 0
     then (Some (errorf ErrorInvalidArgument ''complete outbound action''
       ''receipt and current time are required''), db)
     else action_finish io ref StateExecuting StateSucceeded receipt NoCode now db)"

definition action_fail_terminal :: "io \<Rightarrow> error_code \<Rightarrow> instant \<Rightarrow> dispatch_ref \<Rightarrow> outbox_db \<Rightarrow>
    go_error option \<times> outbox_db" where
  "action_fail_terminal io code now ref db =
    (if code = NoCode \<or> now = 0
     then (Some (errorf ErrorInvalidArgument ''fail outbound action'' ''code and time are required''), db)
     else action_finish io ref StatePending StateFailedTerminal [] code now db)"

definition action_mark_unknown :: "io \<Rightarrow> error_code \<Rightarrow> instant \<Rightarrow> dispatch_ref \<Rightarrow> outbox_db \<Rightarrow>
    go_error option \<times> outbox_db" where
  "action_mark_unknown io code now ref db =
    (if code = NoCode \<or> now = 0
     then (Some (errorf ErrorInvalidArgument ''mark action unknown'' ''code and time are required''), db)
     else action_finish io ref StateExecuting StateUnknownOutcome [] code now db)"

definition action_list_pending :: "io \<Rightarrow> tenant_id \<Rightarrow> instant \<Rightarrow> outbox_db \<Rightarrow>
    go_error + dispatch_ref list" where
  "action_list_pending io tenant before db =
    (if is_zero tenant
     then Inl (errorf ErrorInvalidArgument ''list pending actions'' ''tenant is required'')
     else case statement io ''list pending actions'' of
       Some e \<Rightarrow> Inl e
     | None \<Rightarrow> Inr (map fst (sort_key (\<lambda>(ref, r). (act_created_at_ms r, dr_action_id ref))
         (filter (\<lambda>(ref, r). key_tenant (dr_key ref) = tenant \<and> act_state r = StatePending
            \<and> act_created_at_ms r < cutoff_millis before) (db_actions db)))))"

text \<open>At startup: every reply still executing becomes unknown, all in the opening transaction.\<close>

definition interrupted_actions :: "tenant_id \<Rightarrow> outbox_db \<Rightarrow> dispatch_ref list" where
  "interrupted_actions tenant db = map fst
     (filter (\<lambda>(ref, r). key_tenant (dr_key ref) = tenant \<and> act_state r = StateExecuting) (db_actions db))"

fun resolve_each :: "io \<Rightarrow> int \<Rightarrow> dispatch_ref list \<Rightarrow> outbox_db \<Rightarrow> go_error option \<times> outbox_db" where
  "resolve_each io now_ms [] db = (None, db)"
| "resolve_each io now_ms (ref # refs) db =
    (case finish_action_tx io ref StateExecuting StateUnknownOutcome [] ErrorUnknownOutcome now_ms db of
       (Some e, _) \<Rightarrow> (Some e, db) | (None, db') \<Rightarrow> resolve_each io now_ms refs db')"

definition resolve_interrupted_actions :: "io \<Rightarrow> tenant_id \<Rightarrow> int \<Rightarrow> outbox_db \<Rightarrow>
    go_error option \<times> outbox_db" where
  "resolve_interrupted_actions io tenant now_ms db =
    (case statement io ''list interrupted actions'' of
       Some e \<Rightarrow> (Some e, db)
     | None \<Rightarrow>
         (case resolve_each io now_ms (interrupted_actions tenant db) db of
            (Some e, _) \<Rightarrow> (Some e, db) | (None, db') \<Rightarrow> (None, db')))"

subsection \<open>The store is an outbox\<close>

text \<open>What one call is given besides the reference: the database's answers, the time, and its arguments.\<close>

record call_args =
  arg_io :: io
  arg_now :: instant
  arg_receipt :: string
  arg_code :: error_code

definition action_state :: "outbox_db \<Rightarrow> dispatch_ref \<Rightarrow> outbox_state option" where
  "action_state db ref = map_option act_state (row (db_actions db) ref)"

definition action_ops :: "tenant_id \<Rightarrow> (call_args, dispatch_ref, outbox_db) outbox_ops" where
  "action_ops tenant = \<lparr>op_state = action_state,
     op_start = (\<lambda>c. action_start (arg_io c) (arg_now c)),
     op_complete = (\<lambda>c. action_complete (arg_io c) (arg_receipt c) (arg_now c)),
     op_fail = (\<lambda>c. action_fail_terminal (arg_io c) (arg_code c) (arg_now c)),
     op_unknown = (\<lambda>c. action_mark_unknown (arg_io c) (arg_code c) (arg_now c)),
     op_recover = (\<lambda>c. resolve_interrupted_actions (arg_io c) tenant (unix_milli (arg_now c)))\<rparr>"

lemma update_turn_where_actions [simp]:
  "db_actions (snd (update_turn_where ref p f db)) = db_actions db"
  "db_history (snd (update_turn_where ref p f db)) = db_history db"
  by (simp_all add: update_turn_where_def split: option.splits prod.splits)

lemma update_turn_delivery_ok:
  assumes "update_turn_delivery io ref delivery st code now_ms db = (None, db')"
  shows "db_actions db' = db_actions db
    \<and> (\<exists>a t. row (db_actions db) ref = Some a \<and> row (db_turns db) (dr_key ref, act_invocation_id a) = Some t
        \<and> db_turns db' = put (dr_key ref, act_invocation_id a)
            (t\<lparr>tn_state := st, tn_last_error := nullable_error_code code, tn_updated_at_ms := now_ms\<rparr>)
            (db_turns db)
        \<and> db_history db' = snd (update_where (dr_key ref, act_response_id a) (\<lambda>_. True)
            (\<lambda>h. h\<lparr>hr_delivery := delivery, hr_updated_at_ms := now_ms\<rparr>) (db_history db)))"
proof -
  obtain n db1 where upd: "update_turn_where ref (\<lambda>_. True)
      (\<lambda>t. t\<lparr>tn_state := st, tn_last_error := nullable_error_code code, tn_updated_at_ms := now_ms\<rparr>)
      db = (n, db1)" by fastforce
  with assms have "n = 1" by (auto simp: update_turn_delivery_def split: option.splits)
  with upd obtain a t where "row (db_actions db) ref = Some a"
    "row (db_turns db) (dr_key ref, act_invocation_id a) = Some t"
    "db1 = db\<lparr>db_turns := put (dr_key ref, act_invocation_id a)
       (t\<lparr>tn_state := st, tn_last_error := nullable_error_code code, tn_updated_at_ms := now_ms\<rparr>)
       (db_turns db)\<rparr>"
    by (auto simp: update_turn_where_def turn_of_action_def update_where_def
      split: option.splits if_splits prod.splits)
  with assms upd show ?thesis
    by (auto simp: update_turn_delivery_def Let_def split: option.splits)
qed

lemma action_start_ok:
  assumes "action_start io now ref db = (None, db')"
  shows "\<exists>a. row (db_actions db) ref = Some a \<and> act_state a = StatePending
    \<and> db_actions db' = put ref (a\<lparr>act_state := StateExecuting, act_attempts := act_attempts a + 1,
        act_updated_at_ms := unix_milli now\<rparr>) (db_actions db)"
proof -
  let ?f = "\<lambda>r. r\<lparr>act_state := StateExecuting, act_attempts := act_attempts r + 1,
      act_updated_at_ms := unix_milli now\<rparr>"
  obtain n actions where upd: "update_where ref (\<lambda>r. act_state r = StatePending) ?f (db_actions db)
      = (n, actions)" by fastforce
  have "n = 1" "db_actions db' = actions"
    using assms upd by (auto simp: action_start_def case_prod_unfold split: if_splits option.splits)
  with upd update_where_one show ?thesis by fastforce
qed

lemma action_finish_ok:
  assumes "action_finish io ref source target receipt code now db = (None, db')"
  shows "\<exists>a b t. row (db_actions db) ref = Some a \<and> act_state a = source
    \<and> db_actions db' = put ref b (db_actions db) \<and> act_state b = target
    \<and> act_invocation_id b = act_invocation_id a \<and> act_response_id b = act_response_id a
    \<and> db_turns db' = put (dr_key ref, act_invocation_id a) t (db_turns db)
    \<and> tn_state t = snd (outcome_views target)
    \<and> (\<forall>h. row (db_history db) (dr_key ref, act_response_id a) = Some h \<longrightarrow>
        (\<exists>h'. row (db_history db') (dr_key ref, act_response_id a) = Some h'
          \<and> hr_delivery h' = fst (outcome_views target)))"
proof -
  let ?f = "\<lambda>r. r\<lparr>act_state := target,
      act_receipt := (case nullable_string receipt of None \<Rightarrow> act_receipt r | Some v \<Rightarrow> Some v),
      act_last_error := nullable_error_code code, act_completed_at_ms := Some (unix_milli now),
      act_updated_at_ms := unix_milli now\<rparr>"
  obtain n actions where upd: "update_where ref (\<lambda>r. act_state r = source) ?f (db_actions db) = (n, actions)"
    by fastforce
  have n: "n = 1" and delivery: "update_turn_delivery io ref (fst (outcome_views target))
      (snd (outcome_views target)) code (unix_milli now) (db\<lparr>db_actions := actions\<rparr>) = (None, db')"
    using assms upd
    by (auto simp: action_finish_def finish_action_tx_def split: option.splits prod.splits)
  from upd n obtain a where a: "row (db_actions db) ref = Some a" "act_state a = source"
    "actions = put ref (?f a) (db_actions db)"
    by (auto simp: update_where_one')
  from update_turn_delivery_ok[OF delivery] a obtain t where
    "db_actions db' = actions"
    "db_turns db' = put (dr_key ref, act_invocation_id a)
      (t\<lparr>tn_state := snd (outcome_views target), tn_last_error := nullable_error_code code,
         tn_updated_at_ms := unix_milli now\<rparr>) (db_turns db)"
    "db_history db' = snd (update_where (dr_key ref, act_response_id a) (\<lambda>_. True)
      (\<lambda>h. h\<lparr>hr_delivery := fst (outcome_views target), hr_updated_at_ms := unix_milli now\<rparr>) (db_history db))"
    by auto
  with a show ?thesis
    by (intro exI[of _ a] exI[of _ "?f a"] exI[of _ "t\<lparr>tn_state := snd (outcome_views target),
        tn_last_error := nullable_error_code code, tn_updated_at_ms := unix_milli now\<rparr>"])
      (auto simp: update_where_row)
qed

lemma action_finish_error:
  "action_finish io ref source target receipt code now db = (Some e, db') \<Longrightarrow> db' = db"
  by (auto simp: action_finish_def split: option.splits prod.splits)

lemma action_start_error: "action_start io now ref db = (Some e, db') \<Longrightarrow> db' = db"
  by (auto simp: action_start_def case_prod_unfold split: if_splits option.splits)

lemma action_state_put [simp]:
  "db_actions db' = put ref a (db_actions db) \<Longrightarrow>
    action_state db' = (action_state db)(ref \<mapsto> act_state a)"
  by (auto simp: action_state_def)

lemma action_finish_state:
  assumes "action_finish io ref source target receipt code now db = (None, db')"
  shows "action_state db ref = Some source \<and> action_state db' = (action_state db)(ref \<mapsto> target)"
  using action_finish_ok[OF assms] by (auto simp: action_state_def)

lemma finish_action_tx_state:
  assumes "finish_action_tx io ref source target receipt code ms db = (None, db')"
  shows "action_state db ref = Some source \<and> action_state db' = (action_state db)(ref \<mapsto> target)"
proof -
  obtain n actions where upd: "update_where ref (\<lambda>r. act_state r = source)
      (\<lambda>r. r\<lparr>act_state := target,
        act_receipt := (case nullable_string receipt of None \<Rightarrow> act_receipt r | Some v \<Rightarrow> Some v),
        act_last_error := nullable_error_code code, act_completed_at_ms := Some ms,
        act_updated_at_ms := ms\<rparr>) (db_actions db) = (n, actions)" by fastforce
  have "n = 1" "db_actions db' = actions"
    using assms upd update_turn_delivery_ok
    by (auto simp: finish_action_tx_def split: option.splits prod.splits)
  with upd show ?thesis by (auto simp: update_where_one' action_state_def)
qed

lemma resolve_each_state:
  assumes "resolve_each io ms refs db = (None, db')"
  shows "action_state db' x = action_state db x
    \<or> action_state db x = Some StateExecuting \<and> action_state db' x = Some StateUnknownOutcome"
  using assms
proof (induction io ms refs db rule: resolve_each.induct)
  case (2 io ms ref refs db)
  then obtain db1 where first: "finish_action_tx io ref StateExecuting StateUnknownOutcome []
      ErrorUnknownOutcome ms db = (None, db1)" and rest: "resolve_each io ms refs db1 = (None, db')"
    by (auto split: prod.splits option.splits)
  from "2.IH"[OF first[symmetric] refl rest] finish_action_tx_state[OF first] show ?case
    by (auto split: if_splits)
qed simp

interpretation replies: strict_outbox "action_ops tenant" "\<lambda>_. False" for tenant
proof (unfold_locales, goal_cases)
  case (1 c ref db db')
  then show ?case
    using action_start_ok[of "arg_io c" "arg_now c" ref db db']
    by (auto simp: action_ops_def action_state_def)
next
  case (2 c ref db db')
  then show ?case
    using action_finish_state[of "arg_io c" ref StateExecuting StateSucceeded "arg_receipt c" NoCode "arg_now c"]
    by (auto simp: action_ops_def action_complete_def split: if_splits)
next
  case (3 c ref db db')
  then show ?case
    using action_finish_state[of "arg_io c" ref StateExecuting StateUnknownOutcome "[]" "arg_code c" "arg_now c"]
    by (auto simp: action_ops_def action_mark_unknown_def split: if_splits)
next
  case (4 c ref db db')
  then show ?case
    using action_finish_state[of "arg_io c" ref StatePending StateFailedTerminal "[]" "arg_code c" "arg_now c"]
    by (auto simp: action_ops_def action_fail_terminal_def split: if_splits)
next
  case (5 c db db' ref)
  then show ?case using resolve_each_state
    by (auto simp: action_ops_def resolve_interrupted_actions_def split: option.splits prod.splits)
next
  case (6 c ref db e db1)
  then show ?case using action_start_error by (auto simp: action_ops_def)
next
  case (7 c ref db e db2)
  then show ?case using action_finish_error by (auto simp: action_ops_def action_complete_def split: if_splits)
next
  case (8 c ref db e db3)
  then show ?case using action_finish_error by (auto simp: action_ops_def action_mark_unknown_def split: if_splits)
next
  case (9 c ref db e db4)
  then show ?case using action_finish_error by (auto simp: action_ops_def action_fail_terminal_def split: if_splits)
next
  case (10 c ref db db')
  then show ?case
    using action_finish_state[of "arg_io c" ref StatePending StateFailedTerminal "[]" "arg_code c" "arg_now c"]
    by (auto simp: action_ops_def action_fail_terminal_def split: if_splits)
qed simp

subsection \<open>What the reply outbox guarantees\<close>

text \<open>
  C2: a reply is sent at most once. However many dispatchers run, however their calls interleave
  with each other, with new plans, storage failures and crashes followed by the startup
  resolution, no reply is given to the sender twice; a reply that is pending or failed terminally
  was never given to it at all.
\<close>
theorem reply_sent_at_most_once:
  assumes "reachable (action_ops tenant) (\<lambda>_. False) db s"
  shows "sys_sends s ref \<le> 1
    \<and> (action_state (sys_db s) ref \<in> {Some StatePending, Some StateFailedTerminal} \<longrightarrow> sys_sends s ref = 0)"
proof -
  have state: "op_state (action_ops tenant) = action_state" by (simp add: action_ops_def)
  show ?thesis
    using replies.at_most_once[OF assms] replies.pending_never_sent[OF assms]
      replies.failed_never_sent[OF assms] by (auto simp: state)
qed

text \<open>The two views of a reply's outcome: its turn, and, when there is one, its transcript row.\<close>

definition one_reply_per_turn :: "outbox_db \<Rightarrow> bool" where
  "one_reply_per_turn db \<longleftrightarrow> (\<forall>r1 r2 a1 a2. row (db_actions db) r1 = Some a1 \<longrightarrow>
     row (db_actions db) r2 = Some a2 \<longrightarrow> dr_key r1 = dr_key r2 \<longrightarrow>
     act_invocation_id a1 = act_invocation_id a2 \<longrightarrow> r1 = r2)"

definition turns_follow_replies :: "outbox_db \<Rightarrow> bool" where
  "turns_follow_replies db \<longleftrightarrow> (\<forall>ref a. row (db_actions db) ref = Some a \<longrightarrow> final_state (act_state a) \<longrightarrow>
     (\<exists>t. row (db_turns db) (dr_key ref, act_invocation_id a) = Some t
        \<and> tn_state t = snd (outcome_views (act_state a))))"

lemma action_start_turns:
  assumes "action_start io now ref db = (None, db')" and "row (db_actions db) ref = Some a"
    and "k \<noteq> (dr_key ref, act_invocation_id a)"
  shows "row (db_turns db') k = row (db_turns db) k"
proof -
  obtain n actions where upd: "update_where ref (\<lambda>r. act_state r = StatePending)
      (\<lambda>r. r\<lparr>act_state := StateExecuting, act_attempts := act_attempts r + 1,
        act_updated_at_ms := unix_milli now\<rparr>) (db_actions db) = (n, actions)" by fastforce
  have n: "n = 1" and db': "db' = snd (update_turn_where ref (\<lambda>t. tn_state t = TurnResponsePlanned)
      (\<lambda>t. t\<lparr>tn_state := TurnDeliveryPending, tn_updated_at_ms := unix_milli now\<rparr>) (db\<lparr>db_actions := actions\<rparr>))"
    using assms(1) upd by (auto simp: action_start_def case_prod_unfold split: if_splits option.splits)
  from upd n assms(2) have "\<exists>b. row actions ref = Some b \<and> act_invocation_id b = act_invocation_id a"
    by (auto simp: update_where_one')
  with db' assms(3) show ?thesis
    by (auto simp: update_turn_where_def turn_of_action_def update_where_row case_prod_unfold
      split: option.splits)
qed

lemma follow_after_put:
  assumes "one_reply_per_turn db" and "turns_follow_replies db"
    and "row (db_actions db) ref = Some a" and "db_actions db' = put ref b (db_actions db)"
    and "act_invocation_id b = act_invocation_id a"
    and "\<And>k. k \<noteq> (dr_key ref, act_invocation_id a) \<Longrightarrow> row (db_turns db') k = row (db_turns db) k"
    and "final_state (act_state b) \<Longrightarrow> \<exists>t. row (db_turns db') (dr_key ref, act_invocation_id a) = Some t
      \<and> tn_state t = snd (outcome_views (act_state b))"
  shows "one_reply_per_turn db' \<and> turns_follow_replies db'"
proof
  show "one_reply_per_turn db'"
    using assms(1,3,5) unfolding one_reply_per_turn_def assms(4) row_put
    by (metis (no_types, lifting) option.inject)
  show "turns_follow_replies db'"
    unfolding turns_follow_replies_def
  proof (intro allI impI)
    fix x c assume x: "row (db_actions db') x = Some c" "final_state (act_state c)"
    show "\<exists>t. row (db_turns db') (dr_key x, act_invocation_id c) = Some t
        \<and> tn_state t = snd (outcome_views (act_state c))"
    proof (cases "x = ref")
      case True
      with x assms(4,5,7) show ?thesis by simp
    next
      case False
      with x assms(4) have c: "row (db_actions db) x = Some c" by simp
      have "(dr_key x, act_invocation_id c) \<noteq> (dr_key ref, act_invocation_id a)"
        using assms(1) c assms(3) False unfolding one_reply_per_turn_def by blast
      with assms(2,6) c x(2) show ?thesis unfolding turns_follow_replies_def by metis
    qed
  qed
qed

lemma finish_follows:
  assumes "one_reply_per_turn db" and "turns_follow_replies db"
    and "action_finish io ref source target receipt code now db = (r, db')"
  shows "one_reply_per_turn db' \<and> turns_follow_replies db'"
proof (cases r)
  case None
  with assms(3) action_finish_ok obtain a b t where ok:
    "row (db_actions db) ref = Some a" "db_actions db' = put ref b (db_actions db)"
    "act_invocation_id b = act_invocation_id a" "act_state b = target"
    "db_turns db' = put (dr_key ref, act_invocation_id a) t (db_turns db)"
    "tn_state t = snd (outcome_views target)" by blast
  show ?thesis by (rule follow_after_put[OF assms(1,2) ok(1-3)]) (use ok in auto)
next
  case (Some e)
  with assms action_finish_error show ?thesis by blast
qed


subsubsection \<open>Witnesses\<close>

definition sample_ref :: dispatch_ref where
  "sample_ref = \<lparr>dr_key = \<lparr>key_tenant = Ident ''acme'', key_account = Ident ''work'',
     key_chat = Ident ''1@g.us''\<rparr>, dr_action_id = Ident ''a1''\<rparr>"

definition sample_action :: action_row where
  "sample_action = \<lparr>act_invocation_id = ''i1'', act_response_id = ''r1'', act_reply_to = None,
     act_text = ''hello'', act_state = StatePending, act_attempts = 0, act_receipt = None,
     act_last_error = None, act_created_at_ms = 5, act_updated_at_ms = 5, act_completed_at_ms = None\<rparr>"

definition sample_db :: outbox_db where
  "sample_db = \<lparr>db_chats = [dr_key sample_ref], db_actions = [(sample_ref, sample_action)],
     db_turns = [((dr_key sample_ref, ''i1''), \<lparr>tn_state = TurnResponsePlanned, tn_claimed = True,
       tn_message_id = ''m1'', tn_provider_message_id = None, tn_cause = CauseDirectRequest,
       tn_causation_kind = CausationRequest, tn_causation_id = ''c1'', tn_participant = None,
       tn_sender_ref = None, tn_sender_name = [], tn_input_text = ''hi'', tn_occurred_at_ms = 4,
       tn_received_at_ms = 4, tn_attempts = 1, tn_config_version = Some 1, tn_last_error = None,
       tn_ignored_reason = None, tn_updated_at_ms = 5\<rparr>)],
     db_history = [], db_effects = [], db_configs = [], db_resets = [], db_mentions = [],
     db_participants = [], db_senders = [], db_last_sequence = 0\<rparr>"

definition calm :: call_args where
  "calm = \<lparr>arg_io = (\<lambda>_. None), arg_now = 70000000000000000, arg_receipt = ''receipt'',
     arg_code = ErrorTimeout\<rparr>"

lemma action_start_enabled:
  assumes "row (db_actions db) ref = Some a" and "act_state a = StatePending" and "now \<noteq> 0"
  shows "\<exists>db'. action_start (\<lambda>_. None) now ref db = (None, db')"
  using assms by (simp add: action_start_def update_where_def require_one_def case_prod_unfold)

lemma sample_db_row [simp]: "row (db_actions sample_db) ref = (if ref = sample_ref then Some sample_action else None)"
  by (simp add: sample_db_def)

theorem reply_sent_at_most_once_witness:
  "\<exists>s. reachable (action_ops (Ident ''acme'')) (\<lambda>_. False) sample_db s \<and> sys_sends s sample_ref = 1
    \<and> action_state (sys_db s) sample_ref \<notin> {Some StatePending, Some StateFailedTerminal}"
proof -
  have pending: "act_state sample_action = StatePending" by (simp add: sample_action_def)
  then obtain db' where start: "action_start (\<lambda>_. None) (arg_now calm) sample_ref sample_db = (None, db')"
    using action_start_enabled[of sample_db sample_ref sample_action "arg_now calm"]
    by (auto simp: calm_def)
  obtain s where run: "reachable (action_ops (Ident ''acme'')) (\<lambda>_. False) sample_db s"
    and sent: "sys_sends s sample_ref = 1"
    using run_one_send[of "action_ops (Ident ''acme'')" sample_db sample_ref calm db' _ 0] start pending
    by (auto simp: action_ops_def action_state_def calm_def)
  from run sent reply_sent_at_most_once[OF run, of sample_ref] show ?thesis by auto
qed


end
