(* ===== verification/ActionDispatch.thy ===== *)
theory ActionDispatch
  imports Conversation Replies ActionStore OutboxSite
begin

text \<open>
  Sending planned replies (\<open>internal/action/action.go\<close>, \<open>internal/action/response_writer.go\<close>). The
  interfaces the dispatcher is given are records of calls on a world. The last part runs the
  dispatcher at a site of the reply outbox, on the SQLite store, and shows that it takes only steps
  of the outbox system, whatever the other workers do between its calls.
\<close>

record send_text_request =
  st_key :: agent_key
  st_action_id :: action_id
  st_text :: string
  st_quoted_message_id :: message_id
  st_choices :: "string list"

record send_copy_code_request =
  sc_key :: agent_key
  sc_code :: string

record 'w reply_store =
  rs_load :: "dispatch_ref \<Rightarrow> ('w, go_error + stored_action) call"
  rs_start :: "dispatch_ref \<Rightarrow> instant \<Rightarrow> ('w, go_error option) call"
  rs_complete :: "dispatch_ref \<Rightarrow> string \<Rightarrow> instant \<Rightarrow> ('w, go_error option) call"
  rs_fail_terminal :: "dispatch_ref \<Rightarrow> error_code \<Rightarrow> instant \<Rightarrow> ('w, go_error option) call"
  rs_mark_unknown :: "dispatch_ref \<Rightarrow> error_code \<Rightarrow> instant \<Rightarrow> ('w, go_error option) call"

record 'w text_sender =
  ts_ready :: "('w, bool) call"
  ts_send_text :: "send_text_request \<Rightarrow> ('w, go_error + string) call"
  ts_send_copy_code :: "send_copy_code_request \<Rightarrow> ('w, go_error option) call"

record 'w reply_dispatcher =
  rd_store :: "'w reply_store"
  rd_policy :: "agent_key \<Rightarrow> ('w, go_error option) call"
  rd_sender :: "'w text_sender"
  rd_clock :: "'w \<Rightarrow> instant"
  rd_observer :: "delivery_status \<Rightarrow> error_code \<Rightarrow> 'w \<Rightarrow> 'w"

definition discard_observer :: "delivery_status \<Rightarrow> error_code \<Rightarrow> 'w \<Rightarrow> 'w" where
  "discard_observer status code w = w"

text \<open>A nil interface is \<open>None\<close>.\<close>

definition new_reply_dispatcher :: "'w reply_store option \<Rightarrow> (agent_key \<Rightarrow> ('w, go_error option) call) option \<Rightarrow>
    'w text_sender option \<Rightarrow> ('w \<Rightarrow> instant) option \<Rightarrow> (delivery_status \<Rightarrow> error_code \<Rightarrow> 'w \<Rightarrow> 'w) option \<Rightarrow>
    go_error + 'w reply_dispatcher" where
  "new_reply_dispatcher store policy sender clock observer =
    (case (store, policy, sender, clock, observer) of
       (Some st, Some p, Some se, Some c, Some obs) \<Rightarrow>
         Inr \<lparr>rd_store = st, rd_policy = p, rd_sender = se, rd_clock = c, rd_observer = obs\<rparr>
     | _ \<Rightarrow> Inl (errorf ErrorInvalidArgument ''create response dispatcher''
         ''store, policy, sender, clock, and observer are required''))"

subsection \<open>Dispatching\<close>

definition dispatch_error :: "error_code \<Rightarrow> string \<Rightarrow> go_error" where
  "dispatch_error code msg = errorf code ''dispatch response'' msg"

definition delivered :: "dispatch_ref \<Rightarrow> delivery_status \<Rightarrow> instant option \<Rightarrow> delivery_result" where
  "delivered ref status at_time = \<lparr>dres_action_id = dr_action_id ref, dres_status = status,
     dres_completed_at = at_time\<rparr>"

text \<open>\<open>record\<close>: the outcome of the write is dropped.\<close>

definition record_outcome :: "('w, go_error option) call \<Rightarrow> 'w \<Rightarrow> 'w" where
  "record_outcome write w = snd (write w)"

definition mark_unknown_now :: "'w reply_dispatcher \<Rightarrow> dispatch_ref \<Rightarrow> error_code \<Rightarrow> 'w \<Rightarrow> 'w" where
  "mark_unknown_now d ref code w =
     record_outcome (\<lambda>w'. rs_mark_unknown (rd_store d) ref code (rd_clock d w') w') w"

text \<open>After the claim: the native call, its receipt, and the copy button.\<close>

definition send_claimed :: "'w reply_dispatcher \<Rightarrow> dispatch_ref \<Rightarrow> stored_action \<Rightarrow>
    ('w, delivery_result \<times> go_error option) call" where
  "send_claimed d ref a w =
    (case split_choices (sa_text a) of (body, choices) \<Rightarrow>
     (case ts_send_text (rd_sender d) \<lparr>st_key = dr_key ref, st_action_id = dr_action_id ref,
         st_text = body, st_quoted_message_id = sa_reply_to_message_id a, st_choices = choices\<rparr> w of
        (Inl e, w1) \<Rightarrow>
          ((delivered ref DeliveryUnknownOutcome None,
            Some (new_error ErrorUnknownOutcome ''dispatch response''
              (Some (Wrapped ''send text unknown outcome: '' e)))),
           mark_unknown_now d ref (error_code_of e) w1)
      | (Inr receipt, w1) \<Rightarrow>
          (let completed_at = rd_clock d w1 in
           case rs_complete (rd_store d) ref receipt completed_at w1 of
             (Some e, w2) \<Rightarrow>
               ((delivered ref DeliveryUnknownOutcome None,
                 Some (new_error ErrorUnknownOutcome ''record delivery receipt''
                   (Some (Wrapped ''complete storage failed: '' e)))),
                mark_unknown_now d ref ErrorStorageFailure w2)
           | (None, w2) \<Rightarrow>
               (let code = first_code_block body;
                    w3 = (if code \<noteq> []
                      then snd (ts_send_copy_code (rd_sender d) \<lparr>sc_key = dr_key ref, sc_code = code\<rparr> w2)
                      else w2)
                in ((delivered ref DeliverySucceeded (Some completed_at), None), w3)))))"

definition dispatch_pending :: "'w reply_dispatcher \<Rightarrow> dispatch_ref \<Rightarrow> stored_action \<Rightarrow>
    ('w, delivery_result \<times> go_error option) call" where
  "dispatch_pending d ref a w =
    (case rd_policy d (dr_key ref) w of
       (Some e, w1) \<Rightarrow>
         ((delivered ref DeliveryFailedTerminal None, Some e),
          record_outcome (\<lambda>w'. rs_fail_terminal (rd_store d) ref (error_code_of e) (rd_clock d w') w') w1)
     | (None, w1) \<Rightarrow>
         (case ts_ready (rd_sender d) w1 of (ready, w2) \<Rightarrow>
            if \<not> ready
            then ((delivered ref DeliveryPending None,
              Some (dispatch_error ErrorNotReady ''text sender is not ready'')), w2)
            else case rs_start (rd_store d) ref (rd_clock d w2) w2 of
              (Some e, w3) \<Rightarrow>
                ((delivered ref DeliveryPending None,
                  Some (if is_code (Some e) ErrorConflict
                    then dispatch_error ErrorDeliveryPending ''delivery is already in progress'' else e)), w3)
            | (None, w3) \<Rightarrow> send_claimed d ref a w3))"

definition dispatch_loaded :: "'w reply_dispatcher \<Rightarrow> dispatch_ref \<Rightarrow> stored_action \<Rightarrow>
    ('w, delivery_result \<times> go_error option) call" where
  "dispatch_loaded d ref a w =
    (case sa_state a of
       StateSucceeded \<Rightarrow> ((delivered ref DeliverySucceeded (sa_completed_at a), None), w)
     | StateFailedTerminal \<Rightarrow> ((delivered ref DeliveryFailedTerminal (sa_completed_at a),
         Some (dispatch_error ErrorProviderFailure ''delivery previously failed terminally'')), w)
     | StateUnknownOutcome \<Rightarrow> ((delivered ref DeliveryUnknownOutcome (sa_completed_at a),
         Some (dispatch_error ErrorUnknownOutcome ''delivery outcome is unknown'')), w)
     | StateExecuting \<Rightarrow> ((delivered ref DeliveryPending None,
         Some (dispatch_error ErrorDeliveryPending ''delivery is already in progress'')), w)
     | StatePending \<Rightarrow> dispatch_pending d ref a w
     | StateOther _ \<Rightarrow> ((zero_delivery_result,
         Some (dispatch_error ErrorIntegrityFailure ''invalid action state'')), w))"

definition dispatch_body :: "'w reply_dispatcher \<Rightarrow> dispatch_ref \<Rightarrow>
    ('w, delivery_result \<times> go_error option) call" where
  "dispatch_body d ref w =
    (if key_validate (dr_key ref) \<noteq> None \<or> is_zero (dr_action_id ref)
     then ((zero_delivery_result,
       Some (dispatch_error ErrorInvalidArgument ''valid dispatch reference is required'')), w)
     else case rs_load (rd_store d) ref w of
       (Inl e, w1) \<Rightarrow> ((zero_delivery_result, Some e), w1)
     | (Inr a, w1) \<Rightarrow> dispatch_loaded d ref a w1)"

text \<open>\<open>Dispatcher.Dispatch\<close>; the deferred observer sees the returned status and error.\<close>

definition dispatch_reply :: "'w reply_dispatcher \<Rightarrow> dispatch_ref \<Rightarrow>
    ('w, delivery_result \<times> go_error option) call" where
  "dispatch_reply d ref w = (case dispatch_body d ref w of ((res, err), w') \<Rightarrow>
     ((res, err), rd_observer d (dres_status res) (code_of err) w'))"

subsection \<open>Command responses\<close>

record 'w command_responder =
  cr_find :: "incoming_message \<Rightarrow> ('w, go_error + dispatch_ref option) call"
  cr_plan :: "incoming_message \<Rightarrow> nat \<Rightarrow> string \<Rightarrow> ('w, go_error + dispatch_ref) call"
  cr_dispatch :: "dispatch_ref \<Rightarrow> ('w, delivery_result \<times> go_error option) call"

definition new_command_responder ::
  "((incoming_message \<Rightarrow> ('w, go_error + dispatch_ref option) call)
      \<times> (incoming_message \<Rightarrow> nat \<Rightarrow> string \<Rightarrow> ('w, go_error + dispatch_ref) call)) option \<Rightarrow>
    (dispatch_ref \<Rightarrow> ('w, delivery_result \<times> go_error option) call) option \<Rightarrow>
    go_error + 'w command_responder" where
  "new_command_responder store dispatch = (case (store, dispatch) of
     (Some (lookup, planner), Some d) \<Rightarrow> Inr \<lparr>cr_find = lookup, cr_plan = planner, cr_dispatch = d\<rparr>
   | _ \<Rightarrow> Inl (errorf ErrorInvalidArgument ''create command responder'' ''store and dispatcher are required''))"

text \<open>
  \<open>Resume\<close>; the store returns a reference only when it found one, so \<open>found\<close> and an error exclude
  each other here.
\<close>

definition responder_resume :: "'w command_responder \<Rightarrow> incoming_message \<Rightarrow>
    ('w, bool \<times> go_error option) call" where
  "responder_resume c m w = (case cr_find c m w of
     (Inl e, w1) \<Rightarrow> ((False, Some e), w1)
   | (Inr None, w1) \<Rightarrow> ((False, None), w1)
   | (Inr (Some ref), w1) \<Rightarrow> (case cr_dispatch c ref w1 of ((_, err), w2) \<Rightarrow> ((True, err), w2)))"

definition responder_reply :: "'w command_responder \<Rightarrow> incoming_message \<Rightarrow> nat \<Rightarrow> string \<Rightarrow>
    ('w, go_error option) call" where
  "responder_reply c m version body w = (case cr_plan c m version body w of
     (Inl e, w1) \<Rightarrow> (Some e, w1)
   | (Inr ref, w1) \<Rightarrow> (case cr_dispatch c ref w1 of ((_, err), w2) \<Rightarrow> (err, w2)))"

subsection \<open>The dispatcher at a site\<close>

text \<open>
  What the dispatcher calls besides its store, on the rest of the site; \<open>ro_io\<close> is what SQLite
  reports for the next statements and \<open>ro_uuid\<close> parses UUIDs.
\<close>

record 'x reply_outside =
  ro_uuid :: "string \<Rightarrow> string option"
  ro_io :: "'x \<Rightarrow> io"
  ro_policy :: "agent_key \<Rightarrow> 'x \<Rightarrow> go_error option \<times> 'x"
  ro_ready :: "'x \<Rightarrow> bool \<times> 'x"
  ro_send :: "send_text_request \<Rightarrow> 'x \<Rightarrow> (go_error + string) \<times> 'x"
  ro_copy :: "send_copy_code_request \<Rightarrow> 'x \<Rightarrow> go_error option \<times> 'x"
  ro_clock :: "'x \<Rightarrow> instant"
  ro_observe :: "delivery_status \<Rightarrow> error_code \<Rightarrow> 'x \<Rightarrow> 'x"

type_synonym 'x reply_place = "(dispatch_ref, outbox_db, 'x) site"

definition call_of :: "io \<Rightarrow> instant \<Rightarrow> string \<Rightarrow> error_code \<Rightarrow> call_args" where
  "call_of io now receipt code = \<lparr>arg_io = io, arg_now = now, arg_receipt = receipt, arg_code = code\<rparr>"

definition load_reply :: "nat \<Rightarrow> 'x reply_outside \<Rightarrow> dispatch_ref \<Rightarrow> 'x \<Rightarrow> (dispatch_ref, outbox_db) outbox_sys \<Rightarrow>
    (go_error + stored_action) \<times> (dispatch_ref, outbox_db) outbox_sys" where
  "load_reply t ou ref x s = (case action_load (ro_uuid ou) (ro_io ou x) ref (sys_db s) of
     Inl e \<Rightarrow> (Inl e, s)
   | Inr a \<Rightarrow> (Inr a, if sa_state a = StatePending then sess_enter t ref s else s))"

definition store_at_site :: "nat \<Rightarrow> tenant_id \<Rightarrow> 'x reply_outside \<Rightarrow> ('x reply_place \<Rightarrow> 'x reply_place) \<Rightarrow>
    'x reply_place reply_store" where
  "store_at_site t tenant ou others = \<lparr>
     rs_load = (\<lambda>ref. on_sys others (load_reply t ou ref)),
     rs_start = (\<lambda>ref now. on_sys others (\<lambda>x.
       sess_start (action_ops tenant) t (call_of (ro_io ou x) now [] NoCode) ref)),
     rs_complete = (\<lambda>ref receipt now. on_sys others (\<lambda>x.
       sess_complete (action_ops tenant) t (call_of (ro_io ou x) now receipt NoCode) ref)),
     rs_fail_terminal = (\<lambda>ref code now. on_sys others (\<lambda>x.
       sess_fail (action_ops tenant) t (call_of (ro_io ou x) now [] code) ref)),
     rs_mark_unknown = (\<lambda>ref code now. on_sys others (\<lambda>x.
       sess_unknown (action_ops tenant) t (call_of (ro_io ou x) now [] code) ref))\<rparr>"

definition send_at_site :: "nat \<Rightarrow> 'x reply_outside \<Rightarrow> ('x reply_place \<Rightarrow> 'x reply_place) \<Rightarrow>
    send_text_request \<Rightarrow> ('x reply_place, go_error + string) call" where
  "send_at_site t ou others q w = (case on_ext others (ro_send ou q) w of (r, w1) \<Rightarrow>
     (r, w1\<lparr>st_sys := sess_attempt t \<lparr>dr_key = st_key q, dr_action_id = st_action_id q\<rparr> (st_sys w1)\<rparr>))"

text \<open>The dispatcher, worker \<open>t\<close> of the site; when it has reported its result it is done.\<close>

definition reply_worker :: "nat \<Rightarrow> tenant_id \<Rightarrow> 'x reply_outside \<Rightarrow> ('x reply_place \<Rightarrow> 'x reply_place) \<Rightarrow>
    'x reply_place reply_dispatcher" where
  "reply_worker t tenant ou others = \<lparr>
     rd_store = store_at_site t tenant ou others,
     rd_policy = (\<lambda>key. on_ext others (ro_policy ou key)),
     rd_sender = \<lparr>ts_ready = on_ext others (ro_ready ou), ts_send_text = send_at_site t ou others,
       ts_send_copy_code = (\<lambda>q. on_ext others (ro_copy ou q))\<rparr>,
     rd_clock = (\<lambda>w. ro_clock ou (st_ext w)),
     rd_observer = (\<lambda>status code w. w\<lparr>st_sys := sess_leave t (st_sys w),
       st_ext := ro_observe ou status code (st_ext w)\<rparr>)\<rparr>"

lemma reply_worker_sel [simp]:
  "rs_load (rd_store (reply_worker t tenant ou others)) ref = on_sys others (load_reply t ou ref)"
  "rd_policy (reply_worker t tenant ou others) key = on_ext others (ro_policy ou key)"
  "ts_ready (rd_sender (reply_worker t tenant ou others)) = on_ext others (ro_ready ou)"
  "ts_send_text (rd_sender (reply_worker t tenant ou others)) = send_at_site t ou others"
  "ts_send_copy_code (rd_sender (reply_worker t tenant ou others)) q = on_ext others (ro_copy ou q)"
  by (simp_all add: reply_worker_def store_at_site_def)

lemma action_load_state:
  "action_load u io ref db = Inr a \<Longrightarrow> action_state db ref = Some (sa_state a)"
  by (auto simp: action_load_def decode_action_def action_state_def
    split: option.splits if_splits sum.splits)

text \<open>The proof runs along the code, with \<open>at\<close> for the place the worker has reached.\<close>

abbreviation reply_at where
  "reply_at t tenant \<equiv> gone_to (action_ops tenant) (\<lambda>_. False) t"

lemma unknown_at_site:
  assumes "others_behave (action_ops tenant) (\<lambda>_. False) t others"
    and "reply_at t tenant w0 w (Some (ref, Attempted))"
  shows "reply_at t tenant w0 (mark_unknown_now (reply_worker t tenant ou others) ref code w) None"
proof -
  obtain r w' where u: "rs_mark_unknown (rd_store (reply_worker t tenant ou others)) ref code
      (rd_clock (reply_worker t tenant ou others) w) w = (r, w')" by fastforce
  then have "on_sys others (\<lambda>x. sess_unknown (action_ops tenant) t
      (call_of (ro_io ou x) (rd_clock (reply_worker t tenant ou others) w) [] code) ref) w = (r, w')"
    by (simp add: reply_worker_def store_at_site_def)
  note u' = on_sys_split[OF this assms]
  have "reply_at t tenant w0 w' None" by (rule sess_unknown_gone[OF conjunct1[OF u'] conjunct2[OF u']])
  with u show ?thesis by (simp add: mark_unknown_now_def record_outcome_def)
qed

lemma send_at_site_gone:
  assumes "others_behave (action_ops tenant) (\<lambda>_. False) t others"
    and "reply_at t tenant w0 w (Some (ref, Claimed))"
    and "send_at_site t ou others q w = (r, w')"
    and "\<lparr>dr_key = st_key q, dr_action_id = st_action_id q\<rparr> = ref"
  shows "reply_at t tenant w0 w' (Some (ref, Attempted))"
proof -
  obtain r1 w1 where e: "on_ext others (ro_send ou q) w = (r1, w1)" by fastforce
  from on_ext_gone[OF assms(1,2) e] have "reply_at t tenant w0 w1 (Some (ref, Claimed))" .
  then show ?thesis by (rule sess_attempt_gone) (use e assms(3,4) in \<open>auto simp: send_at_site_def\<close>)
qed

lemma send_claimed_gone:
  assumes oth: "others_behave (action_ops tenant) (\<lambda>_. False) t others"
    and at: "reply_at t tenant w0 w (Some (ref, Claimed))"
    and run: "send_claimed (reply_worker t tenant ou others) ref a w = (res, w')"
  shows "reply_at t tenant w0 w' None"
proof -
  let ?d = "reply_worker t tenant ou others"
  obtain body choices where sp: "split_choices (sa_text a) = (body, choices)" by fastforce
  let ?q = "\<lparr>st_key = dr_key ref, st_action_id = dr_action_id ref, st_text = body,
    st_quoted_message_id = sa_reply_to_message_id a, st_choices = choices\<rparr>"
  obtain r w1 where send: "send_at_site t ou others ?q w = (r, w1)" by fastforce
  have at1: "reply_at t tenant w0 w1 (Some (ref, Attempted))"
    by (rule send_at_site_gone[OF oth at send]) simp
  show ?thesis
  proof (cases r)
    case (Inl e)
    with run sp send have "w' = mark_unknown_now ?d ref (error_code_of e) w1"
      by (simp add: send_claimed_def)
    then show ?thesis using unknown_at_site[OF oth at1] by simp
  next
    case (Inr receipt)
    obtain r2 w2 where c: "rs_complete (rd_store ?d) ref receipt (rd_clock ?d w1) w1 = (r2, w2)" by fastforce
    then have "on_sys others (\<lambda>x. sess_complete (action_ops tenant) t
        (call_of (ro_io ou x) (rd_clock ?d w1) receipt NoCode) ref) w1 = (r2, w2)"
      by (simp add: reply_worker_def store_at_site_def)
    note c' = on_sys_split[OF this oth at1]
    have at2: "reply_at t tenant w0 w2 (if r2 = None then None else Some (ref, Attempted))"
      by (rule replies.sess_complete_gone[OF conjunct1[OF c'] conjunct2[OF c']])
    show ?thesis
    proof (cases r2)
      case None
      with run sp send Inr c have "w' = w2 \<or> (\<exists>q. w' = snd (on_ext others (ro_copy ou q) w2))"
        by (auto simp: send_claimed_def Let_def split: if_splits)
      moreover have fin: "reply_at t tenant w0 w2 None" using at2 None by simp
      moreover have "reply_at t tenant w0 (snd (on_ext others f w2)) None" for f
        by (rule on_ext_gone[OF oth fin prod.collapse[symmetric]])
      ultimately show ?thesis by blast
    next
      case (Some e)
      with run sp send Inr c have "w' = mark_unknown_now ?d ref ErrorStorageFailure w2"
        by (simp add: send_claimed_def Let_def)
      with at2 Some unknown_at_site[OF oth] show ?thesis by simp
    qed
  qed
qed

lemma dispatch_pending_gone:
  assumes oth: "others_behave (action_ops tenant) (\<lambda>_. False) t others"
    and at: "reply_at t tenant w0 w (Some (ref, Loaded))"
    and run: "dispatch_pending (reply_worker t tenant ou others) ref a w = (res, w')"
  shows "reply_at t tenant w0 w' None \<or> reply_at t tenant w0 w' (Some (ref, Loaded))"
proof -
  let ?d = "reply_worker t tenant ou others"
  obtain pr w1 where p: "on_ext others (ro_policy ou (dr_key ref)) w = (pr, w1)" by fastforce
  note at1 = on_ext_gone[OF oth at p]
  show ?thesis
  proof (cases pr)
    case (Some e)
    obtain r w2 where f: "rs_fail_terminal (rd_store ?d) ref (error_code_of e) (rd_clock ?d w1) w1 = (r, w2)"
      by fastforce
    then have "on_sys others (\<lambda>x. sess_fail (action_ops tenant) t
        (call_of (ro_io ou x) (rd_clock ?d w1) [] (error_code_of e)) ref) w1 = (r, w2)"
      by (simp add: reply_worker_def store_at_site_def)
    note f' = on_sys_split[OF this oth at1]
    have "reply_at t tenant w0 w2 None"
      by (rule sess_fail_gone[OF conjunct1[OF f'] _ conjunct2[OF f']]) simp
    with run p Some f show ?thesis by (simp add: dispatch_pending_def record_outcome_def)
  next
    case None
    obtain ready w2 where rd: "on_ext others (ro_ready ou) w1 = (ready, w2)" by fastforce
    note at2 = on_ext_gone[OF oth at1 rd]
    obtain r w3 where st: "rs_start (rd_store ?d) ref (rd_clock ?d w2) w2 = (r, w3)" by fastforce
    then have "on_sys others (\<lambda>x. sess_start (action_ops tenant) t
        (call_of (ro_io ou x) (rd_clock ?d w2) [] NoCode) ref) w2 = (r, w3)"
      by (simp add: reply_worker_def store_at_site_def)
    note st' = on_sys_split[OF this oth at2]
    have at3: "reply_at t tenant w0 w3 (if r = None then Some (ref, Claimed) else None)"
      by (rule replies.sess_start_gone[OF conjunct1[OF st'] conjunct2[OF st']])
    consider "\<not> ready" | (failed) e where "ready" "r = Some e" | (claimed) "ready" "r = None" by (cases r) auto
    then show ?thesis
    proof cases
      case 1
      with run p None rd at2 show ?thesis by (simp add: dispatch_pending_def)
    next
      case failed
      with run p None rd st at3 show ?thesis by (simp add: dispatch_pending_def)
    next
      case claimed
      with run p None rd st have "send_claimed ?d ref a w3 = (res, w')" by (simp add: dispatch_pending_def)
      with at3 claimed send_claimed_gone[OF oth] show ?thesis by simp
    qed
  qed
qed

lemma dispatch_body_gone:
  assumes oth: "others_behave (action_ops tenant) (\<lambda>_. False) t others"
    and at: "reply_at t tenant w0 w None"
    and run: "dispatch_body (reply_worker t tenant ou others) ref w = (res, w')"
  shows "reply_at t tenant w0 w' None \<or> reply_at t tenant w0 w' (Some (ref, Loaded))"
proof (cases "key_validate (dr_key ref) \<noteq> None \<or> is_zero (dr_action_id ref)")
  case True
  with run at show ?thesis by (simp add: dispatch_body_def)
next
  case False
  obtain l w1 where l: "on_sys others (load_reply t ou ref) w = (l, w1)" by fastforce
  note l' = on_sys_split[OF this oth at]
  show ?thesis
  proof (cases "\<exists>a. l = Inr a \<and> sa_state a = StatePending")
    case True
    then obtain a where a: "l = Inr a" "sa_state a = StatePending" by blast
    with l' have "op_state (action_ops tenant) (sys_db (st_sys (others w))) ref = Some StatePending"
      and enter: "st_sys w1 = sess_enter t ref (st_sys (others w))"
      using action_load_state by (fastforce simp: load_reply_def action_ops_def split: sum.splits if_splits)+
    from sess_enter_gone[OF conjunct1[OF l'] this]
    have at1: "reply_at t tenant w0 w1 (Some (ref, Loaded))" .
    with run False l a dispatch_pending_gone[OF oth at1] show ?thesis
      by (simp add: dispatch_body_def dispatch_loaded_def)
  next
    case np: False
    with l' have "st_sys w1 = st_sys (others w)"
      by (auto simp: load_reply_def split: sum.splits if_splits)
    with l' have at1: "reply_at t tenant w0 w1 None" using gone_to_same by blast
    have "w' = w1"
      using run False l np by (auto simp: dispatch_body_def dispatch_loaded_def split: sum.splits outbox_state.splits)
    with at1 show ?thesis by simp
  qed
qed

lemma dispatch_reply_gone:
  assumes oth: "others_behave (action_ops tenant) (\<lambda>_. False) t others"
    and idle: "sys_workers (st_sys w) t = None"
    and run: "dispatch_reply (reply_worker t tenant ou others) ref w = (res, w')"
  shows "reply_at t tenant w w' None"
proof -
  let ?d = "reply_worker t tenant ou others"
  obtain r w1 where b: "dispatch_body ?d ref w = (r, w1)" by fastforce
  obtain p where p: "reply_at t tenant w w1 p" "p = None \<or> p = Some (ref, Loaded)"
    using dispatch_body_gone[OF oth gone_to_refl[OF idle] b] by blast
  have "w' = rd_observer ?d (dres_status (fst r)) (code_of (snd r)) w1"
    using run b by (cases r) (auto simp: dispatch_reply_def)
  then have "st_sys w' = sess_leave t (st_sys w1)" by (simp add: reply_worker_def)
  with sess_leave_gone[OF p] show ?thesis by blast
qed

text \<open>
  C1: the dispatcher refines the outbox system. \<open>Dispatch\<close> on the SQLite store, as one worker
  among others that may do anything the system allows between any two of its calls, only takes
  steps of the system and leaves no claim behind; so from a reachable state it ends in a reachable
  one, and the reply has still been given to the sender at most once.
\<close>
theorem dispatch_reply_refines:
  assumes "others_behave (action_ops tenant) (\<lambda>_. False) t others"
    and "reachable (action_ops tenant) (\<lambda>_. False) db (st_sys w)"
    and "sys_workers (st_sys w) t = None"
    and "dispatch_reply (reply_worker t tenant ou others) ref w = (res, w')"
  shows "reachable (action_ops tenant) (\<lambda>_. False) db (st_sys w')
    \<and> sys_workers (st_sys w') t = None \<and> sys_sends (st_sys w') ref \<le> 1"
proof -
  have "reachable (action_ops tenant) (\<lambda>_. False) db (st_sys w')" "sys_workers (st_sys w') t = None"
    using dispatch_reply_gone[OF assms(1,3,4)] assms(2)
    by (auto simp: gone_to_def reachable_def)
  with replies.at_most_once show ?thesis by blast
qed

subsection \<open>What one dispatch reports\<close>

text \<open>A result that says neither that the reply was sent nor that it may have been.\<close>

definition no_action_result :: "(delivery_result \<times> go_error option) \<Rightarrow> bool" where
  "no_action_result res \<longleftrightarrow> dres_status (fst res) \<notin> {DeliverySucceeded, DeliveryUnknownOutcome}"

lemma send_claimed_reports:
  assumes "send_claimed (reply_worker t tenant ou id) ref a w = (res, w')"
  shows "\<not> no_action_result res
    \<and> (dres_status (fst res) = DeliverySucceeded \<longrightarrow> snd res = None
        \<and> action_state (sys_db (st_sys w')) ref = Some StateSucceeded)"
proof -
  let ?d = "reply_worker t tenant ou id"
  obtain body choices where sp: "split_choices (sa_text a) = (body, choices)" by fastforce
  let ?q = "\<lparr>st_key = dr_key ref, st_action_id = dr_action_id ref, st_text = body,
    st_quoted_message_id = sa_reply_to_message_id a, st_choices = choices\<rparr>"
  obtain r w1 where send: "send_at_site t ou id ?q w = (r, w1)" by fastforce
  show ?thesis
  proof (cases r)
    case (Inl e)
    with assms sp send show ?thesis by (auto simp: send_claimed_def no_action_result_def delivered_def)
  next
    case (Inr receipt)
    obtain r2 w2 where c: "rs_complete (rd_store ?d) ref receipt (rd_clock ?d w1) w1 = (r2, w2)" by fastforce
    show ?thesis
    proof (cases r2)
      case (Some e)
      with assms sp send Inr c show ?thesis
        by (auto simp: send_claimed_def Let_def no_action_result_def delivered_def)
    next
      case None
      let ?c = "call_of (ro_io ou (st_ext w1)) (rd_clock ?d w1) receipt NoCode"
      have fin: "sess_complete (action_ops tenant) t ?c ref (st_sys w1) = (None, st_sys w2)"
        using c None by (auto simp: reply_worker_def store_at_site_def on_sys_quiet prod_eq_iff)
      from sess_db(2)[OF this] have "action_complete (arg_io ?c) (arg_receipt ?c) (arg_now ?c) ref
          (sys_db (st_sys w1)) = (None, sys_db (st_sys w2))" by (simp add: action_ops_def)
      then have "action_state (sys_db (st_sys w2)) ref = Some StateSucceeded"
        using action_finish_state by (fastforce simp: action_complete_def split: if_splits)
      moreover have "st_sys w' = st_sys w2" and "dres_status (fst res) = DeliverySucceeded" "snd res = None"
        using assms sp send Inr c None by (auto simp: send_claimed_def Let_def delivered_def)
      ultimately show ?thesis by (simp add: no_action_result_def)
    qed
  qed
qed

lemma dispatch_pending_reports:
  assumes "dispatch_pending (reply_worker t tenant ou id) ref a w = (res, w')"
  shows "(no_action_result res \<longrightarrow> sys_sends (st_sys w') = sys_sends (st_sys w))
    \<and> (dres_status (fst res) = DeliverySucceeded \<longrightarrow> snd res = None
        \<and> action_state (sys_db (st_sys w')) ref = Some StateSucceeded)"
proof -
  let ?d = "reply_worker t tenant ou id"
  obtain pr w1 where p: "on_ext id (ro_policy ou (dr_key ref)) w = (pr, w1)" by fastforce
  then have s1: "st_sys w1 = st_sys w" using on_ext_quiet[of "ro_policy ou (dr_key ref)" w] by simp
  show ?thesis
  proof (cases pr)
    case (Some e)
    with assms p s1 show ?thesis
      by (auto simp: dispatch_pending_def record_outcome_def delivered_def reply_worker_def
        store_at_site_def on_sys_quiet)
  next
    case None
    obtain ready w2 where rd: "on_ext id (ro_ready ou) w1 = (ready, w2)" by fastforce
    then have s2: "st_sys w2 = st_sys w" using on_ext_quiet[of "ro_ready ou" w1] s1 by simp
    obtain r w3 where st: "rs_start (rd_store ?d) ref (rd_clock ?d w2) w2 = (r, w3)" by fastforce
    then have s3: "sys_sends (st_sys w3) = sys_sends (st_sys w)"
      using s2 by (auto simp: reply_worker_def store_at_site_def on_sys_quiet)
    consider "\<not> ready" | e where "ready" "r = Some e" | (claimed) "ready" "r = None" by (cases r) auto
    then show ?thesis
    proof cases
      case claimed
      with assms p None rd st have "send_claimed ?d ref a w3 = (res, w')" by (simp add: dispatch_pending_def)
      from send_claimed_reports[OF this] show ?thesis by blast
    qed (use assms p None rd st s2 s3 in \<open>auto simp: dispatch_pending_def delivered_def\<close>)
  qed
qed

text \<open>
  C37: what a dispatch reports is what happened. At a quiet site, a dispatch that reports success
  has no error and leaves the reply recorded as succeeded, and one that reports anything but
  success or an unknown outcome has not given the reply to the sender.
\<close>
theorem dispatch_reply_reports_truth:
  assumes "dispatch_reply (reply_worker t tenant ou id) ref w = (res, w')"
  shows "(dres_status (fst res) = DeliverySucceeded \<longrightarrow>
        snd res = None \<and> action_state (sys_db (st_sys w')) ref = Some StateSucceeded)
    \<and> (dres_status (fst res) \<notin> {DeliverySucceeded, DeliveryUnknownOutcome} \<longrightarrow>
        sys_sends (st_sys w') = sys_sends (st_sys w))"
proof -
  let ?d = "reply_worker t tenant ou id"
  obtain w1 where b: "dispatch_body ?d ref w = (res, w1)" and w': "sys_db (st_sys w') = sys_db (st_sys w1)"
    "sys_sends (st_sys w') = sys_sends (st_sys w1)"
    using assms by (auto simp: dispatch_reply_def reply_worker_def sess_leave_def split: prod.splits)
  have "(no_action_result res \<longrightarrow> sys_sends (st_sys w1) = sys_sends (st_sys w))
    \<and> (dres_status (fst res) = DeliverySucceeded \<longrightarrow> snd res = None
        \<and> action_state (sys_db (st_sys w1)) ref = Some StateSucceeded)"
  proof (cases "key_validate (dr_key ref) \<noteq> None \<or> is_zero (dr_action_id ref)")
    case True
    with b show ?thesis by (auto simp: dispatch_body_def zero_delivery_result_def)
  next
    case False
    let ?l = "load_reply t ou ref (st_ext w) (st_sys w)" and ?w = "\<lambda>s. w\<lparr>st_sys := s\<rparr>"
    have db: "sys_db (snd ?l) = sys_db (st_sys w)" "sys_sends (snd ?l) = sys_sends (st_sys w)"
      by (auto simp: load_reply_def sess_enter_def split: sum.splits)
    show ?thesis
    proof (cases "fst ?l")
      case (Inl e)
      with b False db show ?thesis
        by (auto simp: dispatch_body_def on_sys_quiet zero_delivery_result_def)
    next
      case (Inr a)
      then have state: "action_state (sys_db (st_sys w)) ref = Some (sa_state a)"
        using action_load_state by (fastforce simp: load_reply_def split: sum.splits)
      have l: "dispatch_loaded ?d ref a (?w (snd ?l)) = (res, w1)"
        using b False Inr by (simp add: dispatch_body_def on_sys_quiet)
      show ?thesis
      proof (cases "sa_state a = StatePending")
        case True
        with l have "dispatch_pending ?d ref a (?w (snd ?l)) = (res, w1)" by (simp add: dispatch_loaded_def)
        from dispatch_pending_reports[OF this] db show ?thesis by simp
      next
        case np: False
        with l db state show ?thesis
          by (cases "sa_state a") (auto simp: dispatch_loaded_def delivered_def zero_delivery_result_def)
      qed
    qed
  qed
  with w' show ?thesis by (simp add: no_action_result_def)
qed

lemma action_fail_enabled:
  assumes "row (db_actions db) ref = Some r" and "act_state r = StatePending"
    and "row (db_turns db) (dr_key ref, act_invocation_id r) = Some turn"
    and "code \<noteq> NoCode" and "now \<noteq> 0"
  shows "\<exists>db'. action_fail_terminal (\<lambda>_. None) code now ref db = (None, db')"
  using assms
  by (simp add: action_fail_terminal_def action_finish_def finish_action_tx_def update_turn_delivery_def
    update_turn_where_def turn_of_action_def update_where_def require_one_def case_prod_unfold
    split: option.splits)


subsection \<open>Witnesses\<close>

text \<open>A provider that sends, and a policy whose check times out.\<close>

definition sample_outside :: "go_error option \<Rightarrow> unit reply_outside" where
  "sample_outside verdict = \<lparr>ro_uuid = (\<lambda>v. Some v), ro_io = (\<lambda>_ _. None),
     ro_policy = (\<lambda>_ x. (verdict, x)), ro_ready = (\<lambda>x. (True, x)), ro_send = (\<lambda>_ x. (Inr ''receipt'', x)),
     ro_copy = (\<lambda>_ x. (None, x)), ro_clock = (\<lambda>_. arg_now calm), ro_observe = (\<lambda>_ _ x. x)\<rparr>"

definition sample_place :: "unit reply_place" where
  "sample_place = \<lparr>st_sys = sys_start sample_db, st_ext = ()\<rparr>"

theorem dispatch_reply_refines_witness:
  "\<exists>res w'. dispatch_reply (reply_worker 0 (Ident ''acme'') (sample_outside None) id) sample_ref sample_place
      = (res, w') \<and> sys_sends (st_sys w') sample_ref \<le> 1"
proof -
  obtain res w' where run: "dispatch_reply (reply_worker 0 (Ident ''acme'') (sample_outside None) id)
      sample_ref sample_place = (res, w')" by fastforce
  have "others_behave (action_ops (Ident ''acme'')) (\<lambda>_. False) 0 (id :: unit reply_place \<Rightarrow> _)"
    by (simp add: others_behave_def)
  moreover have "reachable (action_ops (Ident ''acme'')) (\<lambda>_. False) sample_db (st_sys sample_place)"
    using reachable_start by (simp add: sample_place_def)
  moreover have "sys_workers (st_sys sample_place) 0 = None"
    by (simp add: sample_place_def sys_start_def)
  ultimately show ?thesis using dispatch_reply_refines[OF _ _ _ run] run by blast
qed

lemma dispatch_reply_reports_truth_witness:
  "let (res, w') = dispatch_reply (reply_worker 0 (Ident ''acme'') (sample_outside None) id) sample_ref sample_place
   in dres_status (fst res) = DeliverySucceeded \<longrightarrow> action_state (sys_db (st_sys w')) sample_ref = Some StateSucceeded"
proof -
  obtain res w' where run: "dispatch_reply (reply_worker 0 (Ident ''acme'') (sample_outside None) id)
      sample_ref sample_place = (res, w')" by fastforce
  from dispatch_reply_reports_truth[OF run] show ?thesis unfolding run Let_def prod.case by blast
qed


end
