(* ===== verification/Effects.thy ===== *)
theory Effects
  imports Policy Outbox
begin

text \<open>
  Typed effects (\<open>internal/effect/effect.go\<close>, the types): the four effects with their validation,
  references, plan requests and stored effects. The dispatcher is in the EffectDispatch theory.
\<close>

datatype effect =
    React message_id string
  | DeleteMessage message_id
  | Sticker string message_id
  | RunCommand string message_id

text \<open>The numbers of \<open>Kind\<close>, which the effect rows store.\<close>

fun effect_kind_number :: "effect \<Rightarrow> nat" where
  "effect_kind_number (React _ _) = 1"
| "effect_kind_number (DeleteMessage _) = 2"
| "effect_kind_number (RunCommand _ _) = 5"
| "effect_kind_number (Sticker _ _) = 6"

fun effect_capability :: "effect \<Rightarrow> capability" where
  "effect_capability (React _ _) = capability_message_react"
| "effect_capability (DeleteMessage _) = capability_message_delete"
| "effect_capability (Sticker _ _) = capability_message_sticker"
| "effect_capability (RunCommand _ _) = capability_command_execute"

fun is_command :: "effect \<Rightarrow> bool" where
  "is_command (RunCommand _ _) = True"
| "is_command _ = False"

fun effect_validate :: "effect \<Rightarrow> go_error option" where
  "effect_validate (React target emoji) =
     (if bad_reaction target emoji
      then Some (errorf ErrorInvalidArgument ''validate reaction effect''
        ''target and bounded emoji are required'') else None)"
| "effect_validate (DeleteMessage target) =
     (if is_zero target
      then Some (errorf ErrorInvalidArgument ''validate delete effect'' ''target message is required'')
      else None)"
| "effect_validate (Sticker name quoted) =
     map_option (\<lambda>e. new_error ErrorInvalidArgument ''validate sticker effect'' (Some e))
       (intent_validate \<lparr>ei_kind = EffectSticker, ei_target_message_id = zero_id, ei_emoji = [],
          ei_command = [], ei_sticker = name\<rparr>)"
| "effect_validate (RunCommand cmd target) =
     (if malformed_command cmd
      then Some (errorf ErrorInvalidArgument ''validate command'' ''registered command is malformed'')
      else None)"

definition effect_ref_validate :: "effect_ref \<Rightarrow> go_error option" where
  "effect_ref_validate ref =
    (if key_validate (ref_key ref) \<noteq> None \<or> is_zero (ref_effect_id ref)
     then Some (errorf ErrorInvalidArgument ''validate effect reference''
       ''agent key and effect ID are required'') else None)"

text \<open>A nil \<open>Effect\<close> interface is \<open>None\<close>.\<close>

record plan_request =
  pq_ref :: effect_ref
  pq_invocation_id :: invocation_id
  pq_principal :: principal
  pq_effect :: "effect option"

definition plan_request_validate :: "plan_request \<Rightarrow> go_error option" where
  "plan_request_validate r =
    (if effect_ref_validate (pq_ref r) \<noteq> None \<or> is_zero (pq_invocation_id r) \<or> pq_effect r = None
     then Some (errorf ErrorInvalidArgument ''validate effect plan''
       ''reference, invocation, and effect are required'')
     else case principal_validate (pq_principal r) of
       Some e \<Rightarrow> Some e
     | None \<Rightarrow>
         if ref_key (pq_ref r) \<noteq> principal_key (pq_principal r)
         then Some (errorf ErrorInvalidArgument ''validate effect plan''
           ''principal scope does not match effect scope'')
         else if (pr_kind (pq_principal r) = PrincipalModel \<or> pr_kind (pq_principal r) = PrincipalRecovery)
           \<and> pr_invocation_id (pq_principal r) \<noteq> pq_invocation_id r
         then Some (errorf ErrorInvalidArgument ''validate effect plan''
           ''principal invocation does not match effect invocation'')
         else effect_validate (the (pq_effect r)))"

record stored_effect =
  se_request :: plan_request
  se_state :: outbox_state
  se_receipt :: string
  se_completed_at :: "instant option"

lemma plan_request_validate_ok:
  assumes "plan_request_validate r = None"
  shows "effect_ref_validate (pq_ref r) = None" and "principal_validate (pq_principal r) = None"
    and "ref_key (pq_ref r) = principal_key (pq_principal r)"
    and "\<exists>e. pq_effect r = Some e \<and> effect_validate e = None"
  using assms by (auto simp: plan_request_validate_def split: if_splits option.splits)

end
