(* ===== verification/EffectStore.thy ===== *)
theory EffectStore
  imports Effects ActionStore
begin

text \<open>
  The effect outbox in SQLite (\<open>internal/adapters/sqlite/effect.go\<close>), in the style of the
  ActionStore theory. An effect row's payload is the JSON object itself, a record; writing it and
  reading it back as JSON text is the library's \<open>encoding/json\<close>. \<open>u\<close> parses UUIDs.
\<close>

subsection \<open>Encoding\<close>

fun principal_number :: "principal_kind \<Rightarrow> nat" where
  "principal_number PrincipalHuman = 1"
| "principal_number PrincipalModel = 2"
| "principal_number PrincipalSystem = 3"
| "principal_number PrincipalRecovery = 4"
| "principal_number (PrincipalOther n) = n"

definition principal_of_number :: "nat \<Rightarrow> principal_kind" where
  "principal_of_number n =
    (if n = 1 then PrincipalHuman else if n = 2 then PrincipalModel else if n = 3 then PrincipalSystem
     else if n = 4 then PrincipalRecovery else PrincipalOther n)"

definition effect_target :: "effect \<Rightarrow> message_id option" where
  "effect_target e = (case e of
     React target _ \<Rightarrow> Some target
   | DeleteMessage target \<Rightarrow> Some target
   | RunCommand _ target \<Rightarrow> if is_zero target then None else Some target
   | Sticker _ quoted \<Rightarrow> if is_zero quoted then None else Some quoted)"

definition principal_payload :: "principal \<Rightarrow> effect_payload" where
  "principal_payload p =
    (let base = \<lparr>ep_principal = principal_number (pr_kind p), ep_participant = [], ep_lid = [],
       ep_invocation = [], ep_emoji = [], ep_command = [], ep_sticker = []\<rparr> in
     case pr_kind p of
       PrincipalHuman \<Rightarrow> base\<lparr>ep_participant := ident_value (pr_participant_id p),
         ep_lid := ident_value (pr_lid p)\<rparr>
     | PrincipalModel \<Rightarrow> base\<lparr>ep_invocation := ident_value (pr_invocation_id p)\<rparr>
     | PrincipalRecovery \<Rightarrow> base\<lparr>ep_invocation := ident_value (pr_invocation_id p)\<rparr>
     | _ \<Rightarrow> base)"

text \<open>The target column and the payload.\<close>

definition encode_effect :: "principal \<Rightarrow> effect \<Rightarrow> nat \<times> string option \<times> effect_payload" where
  "encode_effect p e =
    (let base = principal_payload p; kind = effect_kind_number e in
     case e of
       React target emoji \<Rightarrow> (kind, nullable_message_id target, base\<lparr>ep_emoji := emoji\<rparr>)
     | DeleteMessage target \<Rightarrow> (kind, nullable_message_id target, base)
     | RunCommand cmd target \<Rightarrow> (kind, nullable_message_id target, base\<lparr>ep_command := cmd\<rparr>)
     | Sticker name quoted \<Rightarrow> (kind, nullable_message_id quoted, base\<lparr>ep_sticker := name\<rparr>))"

definition encode_request :: "plan_request \<Rightarrow> go_error + nat \<times> string option \<times> effect_payload" where
  "encode_request r = (case pq_effect r of
     None \<Rightarrow> Inl (errorf ErrorInvalidArgument ''encode typed effect'' ''effect type is not supported'')
   | Some e \<Rightarrow> Inr (encode_effect (pq_principal r) e))"

definition decode_principal :: "(string \<Rightarrow> string option) \<Rightarrow> agent_key \<Rightarrow> effect_payload \<Rightarrow>
    go_error + principal" where
  "decode_principal u key payload =
    (let kind = principal_of_number (ep_principal payload);
         base = keyed_principal kind key zero_id in
     case kind of
       PrincipalHuman \<Rightarrow>
         (case parse_participant_id u (ep_participant payload) of
            Inl e \<Rightarrow> Inl e
          | Inr participant \<Rightarrow>
              (case parse_lid (ep_lid payload) of
                 Inl e \<Rightarrow> Inl e
               | Inr l \<Rightarrow> Inr (base\<lparr>pr_participant_id := participant, pr_lid := l\<rparr>)))
     | PrincipalModel \<Rightarrow>
         map_sum id (\<lambda>i. base\<lparr>pr_invocation_id := i\<rparr>) (parse_invocation_id u (ep_invocation payload))
     | PrincipalRecovery \<Rightarrow>
         map_sum id (\<lambda>i. base\<lparr>pr_invocation_id := i\<rparr>) (parse_invocation_id u (ep_invocation payload))
     | _ \<Rightarrow> Inr base)"

definition decode_fail :: "string \<Rightarrow> go_error \<Rightarrow> go_error" where
  "decode_fail oper e = new_error ErrorIntegrityFailure oper (Some e)"

definition decode_effect :: "(string \<Rightarrow> string option) \<Rightarrow> effect_ref \<Rightarrow> nat \<Rightarrow> string option \<Rightarrow>
    effect_payload \<Rightarrow> go_error + principal \<times> effect" where
  "decode_effect u ref kind target payload =
    (case decode_principal u (ref_key ref) payload of
       Inl e \<Rightarrow> Inl (decode_fail ''decode typed effect principal'' e)
     | Inr p \<Rightarrow>
         (case (case target of None \<Rightarrow> Inr zero_id | Some v \<Rightarrow> parse_message_id u v) of
            Inl e \<Rightarrow> Inl (decode_fail ''decode typed effect target'' e)
          | Inr t \<Rightarrow>
              if kind = 1 then Inr (p, React t (ep_emoji payload))
              else if kind = 2 then Inr (p, DeleteMessage t)
              else if kind = 5 then Inr (p, RunCommand (ep_command payload) t)
              else if kind = 6 then Inr (p, Sticker (ep_sticker payload) t)
              else Inl (errorf ErrorIntegrityFailure ''decode typed effect'' ''effect kind is invalid'')))"

definition known_state :: "outbox_state \<Rightarrow> bool" where
  "known_state s \<longleftrightarrow> s = StatePending \<or> s = StateExecuting \<or> final_state s"

definition decode_effect_row :: "(string \<Rightarrow> string option) \<Rightarrow> effect_ref \<Rightarrow> effect_row \<Rightarrow>
    go_error + stored_effect" where
  "decode_effect_row u ref r =
    (case parse_invocation_id u (er_invocation_id r) of
       Inl e \<Rightarrow> Inl (decode_fail ''decode typed effect'' e)
     | Inr iid \<Rightarrow>
         (case decode_effect u ref (er_kind r) (er_target r) (er_payload r) of
            Inl e \<Rightarrow> Inl e
          | Inr (p, e) \<Rightarrow>
              (let request = \<lparr>pq_ref = ref, pq_invocation_id = iid, pq_principal = p, pq_effect = Some e\<rparr> in
               case plan_request_validate request of
                 Some err \<Rightarrow> Inl (decode_fail ''decode typed effect'' err)
               | None \<Rightarrow>
                   if \<not> known_state (er_state r)
                   then Inl (errorf ErrorIntegrityFailure ''decode typed effect'' ''effect state is invalid'')
                   else Inr \<lparr>se_request = request, se_state = er_state r,
                     se_receipt = (case er_receipt r of None \<Rightarrow> [] | Some v \<Rightarrow> v),
                     se_completed_at = map_option from_unix_milli (er_completed_at_ms r)\<rparr>)))"

text \<open>\<open>loadEffect\<close>; a missing row is the driver's \<open>ErrNoRows\<close>, which its callers treat apart.\<close>

definition no_rows :: go_error where
  "no_rows = Plain ''sql: no rows in result set''"

definition load_effect :: "(string \<Rightarrow> string option) \<Rightarrow> io \<Rightarrow> effect_ref \<Rightarrow> outbox_db \<Rightarrow>
    go_error + stored_effect" where
  "load_effect u io ref db = (case io ''load typed effect'' of
     Some e \<Rightarrow> Inl e
   | None \<Rightarrow> (case row (db_effects db) ref of
       None \<Rightarrow> Inl no_rows | Some r \<Rightarrow> decode_effect_row u ref r))"

definition effect_load :: "(string \<Rightarrow> string option) \<Rightarrow> io \<Rightarrow> effect_ref \<Rightarrow> outbox_db \<Rightarrow>
    go_error + stored_effect" where
  "effect_load u io ref db = (case effect_ref_validate ref of
     Some e \<Rightarrow> Inl e
   | None \<Rightarrow>
       if io ''load typed effect'' = None \<and> row (db_effects db) ref = None
       then Inl (errorf ErrorNotFound ''load typed effect'' ''effect does not exist'')
       else load_effect u io ref db)"

subsection \<open>Planning\<close>

definition require_effect_chat :: "io \<Rightarrow> agent_key \<Rightarrow> outbox_db \<Rightarrow> go_error option" where
  "require_effect_chat io key db = (case statement io ''read typed effect chat'' of
     Some e \<Rightarrow> Some e
   | None \<Rightarrow>
       if key \<notin> set (db_chats db)
       then Some (errorf ErrorNotFound ''plan typed effect'' ''chat does not exist'') else None)"

definition require_effect_target :: "io \<Rightarrow> agent_key \<Rightarrow> message_id \<Rightarrow> outbox_db \<Rightarrow> go_error option" where
  "require_effect_target io key target db = (case statement io ''validate typed effect target'' of
     Some e \<Rightarrow> Some e
   | None \<Rightarrow>
       if row (db_history db) (key, ident_value target) = None
       then Some (errorf ErrorNotFound ''plan typed effect'' ''target message does not belong to chat'')
       else None)"

definition new_effect_row :: "plan_request \<Rightarrow> nat \<times> string option \<times> effect_payload \<Rightarrow> instant \<Rightarrow>
    effect_row" where
  "new_effect_row r enc now = (case enc of (kind, target, payload) \<Rightarrow>
     \<lparr>er_invocation_id = ident_value (pq_invocation_id r), er_model_call_id = None, er_kind = kind,
      er_target = target, er_payload = payload, er_state = StatePending, er_receipt = None,
      er_last_error = None, er_created_at_ms = unix_milli now, er_updated_at_ms = unix_milli now,
      er_completed_at_ms = None\<rparr>)"

definition plan_conflict :: "plan_request \<Rightarrow> effect_payload \<Rightarrow> stored_effect \<Rightarrow> bool" where
  "plan_conflict r payload stored \<longleftrightarrow>
    (case encode_request (se_request stored) of
       Inl _ \<Rightarrow> True
     | Inr (_, _, stored_payload) \<Rightarrow> stored_payload \<noteq> payload
         \<or> pq_invocation_id (se_request stored) \<noteq> pq_invocation_id r)"

text \<open>
  Reading the plan back: what was there before must be the same plan, or the transaction ends
  without it.
\<close>

definition inspect_effect_plan :: "(string \<Rightarrow> string option) \<Rightarrow> io \<Rightarrow> plan_request \<Rightarrow>
    nat \<times> string option \<times> effect_payload \<Rightarrow> bool \<Rightarrow> outbox_db \<Rightarrow> outbox_db \<Rightarrow>
    (go_error + stored_effect) \<times> outbox_db" where
  "inspect_effect_plan u io r enc fresh db db' = (case load_effect u io (pq_ref r) db' of
     Inl e \<Rightarrow> (Inl e, db)
   | Inr stored \<Rightarrow>
       if \<not> fresh \<and> plan_conflict r (snd (snd enc)) stored
       then (Inl (errorf ErrorConflict ''plan typed effect''
         ''effect ID is already bound to another payload''), db)
       else (case statement io ''commit typed effect plan'' of
         Some e \<Rightarrow> (Inl e, db) | None \<Rightarrow> (Inr stored, db')))"

definition effect_plan :: "(string \<Rightarrow> string option) \<Rightarrow> io \<Rightarrow> plan_request \<Rightarrow> instant \<Rightarrow> outbox_db \<Rightarrow>
    (go_error + stored_effect) \<times> outbox_db" where
  "effect_plan u io r now db =
    (let ref = pq_ref r; fail = (\<lambda>e. (Inl e, db)) in
     if plan_request_validate r \<noteq> None \<or> now = 0
     then fail (errorf ErrorInvalidArgument ''plan typed effect'' ''valid request and current time are required'')
     else case encode_request r of
       Inl e \<Rightarrow> fail e
     | Inr enc \<Rightarrow>
         (case first_error
             [Done (statement io ''begin typed effect plan''),
              Done (require_effect_chat io (ref_key ref) db),
              Done (case effect_target (the (pq_effect r)) of
                 None \<Rightarrow> None | Some t \<Rightarrow> require_effect_target io (ref_key ref) t db),
              Done (statement io ''insert typed effect''),
              Done (statement io ''inspect typed effect plan'')] of
            Done (Some e) \<Rightarrow> fail e
          | _ \<Rightarrow>
              (let fresh = row (db_effects db) ref = None in
               inspect_effect_plan u io r enc fresh db
                 (if fresh then db\<lparr>db_effects := put ref (new_effect_row r enc now) (db_effects db)\<rparr> else db))))"

subsection \<open>Running\<close>

definition no_outbound_action :: "agent_key \<Rightarrow> string \<Rightarrow> outbox_db \<Rightarrow> bool" where
  "no_outbound_action key iid db \<longleftrightarrow>
     \<not> list_ex (\<lambda>(ref, a). dr_key ref = key \<and> act_invocation_id a = iid) (db_actions db)"

text \<open>Whether a turn's text reply has its receipt, or the turn succeeded with effects only.\<close>

definition reply_completed :: "agent_key \<Rightarrow> string \<Rightarrow> outbox_db \<Rightarrow> bool" where
  "reply_completed key iid db \<longleftrightarrow>
     list_ex (\<lambda>(ref, a). dr_key ref = key \<and> act_invocation_id a = iid \<and> act_state a = StateSucceeded)
       (db_actions db)"

definition effect_only_completed :: "agent_key \<Rightarrow> string \<Rightarrow> outbox_db \<Rightarrow> bool" where
  "effect_only_completed key iid db \<longleftrightarrow> (case row (db_turns db) (key, iid) of
     None \<Rightarrow> False
   | Some t \<Rightarrow> tn_state t = TurnSucceeded \<and> tn_claimed t \<and> no_outbound_action key iid db)"

definition model_effect_response_delivered :: "io \<Rightarrow> effect_ref \<Rightarrow> outbox_db \<Rightarrow> go_error + bool" where
  "model_effect_response_delivered io ref db =
    (case io ''read model effect dependency'' of
       Some e \<Rightarrow> Inl (storage_error ''read model effect dependency'' e)
     | None \<Rightarrow>
         (case row (db_effects db) ref of
            None \<Rightarrow> Inl (storage_error ''read model effect dependency'' no_rows)
          | Some r \<Rightarrow>
              if er_model_call_id r = None then Inr True
              else case statement io ''read model effect response dependency'' of
                Some e \<Rightarrow> Inl e
              | None \<Rightarrow>
                  if reply_completed (ref_key ref) (er_invocation_id r) db then Inr True
                  else case statement io ''read effect-only turn dependency'' of
                    Some e \<Rightarrow> Inl e
                  | None \<Rightarrow> Inr (effect_only_completed (ref_key ref) (er_invocation_id r) db)))"

definition effect_start :: "io \<Rightarrow> instant \<Rightarrow> effect_ref \<Rightarrow> outbox_db \<Rightarrow> go_error option \<times> outbox_db" where
  "effect_start io now ref db =
    (if effect_ref_validate ref \<noteq> None \<or> now = 0
     then (Some (errorf ErrorInvalidArgument ''start typed effect'' ''reference and time are required''), db)
     else case statement io ''begin typed effect start'' of
       Some e \<Rightarrow> (Some e, db)
     | None \<Rightarrow>
         (case model_effect_response_delivered io ref db of
            Inl e \<Rightarrow> (Some e, db)
          | Inr ready \<Rightarrow>
              if \<not> ready
              then (Some (errorf ErrorNotReady ''start typed effect''
                ''the reply this effect follows is not sent yet''), db)
              else case update_where ref (\<lambda>r. er_state r = StatePending)
                  (\<lambda>r. r\<lparr>er_state := StateExecuting, er_updated_at_ms := unix_milli now\<rparr>)
                  (db_effects db) of (changed, effects) \<Rightarrow>
                (case require_one io ''start typed effect'' changed of
                   Some e \<Rightarrow> (Some e, db)
                 | None \<Rightarrow>
                     (case statement io ''commit typed effect start'' of
                        Some e \<Rightarrow> (Some e, db) | None \<Rightarrow> (None, db\<lparr>db_effects := effects\<rparr>)))))"

definition effect_finish :: "io \<Rightarrow> outbox_state \<Rightarrow> error_code \<Rightarrow> string \<Rightarrow> instant \<Rightarrow> outbox_state list \<Rightarrow>
    effect_ref \<Rightarrow> outbox_db \<Rightarrow> go_error option \<times> outbox_db" where
  "effect_finish io target code receipt now sources ref db =
    (if effect_ref_validate ref \<noteq> None \<or> now = 0 \<or> length sources = 0 \<or> length sources > 2
     then (Some (errorf ErrorInvalidArgument ''finish typed effect''
       ''reference, time, and source state are required''), db)
     else if target \<noteq> StateSucceeded \<and> code = NoCode
     then (Some (errorf ErrorInvalidArgument ''finish typed effect'' ''terminal errors need a code''), db)
     else case update_where ref (\<lambda>r. er_state r = sources ! 0 \<or> er_state r = sources ! (length sources - 1))
         (\<lambda>r. r\<lparr>er_state := target, er_receipt := nullable_string receipt,
            er_last_error := nullable_error_code code, er_completed_at_ms := Some (unix_milli now),
            er_updated_at_ms := unix_milli now\<rparr>) (db_effects db) of (changed, effects) \<Rightarrow>
       (case require_one io ''finish typed effect'' changed of
          Some e \<Rightarrow> (Some e, db) | None \<Rightarrow> (None, db\<lparr>db_effects := effects\<rparr>)))"

definition effect_complete :: "io \<Rightarrow> string \<Rightarrow> instant \<Rightarrow> effect_ref \<Rightarrow> outbox_db \<Rightarrow>
    go_error option \<times> outbox_db" where
  "effect_complete io receipt now = effect_finish io StateSucceeded NoCode receipt now [StateExecuting]"

definition effect_fail_terminal :: "io \<Rightarrow> error_code \<Rightarrow> instant \<Rightarrow> effect_ref \<Rightarrow> outbox_db \<Rightarrow>
    go_error option \<times> outbox_db" where
  "effect_fail_terminal io code now =
     effect_finish io StateFailedTerminal code [] now [StatePending, StateExecuting]"

definition effect_mark_unknown :: "io \<Rightarrow> error_code \<Rightarrow> instant \<Rightarrow> effect_ref \<Rightarrow> outbox_db \<Rightarrow>
    go_error option \<times> outbox_db" where
  "effect_mark_unknown io code now = effect_finish io StateUnknownOutcome code [] now [StateExecuting]"

definition effect_runnable :: "outbox_db \<Rightarrow> effect_ref \<Rightarrow> effect_row \<Rightarrow> bool" where
  "effect_runnable db ref r \<longleftrightarrow> er_model_call_id r = None
     \<or> reply_completed (ref_key ref) (er_invocation_id r) db
     \<or> effect_only_completed (ref_key ref) (er_invocation_id r) db"

definition effect_list_pending :: "io \<Rightarrow> tenant_id \<Rightarrow> instant \<Rightarrow> outbox_db \<Rightarrow> go_error + effect_ref list"
  where "effect_list_pending io tenant before db =
    (if is_zero tenant
     then Inl (errorf ErrorInvalidArgument ''list pending effects'' ''tenant is required'')
     else case statement io ''list pending effects'' of
       Some e \<Rightarrow> Inl e
     | None \<Rightarrow> Inr (map fst (sort_key (\<lambda>(ref, r). (er_created_at_ms r, ref_effect_id ref))
         (filter (\<lambda>(ref, r). key_tenant (ref_key ref) = tenant \<and> er_state r = StatePending
            \<and> er_created_at_ms r < cutoff_millis before \<and> effect_runnable db ref r) (db_effects db)))))"

definition resolve_interrupted_effects :: "io \<Rightarrow> tenant_id \<Rightarrow> int \<Rightarrow> outbox_db \<Rightarrow>
    go_error option \<times> outbox_db" where
  "resolve_interrupted_effects io tenant now_ms db =
    (case statement io ''resolve interrupted effects'' of
       Some e \<Rightarrow> (Some e, db)
     | None \<Rightarrow> (None, db\<lparr>db_effects := map (\<lambda>(ref, r).
         (ref, if key_tenant (ref_key ref) = tenant \<and> er_state r = StateExecuting
               then r\<lparr>er_state := StateUnknownOutcome, er_last_error := Some ErrorUnknownOutcome,
                 er_completed_at_ms := Some now_ms, er_updated_at_ms := now_ms\<rparr>
               else r)) (db_effects db)\<rparr>))"

subsection \<open>The store is an outbox\<close>

definition effect_state :: "outbox_db \<Rightarrow> effect_ref \<Rightarrow> outbox_state option" where
  "effect_state db ref = map_option er_state (row (db_effects db) ref)"

definition effect_ops :: "tenant_id \<Rightarrow> (call_args, effect_ref, outbox_db) outbox_ops" where
  "effect_ops tenant = \<lparr>op_state = effect_state,
     op_start = (\<lambda>c. effect_start (arg_io c) (arg_now c)),
     op_complete = (\<lambda>c. effect_complete (arg_io c) (arg_receipt c) (arg_now c)),
     op_fail = (\<lambda>c. effect_fail_terminal (arg_io c) (arg_code c) (arg_now c)),
     op_unknown = (\<lambda>c. effect_mark_unknown (arg_io c) (arg_code c) (arg_now c)),
     op_recover = (\<lambda>c. resolve_interrupted_effects (arg_io c) tenant (unix_milli (arg_now c)))\<rparr>"

lemma effect_state_put:
  "db_effects db' = put ref r (db_effects db) \<Longrightarrow> effect_state db' = (effect_state db)(ref \<mapsto> er_state r)"
  by (auto simp: effect_state_def)

lemma effect_start_ok:
  assumes "effect_start io now ref db = (None, db')"
  shows "model_effect_response_delivered io ref db = Inr True
    \<and> effect_state db ref = Some StatePending
    \<and> effect_state db' = (effect_state db)(ref \<mapsto> StateExecuting)"
proof -
  obtain n effects where upd: "update_where ref (\<lambda>r. er_state r = StatePending)
      (\<lambda>r. r\<lparr>er_state := StateExecuting, er_updated_at_ms := unix_milli now\<rparr>) (db_effects db) = (n, effects)"
    by fastforce
  have "n = 1" "db' = db\<lparr>db_effects := effects\<rparr>" "model_effect_response_delivered io ref db = Inr True"
    using assms upd by (auto simp: effect_start_def split: if_splits option.splits sum.splits)
  with upd show ?thesis by (auto simp: update_where_one' effect_state_def)
qed

lemma effect_finish_ok:
  assumes "effect_finish io target code receipt now sources ref db = (None, db')"
  shows "(\<exists>s. effect_state db ref = Some s \<and> (s = sources ! 0 \<or> s = sources ! (length sources - 1)))
    \<and> effect_state db' = (effect_state db)(ref \<mapsto> target)"
proof -
  obtain n effects where upd: "update_where ref
      (\<lambda>r. er_state r = sources ! 0 \<or> er_state r = sources ! (length sources - 1))
      (\<lambda>r. r\<lparr>er_state := target, er_receipt := nullable_string receipt,
        er_last_error := nullable_error_code code, er_completed_at_ms := Some (unix_milli now),
        er_updated_at_ms := unix_milli now\<rparr>) (db_effects db) = (n, effects)" by fastforce
  have "n = 1" "db' = db\<lparr>db_effects := effects\<rparr>"
    using assms upd by (auto simp: effect_finish_def split: if_splits option.splits)
  with upd show ?thesis by (auto simp: update_where_one' effect_state_def)
qed

lemma effect_errors:
  "effect_start io now ref db = (Some e, db1) \<Longrightarrow> db1 = db"
  "effect_finish io target code receipt now sources ref db = (Some e, db1) \<Longrightarrow> db1 = db"
  by (auto simp: effect_start_def effect_finish_def split: if_splits option.splits sum.splits prod.splits)

lemma map_of_map_snd: "map_of (map (\<lambda>(k, v). (k, f k v)) t) x = map_option (f x) (map_of t x)"
  by (induction t) auto

interpretation effects: outbox "effect_ops tenant" refusable for tenant refusable
proof (unfold_locales, goal_cases)
  case (1 c ref db db')
  then show ?case using effect_start_ok by (auto simp: effect_ops_def)
next
  case (2 c ref db db')
  then show ?case using effect_finish_ok by (fastforce simp: effect_ops_def effect_complete_def)
next
  case (3 c ref db db')
  then show ?case using effect_finish_ok by (fastforce simp: effect_ops_def effect_mark_unknown_def)
next
  case (4 c ref db db')
  then show ?case
    using effect_finish_ok[of "arg_io c" StateFailedTerminal "arg_code c" "[]" "arg_now c"
        "[StatePending, StateExecuting]" ref db db']
    by (auto simp: effect_ops_def effect_fail_terminal_def)
next
  case (5 c db db' ref)
  then show ?case
    by (cases "row (db_effects db) ref")
      (auto simp: effect_ops_def resolve_interrupted_effects_def effect_state_def map_of_map_snd
        split: option.splits)
next
  case (6 c ref db e db1)
  then show ?case using effect_errors by (auto simp: effect_ops_def)
next
  case (7 c ref db e db2)
  then show ?case using effect_errors(2) by (fastforce simp: effect_ops_def effect_complete_def)
next
  case (8 c ref db e db3)
  then show ?case using effect_errors(2) by (fastforce simp: effect_ops_def effect_mark_unknown_def)
next
  case (9 c ref db e db4)
  then show ?case using effect_errors(2) by (fastforce simp: effect_ops_def effect_fail_terminal_def)
qed

subsection \<open>What the effect outbox guarantees\<close>

text \<open>
  C17: an effect is executed at most once, under any interleaving of dispatchers, plans, storage
  failures and crashes, and one that is still pending was never executed.
\<close>
theorem effect_executed_at_most_once:
  assumes "reachable (effect_ops tenant) refusable db s"
  shows "sys_sends s ref \<le> 1
    \<and> (effect_state (sys_db s) ref = Some StatePending \<longrightarrow> sys_sends s ref = 0)"
proof -
  have state: "op_state (effect_ops tenant) = effect_state" by (simp add: effect_ops_def)
  show ?thesis
    using effects.at_most_once[OF assms] effects.pending_never_sent[OF assms] by (simp add: state)
qed


definition sample_effect_ref :: effect_ref where
  "sample_effect_ref = \<lparr>ref_key = dr_key sample_ref, ref_effect_id = Ident ''e1''\<rparr>"

definition sample_effect_row :: effect_row where
  "sample_effect_row = \<lparr>er_invocation_id = ''i1'', er_model_call_id = None, er_kind = 1,
     er_target = Some ''m1'',
     er_payload = \<lparr>ep_principal = 3, ep_participant = [], ep_lid = [], ep_invocation = [],
       ep_emoji = ''+'', ep_command = [], ep_sticker = []\<rparr>,
     er_state = StatePending, er_receipt = None, er_last_error = None, er_created_at_ms = 5,
     er_updated_at_ms = 5, er_completed_at_ms = None\<rparr>"

definition sample_effect_db :: outbox_db where
  "sample_effect_db = sample_db\<lparr>db_effects := [(sample_effect_ref, sample_effect_row)]\<rparr>"

lemma sample_effect_ref_valid [simp]: "effect_ref_validate sample_effect_ref = None"
  by (simp add: effect_ref_validate_def sample_effect_ref_def sample_ref_def key_validate_def is_zero_def)

lemma sample_effect_pending: "effect_state sample_effect_db sample_effect_ref = Some StatePending"
  by (simp add: effect_state_def sample_effect_db_def sample_effect_row_def)

lemma effect_start_enabled:
  assumes "effect_state db ref = Some StatePending" and "effect_ref_validate ref = None" and "now \<noteq> 0"
    and "model_effect_response_delivered (\<lambda>_. None) ref db = Inr True"
  shows "\<exists>db'. effect_start (\<lambda>_. None) now ref db = (None, db')"
  using assms by (auto simp: effect_start_def update_where_def require_one_def effect_state_def)

lemma calm_now [simp]: "arg_now calm \<noteq> 0"
  by (simp add: calm_def)

lemma sample_effect_start:
  "\<exists>db'. effect_start (\<lambda>_. None) (arg_now calm) sample_effect_ref sample_effect_db = (None, db')
    \<and> effect_state db' sample_effect_ref = Some StateExecuting"
proof -
  have "\<exists>db'. effect_start (\<lambda>_. None) (arg_now calm) sample_effect_ref sample_effect_db = (None, db')"
    by (rule effect_start_enabled[OF sample_effect_pending])
      (simp_all add: model_effect_response_delivered_def sample_effect_db_def sample_effect_row_def)
  then show ?thesis using effect_start_ok by fastforce
qed

lemma effect_fail_enabled:
  assumes "effect_state db ref \<in> {Some StatePending, Some StateExecuting}"
    and "effect_ref_validate ref = None" and "now \<noteq> 0" and "code \<noteq> NoCode"
  shows "\<exists>db'. effect_fail_terminal (\<lambda>_. None) code now ref db = (None, db')
    \<and> effect_state db' ref = Some StateFailedTerminal"
proof -
  have "\<exists>db'. effect_fail_terminal (\<lambda>_. None) code now ref db = (None, db')"
    using assms
    by (auto simp: effect_fail_terminal_def effect_finish_def update_where_def require_one_def effect_state_def)
  then show ?thesis using effect_finish_ok by (fastforce simp: effect_fail_terminal_def)
qed


theorem effect_executed_at_most_once_witness:
  "\<exists>s. reachable (effect_ops (Ident ''acme'')) (\<lambda>_. False) sample_effect_db s
    \<and> sys_sends s sample_effect_ref = 1 \<and> effect_state (sys_db s) sample_effect_ref \<noteq> Some StatePending"
proof -
  obtain db' where start: "effect_start (\<lambda>_. None) (arg_now calm) sample_effect_ref sample_effect_db = (None, db')"
    using sample_effect_start by blast
  obtain s where run: "reachable (effect_ops (Ident ''acme'')) (\<lambda>_. False) sample_effect_db s"
    and sent: "sys_sends s sample_effect_ref = 1"
    using run_one_send[of "effect_ops (Ident ''acme'')" sample_effect_db sample_effect_ref calm db' _ 0]
      start sample_effect_pending by (auto simp: effect_ops_def calm_def)
  from run sent effect_executed_at_most_once[OF run, of sample_effect_ref] show ?thesis by auto
qed

definition answered_db :: outbox_db where
  "answered_db = sample_db\<lparr>db_actions := [(sample_ref, sample_action\<lparr>act_state := StateSucceeded\<rparr>)],
     db_effects := [(sample_effect_ref, sample_effect_row\<lparr>er_model_call_id := Some ''call-1''\<rparr>)]\<rparr>"


subsection \<open>Reading back what was planned\<close>

definition canonical :: "(string \<Rightarrow> string option) \<Rightarrow> string \<Rightarrow> bool" where
  "canonical u v \<longleftrightarrow> v \<noteq> [] \<and> u v = Some v"

text \<open>Identifiers as the rest of the system makes them: canonical UUIDs and a valid LID.\<close>

definition canonical_principal :: "(string \<Rightarrow> string option) \<Rightarrow> principal \<Rightarrow> bool" where
  "canonical_principal u p \<longleftrightarrow>
     (is_zero (pr_participant_id p) \<or> canonical u (ident_value (pr_participant_id p)))
   \<and> (is_zero (pr_lid p) \<or> lid_pattern (ident_value (pr_lid p)))
   \<and> (is_zero (pr_invocation_id p) \<or> canonical u (ident_value (pr_invocation_id p)))"

definition canonical_target :: "(string \<Rightarrow> string option) \<Rightarrow> effect \<Rightarrow> bool" where
  "canonical_target u e \<longleftrightarrow> (\<forall>t. effect_target e = Some t \<longrightarrow> canonical u (ident_value t))"

lemma parse_canonical:
  "canonical u v \<Longrightarrow> parse_uuid u name v = Inr v"
  by (simp add: canonical_def parse_uuid_def)

lemma ident_collapse [simp]: "Ident (ident_value i) = i"
  by (cases i) simp

lemma principal_of_number_of [simp]: "principal_validate p = None \<Longrightarrow>
    principal_of_number (principal_number (pr_kind p)) = pr_kind p"
  by (auto simp: principal_validate_def principal_of_number_def split: option.splits principal_kind.splits)

lemma decode_principal_payload:
  assumes "principal_validate p = None" and "canonical_principal u p"
  shows "decode_principal u (principal_key p) (principal_payload p) = Inr p"
proof -
  obtain kind tenant account chat participant l iid where p: "p = \<lparr>pr_kind = kind, pr_tenant_id = tenant,
      pr_account_id = account, pr_chat_id = chat, pr_participant_id = participant, pr_lid = l,
      pr_invocation_id = iid\<rparr>" by (cases p) auto
  show ?thesis
  proof (cases kind)
    case PrincipalHuman
    with assms p show ?thesis
      by (auto simp: principal_validate_def decode_principal_def principal_payload_def canonical_principal_def
        parse_participant_id_def parse_canonical parse_lid_def keyed_principal_def principal_key_def
        principal_of_number_def is_zero_iff split: option.splits if_splits)
  next
    case PrincipalModel
    with assms p show ?thesis
      by (auto simp: principal_validate_def decode_principal_def principal_payload_def canonical_principal_def
        parse_invocation_id_def parse_canonical keyed_principal_def principal_key_def
        principal_of_number_def is_zero_iff split: option.splits if_splits)
  next
    case PrincipalSystem
    with assms p show ?thesis
      by (auto simp: principal_validate_def decode_principal_def principal_payload_def
        keyed_principal_def principal_key_def principal_of_number_def is_zero_iff
        split: option.splits if_splits)
  next
    case PrincipalRecovery
    with assms p show ?thesis
      by (auto simp: principal_validate_def decode_principal_def principal_payload_def canonical_principal_def
        parse_invocation_id_def parse_canonical keyed_principal_def principal_key_def
        principal_of_number_def is_zero_iff split: option.splits if_splits)
  next
    case (PrincipalOther n)
    with assms p show ?thesis by (simp add: principal_validate_def split: option.splits)
  qed
qed

lemma decode_principal_effect_fields:
  "decode_principal u key (payload\<lparr>ep_emoji := v\<rparr>) = decode_principal u key payload"
  "decode_principal u key (payload\<lparr>ep_command := v\<rparr>) = decode_principal u key payload"
  "decode_principal u key (payload\<lparr>ep_sticker := v\<rparr>) = decode_principal u key payload"
  by (simp_all add: decode_principal_def Let_def split: principal_kind.split sum.split)

lemma decode_target:
  assumes "is_zero t \<or> canonical u (ident_value t)"
  shows "(case nullable_message_id t of None \<Rightarrow> Inr zero_id | Some v \<Rightarrow> parse_message_id u v) = Inr t"
  using assms
  by (auto simp: nullable_message_id_def parse_message_id_def parse_canonical is_zero_iff)


definition sample_request :: plan_request where
  "sample_request = \<lparr>pq_ref = \<lparr>ref_key = sample_key, ref_effect_id = Ident ''e1''\<rparr>,
     pq_invocation_id = Ident ''i1'', pq_principal = keyed_principal PrincipalModel sample_key (Ident ''i1''),
     pq_effect = Some (Sticker ''wave'' zero_id)\<rparr>"

lemma sample_request_valid: "plan_request_validate sample_request = None"
proof -
  have "valid_sticker_name ''wave''"
    by (simp add: valid_sticker_name_def runes_ascii sticker_rune_def ascii_char_def bval_def)
  then show ?thesis
    by (simp add: sample_request_def plan_request_validate_def effect_ref_validate_def is_zero_def
      principal_validate_def intent_validate_def zero_id_def)
qed


end
