(* ===== verification/EffectDispatch.thy ===== *)
theory EffectDispatch
  imports EffectStore OutboxSite
begin

text \<open>
  Running planned effects (\<open>internal/effect/effect.go\<close>, \<open>Dispatcher\<close>). As for replies, the
  interfaces are records of calls on a world, and the last part runs the dispatcher as one worker
  at a site of the effect outbox on the SQLite store.
\<close>

record 'w effect_store =
  es_plan :: "plan_request \<Rightarrow> instant \<Rightarrow> ('w, go_error + stored_effect) call"
  es_load :: "effect_ref \<Rightarrow> ('w, go_error + stored_effect) call"
  es_start :: "effect_ref \<Rightarrow> instant \<Rightarrow> ('w, go_error option) call"
  es_complete :: "effect_ref \<Rightarrow> string \<Rightarrow> instant \<Rightarrow> ('w, go_error option) call"
  es_fail_terminal :: "effect_ref \<Rightarrow> error_code \<Rightarrow> instant \<Rightarrow> ('w, go_error option) call"
  es_mark_unknown :: "effect_ref \<Rightarrow> error_code \<Rightarrow> instant \<Rightarrow> ('w, go_error option) call"

text \<open>
  An executor of commands. One that is also a \<open>CommandBatcher\<close> has a batch: what begins it, and
  the report at its end.
\<close>

record 'w command_executor =
  ce_execute :: "stored_effect \<Rightarrow> effect \<Rightarrow> ('w, go_error + string) call"
  ce_batch :: "(('w \<Rightarrow> 'w) \<times> ('w, go_error option) call) option"

record 'w effect_sender =
  xs_ready :: "('w, bool) call"
  xs_execute :: "stored_effect \<Rightarrow> ('w, go_error + string) call"

record 'w effect_runner =
  ed_store :: "'w effect_store"
  ed_authorizer :: "effect_authorization \<Rightarrow> ('w, go_error option) call"
  ed_sender :: "'w effect_sender"
  ed_clock :: "'w \<Rightarrow> instant"
  ed_commands :: "'w command_executor option"

definition bind_command_executor :: "'w command_executor option \<Rightarrow> 'w effect_runner \<Rightarrow>
    go_error option \<times> 'w effect_runner" where
  "bind_command_executor executor d =
    (if executor = None \<or> ed_commands d \<noteq> None
     then (Some (errorf ErrorInvalidArgument ''bind command executor'' ''one command executor is required''), d)
     else (None, d\<lparr>ed_commands := executor\<rparr>))"

definition new_effect_runner :: "'w effect_store option \<Rightarrow>
    (effect_authorization \<Rightarrow> ('w, go_error option) call) option \<Rightarrow> 'w effect_sender option \<Rightarrow>
    ('w \<Rightarrow> instant) option \<Rightarrow> go_error + 'w effect_runner" where
  "new_effect_runner store authorizer sender clock = (case (store, authorizer, sender, clock) of
     (Some st, Some au, Some se, Some c) \<Rightarrow>
       Inr \<lparr>ed_store = st, ed_authorizer = au, ed_sender = se, ed_clock = c, ed_commands = None\<rparr>
   | _ \<Rightarrow> Inl (errorf ErrorInvalidArgument ''create effect dispatcher''
       ''store, authorizer, sender, and clock are required''))"

definition runner_plan :: "'w effect_runner \<Rightarrow> plan_request \<Rightarrow> ('w, go_error + stored_effect) call" where
  "runner_plan d r w = (case plan_request_validate r of
     Some e \<Rightarrow> (Inl e, w)
   | None \<Rightarrow> es_plan (ed_store d) r (ed_clock d w) w)"

subsection \<open>Dispatching\<close>

definition run_error :: "error_code \<Rightarrow> string \<Rightarrow> go_error" where
  "run_error code msg = errorf code ''dispatch effect'' msg"

definition retryable_pre_execution :: "go_error \<Rightarrow> bool" where
  "retryable_pre_execution e \<longleftrightarrow> error_code_of e \<in> {ErrorNotReady, ErrorTimeout, ErrorUnavailable,
     ErrorProviderFailure, ErrorInternal}"

definition terminal_state_error :: "outbox_state \<Rightarrow> go_error option" where
  "terminal_state_error s = (case s of
     StateSucceeded \<Rightarrow> None
   | StateUnknownOutcome \<Rightarrow> Some (run_error ErrorUnknownOutcome ''effect outcome is unknown'')
   | _ \<Rightarrow> Some (run_error ErrorProviderFailure ''effect previously failed terminally''))"

definition mark_effect_unknown :: "'w effect_runner \<Rightarrow> effect_ref \<Rightarrow> error_code \<Rightarrow> 'w \<Rightarrow> 'w" where
  "mark_effect_unknown d ref code w = snd (es_mark_unknown (ed_store d) ref code (ed_clock d w) w)"

definition fail_effect :: "'w effect_runner \<Rightarrow> effect_ref \<Rightarrow> error_code \<Rightarrow> 'w \<Rightarrow> 'w" where
  "fail_effect d ref code w = snd (es_fail_terminal (ed_store d) ref code (ed_clock d w) w)"

text \<open>
  A stored effect has a non-nil effect (loading validates it); a nil one would be a nil interface,
  on which the code's method calls panic, and is outside the model.
\<close>

definition stored_effect_of :: "stored_effect \<Rightarrow> effect" where
  "stored_effect_of s = the (pq_effect (se_request s))"

definition execute_effect :: "'w effect_runner \<Rightarrow> 'w command_executor option \<Rightarrow> stored_effect \<Rightarrow>
    ('w, go_error + string) call" where
  "execute_effect d commands s w = (case (is_command (stored_effect_of s), commands) of
     (True, Some ce) \<Rightarrow> ce_execute ce s (stored_effect_of s) w
   | _ \<Rightarrow> xs_execute (ed_sender d) s w)"

definition run_claimed :: "'w effect_runner \<Rightarrow> effect_ref \<Rightarrow> stored_effect \<Rightarrow> ('w, go_error option) call" where
  "run_claimed d ref s w =
    (case execute_effect d (ed_commands d) s w of
       (Inl e, w1) \<Rightarrow>
         if is_command (stored_effect_of s) \<and> error_code_of e = ErrorPermissionDenied
         then (Some e, fail_effect d ref ErrorPermissionDenied w1)
         else (Some (new_error ErrorUnknownOutcome ''dispatch effect'' (Some e)),
           mark_effect_unknown d ref (error_code_of e) w1)
     | (Inr receipt, w1) \<Rightarrow>
         (case es_complete (ed_store d) ref receipt (ed_clock d w1) w1 of
            (Some e, w2) \<Rightarrow> (Some (new_error ErrorUnknownOutcome ''record effect receipt'' (Some e)),
              mark_effect_unknown d ref ErrorStorageFailure w2)
          | (None, w2) \<Rightarrow> (None, w2)))"

definition authorize_stored :: "'w effect_runner \<Rightarrow> stored_effect \<Rightarrow> ('w, go_error option) call" where
  "authorize_stored d s w =
    (if is_command (stored_effect_of s)
     then (if ed_commands d = None
       then Some (errorf ErrorNotReady ''dispatch command effect'' ''command executor is not bound'')
       else None, w)
     else ed_authorizer d \<lparr>ea_key = ref_key (pq_ref (se_request s)),
       ea_principal = pq_principal (se_request s),
       ea_capability = effect_capability (stored_effect_of s)\<rparr> w)"

definition run_pending :: "'w effect_runner \<Rightarrow> effect_ref \<Rightarrow> stored_effect \<Rightarrow> ('w, go_error option) call" where
  "run_pending d ref s w =
    (case xs_ready (ed_sender d) w of (ready, w1) \<Rightarrow>
       if \<not> ready then (Some (run_error ErrorNotReady ''effect sender is not ready''), w1)
       else case authorize_stored d s w1 of
         (Some e, w2) \<Rightarrow>
           if retryable_pre_execution e then (Some e, w2)
           else (Some e, fail_effect d ref (error_code_of e) w2)
       | (None, w2) \<Rightarrow>
           (case es_start (ed_store d) ref (ed_clock d w2) w2 of
              (Some e, w3) \<Rightarrow>
                (Some (if is_code (Some e) ErrorConflict
                   then run_error ErrorDeliveryPending ''effect is already running'' else e), w3)
            | (None, w3) \<Rightarrow> run_claimed d ref s w3))"

definition run_loaded :: "'w effect_runner \<Rightarrow> effect_ref \<Rightarrow> stored_effect \<Rightarrow> ('w, go_error option) call" where
  "run_loaded d ref s w = (case se_state s of
     StatePending \<Rightarrow> run_pending d ref s w
   | StateExecuting \<Rightarrow> (Some (run_error ErrorDeliveryPending ''effect is already running''), w)
   | StateOther _ \<Rightarrow> (Some (run_error ErrorIntegrityFailure ''effect state is invalid''), w)
   | st \<Rightarrow> (terminal_state_error st, w))"

definition run_effect :: "'w effect_runner \<Rightarrow> effect_ref \<Rightarrow> ('w, go_error option) call" where
  "run_effect d ref w = (case effect_ref_validate ref of
     Some e \<Rightarrow> (Some e, w)
   | None \<Rightarrow> (case es_load (ed_store d) ref w of
       (Inl e, w1) \<Rightarrow> (Some e, w1) | (Inr s, w1) \<Rightarrow> run_loaded d ref s w1))"

text \<open>\<open>DispatchEffect\<close> and \<open>DispatchEffects\<close>.\<close>

definition dispatch_effect :: "'w effect_runner \<Rightarrow> effect_dispatch_ref \<Rightarrow> ('w, go_error option) call" where
  "dispatch_effect d ref w = (case effect_dispatch_ref_validate ref of
     Some e \<Rightarrow> (Some e, w)
   | None \<Rightarrow> run_effect d \<lparr>ref_key = edr_key ref, ref_effect_id = edr_effect_id ref\<rparr> w)"

fun dispatch_in_order :: "'w effect_runner \<Rightarrow> effect_dispatch_ref list \<Rightarrow> ('w, go_error option) call" where
  "dispatch_in_order d [] w = (None, w)"
| "dispatch_in_order d (ref # refs) w = (case dispatch_effect d ref w of
     (Some e, w1) \<Rightarrow> (Some e, w1) | (None, w1) \<Rightarrow> dispatch_in_order d refs w1)"

definition dispatch_effects :: "'w effect_runner \<Rightarrow> effect_dispatch_ref list \<Rightarrow> ('w, go_error option) call" where
  "dispatch_effects d refs w = (case Option.bind (ed_commands d) ce_batch of
     None \<Rightarrow> dispatch_in_order d refs w
   | Some (open_batch, report) \<Rightarrow>
       (case dispatch_in_order d refs (open_batch w) of (err, w1) \<Rightarrow>
          (case report w1 of (report_err, w2) \<Rightarrow> (join_errors [err, report_err], w2))))"

subsection \<open>The dispatcher at a site\<close>

record 'x effect_outside =
  eo_uuid :: "string \<Rightarrow> string option"
  eo_io :: "'x \<Rightarrow> io"
  eo_authorize :: "effect_authorization \<Rightarrow> 'x \<Rightarrow> go_error option \<times> 'x"
  eo_ready :: "'x \<Rightarrow> bool \<times> 'x"
  eo_execute :: "stored_effect \<Rightarrow> 'x \<Rightarrow> (go_error + string) \<times> 'x"
  eo_command :: "(stored_effect \<Rightarrow> effect \<Rightarrow> 'x \<Rightarrow> (go_error + string) \<times> 'x) option"
  eo_clock :: "'x \<Rightarrow> instant"

type_synonym 'x effect_place = "(effect_ref, outbox_db, 'x) site"

definition effect_args :: "io \<Rightarrow> instant \<Rightarrow> string \<Rightarrow> error_code \<Rightarrow> call_args" where
  "effect_args io now receipt code = \<lparr>arg_io = io, arg_now = now, arg_receipt = receipt, arg_code = code\<rparr>"

definition load_pending_effect :: "nat \<Rightarrow> 'x effect_outside \<Rightarrow> effect_ref \<Rightarrow> 'x \<Rightarrow>
    (effect_ref, outbox_db) outbox_sys \<Rightarrow> (go_error + stored_effect) \<times> (effect_ref, outbox_db) outbox_sys" where
  "load_pending_effect t ou ref x s = (case effect_load (eo_uuid ou) (eo_io ou x) ref (sys_db s) of
     Inl e \<Rightarrow> (Inl e, s)
   | Inr a \<Rightarrow> (Inr a, if se_state a = StatePending then sess_enter t ref s else s))"

definition effects_at_site :: "nat \<Rightarrow> tenant_id \<Rightarrow> 'x effect_outside \<Rightarrow>
    ('x effect_place \<Rightarrow> 'x effect_place) \<Rightarrow> 'x effect_place effect_store" where
  "effects_at_site t tenant ou others = \<lparr>
     es_plan = (\<lambda>r now. on_sys others (\<lambda>x s. case effect_plan (eo_uuid ou) (eo_io ou x) r now (sys_db s) of
       (res, db') \<Rightarrow> (res, s\<lparr>sys_db := db'\<rparr>))),
     es_load = (\<lambda>ref. on_sys others (load_pending_effect t ou ref)),
     es_start = (\<lambda>ref now. on_sys others (\<lambda>x.
       sess_start (effect_ops tenant) t (effect_args (eo_io ou x) now [] NoCode) ref)),
     es_complete = (\<lambda>ref receipt now. on_sys others (\<lambda>x.
       sess_complete (effect_ops tenant) t (effect_args (eo_io ou x) now receipt NoCode) ref)),
     es_fail_terminal = (\<lambda>ref code now. on_sys others (\<lambda>x.
       sess_fail (effect_ops tenant) t (effect_args (eo_io ou x) now [] code) ref)),
     es_mark_unknown = (\<lambda>ref code now. on_sys others (\<lambda>x.
       sess_unknown (effect_ops tenant) t (effect_args (eo_io ou x) now [] code) ref))\<rparr>"

text \<open>A native call counts as made; a command that was refused has made none.\<close>

definition attempted :: "nat \<Rightarrow> stored_effect \<Rightarrow> 'x effect_place \<Rightarrow> 'x effect_place" where
  "attempted t s w = w\<lparr>st_sys := sess_attempt t (pq_ref (se_request s)) (st_sys w)\<rparr>"

definition refused :: "go_error + string \<Rightarrow> bool" where
  "refused r \<longleftrightarrow> (case r of Inl e \<Rightarrow> error_code_of e = ErrorPermissionDenied | Inr _ \<Rightarrow> False)"

definition command_at_site :: "nat \<Rightarrow> ('x effect_place \<Rightarrow> 'x effect_place) \<Rightarrow>
    (stored_effect \<Rightarrow> effect \<Rightarrow> 'x \<Rightarrow> (go_error + string) \<times> 'x) \<Rightarrow> 'x effect_place command_executor" where
  "command_at_site t others f = \<lparr>ce_execute = (\<lambda>s e w. case on_ext others (f s e) w of (r, w1) \<Rightarrow>
     (r, if is_command (stored_effect_of s) \<and> refused r then w1 else attempted t s w1)), ce_batch = None\<rparr>"

definition effect_worker :: "nat \<Rightarrow> tenant_id \<Rightarrow> 'x effect_outside \<Rightarrow>
    ('x effect_place \<Rightarrow> 'x effect_place) \<Rightarrow> 'x effect_place effect_runner" where
  "effect_worker t tenant ou others = \<lparr>
     ed_store = effects_at_site t tenant ou others,
     ed_authorizer = (\<lambda>q. on_ext others (eo_authorize ou q)),
     ed_sender = \<lparr>xs_ready = on_ext others (eo_ready ou),
       xs_execute = (\<lambda>s w. case on_ext others (eo_execute ou s) w of (r, w1) \<Rightarrow> (r, attempted t s w1))\<rparr>,
     ed_clock = (\<lambda>w. eo_clock ou (st_ext w)),
     ed_commands = map_option (command_at_site t others) (eo_command ou)\<rparr>"

text \<open>When \<open>Dispatch\<close> has returned, its worker is done.\<close>

definition run_as_worker :: "nat \<Rightarrow> tenant_id \<Rightarrow> 'x effect_outside \<Rightarrow> ('x effect_place \<Rightarrow> 'x effect_place) \<Rightarrow>
    effect_ref \<Rightarrow> ('x effect_place, go_error option) call" where
  "run_as_worker t tenant ou others ref w = (case run_effect (effect_worker t tenant ou others) ref w of
     (r, w1) \<Rightarrow> (r, w1\<lparr>st_sys := sess_leave t (st_sys w1)\<rparr>))"

abbreviation effect_at where
  "effect_at t tenant \<equiv> gone_to (effect_ops tenant) (\<lambda>_. True) t"

lemma decode_effect_row_ok:
  "decode_effect_row u ref r = Inr s \<Longrightarrow> se_state s = er_state r \<and> pq_ref (se_request s) = ref"
  by (auto simp: decode_effect_row_def Let_def split: sum.splits option.splits if_splits)

lemma effect_load_ok:
  "effect_load u io ref db = Inr s \<Longrightarrow> effect_state db ref = Some (se_state s) \<and> pq_ref (se_request s) = ref"
  by (auto simp: effect_load_def load_effect_def effect_state_def
    split: option.splits if_splits dest: decode_effect_row_ok)

lemma effect_unknown_gone:
  assumes "others_behave (effect_ops tenant) (\<lambda>_. True) t others"
    and "effect_at t tenant w0 w (Some (ref, Attempted))"
  shows "effect_at t tenant w0 (mark_effect_unknown (effect_worker t tenant ou others) ref code w) None"
proof -
  let ?d = "effect_worker t tenant ou others"
  obtain r w' where u: "es_mark_unknown (ed_store ?d) ref code (ed_clock ?d w) w = (r, w')" by fastforce
  then have "on_sys others (\<lambda>x. sess_unknown (effect_ops tenant) t
      (effect_args (eo_io ou x) (ed_clock ?d w) [] code) ref) w = (r, w')"
    by (simp add: effect_worker_def effects_at_site_def)
  note u' = on_sys_split[OF this assms]
  have "effect_at t tenant w0 w' None" by (rule sess_unknown_gone[OF conjunct1[OF u'] conjunct2[OF u']])
  with u show ?thesis by (simp add: mark_effect_unknown_def)
qed

lemma effect_fail_gone:
  assumes "others_behave (effect_ops tenant) (\<lambda>_. True) t others"
    and "effect_at t tenant w0 w (Some (ref, p))" and "p = Loaded \<or> p = Claimed"
  shows "effect_at t tenant w0 (fail_effect (effect_worker t tenant ou others) ref code w) None"
proof -
  let ?d = "effect_worker t tenant ou others"
  obtain r w' where u: "es_fail_terminal (ed_store ?d) ref code (ed_clock ?d w) w = (r, w')" by fastforce
  then have "on_sys others (\<lambda>x. sess_fail (effect_ops tenant) t
      (effect_args (eo_io ou x) (ed_clock ?d w) [] code) ref) w = (r, w')"
    by (simp add: effect_worker_def effects_at_site_def)
  note u' = on_sys_split[OF this assms(1,2)]
  have "effect_at t tenant w0 w' None"
    by (rule sess_fail_gone[OF conjunct1[OF u'] _ conjunct2[OF u']]) (use assms(3) in simp)
  with u show ?thesis by (simp add: fail_effect_def)
qed

lemma attempted_gone:
  assumes "effect_at t tenant w0 w (Some (ref, Claimed))" and "pq_ref (se_request s) = ref"
  shows "effect_at t tenant w0 (attempted t s w) (Some (ref, Attempted))"
  by (rule sess_attempt_gone[OF assms(1)]) (simp add: attempted_def assms(2))

text \<open>After the execution the claim is unused only when a command was refused.\<close>

lemma execute_gone:
  assumes oth: "others_behave (effect_ops tenant) (\<lambda>_. True) t others"
    and at: "effect_at t tenant w0 w (Some (ref, Claimed))" and ref: "pq_ref (se_request s) = ref"
    and bound: "is_command (stored_effect_of s) \<longrightarrow> eo_command ou \<noteq> None"
    and run: "execute_effect (effect_worker t tenant ou others) (ed_commands (effect_worker t tenant ou others)) s w = (r, w')"
  shows "effect_at t tenant w0 w'
    (Some (ref, if is_command (stored_effect_of s) \<and> refused r then Claimed else Attempted))"
proof (cases "is_command (stored_effect_of s)")
  case True
  with bound obtain f where f: "eo_command ou = Some f" by blast
  obtain r1 w1 where e: "on_ext others (f s (stored_effect_of s)) w = (r1, w1)" by fastforce
  note at1 = on_ext_gone[OF oth at e]
  from run f True e have "r = r1"
    "w' = (if is_command (stored_effect_of s) \<and> refused r then w1 else attempted t s w1)"
    by (auto simp: execute_effect_def effect_worker_def command_at_site_def split: prod.splits)
  with at1 attempted_gone[OF at1 ref] True show ?thesis by auto
next
  case False
  obtain r1 w1 where e: "on_ext others (eo_execute ou s) w = (r1, w1)" by fastforce
  note at1 = on_ext_gone[OF oth at e]
  from run False e have "w' = attempted t s w1"
    by (auto simp: execute_effect_def effect_worker_def split: bool.splits option.splits prod.splits)
  with attempted_gone[OF at1 ref] False show ?thesis by simp
qed

lemma run_claimed_gone:
  assumes oth: "others_behave (effect_ops tenant) (\<lambda>_. True) t others"
    and at: "effect_at t tenant w0 w (Some (ref, Claimed))" and ref: "pq_ref (se_request s) = ref"
    and bound: "is_command (stored_effect_of s) \<longrightarrow> eo_command ou \<noteq> None"
    and run: "run_claimed (effect_worker t tenant ou others) ref s w = (res, w')"
  shows "effect_at t tenant w0 w' None"
proof -
  let ?d = "effect_worker t tenant ou others"
  obtain r w1 where x: "execute_effect ?d (ed_commands ?d) s w = (r, w1)" by fastforce
  note at1 = execute_gone[OF oth at ref bound x]
  show ?thesis
  proof (cases r)
    case (Inl e)
    show ?thesis
    proof (cases "is_command (stored_effect_of s) \<and> error_code_of e = ErrorPermissionDenied")
      case True
      with run x Inl have w': "w' = fail_effect ?d ref ErrorPermissionDenied w1" by (simp add: run_claimed_def)
      from at1 True Inl have "effect_at t tenant w0 w1 (Some (ref, Claimed))" by (simp add: refused_def)
      then show ?thesis unfolding w' using effect_fail_gone[OF oth] by blast
    next
      case False
      with run x Inl have "w' = mark_effect_unknown ?d ref (error_code_of e) w1" by (simp add: run_claimed_def)
      with at1 False Inl effect_unknown_gone[OF oth] show ?thesis by (auto simp: refused_def)
    qed
  next
    case (Inr receipt)
    with at1 have at2: "effect_at t tenant w0 w1 (Some (ref, Attempted))" by (simp add: refused_def)
    obtain r2 w2 where c: "es_complete (ed_store ?d) ref receipt (ed_clock ?d w1) w1 = (r2, w2)" by fastforce
    then have "on_sys others (\<lambda>x. sess_complete (effect_ops tenant) t
        (effect_args (eo_io ou x) (ed_clock ?d w1) receipt NoCode) ref) w1 = (r2, w2)"
      by (simp add: effect_worker_def effects_at_site_def)
    note c' = on_sys_split[OF this oth at2]
    have at3: "effect_at t tenant w0 w2 (if r2 = None then None else Some (ref, Attempted))"
      by (rule effects.sess_complete_gone[OF conjunct1[OF c'] conjunct2[OF c']])
    with run x Inr c effect_unknown_gone[OF oth] show ?thesis
      by (cases r2) (auto simp: run_claimed_def)
  qed
qed

lemma authorize_stored_gone:
  assumes oth: "others_behave (effect_ops tenant) (\<lambda>_. True) t others"
    and at: "effect_at t tenant w0 w p"
    and run: "authorize_stored (effect_worker t tenant ou others) s w = (r, w')"
  shows "effect_at t tenant w0 w' p \<and> (r = None \<longrightarrow> is_command (stored_effect_of s) \<longrightarrow> eo_command ou \<noteq> None)"
  using run at on_ext_gone[OF oth at]
  by (auto simp: authorize_stored_def effect_worker_def split: if_splits)

lemma run_pending_gone:
  assumes oth: "others_behave (effect_ops tenant) (\<lambda>_. True) t others"
    and at: "effect_at t tenant w0 w (Some (ref, Loaded))" and ref: "pq_ref (se_request s) = ref"
    and run: "run_pending (effect_worker t tenant ou others) ref s w = (res, w')"
  shows "effect_at t tenant w0 w' None \<or> effect_at t tenant w0 w' (Some (ref, Loaded))"
proof -
  let ?d = "effect_worker t tenant ou others"
  obtain ready w1 where rd: "xs_ready (ed_sender ?d) w = (ready, w1)" by fastforce
  then have at1: "effect_at t tenant w0 w1 (Some (ref, Loaded))"
    using on_ext_gone[OF oth at] by (simp add: effect_worker_def)
  obtain r w2 where au: "authorize_stored ?d s w1 = (r, w2)" by fastforce
  note at2 = authorize_stored_gone[OF oth at1 au]
  obtain r3 w3 where st: "es_start (ed_store ?d) ref (ed_clock ?d w2) w2 = (r3, w3)" by fastforce
  then have "on_sys others (\<lambda>x. sess_start (effect_ops tenant) t
      (effect_args (eo_io ou x) (ed_clock ?d w2) [] NoCode) ref) w2 = (r3, w3)"
    by (simp add: effect_worker_def effects_at_site_def)
  note st' = on_sys_split[OF this oth conjunct1[OF at2]]
  have at3: "effect_at t tenant w0 w3 (if r3 = None then Some (ref, Claimed) else None)"
    by (rule effects.sess_start_gone[OF conjunct1[OF st'] conjunct2[OF st']])
  consider "\<not> ready" | (denied) e where "ready" "r = Some e"
    | (busy) e where "ready" "r = None" "r3 = Some e" | (claimed) "ready" "r = None" "r3 = None"
    by (cases r; cases r3) auto
  then show ?thesis
  proof cases
    case 1
    with run rd at1 show ?thesis by (simp add: run_pending_def)
  next
    case denied
    with run rd au have "w' = w2 \<or> w' = fail_effect ?d ref (error_code_of e) w2"
      by (auto simp: run_pending_def split: if_splits)
    with at2 effect_fail_gone[OF oth] show ?thesis by blast
  next
    case busy
    with run rd au st at3 show ?thesis by (simp add: run_pending_def)
  next
    case claimed
    with run rd au st have "run_claimed ?d ref s w3 = (res, w')" by (simp add: run_pending_def)
    from run_claimed_gone[OF oth _ ref _ this] at2 at3 claimed show ?thesis by simp
  qed
qed

lemma run_effect_gone:
  assumes oth: "others_behave (effect_ops tenant) (\<lambda>_. True) t others"
    and at: "effect_at t tenant w0 w None"
    and run: "run_effect (effect_worker t tenant ou others) ref w = (res, w')"
  shows "effect_at t tenant w0 w' None \<or> effect_at t tenant w0 w' (Some (ref, Loaded))"
proof (cases "effect_ref_validate ref")
  case (Some e)
  with run at show ?thesis by (simp add: run_effect_def)
next
  case None
  let ?d = "effect_worker t tenant ou others"
  obtain l w1 where l: "es_load (ed_store ?d) ref w = (l, w1)" by fastforce
  then have "on_sys others (load_pending_effect t ou ref) w = (l, w1)"
    by (simp add: effect_worker_def effects_at_site_def)
  note l' = on_sys_split[OF this oth at]
  show ?thesis
  proof (cases "\<exists>s. l = Inr s \<and> se_state s = StatePending")
    case True
    then obtain s where s: "l = Inr s" "se_state s = StatePending" by blast
    with l' have loaded: "effect_load (eo_uuid ou) (eo_io ou (st_ext (others w))) ref
        (sys_db (st_sys (others w))) = Inr s" "st_sys w1 = sess_enter t ref (st_sys (others w))"
      by (auto simp: load_pending_effect_def split: sum.splits if_splits)
    from effect_load_ok[OF this(1)] s(2)
    have pending: "op_state (effect_ops tenant) (sys_db (st_sys (others w))) ref = Some StatePending"
      and ref: "pq_ref (se_request s) = ref" by (simp_all add: effect_ops_def)
    from sess_enter_gone[OF conjunct1[OF l'] pending loaded(2)]
    have at1: "effect_at t tenant w0 w1 (Some (ref, Loaded))" .
    from run None l s have "run_pending ?d ref s w1 = (res, w')" by (simp add: run_effect_def run_loaded_def)
    from run_pending_gone[OF oth at1 ref this] show ?thesis .
  next
    case np: False
    with l' have "st_sys w1 = st_sys (others w)"
      by (auto simp: load_pending_effect_def split: sum.splits if_splits)
    with l' have at1: "effect_at t tenant w0 w1 None" using gone_to_same by blast
    have "w' = w1"
      using run None l np by (auto simp: run_effect_def run_loaded_def split: sum.splits outbox_state.splits)
    with at1 show ?thesis by simp
  qed
qed

text \<open>
  C3: the effect dispatcher refines the outbox system. As one worker among others that may do
  anything the system allows between any two of its calls, \<open>Dispatch\<close> takes only steps of the
  system and leaves no claim behind; from a reachable state it ends in a reachable one, so the
  effect has still been executed at most once.
\<close>
theorem run_effect_refines:
  assumes "others_behave (effect_ops tenant) (\<lambda>_. True) t others"
    and "reachable (effect_ops tenant) (\<lambda>_. True) db (st_sys w)"
    and "sys_workers (st_sys w) t = None"
    and "run_as_worker t tenant ou others ref w = (res, w')"
  shows "reachable (effect_ops tenant) (\<lambda>_. True) db (st_sys w')
    \<and> sys_workers (st_sys w') t = None \<and> sys_sends (st_sys w') ref \<le> 1"
proof -
  obtain w1 where r: "run_effect (effect_worker t tenant ou others) ref w = (res, w1)"
    and w': "st_sys w' = sess_leave t (st_sys w1)"
    using assms(4) by (auto simp: run_as_worker_def split: prod.splits)
  obtain p where p: "effect_at t tenant w w1 p" "p = None \<or> p = Some (ref, Loaded)"
    using run_effect_gone[OF assms(1) gone_to_refl[OF assms(3)] r] by blast
  have "effect_at t tenant w w' None" by (rule sess_leave_gone[OF p w'])
  then have "reachable (effect_ops tenant) (\<lambda>_. True) db (st_sys w')" "sys_workers (st_sys w') t = None"
    using assms(2) by (auto simp: gone_to_def reachable_def)
  with effects.at_most_once show ?thesis by blast
qed

subsection \<open>What one dispatch reports\<close>

lemma fail_effect_sends [simp]:
  "sys_sends (st_sys (fail_effect (effect_worker t tenant ou id) ref code w)) = sys_sends (st_sys w)"
  by (simp add: fail_effect_def effect_worker_def effects_at_site_def on_sys_quiet)

lemma execute_refused_sends:
  assumes "execute_effect (effect_worker t tenant ou id) (ed_commands (effect_worker t tenant ou id)) s w = (r, w')"
    and "is_command (stored_effect_of s)" and "eo_command ou \<noteq> None" and "refused r"
  shows "sys_sends (st_sys w') = sys_sends (st_sys w)"
proof -
  obtain f where f: "eo_command ou = Some f" using assms(3) by blast
  with assms show ?thesis
    by (auto simp: execute_effect_def effect_worker_def command_at_site_def
      dest!: on_ext_quiet_sys split: prod.splits if_splits)
qed

lemma run_claimed_reports:
  assumes run: "run_claimed (effect_worker t tenant ou id) ref s w = (res, w')"
    and bound: "is_command (stored_effect_of s) \<longrightarrow> eo_command ou \<noteq> None"
  shows "(res = None \<longrightarrow> effect_state (sys_db (st_sys w')) ref = Some StateSucceeded)
    \<and> (res \<noteq> None \<and> code_of res \<noteq> ErrorUnknownOutcome \<longrightarrow> sys_sends (st_sys w') = sys_sends (st_sys w))"
proof -
  let ?d = "effect_worker t tenant ou id"
  obtain r w1 where x: "execute_effect ?d (ed_commands ?d) s w = (r, w1)" by fastforce
  show ?thesis
  proof (cases r)
    case (Inl e)
    show ?thesis
    proof (cases "is_command (stored_effect_of s) \<and> error_code_of e = ErrorPermissionDenied")
      case True
      with x Inl bound have "sys_sends (st_sys w1) = sys_sends (st_sys w)"
        using execute_refused_sends by (fastforce simp: refused_def)
      with run x Inl True show ?thesis by (auto simp: run_claimed_def)
    next
      case False
      with run x Inl show ?thesis by (auto simp: run_claimed_def)
    qed
  next
    case (Inr receipt)
    obtain r2 w2 where c: "es_complete (ed_store ?d) ref receipt (ed_clock ?d w1) w1 = (r2, w2)" by fastforce
    show ?thesis
    proof (cases r2)
      case (Some e)
      with run x Inr c show ?thesis by (auto simp: run_claimed_def)
    next
      case None
      let ?c = "effect_args (eo_io ou (st_ext w1)) (ed_clock ?d w1) receipt NoCode"
      have "sess_complete (effect_ops tenant) t ?c ref (st_sys w1) = (None, st_sys w2)"
        using c None by (auto simp: effect_worker_def effects_at_site_def on_sys_quiet prod_eq_iff)
      from effects.complete_law[OF sess_db(2)[OF this]]
      have "effect_state (sys_db (st_sys w2)) ref = Some StateSucceeded" by (simp add: effect_ops_def)
      with run x Inr c None show ?thesis by (auto simp: run_claimed_def)
    qed
  qed
qed

lemma run_pending_reports:
  assumes run: "run_pending (effect_worker t tenant ou id) ref s w = (res, w')"
  shows "(res = None \<longrightarrow> effect_state (sys_db (st_sys w')) ref = Some StateSucceeded)
    \<and> (res \<noteq> None \<and> code_of res \<noteq> ErrorUnknownOutcome \<longrightarrow> sys_sends (st_sys w') = sys_sends (st_sys w))"
proof -
  let ?d = "effect_worker t tenant ou id"
  obtain ready w1 where rd: "xs_ready (ed_sender ?d) w = (ready, w1)" by fastforce
  then have s1: "st_sys w1 = st_sys w"
    using on_ext_quiet[of "eo_ready ou" w] by (simp add: effect_worker_def)
  obtain r w2 where au: "authorize_stored ?d s w1 = (r, w2)" by fastforce
  then have s2: "st_sys w2 = st_sys w"
    and bound: "r = None \<longrightarrow> is_command (stored_effect_of s) \<longrightarrow> eo_command ou \<noteq> None"
    using s1 on_ext_quiet[of _ w1]
    by (auto simp: authorize_stored_def effect_worker_def split: if_splits) (metis on_ext_quiet snd_conv)
  obtain r3 w3 where st: "es_start (ed_store ?d) ref (ed_clock ?d w2) w2 = (r3, w3)" by fastforce
  then have s3: "sys_sends (st_sys w3) = sys_sends (st_sys w)"
    using s2 by (auto simp: effect_worker_def effects_at_site_def on_sys_quiet)
  consider "\<not> ready" | (denied) e where "ready" "r = Some e"
    | (busy) e where "ready" "r = None" "r3 = Some e" | (claimed) "ready" "r = None" "r3 = None"
    by (cases r; cases r3) auto
  then show ?thesis
  proof cases
    case claimed
    with run rd au st have "run_claimed ?d ref s w3 = (res, w')" by (simp add: run_pending_def)
    from run_claimed_reports[OF this] bound claimed s3 show ?thesis by simp
  next
    case denied
    with run rd au have "res = Some e" "w' = w2 \<or> w' = fail_effect ?d ref (error_code_of e) w2"
      by (auto simp: run_pending_def split: if_splits)
    with s2 show ?thesis by auto
  qed (use run rd au st s1 s2 s3 in \<open>auto simp: run_pending_def\<close>)
qed

text \<open>
  What an effect dispatch reports is what happened. At a quiet site, returning no error means
  the effect is recorded as succeeded, and returning an error other than the unknown outcome means
  this dispatch did not execute it.
\<close>
theorem run_effect_reports_truth:
  assumes "run_as_worker t tenant ou id ref w = (res, w')"
  shows "(res = None \<longrightarrow> effect_state (sys_db (st_sys w')) ref = Some StateSucceeded)
    \<and> (res \<noteq> None \<and> code_of res \<noteq> ErrorUnknownOutcome \<longrightarrow> sys_sends (st_sys w') = sys_sends (st_sys w))"
proof -
  let ?d = "effect_worker t tenant ou id"
  obtain w1 where b: "run_effect ?d ref w = (res, w1)" and w': "sys_db (st_sys w') = sys_db (st_sys w1)"
    "sys_sends (st_sys w') = sys_sends (st_sys w1)"
    using assms by (auto simp: run_as_worker_def sess_leave_def split: prod.splits)
  have "(res = None \<longrightarrow> effect_state (sys_db (st_sys w1)) ref = Some StateSucceeded)
    \<and> (res \<noteq> None \<and> code_of res \<noteq> ErrorUnknownOutcome \<longrightarrow> sys_sends (st_sys w1) = sys_sends (st_sys w))"
  proof (cases "effect_ref_validate ref")
    case (Some e)
    with b show ?thesis by (auto simp: run_effect_def)
  next
    case None
    let ?l = "load_pending_effect t ou ref (st_ext w) (st_sys w)" and ?w = "\<lambda>s. w\<lparr>st_sys := s\<rparr>"
    have db: "sys_db (snd ?l) = sys_db (st_sys w)" "sys_sends (snd ?l) = sys_sends (st_sys w)"
      by (auto simp: load_pending_effect_def sess_enter_def split: sum.splits)
    have load: "es_load (ed_store ?d) ref w = (fst ?l, ?w (snd ?l))"
      by (simp add: effect_worker_def effects_at_site_def on_sys_quiet)
    show ?thesis
    proof (cases "fst ?l")
      case (Inl e)
      with b None load db show ?thesis by (auto simp: run_effect_def)
    next
      case (Inr s)
      then have state: "effect_state (sys_db (st_sys w)) ref = Some (se_state s)"
        using effect_load_ok by (fastforce simp: load_pending_effect_def split: sum.splits)
      have l: "run_loaded ?d ref s (?w (snd ?l)) = (res, w1)"
        using b None Inr load by (simp add: run_effect_def)
      show ?thesis
      proof (cases "se_state s = StatePending")
        case True
        with l have "run_pending ?d ref s (?w (snd ?l)) = (res, w1)" by (simp add: run_loaded_def)
        from run_pending_reports[OF this] db show ?thesis by simp
      next
        case np: False
        with l db state show ?thesis
          by (cases "se_state s") (auto simp: run_loaded_def terminal_state_error_def)
      qed
    qed
  qed
  with w' show ?thesis by simp
qed

text \<open>
  A passing failure before an effect runs leaves it pending. When the policy check of a
  pending effect fails with an error that a retry may clear (a timeout, an unavailable or failing
  provider), the tables are unchanged, nothing is executed and the error is returned.
\<close>
theorem passing_failure_keeps_effect:
  assumes "effect_load (eo_uuid ou) (eo_io ou (st_ext w)) ref (sys_db (st_sys w)) = Inr s"
    and "se_state s = StatePending" and "\<not> is_command (stored_effect_of s)"
    and "effect_ref_validate ref = None" and "eo_ready ou (st_ext w) = (True, x1)"
    and "\<forall>q. \<exists>x2. eo_authorize ou q x1 = (Some e, x2)" and "retryable_pre_execution e"
    and "run_as_worker t tenant ou id ref w = (res, w')"
  shows "res = Some e \<and> sys_db (st_sys w') = sys_db (st_sys w)
    \<and> sys_sends (st_sys w') = sys_sends (st_sys w)"
proof -
  let ?d = "effect_worker t tenant ou id" and ?s = "sess_enter t ref (st_sys w)"
  have body: "run_effect ?d ref w = run_pending ?d ref s (w\<lparr>st_sys := ?s\<rparr>)"
    using assms(1,2,4) by (simp add: run_effect_def run_loaded_def effect_worker_def effects_at_site_def
      on_sys_quiet load_pending_effect_def)
  obtain x2 where x2: "authorize_stored ?d s (w\<lparr>st_sys := ?s, st_ext := x1\<rparr>)
      = (Some e, w\<lparr>st_sys := ?s, st_ext := x2\<rparr>)"
  proof -
    let ?q = "\<lparr>ea_key = ref_key (pq_ref (se_request s)), ea_principal = pq_principal (se_request s),
      ea_capability = effect_capability (stored_effect_of s)\<rparr>"
    obtain x2 where "eo_authorize ou ?q x1 = (Some e, x2)" using assms(6) by blast
    with assms(3) show ?thesis by (intro that[of x2]) (simp add: authorize_stored_def effect_worker_def on_ext_def)
  qed
  have "xs_ready (ed_sender ?d) (w\<lparr>st_sys := ?s\<rparr>) = (True, w\<lparr>st_sys := ?s, st_ext := x1\<rparr>)"
    using assms(5) by (simp add: effect_worker_def on_ext_def)
  with x2 assms(7) have "run_pending ?d ref s (w\<lparr>st_sys := ?s\<rparr>) = (Some e, w\<lparr>st_sys := ?s, st_ext := x2\<rparr>)"
    by (simp add: run_pending_def)
  with assms(8) body show ?thesis
    by (auto simp: run_as_worker_def sess_enter_def sess_leave_def)
qed

subsection \<open>Witnesses\<close>

definition sample_effects_outside :: "go_error option \<Rightarrow> unit effect_outside" where
  "sample_effects_outside verdict = \<lparr>eo_uuid = (\<lambda>v. Some v), eo_io = (\<lambda>_ _. None),
     eo_authorize = (\<lambda>_ x. (verdict, x)), eo_ready = (\<lambda>x. (True, x)),
     eo_execute = (\<lambda>_ x. (Inr ''receipt'', x)), eo_command = None, eo_clock = (\<lambda>_. arg_now calm)\<rparr>"

definition sample_effect_place :: "unit effect_place" where
  "sample_effect_place = \<lparr>st_sys = sys_start sample_effect_db, st_ext = ()\<rparr>"

theorem run_effect_refines_witness:
  "\<exists>res w'. run_as_worker 0 (Ident ''acme'') (sample_effects_outside None) id sample_effect_ref
      sample_effect_place = (res, w') \<and> sys_sends (st_sys w') sample_effect_ref \<le> 1"
proof -
  obtain res w' where run: "run_as_worker 0 (Ident ''acme'') (sample_effects_outside None) id
      sample_effect_ref sample_effect_place = (res, w')" by fastforce
  have "others_behave (effect_ops (Ident ''acme'')) (\<lambda>_. True) 0 (id :: unit effect_place \<Rightarrow> _)"
    by (simp add: others_behave_def)
  moreover have "reachable (effect_ops (Ident ''acme'')) (\<lambda>_. True) sample_effect_db (st_sys sample_effect_place)"
    using reachable_start by (simp add: sample_effect_place_def)
  moreover have "sys_workers (st_sys sample_effect_place) 0 = None"
    by (simp add: sample_effect_place_def sys_start_def)
  ultimately show ?thesis using run_effect_refines[OF _ _ _ run] run by blast
qed

theorem run_effect_reports_truth_witness:
  "let (res, w') = run_as_worker 0 (Ident ''acme'') (sample_effects_outside None) id sample_effect_ref
      sample_effect_place
   in res = None \<longrightarrow> effect_state (sys_db (st_sys w')) sample_effect_ref = Some StateSucceeded"
proof -
  obtain res w' where run: "run_as_worker 0 (Ident ''acme'') (sample_effects_outside None) id
      sample_effect_ref sample_effect_place = (res, w')" by fastforce
  from run_effect_reports_truth[OF run] show ?thesis unfolding run Let_def prod.case by blast
qed

lemma sample_effect_loads:
  "\<exists>s. effect_load (\<lambda>v. Some v) (\<lambda>_. None) sample_effect_ref sample_effect_db = Inr s
    \<and> se_state s = StatePending \<and> \<not> is_command (stored_effect_of s)"
proof -
  let ?p = "keyed_principal PrincipalSystem (ref_key sample_effect_ref) zero_id"
  let ?q = "\<lparr>pq_ref = sample_effect_ref, pq_invocation_id = Ident ''i1'', pq_principal = ?p,
    pq_effect = Some (React (Ident ''m1'') ''+'')\<rparr>"
  have r: "row (db_effects sample_effect_db) sample_effect_ref = Some sample_effect_row"
    by (simp add: sample_effect_db_def)
  have "decode_effect (\<lambda>v. Some v) sample_effect_ref 1 (Some ''m1'') (er_payload sample_effect_row)
      = Inr (?p, React (Ident ''m1'') ''+'')"
    by (simp add: decode_effect_def decode_principal_def principal_of_number_def sample_effect_row_def
      parse_message_id_def parse_uuid_def Let_def)
  moreover have "bad_reaction (Ident ''m1'') ''+'' = False"
    by (simp add: bad_reaction_def is_zero_def ascii_eval)
  then have "plan_request_validate ?q = None"
    by (simp add: plan_request_validate_def is_zero_def principal_validate_def keyed_principal_def
      sample_effect_ref_def sample_ref_def key_validate_def effect_ref_validate_def principal_key_def zero_id_def)
  ultimately have "decode_effect_row (\<lambda>v. Some v) sample_effect_ref sample_effect_row
      = Inr \<lparr>se_request = ?q, se_state = StatePending, se_receipt = [], se_completed_at = None\<rparr>"
    by (simp add: decode_effect_row_def sample_effect_row_def parse_invocation_id_def parse_uuid_def
      known_state_def)
  with r show ?thesis by (simp add: effect_load_def load_effect_def stored_effect_of_def)
qed

theorem passing_failure_keeps_effect_witness:
  "let (res, w') = run_as_worker 0 (Ident ''acme'')
      (sample_effects_outside (Some (errorf ErrorTimeout ''check'' ''slow''))) id sample_effect_ref
      sample_effect_place
   in res = Some (errorf ErrorTimeout ''check'' ''slow'') \<and> sys_db (st_sys w') = sample_effect_db"
proof -
  let ?e = "errorf ErrorTimeout ''check'' ''slow''"
  let ?ou = "sample_effects_outside (Some ?e)"
  obtain res w' where run: "run_as_worker 0 (Ident ''acme'') ?ou id sample_effect_ref sample_effect_place
      = (res, w')" by fastforce
  obtain s where s: "effect_load (eo_uuid ?ou) (eo_io ?ou (st_ext sample_effect_place)) sample_effect_ref
      (sys_db (st_sys sample_effect_place)) = Inr s" "se_state s = StatePending"
      "\<not> is_command (stored_effect_of s)"
    using sample_effect_loads by (auto simp: sample_effects_outside_def sample_effect_place_def sys_start_def)
  have "res = Some ?e \<and> sys_db (st_sys w') = sys_db (st_sys sample_effect_place)"
    using passing_failure_keeps_effect[OF s sample_effect_ref_valid _ _ _ run, of "()" ?e]
    by (simp add: sample_effects_outside_def retryable_pre_execution_def)
  with run show ?thesis by (simp add: sample_effect_place_def sys_start_def)
qed

end
