(* ===== verification/HistoryRows.thy ===== *)
theory HistoryRows
  imports EffectStore AgentHistory
begin

text \<open>
  What the transcript and turn stores share (\<open>internal/adapters/sqlite/history.go\<close>, with the parts
  of \<open>turn.go\<close>, \<open>config.go\<close> and \<open>inbound.go\<close> they call): reading and writing transcript rows, the
  mention bindings of messages, the senders of a chat, and cursors. A step of a transaction gets the
  tables the steps before it left; \<open>u\<close> parses UUIDs and \<open>wide\<close> is the table of letters over Latin-1.
\<close>

fun part_text :: "content_part \<Rightarrow> string" where
  "part_text (TextPart t) = t"
| "part_text NilPart = []"

definition flatten_text :: "content_part list \<Rightarrow> string" where
  "flatten_text parts = join ''\<newline>'' (map part_text parts)"

subsection \<open>Scopes and senders\<close>

text \<open>The tenant and account rows are implied by the chat's.\<close>

definition ensure_scope :: "io \<Rightarrow> agent_key \<Rightarrow> outbox_db \<Rightarrow> outbox_db result" where
  "ensure_scope io key db = res_check (statement io ''ensure tenant scope'') (\<lambda>_.
     res_ok (if key \<in> set (db_chats db) then db else db\<lparr>db_chats := db_chats db @ [key]\<rparr>))"

definition senders_with_ref :: "agent_key \<Rightarrow> string \<Rightarrow> outbox_db \<Rightarrow> ((agent_key \<times> string) \<times> sender_row) list"
  where "senders_with_ref key ref db = filter (\<lambda>((k, _), r). k = key \<and> sf_ref r = ref) (db_senders db)"

definition update_sender_display_name :: "io \<Rightarrow> agent_key \<Rightarrow> sender_ref \<Rightarrow> string \<Rightarrow> bool \<Rightarrow> outbox_db \<Rightarrow>
    outbox_db result" where
  "update_sender_display_name io key ref name only_if_empty db =
    (let trimmed = trim_space name;
         hit = (\<lambda>((k, _), r). k = key \<and> sf_ref r = ident_value ref
           \<and> (only_if_empty \<longrightarrow> trim_left_set {CHR '' ''} (sf_display_name r) = []));
         changed = length (filter hit (db_senders db)) in
     if trimmed = [] then res_ok db
     else res_check (statement io ''update sender display name'') (\<lambda>_.
       res_check (statement io ''inspect sender display name update'') (\<lambda>_.
       res_guard (\<not> only_if_empty \<and> changed \<noteq> 1)
         (errorf ErrorIntegrityFailure ''update sender display name'' ''sender reference does not exist'') (\<lambda>_.
       res_ok (db\<lparr>db_senders := map (\<lambda>(k, r). (k, if hit (k, r) then r\<lparr>sf_display_name := trimmed\<rparr> else r))
         (db_senders db)\<rparr>)))))"

text \<open>
  \<open>INSERT OR IGNORE\<close> leaves the table alone when the participant or the reference is already
  there; reading the binding back finds out whether both name the same sender.
\<close>

definition ensure_internal_sender :: "io \<Rightarrow> agent_key \<Rightarrow> sender_context \<Rightarrow> outbox_db \<Rightarrow> outbox_db result"
  where "ensure_internal_sender io key sender db =
    (let participant = ident_value (sc_participant_id sender); ref = ident_value (sc_ref sender);
         conflict = errorf ErrorConflict ''ensure invocation sender ref''
           ''participant and sender ref are bound to different identities'' in
     res_check (statement io ''ensure invocation participant'') (\<lambda>_.
     let p = (key_tenant key, key_account key, participant);
         db1 = (if p \<in> set (db_participants db) then db else db\<lparr>db_participants := db_participants db @ [p]\<rparr>) in
     res_check (statement io ''ensure invocation sender ref'') (\<lambda>_.
     let db2 = (if row (db_senders db1) (key, participant) \<noteq> None \<or> senders_with_ref key ref db1 \<noteq> [] then db1
           else db1\<lparr>db_senders := put (key, participant) \<lparr>sf_ref = ref, sf_display_name = []\<rparr> (db_senders db1)\<rparr>) in
     res_bind (update_sender_display_name io key (sc_ref sender) (sc_display_name sender) False db2) (\<lambda>db3.
     res_check (statement io ''verify invocation sender ref'') (\<lambda>_.
     case row (db_senders db3) (key, participant) of
       None \<Rightarrow> res_fail conflict
     | Some r \<Rightarrow> res_guard (sf_ref r \<noteq> ref) conflict (\<lambda>_. res_ok db3))))))"

subsection \<open>Mention bindings\<close>

definition display_name_of :: "agent_key \<Rightarrow> string option \<Rightarrow> outbox_db \<Rightarrow> string" where
  "display_name_of key ref db = (case ref of
     None \<Rightarrow> []
   | Some v \<Rightarrow> (case senders_with_ref key v db of [] \<Rightarrow> [] | (_, r) # _ \<Rightarrow> sf_display_name r))"

definition decode_mention :: "agent_key \<Rightarrow> outbox_db \<Rightarrow> mention_row \<Rightarrow> mention_context result" where
  "decode_mention key db m =
    (let oper = ''decode history mention binding'' in
     res_guard (\<not> valid_token (mb_token m) \<or> mb_is_bot m \<noteq> (mb_sender_ref m = None))
       (errorf ErrorIntegrityFailure oper ''mention metadata is invalid'') (\<lambda>_.
     case mb_sender_ref m of
       None \<Rightarrow> res_ok \<lparr>mc_token = mb_token m, mc_sender_ref = zero_id,
         mc_display_name = display_name_of key None db, mc_bot = mb_is_bot m\<rparr>
     | Some v \<Rightarrow> (case parse_sender_ref v of
         Inl e \<Rightarrow> res_fail (new_error ErrorIntegrityFailure oper (Some e))
       | Inr ref \<Rightarrow> res_ok \<lparr>mc_token = mb_token m, mc_sender_ref = ref,
           mc_display_name = display_name_of key (Some v) db, mc_bot = mb_is_bot m\<rparr>)))"

fun decode_mentions :: "agent_key \<Rightarrow> outbox_db \<Rightarrow> (string \<times> mention_row) list \<Rightarrow>
    (string \<times> mention_context) list result" where
  "decode_mentions key db [] = res_ok []"
| "decode_mentions key db ((mid, m) # rest) = res_bind (decode_mention key db m) (\<lambda>b.
     res_bind (decode_mentions key db rest) (\<lambda>bs. res_ok ((mid, b) # bs)))"

definition mention_rows :: "agent_key \<Rightarrow> string list \<Rightarrow> outbox_db \<Rightarrow> (string \<times> mention_row) list" where
  "mention_rows key ids db = concat (map (\<lambda>mid. case row (db_mentions db) (key, mid) of
     None \<Rightarrow> [] | Some ms \<Rightarrow> map (Pair mid) ms) ids)"

type_synonym message_mentions = "string \<Rightarrow> mention_context list"

definition load_message_mentions :: "io \<Rightarrow> agent_key \<Rightarrow> message_id list \<Rightarrow> outbox_db \<Rightarrow>
    message_mentions result" where
  "load_message_mentions io key ids db =
    (let unique = sort (remdups (map ident_value (filter (\<lambda>i. \<not> is_zero i) ids))) in
     if unique = [] then res_ok (\<lambda>_. [])
     else res_check (statement io ''load history mention bindings'') (\<lambda>_.
       res_bind (decode_mentions key db (mention_rows key unique db)) (\<lambda>bs.
       res_check (statement io ''iterate history mention bindings'') (\<lambda>_.
       res_ok (\<lambda>mid. map snd (filter (\<lambda>b. fst b = mid) bs))))))"

definition history_mention_message_ids :: "history_entry \<Rightarrow> message_id list" where
  "history_mention_message_ids e = he_message_id e # (case he_quote e of
     Some q \<Rightarrow> if qc_role q = HistoryUser then [qc_message_id q] else [] | None \<Rightarrow> [])"

fun bindings_in_text :: "(rune \<Rightarrow> bool) \<Rightarrow> string \<Rightarrow> mention_context list \<Rightarrow> mention_context list outcome"
where
  "bindings_in_text wide body [] = Done []"
| "bindings_in_text wide body (b # bs) = (case contains wide body (mc_token b) of
     Panic \<Rightarrow> Panic
   | Done found \<Rightarrow> (case bindings_in_text wide body bs of
       Panic \<Rightarrow> Panic | Done rest \<Rightarrow> Done (if found then b # rest else rest)))"

definition mentions_for_history_entry :: "(rune \<Rightarrow> bool) \<Rightarrow> history_entry \<Rightarrow> message_mentions \<Rightarrow>
    (mention_context list \<times> mention_context list) outcome" where
  "mentions_for_history_entry wide e bindings =
    (let content = (if he_role e = HistoryUser then bindings (ident_value (he_message_id e)) else []) in
     case he_quote e of
       None \<Rightarrow> Done (content, [])
     | Some q \<Rightarrow>
         if qc_role q \<noteq> HistoryUser then Done (content, [])
         else (case bindings_in_text wide (qc_text q) (bindings (ident_value (qc_message_id q))) of
           Panic \<Rightarrow> Panic | Done quoted \<Rightarrow> Done (content, quoted)))"

definition with_mentions :: "history_entry \<Rightarrow> mention_context list \<times> mention_context list \<Rightarrow> history_entry"
  where "with_mentions e cq = e\<lparr>he_mentions := fst cq,
     he_quote := map_option (\<lambda>q. q\<lparr>qc_mentions := snd cq\<rparr>) (he_quote e)\<rparr>"

definition hydrate_history_mentions :: "(rune \<Rightarrow> bool) \<Rightarrow> history_entry \<Rightarrow> message_mentions \<Rightarrow>
    history_entry outcome" where
  "hydrate_history_mentions wide e bindings = (case mentions_for_history_entry wide e bindings of
     Panic \<Rightarrow> Panic | Done cq \<Rightarrow> Done (with_mentions e cq))"

text \<open>The code builds a map from the left bindings, so a repeated token keeps its last binding.\<close>

definition same_mention_identities :: "mention_context list \<Rightarrow> mention_context list \<Rightarrow> bool" where
  "same_mention_identities left right \<longleftrightarrow> length left = length right \<and>
     list_all (\<lambda>b. case map_of (map (\<lambda>l. (mc_token l, l)) (rev left)) (mc_token b) of
       None \<Rightarrow> False | Some l \<Rightarrow> mc_bot l = mc_bot b \<and> mc_sender_ref l = mc_sender_ref b) right"

subsection \<open>Rows\<close>

text \<open>The row of an entry; its sequence is the engine's.\<close>

definition history_row_of :: "nat \<Rightarrow> history_entry \<Rightarrow> int \<Rightarrow> history_row" where
  "history_row_of sequence e now_ms =
    \<lparr>hr_sequence = sequence, hr_invocation_id = ident_value (he_invocation_id e),
     hr_causation_kind = cref_kind (he_causation e), hr_causation_id = ident_value (cref_id (he_causation e)),
     hr_role = he_role e,
     hr_participant = map_option (\<lambda>s. ident_value (sc_participant_id s)) (he_sender e),
     hr_sender_ref = map_option (\<lambda>s. ident_value (sc_ref s)) (he_sender e),
     hr_sender_name = (case he_sender e of None \<Rightarrow> [] | Some s \<Rightarrow> sc_display_name s),
     hr_sender_is_admin = (case he_sender e of None \<Rightarrow> False | Some s \<Rightarrow> sc_is_admin s),
     hr_sender_is_super_admin = (case he_sender e of None \<Rightarrow> False | Some s \<Rightarrow> sc_is_super_admin s),
     hr_quoted_message_id = map_option (\<lambda>q. ident_value (qc_message_id q)) (he_quote e),
     hr_quoted_sequence = Option.bind (he_quote e) (\<lambda>q. if qc_sequence q > 0 then Some (qc_sequence q) else None),
     hr_quoted_role = map_option qc_role (he_quote e),
     hr_quoted_sender_ref = Option.bind (he_quote e) (\<lambda>q.
       if is_zero (qc_sender_ref q) then None else Some (ident_value (qc_sender_ref q))),
     hr_quoted_text = map_option qc_text (he_quote e),
     hr_quoted_is_admin = (case he_quote e of None \<Rightarrow> False | Some q \<Rightarrow> qc_sender_is_admin q),
     hr_quoted_is_super_admin = (case he_quote e of None \<Rightarrow> False | Some q \<Rightarrow> qc_sender_is_super_admin q),
     hr_content = flatten_text (he_content e), hr_delivery = he_delivery e,
     hr_created_at_ms = unix_milli (he_created_at e), hr_updated_at_ms = now_ms\<rparr>"

definition decode_entry_error :: "go_error \<Rightarrow> go_error" where
  "decode_entry_error e = new_error ErrorIntegrityFailure ''decode history entry'' (Some e)"

definition scan_sender :: "(string \<Rightarrow> string option) \<Rightarrow> history_row \<Rightarrow> sender_context option result" where
  "scan_sender u r =
    (case (hr_participant r, hr_sender_ref r) of
       (Some p, Some s) \<Rightarrow>
         res_bind (res_lift (map_sum decode_entry_error id (parse_participant_id u p))) (\<lambda>participant.
         res_bind (res_lift (map_sum decode_entry_error id (parse_sender_ref s))) (\<lambda>ref.
         res_ok (Some \<lparr>sc_participant_id = participant, sc_ref = ref, sc_display_name = hr_sender_name r,
           sc_is_admin = hr_sender_is_admin r, sc_is_super_admin = hr_sender_is_super_admin r\<rparr>)))
     | (None, None) \<Rightarrow>
         res_guard (hr_sender_is_admin r \<or> hr_sender_is_super_admin r)
           (decode_entry_error (Plain ''partial sender identity'')) (\<lambda>_. res_ok None)
     | _ \<Rightarrow> res_fail (decode_entry_error (Plain ''partial sender identity'')))"

definition scan_quote :: "(string \<Rightarrow> string option) \<Rightarrow> history_row \<Rightarrow> quote_context option result" where
  "scan_quote u r =
    (if hr_quoted_message_id r = None \<and> hr_quoted_role r = None \<and> hr_quoted_sender_ref r = None
        \<and> hr_quoted_text r = None \<and> \<not> hr_quoted_is_admin r \<and> \<not> hr_quoted_is_super_admin r
     then res_ok None
     else (case (hr_quoted_message_id r, hr_quoted_role r, hr_quoted_text r) of
        (Some mid, Some role, Some text) \<Rightarrow>
          res_bind (res_lift (map_sum decode_entry_error id (parse_message_id u mid))) (\<lambda>qid.
          let q = \<lparr>qc_sequence = (case hr_quoted_sequence r of None \<Rightarrow> 0 | Some n \<Rightarrow> n),
             qc_message_id = qid, qc_role = role, qc_sender_ref = zero_id,
             qc_sender_is_admin = hr_quoted_is_admin r, qc_sender_is_super_admin = hr_quoted_is_super_admin r,
             qc_text = text, qc_mentions = []\<rparr> in
          case hr_quoted_sender_ref r of
            None \<Rightarrow> res_ok (Some q)
          | Some v \<Rightarrow> res_bind (res_lift (map_sum decode_entry_error id (parse_sender_ref v))) (\<lambda>ref.
              res_ok (Some (q\<lparr>qc_sender_ref := ref\<rparr>))))
      | _ \<Rightarrow> res_fail (decode_entry_error (Plain ''partial quote context''))))"

definition scan_history_entry :: "(string \<Rightarrow> string option) \<Rightarrow> string \<Rightarrow> history_row \<Rightarrow>
    history_entry result" where
  "scan_history_entry u message r =
    res_bind (res_lift (map_sum decode_entry_error id (parse_message_id u message))) (\<lambda>mid.
    res_bind (res_lift (map_sum decode_entry_error id (parse_invocation_id u (hr_invocation_id r)))) (\<lambda>iid.
    res_bind (res_lift (map_sum decode_entry_error id (parse_causation_id u (hr_causation_id r)))) (\<lambda>cid.
    res_bind (scan_sender u r) (\<lambda>sender.
    res_bind (scan_quote u r) (\<lambda>quote.
    res_ok \<lparr>he_sequence = hr_sequence r, he_message_id = mid, he_invocation_id = iid,
      he_causation = \<lparr>cref_kind = hr_causation_kind r, cref_id = cid\<rparr>, he_role = hr_role r,
      he_sender = sender, he_quote = quote, he_content = [TextPart (hr_content r)], he_mentions = [],
      he_delivery = hr_delivery r, he_created_at = from_unix_milli (hr_created_at_ms r)\<rparr>)))))"

subsection \<open>Cursors and the configuration guard\<close>

definition encode_history_cursor :: "nat \<Rightarrow> string" where
  "encode_history_cursor sequence = ''h1_'' @ format36 sequence"

definition decode_history_cursor :: "string \<Rightarrow> int result" where
  "decode_history_cursor cursor =
    (let invalid = errorf ErrorInvalidArgument ''decode history cursor'' ''cursor is invalid'' in
     if cursor = [] then res_ok 0
     else res_guard (\<not> has_prefix cursor ''h1_'') invalid (\<lambda>_.
       case parse36 (drop 3 cursor) of
         None \<Rightarrow> res_fail invalid
       | Some sequence \<Rightarrow> res_guard (sequence \<le> 0) invalid (\<lambda>_. res_ok sequence)))"

definition require_config_version :: "io \<Rightarrow> agent_key \<Rightarrow> nat \<Rightarrow> outbox_db \<Rightarrow> go_error option" where
  "require_config_version io key wanted db = (case statement io ''guard history config'' of
     Some e \<Rightarrow> Some e
   | None \<Rightarrow> (case row (db_configs db) key of
       None \<Rightarrow> Some (errorf ErrorNotFound ''guard history config'' ''agent config does not exist'')
     | Some current \<Rightarrow>
         if current \<noteq> wanted
         then Some (errorf ErrorConflict ''guard history config'' ''authorized config version is stale'')
         else None))"

end
