(* ===== verification/TurnStore.thy ===== *)
theory TurnStore
  imports HistoryRows AgentCore
begin

text \<open>
  The turn store in SQLite (\<open>internal/adapters/sqlite/turn.go\<close>): claiming a turn, committing its
  plan, recording a failed generation and reading a turn back. A transaction's body returns the
  tables it commits together with what the caller gets, since some calls commit and then fail; an
  error of the body, or a panic, leaves the tables as they were.
\<close>

definition max_generation_attempts :: nat where
  "max_generation_attempts = 3"

definition transact :: "('a \<times> outbox_db) result \<Rightarrow> outbox_db \<Rightarrow> (go_error + 'a) outcome \<times> outbox_db" where
  "transact body db = (case body of
     Panic \<Rightarrow> (Panic, db) | Done (Inl e) \<Rightarrow> (Done (Inl e), db) | Done (Inr (a, db')) \<Rightarrow> (Done (Inr a), db'))"

text \<open>A violated constraint, as the driver reports it.\<close>

definition constraint_failed :: go_error where
  "constraint_failed = Plain ''UNIQUE constraint failed''"

subsection \<open>Reading a turn\<close>

definition action_of_turn :: "agent_key \<Rightarrow> string \<Rightarrow> outbox_db \<Rightarrow> (dispatch_ref \<times> action_row) option" where
  "action_of_turn key iid db =
     find (\<lambda>(ref, a). dr_key ref = key \<and> act_invocation_id a = iid) (db_actions db)"

text \<open>\<open>loadTurnRow\<close>: the turn and the reply joined to it.\<close>

type_synonym loaded_turn = "turn_row \<times> (dispatch_ref \<times> action_row) option"

definition load_turn_row :: "agent_key \<Rightarrow> string \<Rightarrow> outbox_db \<Rightarrow> loaded_turn option" where
  "load_turn_row key iid db = map_option (\<lambda>t. (t, action_of_turn key iid db)) (row (db_turns db) (key, iid))"

definition zero_dispatch_ref :: dispatch_ref where
  "zero_dispatch_ref = \<lparr>dr_key = \<lparr>key_tenant = zero_id, key_account = zero_id, key_chat = zero_id\<rparr>,
     dr_action_id = zero_id\<rparr>"

definition effect_only_plan :: "invocation_id \<Rightarrow> nat \<Rightarrow> instant \<Rightarrow> effect_dispatch_ref list \<Rightarrow> stored_plan" where
  "effect_only_plan iid version created effects =
    \<lparr>sp_invocation_id = iid, sp_config_version = version, sp_response_id = zero_id,
     sp_reply_to_message_id = zero_id, sp_action_id = zero_id, sp_text = [], sp_created_at = created,
     sp_dispatch = zero_dispatch_ref, sp_effects = effects\<rparr>"

definition planned :: "loaded_turn \<Rightarrow> bool" where
  "planned lt \<longleftrightarrow> snd lt \<noteq> None \<or> tn_state (fst lt) = TurnSucceeded"

definition row_plan :: "(string \<Rightarrow> string option) \<Rightarrow> agent_key \<Rightarrow> invocation_id \<Rightarrow> loaded_turn \<Rightarrow>
    stored_plan result" where
  "row_plan u key iid lt =
    (let bad = (\<lambda>e. new_error ErrorIntegrityFailure ''decode response plan'' (Some e)) in
     case lt of
       (t, None) \<Rightarrow>
         if tn_state t = TurnSucceeded
         then (case tn_config_version t of
             None \<Rightarrow> res_fail (errorf ErrorIntegrityFailure ''decode effect-only plan'' ''partial effect-only plan'')
           | Some v \<Rightarrow> res_ok (effect_only_plan iid v (from_unix_milli (tn_updated_at_ms t)) []))
         else res_fail (bad (Plain ''partial response plan''))
     | (t, Some (ref, a)) \<Rightarrow>
         (case tn_config_version t of
            None \<Rightarrow> res_fail (bad (Plain ''partial response plan''))
          | Some v \<Rightarrow>
              res_bind (res_lift (map_sum bad id (parse_message_id u (act_response_id a)))) (\<lambda>response.
              res_bind (res_lift (map_sum bad id (parse_action_id u (ident_value (dr_action_id ref))))) (\<lambda>aid.
              res_bind (case act_reply_to a of None \<Rightarrow> res_ok zero_id
                | Some m \<Rightarrow> res_lift (map_sum bad id (parse_message_id u m))) (\<lambda>reply_to.
              res_ok \<lparr>sp_invocation_id = iid, sp_config_version = v, sp_response_id = response,
                sp_reply_to_message_id = reply_to, sp_action_id = aid, sp_text = act_text a,
                sp_created_at = from_unix_milli (act_created_at_ms a),
                sp_dispatch = \<lparr>dr_key = key, dr_action_id = aid\<rparr>, sp_effects = []\<rparr>)))))"

definition row_delivery :: "loaded_turn \<Rightarrow> delivery_status" where
  "row_delivery lt = (case snd lt of
     None \<Rightarrow> if tn_state (fst lt) = TurnSucceeded then DeliverySucceeded else DeliveryNotStarted
   | Some (_, a) \<Rightarrow> (case act_state a of
       StateSucceeded \<Rightarrow> DeliverySucceeded
     | StateFailedTerminal \<Rightarrow> DeliveryFailedTerminal
     | StateUnknownOutcome \<Rightarrow> DeliveryUnknownOutcome
     | _ \<Rightarrow> DeliveryPending))"

definition model_effect_ids :: "agent_key \<Rightarrow> string \<Rightarrow> outbox_db \<Rightarrow> effect_id list" where
  "model_effect_ids key iid db = map snd (sort_key id
     (map (\<lambda>(ref, r). (er_created_at_ms r, ref_effect_id ref))
       (filter (\<lambda>(ref, r). ref_key ref = key \<and> er_invocation_id r = iid \<and> er_model_call_id r \<noteq> None)
         (db_effects db))))"

fun parse_effect_refs :: "(string \<Rightarrow> string option) \<Rightarrow> agent_key \<Rightarrow> effect_id list \<Rightarrow>
    effect_dispatch_ref list result" where
  "parse_effect_refs u key [] = res_ok []"
| "parse_effect_refs u key (i # is) = (case parse_effect_id u (ident_value i) of
     Inl e \<Rightarrow> res_fail (new_error ErrorIntegrityFailure ''decode model typed effect'' (Some e))
   | Inr eid \<Rightarrow> res_bind (parse_effect_refs u key is) (\<lambda>refs.
       res_ok (\<lparr>edr_key = key, edr_effect_id = eid\<rparr> # refs)))"

definition load_model_effect_refs :: "(string \<Rightarrow> string option) \<Rightarrow> io \<Rightarrow> agent_key \<Rightarrow> string \<Rightarrow> outbox_db \<Rightarrow>
    effect_dispatch_ref list result" where
  "load_model_effect_refs u io key iid db =
     res_check (statement io ''load model typed effects'') (\<lambda>_.
     res_bind (parse_effect_refs u key (model_effect_ids key iid db)) (\<lambda>refs.
     res_check (statement io ''iterate model typed effects'') (\<lambda>_. res_ok refs)))"

text \<open>The plan of a planned turn with its effects.\<close>

definition stored_plan_of :: "(string \<Rightarrow> string option) \<Rightarrow> io \<Rightarrow> agent_key \<Rightarrow> invocation_id \<Rightarrow> loaded_turn \<Rightarrow>
    outbox_db \<Rightarrow> stored_plan result" where
  "stored_plan_of u io key iid lt db =
     res_bind (row_plan u key iid lt) (\<lambda>plan.
     res_bind (load_model_effect_refs u io key (ident_value iid) db) (\<lambda>refs.
     res_ok (plan\<lparr>sp_effects := refs\<rparr>)))"

definition turn_load :: "(string \<Rightarrow> string option) \<Rightarrow> io \<Rightarrow> agent_key \<Rightarrow> invocation_id \<Rightarrow> outbox_db \<Rightarrow>
    turn_record result" where
  "turn_load u io key iid db =
    (let missing = errorf ErrorNotFound ''load turn'' ''claimed turn does not exist'' in
     res_check (key_validate key) (\<lambda>_.
     res_guard (is_zero iid) (errorf ErrorInvalidArgument ''load turn'' ''invocation ID is required'') (\<lambda>_.
     res_check (statement io ''load turn'') (\<lambda>_.
     case load_turn_row key (ident_value iid) db of
       None \<Rightarrow> res_fail missing
     | Some lt \<Rightarrow>
         res_guard (\<not> tn_claimed (fst lt)) missing (\<lambda>_.
         res_bind (res_lift (map_sum (\<lambda>e. new_error ErrorIntegrityFailure ''decode turn message ID'' (Some e)) id
             (parse_message_id u (tn_message_id (fst lt))))) (\<lambda>mid.
         let rec = \<lparr>tr_key = key, tr_invocation_id = iid, tr_message_id = mid, tr_state = tn_state (fst lt),
             tr_plan = None, tr_delivery = row_delivery lt,
             tr_updated_at = from_unix_milli (tn_updated_at_ms (fst lt))\<rparr> in
         if planned lt
         then res_bind (stored_plan_of u io key iid lt db) (\<lambda>plan. res_ok (rec\<lparr>tr_plan := Some plan\<rparr>))
         else res_ok rec))))))"

subsection \<open>Claiming\<close>

text \<open>\<open>claim\<close> ends a claim: after the commit, the turn's message is decoded with this operation's name.\<close>

definition claimed_turn :: "(string \<Rightarrow> string option) \<Rightarrow> string \<Rightarrow> turn_state \<Rightarrow> string \<Rightarrow> stored_plan option \<Rightarrow>
    go_error + turn_claim" where
  "claimed_turn u oper st message plan =
     map_sum (\<lambda>e. new_error ErrorIntegrityFailure oper (Some e))
       (\<lambda>mid. \<lparr>tc_state = st, tc_message_id = mid, tc_plan = plan\<rparr>) (parse_message_id u message)"

definition same_sender :: "turn_row \<Rightarrow> sender_context option \<Rightarrow> bool" where
  "same_sender t sender = (case (sender, tn_participant t, tn_sender_ref t) of
     (Some s, Some p, Some r) \<Rightarrow> p = ident_value (sc_participant_id s) \<and> r = ident_value (sc_ref s)
       \<and> tn_sender_name t = sc_display_name s
   | _ \<Rightarrow> False)"

definition matches_preclaimed_inbound :: "turn_row \<Rightarrow> claim_turn_request \<Rightarrow> bool" where
  "matches_preclaimed_inbound t r =
    (let i = ct_invocation r in
     tn_provider_message_id t \<noteq> None \<and> inv_cause i = CauseInboundMessage \<and> inv_cause i = tn_cause t
     \<and> cref_kind (inv_causation i) = tn_causation_kind t \<and> cref_kind (inv_causation i) = CausationMessage
     \<and> tn_causation_id t = ident_value (cref_id (inv_causation i)) \<and> same_sender t (inv_sender i)
     \<and> tn_input_text t = flatten_text (inv_input i)
     \<and> tn_occurred_at_ms t = unix_milli (inv_requested_at i))"

text \<open>\<open>insertInvocation\<close>: the message ID is fresh, and the causation may not be in the chat already.\<close>

definition new_turn_row :: "claim_turn_request \<Rightarrow> string \<Rightarrow> turn_row" where
  "new_turn_row r message =
    (let i = ct_invocation r; now_ms = unix_milli (ct_now r) in
     \<lparr>tn_state = TurnGenerating, tn_claimed = True, tn_message_id = message, tn_provider_message_id = None,
      tn_cause = inv_cause i, tn_causation_kind = cref_kind (inv_causation i),
      tn_causation_id = ident_value (cref_id (inv_causation i)),
      tn_participant = map_option (\<lambda>s. ident_value (sc_participant_id s)) (inv_sender i),
      tn_sender_ref = map_option (\<lambda>s. ident_value (sc_ref s)) (inv_sender i),
      tn_sender_name = (case inv_sender i of None \<Rightarrow> [] | Some s \<Rightarrow> sc_display_name s),
      tn_input_text = flatten_text (inv_input i), tn_occurred_at_ms = unix_milli (inv_requested_at i),
      tn_received_at_ms = now_ms, tn_attempts = 1, tn_config_version = Some (inv_policy_version i),
      tn_last_error = None, tn_ignored_reason = None, tn_updated_at_ms = now_ms\<rparr>)"

definition turn_conflicts :: "agent_key \<Rightarrow> turn_row \<Rightarrow> outbox_db \<Rightarrow> bool" where
  "turn_conflicts key t db \<longleftrightarrow> list_ex (\<lambda>((k, _), x). k = key
     \<and> (tn_message_id x = tn_message_id t \<or> tn_causation_id x = tn_causation_id t)) (db_turns db)"

definition insert_invocation :: "io \<Rightarrow> go_error + string \<Rightarrow> claim_turn_request \<Rightarrow> outbox_db \<Rightarrow>
    (turn_row \<times> outbox_db) result" where
  "insert_invocation io new_id r db =
    (let key = ct_key r; i = ct_invocation r in
     res_bind (res_lift (map_sum (\<lambda>e. new_error ErrorInternal ''create turn message ID'' (Some e)) id new_id)) (\<lambda>mid.
     res_bind (case inv_sender i of None \<Rightarrow> res_ok db | Some s \<Rightarrow> ensure_internal_sender io key s db) (\<lambda>db1.
     res_check (statement io ''insert turn claim'') (\<lambda>_.
     let t = new_turn_row r mid in
     res_guard (turn_conflicts key t db1) (storage_error ''insert turn claim'' constraint_failed) (\<lambda>_.
     res_ok (t, db1\<lparr>db_turns := put (key, ident_value (inv_id i)) t (db_turns db1)\<rparr>))))))"

definition claim_new :: "(string \<Rightarrow> string option) \<Rightarrow> io \<Rightarrow> go_error + string \<Rightarrow> claim_turn_request \<Rightarrow> outbox_db \<Rightarrow>
    ((go_error + turn_claim) \<times> outbox_db) result" where
  "claim_new u io new_id r db =
     res_bind (ensure_scope io (ct_key r) db) (\<lambda>db1.
     res_bind (insert_invocation io new_id r db1) (\<lambda>(t, db2).
     res_check (statement io ''commit turn claim'') (\<lambda>_.
     res_ok (claimed_turn u ''decode turn message ID'' TurnGenerating (tn_message_id t) None, db2))))"

definition claim_received :: "(string \<Rightarrow> string option) \<Rightarrow> io \<Rightarrow> claim_turn_request \<Rightarrow> turn_row \<Rightarrow> outbox_db \<Rightarrow>
    ((go_error + turn_claim) \<times> outbox_db) result" where
  "claim_received u io r t db =
    (let now_ms = unix_milli (ct_now r);
         upd = update_where (ct_key r, ident_value (inv_id (ct_invocation r))) (\<lambda>t. \<not> tn_claimed t)
           (\<lambda>t. t\<lparr>tn_claimed := True, tn_config_version := Some (inv_policy_version (ct_invocation r)),
              tn_state := TurnGenerating, tn_attempts := tn_attempts t + 1, tn_updated_at_ms := now_ms\<rparr>)
           (db_turns db) in
     res_guard (\<not> matches_preclaimed_inbound t r) (errorf ErrorConflict ''claim received turn''
       ''invocation does not match durable inbound message'') (\<lambda>_.
     res_check (statement io ''claim received turn'') (\<lambda>_.
     res_guard (fst upd \<noteq> 1) (errorf ErrorConflict ''claim received turn'' ''turn changed concurrently'') (\<lambda>_.
     res_check (statement io ''commit received turn claim'') (\<lambda>_.
     res_ok (claimed_turn u ''decode received message ID'' TurnGenerating (tn_message_id t) None,
       db\<lparr>db_turns := snd upd\<rparr>))))))"

definition claim_planned :: "(string \<Rightarrow> string option) \<Rightarrow> io \<Rightarrow> claim_turn_request \<Rightarrow> loaded_turn \<Rightarrow> outbox_db \<Rightarrow>
    ((go_error + turn_claim) \<times> outbox_db) result" where
  "claim_planned u io r lt db =
     res_bind (stored_plan_of u io (ct_key r) (inv_id (ct_invocation r)) lt db) (\<lambda>plan.
     res_check (statement io ''commit replay lookup'') (\<lambda>_.
     res_ok (claimed_turn u ''decode replay message ID'' (tn_state (fst lt)) (tn_message_id (fst lt)) (Some plan),
       db)))"

text \<open>A turn that was claimed before and has no plan: generated again, at most three times.\<close>

definition pre_plan_error :: "turn_state \<Rightarrow> go_error option" where
  "pre_plan_error st = (case st of
     TurnGenerating \<Rightarrow> None
   | TurnFailedRetryable \<Rightarrow> None
   | TurnFailedTerminal \<Rightarrow> Some (errorf ErrorProviderFailure ''claim turn'' ''generation failed terminally'')
   | TurnUnknownOutcome \<Rightarrow> Some (errorf ErrorUnknownOutcome ''claim turn'' ''turn outcome is unknown'')
   | _ \<Rightarrow> Some (errorf ErrorIntegrityFailure ''claim turn'' ''turn has invalid pre-plan state''))"

definition exhaust_attempts :: "io \<Rightarrow> claim_turn_request \<Rightarrow> turn_row \<Rightarrow> outbox_db \<Rightarrow>
    ((go_error + turn_claim) \<times> outbox_db) result" where
  "exhaust_attempts io r t db =
    (let now_ms = unix_milli (ct_now r);
         upd = update_where (ct_key r, ident_value (inv_id (ct_invocation r))) (\<lambda>x. tn_state x = tn_state t)
           (\<lambda>x. x\<lparr>tn_state := TurnFailedTerminal, tn_last_error := Some ErrorProviderFailure,
              tn_updated_at_ms := now_ms\<rparr>) (db_turns db) in
     res_check (require_one io ''exhaust generation attempts'' (fst upd)) (\<lambda>_.
     res_check (statement io ''commit exhausted generation attempts'') (\<lambda>_.
     res_ok (Inl (errorf ErrorProviderFailure ''claim turn'' ''generation retry limit reached''),
       db\<lparr>db_turns := snd upd\<rparr>))))"

definition renew_claim :: "(string \<Rightarrow> string option) \<Rightarrow> io \<Rightarrow> claim_turn_request \<Rightarrow> turn_row \<Rightarrow> outbox_db \<Rightarrow>
    ((go_error + turn_claim) \<times> outbox_db) result" where
  "renew_claim u io r t db =
    (let now_ms = unix_milli (ct_now r);
         upd = update_where (ct_key r, ident_value (inv_id (ct_invocation r)))
           (\<lambda>x. tn_claimed x \<and> tn_state x = tn_state t)
           (\<lambda>x. x\<lparr>tn_state := TurnGenerating, tn_attempts := tn_attempts x + 1,
              tn_config_version := Some (inv_policy_version (ct_invocation r)), tn_last_error := None,
              tn_updated_at_ms := now_ms\<rparr>) (db_turns db) in
     res_check (statement io ''renew turn claim'') (\<lambda>_.
     res_guard (fst upd \<noteq> 1) (errorf ErrorConflict ''renew turn claim'' ''turn changed concurrently'') (\<lambda>_.
     res_check (statement io ''commit renewed turn claim'') (\<lambda>_.
     res_ok (claimed_turn u ''decode renewed message ID'' TurnGenerating (tn_message_id t) None,
       db\<lparr>db_turns := snd upd\<rparr>)))))"

definition claim_body :: "(string \<Rightarrow> string option) \<Rightarrow> io \<Rightarrow> go_error + string \<Rightarrow> claim_turn_request \<Rightarrow> outbox_db \<Rightarrow>
    ((go_error + turn_claim) \<times> outbox_db) result" where
  "claim_body u io new_id r db =
     res_check (key_validate (ct_key r)) (\<lambda>_.
     res_guard (is_zero (inv_id (ct_invocation r)) \<or> ct_now r = 0)
       (errorf ErrorInvalidArgument ''claim turn'' ''invocation ID and current time are required'') (\<lambda>_.
     res_check (statement io ''begin turn claim'') (\<lambda>_.
     res_check (statement io ''load turn claim'') (\<lambda>_.
     case load_turn_row (ct_key r) (ident_value (inv_id (ct_invocation r))) db of
       None \<Rightarrow> claim_new u io new_id r db
     | Some (t, a) \<Rightarrow>
         if \<not> tn_claimed t then claim_received u io r t db
         else if planned (t, a) then claim_planned u io r (t, a) db
         else res_check (pre_plan_error (tn_state t)) (\<lambda>_.
           if tn_attempts t \<ge> max_generation_attempts then exhaust_attempts io r t db
           else renew_claim u io r t db)))))"

definition turn_claim_call :: "(string \<Rightarrow> string option) \<Rightarrow> io \<Rightarrow> go_error + string \<Rightarrow> claim_turn_request \<Rightarrow>
    outbox_db \<Rightarrow> (go_error + turn_claim) outcome \<times> outbox_db" where
  "turn_claim_call u io new_id r db = (case transact (claim_body u io new_id r db) db of
     (Panic, db') \<Rightarrow> (Panic, db') | (Done (Inl e), db') \<Rightarrow> (Done (Inl e), db')
   | (Done (Inr c), db') \<Rightarrow> (Done c, db'))"

subsection \<open>Failing a generation\<close>

definition turn_fail_generation :: "io \<Rightarrow> instant \<Rightarrow> fail_generation_request \<Rightarrow> outbox_db \<Rightarrow>
    (go_error + unit) outcome \<times> outbox_db" where
  "turn_fail_generation io now r db = transact
    (let upd = update_where (fg_key r, ident_value (fg_invocation_id r)) (\<lambda>t. tn_state t = TurnGenerating)
           (\<lambda>t. t\<lparr>tn_state := (if fg_retryable r then TurnFailedRetryable else TurnFailedTerminal),
              tn_last_error := Some (fg_code r), tn_updated_at_ms := unix_milli now\<rparr>) (db_turns db) in
     res_check (key_validate (fg_key r)) (\<lambda>_.
     res_guard (is_zero (fg_invocation_id r) \<or> fg_code r = NoCode)
       (errorf ErrorInvalidArgument ''fail generation'' ''complete failure data is required'') (\<lambda>_.
     res_check (require_one io ''record generation failure'' (fst upd)) (\<lambda>_.
     res_ok ((), db\<lparr>db_turns := snd upd\<rparr>))))) db"

subsection \<open>Committing a plan\<close>

text \<open>Where the identifiers of a plan come from; the \<open>n\<close>th effect gets \<open>id_effect n\<close>.\<close>

record id_source =
  id_message :: "go_error + string"
  id_action :: "go_error + string"
  id_effect :: "nat \<Rightarrow> go_error + string"

fun validate_model_effects_from :: "string set \<Rightarrow> capability_set \<Rightarrow> model_effect list \<Rightarrow> go_error option" where
  "validate_model_effects_from seen capabilities [] = None"
| "validate_model_effects_from seen capabilities (e # es) = (case model_effect_validate capabilities e of
     Some err \<Rightarrow> Some err
   | None \<Rightarrow>
       if me_call_id e \<in> seen
       then Some (errorf ErrorInvalidArgument ''commit response plan'' ''effect call IDs must be unique'')
       else validate_model_effects_from (insert (me_call_id e) seen) capabilities es)"

definition validate_model_effects :: "model_effect list \<Rightarrow> capability_set \<Rightarrow> go_error option" where
  "validate_model_effects effects capabilities =
    (if length effects > max_model_effects
     then Some (errorf ErrorInvalidArgument ''commit response plan'' ''too many model effects'')
     else validate_model_effects_from {} capabilities effects)"

definition model_effect_payload :: "effect_intent \<Rightarrow> go_error + effect" where
  "model_effect_payload i = (case ei_kind i of
     EffectReact \<Rightarrow> Inr (React (ei_target_message_id i) (ei_emoji i))
   | EffectRunCommand \<Rightarrow> Inr (RunCommand (ei_command i) (ei_target_message_id i))
   | EffectSticker \<Rightarrow> Inr (Sticker (ei_sticker i) (ei_target_message_id i))
   | EffectKindOther _ \<Rightarrow> Inl (errorf ErrorInvalidArgument ''convert model effect'' ''effect kind is invalid''))"

text \<open>The effect ID and the model's call ID are unique, the latter within the turn.\<close>

definition effect_conflicts :: "effect_ref \<Rightarrow> string \<Rightarrow> string \<Rightarrow> outbox_db \<Rightarrow> bool" where
  "effect_conflicts ref iid call db \<longleftrightarrow> row (db_effects db) ref \<noteq> None
     \<or> list_ex (\<lambda>(x, r). ref_key x = ref_key ref \<and> er_invocation_id r = iid \<and> er_model_call_id r = Some call)
         (db_effects db)"

definition insert_model_effect :: "io \<Rightarrow> agent_key \<Rightarrow> invocation_id \<Rightarrow> principal \<Rightarrow> int \<Rightarrow> go_error + string \<Rightarrow>
    model_effect \<Rightarrow> outbox_db \<Rightarrow> (effect_dispatch_ref \<times> outbox_db) result" where
  "insert_model_effect io key iid pr now_ms new_id e db =
     res_bind (res_lift (map_sum (\<lambda>err. new_error ErrorInternal ''create model effect ID'' (Some err)) id new_id)) (\<lambda>eid.
     res_bind (res_lift (model_effect_payload (me_intent e))) (\<lambda>payload.
     let request = \<lparr>pq_ref = \<lparr>ref_key = key, ref_effect_id = Ident eid\<rparr>, pq_invocation_id = iid,
           pq_principal = pr, pq_effect = Some payload\<rparr> in
     res_check (plan_request_validate request) (\<lambda>_.
     res_check (case effect_target payload of None \<Rightarrow> None | Some t \<Rightarrow> require_effect_target io key t db) (\<lambda>_.
     res_check (statement io ''insert model typed effect'') (\<lambda>_.
     res_guard (effect_conflicts (pq_ref request) (ident_value iid) (me_call_id e) db)
       (storage_error ''insert model typed effect'' constraint_failed) (\<lambda>_.
     res_ok (\<lparr>edr_key = key, edr_effect_id = Ident eid\<rparr>,
       db\<lparr>db_effects := put (pq_ref request)
         ((new_effect_row request (encode_effect pr payload) (from_unix_milli now_ms))
            \<lparr>er_model_call_id := Some (me_call_id e)\<rparr>) (db_effects db)\<rparr>)))))))"

fun insert_effects_from :: "io \<Rightarrow> agent_key \<Rightarrow> invocation_id \<Rightarrow> principal \<Rightarrow> int \<Rightarrow> (nat \<Rightarrow> go_error + string) \<Rightarrow> nat \<Rightarrow>
    model_effect list \<Rightarrow> outbox_db \<Rightarrow> (effect_dispatch_ref list \<times> outbox_db) result" where
  "insert_effects_from io key iid pr now_ms ids n [] db = res_ok ([], db)"
| "insert_effects_from io key iid pr now_ms ids n (e # es) db =
     res_bind (insert_model_effect io key iid pr now_ms (ids n) e db) (\<lambda>(ref, db1).
     res_bind (insert_effects_from io key iid pr now_ms ids (Suc n) es db1) (\<lambda>(refs, db2).
     res_ok (ref # refs, db2)))"

definition insert_model_effects_tx :: "io \<Rightarrow> agent_key \<Rightarrow> invocation_id \<Rightarrow> model_effect list \<Rightarrow> int \<Rightarrow>
    (nat \<Rightarrow> go_error + string) \<Rightarrow> outbox_db \<Rightarrow> (effect_dispatch_ref list \<times> outbox_db) result" where
  "insert_model_effects_tx io key iid effects now_ms ids db =
    (if effects = [] then res_ok ([], db)
     else res_bind (res_lift (model_principal key iid)) (\<lambda>pr.
       insert_effects_from io key iid pr now_ms ids 0 effects db))"

definition reset_cutoff :: "agent_key \<Rightarrow> outbox_db \<Rightarrow> nat" where
  "reset_cutoff key db = (case row (db_resets db) key of None \<Rightarrow> 0 | Some r \<Rightarrow> rt_cutoff r)"

definition resolve_history_quote :: "io \<Rightarrow> agent_key \<Rightarrow> message_id \<Rightarrow> outbox_db \<Rightarrow> quote_context result" where
  "resolve_history_quote io key mid db =
    (let oper = ''resolve reply target'';
         hidden = errorf ErrorNotFound oper ''reply target is not available in the saved history'' in
     res_check (statement io oper) (\<lambda>_.
     case row (db_history db) (key, ident_value mid) of
       None \<Rightarrow> res_fail hidden
     | Some h \<Rightarrow>
         res_guard (hr_sequence h \<le> reset_cutoff key db) hidden (\<lambda>_.
         let quote = \<lparr>qc_sequence = hr_sequence h, qc_message_id = mid, qc_role = hr_role h,
               qc_sender_ref = zero_id, qc_sender_is_admin = hr_sender_is_admin h,
               qc_sender_is_super_admin = hr_sender_is_super_admin h, qc_text = hr_content h, qc_mentions = []\<rparr> in
         case hr_role h of
           HistoryUser \<Rightarrow>
             (case hr_sender_ref h of
                None \<Rightarrow> res_fail (errorf ErrorIntegrityFailure oper ''quoted user sender is missing'')
              | Some v \<Rightarrow>
                  res_bind (res_lift (map_sum (\<lambda>e. new_error ErrorIntegrityFailure oper (Some e)) id
                    (parse_sender_ref v))) (\<lambda>ref.
                  res_bind (load_message_mentions io key [mid] db) (\<lambda>bindings.
                  res_ok (quote\<lparr>qc_sender_ref := ref, qc_mentions := bindings (ident_value mid)\<rparr>))))
         | HistoryAssistant \<Rightarrow>
             res_guard (hr_sender_ref h \<noteq> None \<or> hr_delivery h \<noteq> DeliverySucceeded)
               (errorf ErrorNotFound oper ''quoted Agent message has not been sent'') (\<lambda>_. res_ok quote)
         | _ \<Rightarrow> res_fail (errorf ErrorInvalidArgument oper ''reply target is not a chat message''))))"

definition publish_plan :: "io \<Rightarrow> string \<Rightarrow> commit_plan_request \<Rightarrow> turn_state \<Rightarrow> int \<Rightarrow> outbox_db \<Rightarrow>
    outbox_db result" where
  "publish_plan io oper r st now_ms db =
    (let upd = update_where (cp_key r, ident_value (cp_invocation_id r)) (\<lambda>t. tn_state t = TurnGenerating)
           (\<lambda>t. t\<lparr>tn_config_version := Some (cp_config_version r), tn_state := st, tn_updated_at_ms := now_ms\<rparr>)
           (db_turns db) in
     res_check (require_one io oper (fst upd)) (\<lambda>_. res_ok (db\<lparr>db_turns := snd upd\<rparr>)))"

definition commit_effect_only :: "io \<Rightarrow> id_source \<Rightarrow> int \<Rightarrow> commit_plan_request \<Rightarrow> outbox_db \<Rightarrow>
    (stored_plan \<times> outbox_db) result" where
  "commit_effect_only io ids now_ms r db =
     res_bind (insert_model_effects_tx io (cp_key r) (cp_invocation_id r) (cp_effects r) now_ms (id_effect ids) db)
       (\<lambda>(refs, db1).
     res_bind (publish_plan io ''publish effect-only plan'' r TurnSucceeded now_ms db1) (\<lambda>db2.
     res_check (statement io ''commit effect-only plan'') (\<lambda>_.
     res_ok (effect_only_plan (cp_invocation_id r) (cp_config_version r) (from_unix_milli now_ms) refs, db2))))"

definition insert_action :: "io \<Rightarrow> dispatch_ref \<Rightarrow> action_row \<Rightarrow> outbox_db \<Rightarrow> outbox_db result" where
  "insert_action io ref a db =
    (let oper = ''insert outbound action'' in
     res_check (statement io oper) (\<lambda>_.
     res_guard (row (db_actions db) ref \<noteq> None \<or> action_of_turn (dr_key ref) (act_invocation_id a) db \<noteq> None)
       (storage_error oper constraint_failed) (\<lambda>_.
     res_ok (db\<lparr>db_actions := put ref a (db_actions db)\<rparr>))))"

text \<open>A message is in a chat's history once, and an invocation has one entry per role.\<close>

definition history_conflicts :: "agent_key \<Rightarrow> string \<Rightarrow> string \<Rightarrow> history_role \<Rightarrow> outbox_db \<Rightarrow> bool" where
  "history_conflicts key message iid role db \<longleftrightarrow> row (db_history db) (key, message) \<noteq> None
     \<or> list_ex (\<lambda>((k, _), h). k = key \<and> hr_invocation_id h = iid \<and> hr_role h = role) (db_history db)"

definition add_history_row :: "agent_key \<Rightarrow> history_entry \<Rightarrow> int \<Rightarrow> outbox_db \<Rightarrow> outbox_db" where
  "add_history_row key e now_ms db = db\<lparr>db_last_sequence := Suc (db_last_sequence db),
     db_history := put (key, ident_value (he_message_id e))
       (history_row_of (Suc (db_last_sequence db)) e now_ms) (db_history db)\<rparr>"

definition insert_reply_history :: "io \<Rightarrow> agent_key \<Rightarrow> history_entry \<Rightarrow> int \<Rightarrow> outbox_db \<Rightarrow> outbox_db result" where
  "insert_reply_history io key e now_ms db =
    (let oper = ''insert pending assistant history'' in
     res_check (statement io oper) (\<lambda>_.
     res_guard (history_conflicts key (ident_value (he_message_id e)) (ident_value (he_invocation_id e))
         (he_role e) db) (storage_error oper constraint_failed) (\<lambda>_.
     res_ok (add_history_row key e now_ms db))))"

definition reply_entry :: "commit_plan_request \<Rightarrow> turn_row \<Rightarrow> string \<Rightarrow> causation_id \<Rightarrow> quote_context option \<Rightarrow>
    int \<Rightarrow> history_entry" where
  "reply_entry r t response cid quote now_ms =
    \<lparr>he_sequence = 0, he_message_id = Ident response, he_invocation_id = cp_invocation_id r,
     he_causation = \<lparr>cref_kind = tn_causation_kind t, cref_id = cid\<rparr>, he_role = HistoryAssistant,
     he_sender = None, he_quote = quote, he_content = [TextPart (cp_response_text r)], he_mentions = [],
     he_delivery = DeliveryPending, he_created_at = from_unix_milli now_ms\<rparr>"

definition reply_row :: "commit_plan_request \<Rightarrow> string \<Rightarrow> int \<Rightarrow> action_row" where
  "reply_row r response now_ms =
    \<lparr>act_invocation_id = ident_value (cp_invocation_id r), act_response_id = response,
     act_reply_to = nullable_message_id (cp_reply_to_message_id r), act_text = cp_response_text r,
     act_state = StatePending, act_attempts = 0, act_receipt = None, act_last_error = None,
     act_created_at_ms = now_ms, act_updated_at_ms = now_ms, act_completed_at_ms = None\<rparr>"

definition reply_plan :: "commit_plan_request \<Rightarrow> string \<Rightarrow> string \<Rightarrow> int \<Rightarrow> effect_dispatch_ref list \<Rightarrow> stored_plan"
  where "reply_plan r response aid now_ms refs =
    \<lparr>sp_invocation_id = cp_invocation_id r, sp_config_version = cp_config_version r,
     sp_response_id = Ident response, sp_reply_to_message_id = cp_reply_to_message_id r,
     sp_action_id = Ident aid, sp_text = cp_response_text r, sp_created_at = from_unix_milli now_ms,
     sp_dispatch = \<lparr>dr_key = cp_key r, dr_action_id = Ident aid\<rparr>, sp_effects = refs\<rparr>"

definition commit_reply :: "(string \<Rightarrow> string option) \<Rightarrow> (rune \<Rightarrow> bool) \<Rightarrow> io \<Rightarrow> id_source \<Rightarrow> int \<Rightarrow>
    commit_plan_request \<Rightarrow> turn_row \<Rightarrow> outbox_db \<Rightarrow> (stored_plan \<times> outbox_db) result" where
  "commit_reply u wide io ids now_ms r t db =
    (let key = cp_key r in
     res_bind (res_lift (map_sum (\<lambda>e. new_error ErrorInternal ''create response ID'' (Some e)) id (id_message ids))) (\<lambda>response.
     res_bind (res_lift (map_sum (\<lambda>e. new_error ErrorInternal ''create action ID'' (Some e)) id (id_action ids))) (\<lambda>aid.
     res_bind (res_lift (map_sum (\<lambda>e. new_error ErrorIntegrityFailure ''decode response causation'' (Some e)) id
       (parse_causation_id u (tn_causation_id t)))) (\<lambda>cid.
     res_bind (if is_zero (cp_reply_to_message_id r) then res_ok None
       else res_bind (resolve_history_quote io key (cp_reply_to_message_id r) db) (\<lambda>q. res_ok (Some q))) (\<lambda>quote.
     let entry = reply_entry r t response cid quote now_ms in
     res_validated (validate_history_entry wide entry) (\<lambda>_.
     res_bind (insert_action io \<lparr>dr_key = key, dr_action_id = Ident aid\<rparr> (reply_row r response now_ms) db) (\<lambda>db1.
     res_bind (insert_reply_history io key entry now_ms db1) (\<lambda>db2.
     res_bind (insert_model_effects_tx io key (cp_invocation_id r) (cp_effects r) now_ms (id_effect ids) db2) (\<lambda>(refs, db3).
     res_bind (publish_plan io ''publish response plan'' r TurnResponsePlanned now_ms db3) (\<lambda>db4.
     res_check (statement io ''commit response plan'') (\<lambda>_.
     res_ok (reply_plan r response aid now_ms refs, db4))))))))))))"

definition commit_error :: "error_code \<Rightarrow> string \<Rightarrow> go_error" where
  "commit_error code msg = errorf code ''commit response plan'' msg"

definition commit_replay :: "(string \<Rightarrow> string option) \<Rightarrow> io \<Rightarrow> commit_plan_request \<Rightarrow> loaded_turn \<Rightarrow> outbox_db \<Rightarrow>
    (stored_plan \<times> outbox_db) result" where
  "commit_replay u io r lt db =
     res_bind (row_plan u (cp_key r) (cp_invocation_id r) lt) (\<lambda>plan.
     res_guard (sp_config_version plan \<noteq> cp_config_version r \<or> sp_text plan \<noteq> cp_response_text r
         \<or> sp_reply_to_message_id plan \<noteq> cp_reply_to_message_id r)
       (commit_error ErrorConflict ''different plan already exists'') (\<lambda>_.
     res_bind (load_model_effect_refs u io (cp_key r) (ident_value (cp_invocation_id r)) db) (\<lambda>refs.
     res_check (statement io ''commit response replay'') (\<lambda>_.
     res_ok (plan\<lparr>sp_effects := refs\<rparr>, db)))))"

definition commit_fresh :: "(string \<Rightarrow> string option) \<Rightarrow> (rune \<Rightarrow> bool) \<Rightarrow> io \<Rightarrow> id_source \<Rightarrow> int \<Rightarrow>
    commit_plan_request \<Rightarrow> turn_row \<Rightarrow> outbox_db \<Rightarrow> (stored_plan \<times> outbox_db) result" where
  "commit_fresh u wide io ids now_ms r t db =
     res_guard (tn_state t \<noteq> TurnGenerating) (commit_error ErrorConflict ''turn is not generating'') (\<lambda>_.
     res_guard (tn_config_version t \<noteq> None \<and> tn_config_version t \<noteq> Some (cp_config_version r))
       (commit_error ErrorConflict ''config version changed'') (\<lambda>_.
     res_bind (res_lift (map_sum (\<lambda>e. new_error ErrorIntegrityFailure ''decode response message ID'' (Some e)) id
       (parse_message_id u (tn_message_id t)))) (\<lambda>current.
     res_guard (\<not> is_zero (cp_current_message_id r) \<and> cp_current_message_id r \<noteq> current)
       (commit_error ErrorConflict ''current message does not match claimed turn'') (\<lambda>_.
     res_check (validate_model_effects (cp_effects r) (cp_capabilities r)) (\<lambda>_.
     if cp_response_text r = [] then commit_effect_only io ids now_ms r db
     else commit_reply u wide io ids now_ms r t db)))))"

definition commit_body :: "(string \<Rightarrow> string option) \<Rightarrow> (rune \<Rightarrow> bool) \<Rightarrow> io \<Rightarrow> id_source \<Rightarrow> instant \<Rightarrow>
    commit_plan_request \<Rightarrow> outbox_db \<Rightarrow> (stored_plan \<times> outbox_db) result" where
  "commit_body u wide io ids now r db =
    (let blank = trim_space (cp_response_text r) = [] in
     res_check (key_validate (cp_key r)) (\<lambda>_.
     res_guard (is_zero (cp_invocation_id r) \<or> cp_config_version r = 0
         \<or> (cp_response_text r \<noteq> [] \<and> blank)
         \<or> (blank \<and> (length (cp_effects r) = 0 \<or> \<not> is_zero (cp_reply_to_message_id r))))
       (commit_error ErrorInvalidArgument ''complete response plan is required'') (\<lambda>_.
     res_check (statement io ''begin response plan'') (\<lambda>_.
     res_check (statement io ''load response plan'') (\<lambda>_.
     case load_turn_row (cp_key r) (ident_value (cp_invocation_id r)) db of
       None \<Rightarrow> res_fail (commit_error ErrorNotFound ''turn does not exist'')
     | Some lt \<Rightarrow>
         if planned lt then commit_replay u io r lt db
         else commit_fresh u wide io ids (unix_milli now) r (fst lt) db)))))"

definition turn_commit_plan :: "(string \<Rightarrow> string option) \<Rightarrow> (rune \<Rightarrow> bool) \<Rightarrow> io \<Rightarrow> id_source \<Rightarrow> instant \<Rightarrow>
    commit_plan_request \<Rightarrow> outbox_db \<Rightarrow> (go_error + stored_plan) outcome \<times> outbox_db" where
  "turn_commit_plan u wide io ids now r db = transact (commit_body u wide io ids now r db) db"

subsection \<open>What the calls change\<close>

lemma transact_cases:
  assumes "transact body db = (r, db')"
  obtains (commit) a where "body = Done (Inr (a, db'))" and "r = Done (Inr a)"
  | (rollback) "db' = db" and "\<And>a. r \<noteq> Done (Inr a)"
  using assms by (auto simp: transact_def split: outcome.splits sum.splits prod.splits)

text \<open>The tables that registering a chat or its senders leaves alone.\<close>

definition main_tables where
  "main_tables db = (db_actions db, db_turns db, db_history db, db_effects db, db_resets db,
     db_mentions db, db_configs db, db_last_sequence db)"

lemma main_tables_upd [simp]:
  "main_tables (db\<lparr>db_chats := c\<rparr>) = main_tables db" "main_tables (db\<lparr>db_participants := p\<rparr>) = main_tables db"
  "main_tables (db\<lparr>db_senders := s\<rparr>) = main_tables db"
  by (simp_all add: main_tables_def)

lemma ensure_scope_main: "ensure_scope io key db = Done (Inr db') \<Longrightarrow> main_tables db' = main_tables db"
  by (auto simp: ensure_scope_def split: if_splits)

lemma update_sender_main:
  "update_sender_display_name io key ref name only db = Done (Inr db') \<Longrightarrow> main_tables db' = main_tables db"
  by (auto simp: update_sender_display_name_def Let_def split: if_splits)

lemma ensure_internal_sender_main:
  "ensure_internal_sender io key sender db = Done (Inr db') \<Longrightarrow> main_tables db' = main_tables db"
  by (auto simp: ensure_internal_sender_def Let_def dest!: update_sender_main
    split: option.splits if_splits)

lemma insert_invocation_ok:
  assumes "insert_invocation io new_id r db = Done (Inr (t, db'))"
  shows "\<exists>mid. t = new_turn_row r mid
    \<and> db_turns db' = put (ct_key r, ident_value (inv_id (ct_invocation r))) t (db_turns db)
    \<and> main_tables (db'\<lparr>db_turns := db_turns db\<rparr>) = main_tables db"
proof -
  obtain mid db1 where "t = new_turn_row r mid"
    and sender: "(case inv_sender (ct_invocation r) of None \<Rightarrow> res_ok db
      | Some s \<Rightarrow> ensure_internal_sender io (ct_key r) s db) = Done (Inr db1)"
    and db': "db' = db1\<lparr>db_turns := put (ct_key r, ident_value (inv_id (ct_invocation r))) t (db_turns db1)\<rparr>"
    using assms by (auto simp: insert_invocation_def Let_def)
  moreover from sender have "main_tables db1 = main_tables db"
    by (auto dest: ensure_internal_sender_main split: option.splits)
  ultimately show ?thesis by (auto simp: main_tables_def)
qed

text \<open>A claim that hands out the turn for generating; a planned turn is handed out with its plan.\<close>

definition grants :: "(go_error + turn_claim) outcome \<Rightarrow> bool" where
  "grants res \<longleftrightarrow> (\<exists>c. res = Done (Inr c) \<and> tc_plan c = None)"

abbreviation claimed_key :: "claim_turn_request \<Rightarrow> agent_key \<times> string" where
  "claimed_key r \<equiv> (ct_key r, ident_value (inv_id (ct_invocation r)))"

definition taken_row :: "claim_turn_request \<Rightarrow> turn_row \<Rightarrow> turn_row" where
  "taken_row r t = t\<lparr>tn_claimed := True, tn_config_version := Some (inv_policy_version (ct_invocation r)),
     tn_state := TurnGenerating, tn_attempts := tn_attempts t + 1, tn_updated_at_ms := unix_milli (ct_now r)\<rparr>"

definition renewed_row :: "claim_turn_request \<Rightarrow> turn_row \<Rightarrow> turn_row" where
  "renewed_row r t = t\<lparr>tn_state := TurnGenerating, tn_attempts := tn_attempts t + 1,
     tn_config_version := Some (inv_policy_version (ct_invocation r)), tn_last_error := None,
     tn_updated_at_ms := unix_milli (ct_now r)\<rparr>"

definition exhausted_row :: "claim_turn_request \<Rightarrow> turn_row \<Rightarrow> turn_row" where
  "exhausted_row r t = t\<lparr>tn_state := TurnFailedTerminal, tn_last_error := Some ErrorProviderFailure,
     tn_updated_at_ms := unix_milli (ct_now r)\<rparr>"

lemma claimed_turn_grants:
  "claimed_turn u oper st message (Some plan) = Inr c \<Longrightarrow> tc_plan c = Some plan"
  "claimed_turn u oper st message None = Inr c \<Longrightarrow> tc_plan c = None \<and> tc_state c = st"
  by (cases "parse_message_id u message"; auto simp: claimed_turn_def)+

text \<open>The ways a claim can end.\<close>

datatype claim_way = ClaimKept | ClaimNew turn_row | ClaimReceived turn_row | ClaimRenewed turn_row
  | ClaimExhausted turn_row

definition claim_way_ok :: "claim_way \<Rightarrow> claim_turn_request \<Rightarrow> outbox_db \<Rightarrow> outbox_db \<Rightarrow> bool" where
  "claim_way_ok way r db db' = (let k = claimed_key r in case way of
     ClaimKept \<Rightarrow> db' = db
   | ClaimNew t \<Rightarrow> row (db_turns db) k = None \<and> (\<exists>mid. t = new_turn_row r mid)
       \<and> db_turns db' = put k t (db_turns db) \<and> main_tables (db'\<lparr>db_turns := db_turns db\<rparr>) = main_tables db
   | ClaimReceived t \<Rightarrow> row (db_turns db) k = Some t \<and> \<not> tn_claimed t
       \<and> db' = db\<lparr>db_turns := put k (taken_row r t) (db_turns db)\<rparr>
   | ClaimRenewed t \<Rightarrow> row (db_turns db) k = Some t \<and> tn_claimed t
       \<and> \<not> planned (t, action_of_turn (fst k) (snd k) db)
       \<and> tn_attempts t < max_generation_attempts \<and> tn_state t \<in> {TurnGenerating, TurnFailedRetryable}
       \<and> db' = db\<lparr>db_turns := put k (renewed_row r t) (db_turns db)\<rparr>
   | ClaimExhausted t \<Rightarrow> row (db_turns db) k = Some t \<and> tn_claimed t
       \<and> \<not> planned (t, action_of_turn (fst k) (snd k) db)
       \<and> tn_attempts t \<ge> max_generation_attempts
       \<and> db' = db\<lparr>db_turns := put k (exhausted_row r t) (db_turns db)\<rparr>)"

lemma pre_plan_error_None: "pre_plan_error st = None \<longleftrightarrow> st \<in> {TurnGenerating, TurnFailedRetryable}"
  by (cases st) (auto simp: pre_plan_error_def)

lemma claim_new_way:
  assumes "claim_new u io nid r db = Done (Inr (c, db'))" and "row (db_turns db) (claimed_key r) = None"
  shows "\<exists>t. claim_way_ok (ClaimNew t) r db db'"
proof -
  obtain db1 t db2 where scope: "main_tables db1 = main_tables db"
    and ins: "insert_invocation io nid r db1 = Done (Inr (t, db2))" and "db' = db2"
    using assms(1) by (auto simp: claim_new_def dest!: ensure_scope_main)
  with insert_invocation_ok[OF ins] assms(2) show ?thesis
    by (auto simp: claim_way_ok_def Let_def main_tables_def)
qed

lemma claim_body_way:
  assumes "claim_body u io nid r db = Done (Inr (c, db'))"
  obtains way where "claim_way_ok way r db db'"
    and "grants (Done c) \<Longrightarrow> way \<noteq> ClaimKept \<and> (\<forall>t. way \<noteq> ClaimExhausted t)"
proof (cases "load_turn_row (ct_key r) (ident_value (inv_id (ct_invocation r))) db")
  case None
  then have fresh: "row (db_turns db) (claimed_key r) = None" by (simp add: load_turn_row_def)
  from assms None have "claim_new u io nid r db = Done (Inr (c, db'))" by (simp add: claim_body_def)
  from claim_new_way[OF this fresh] that show thesis by blast
next
  case (Some lt)
  then obtain t a where lt: "lt = (t, a)" "row (db_turns db) (claimed_key r) = Some t"
    "a = action_of_turn (ct_key r) (ident_value (inv_id (ct_invocation r))) db"
    by (auto simp: load_turn_row_def)
  consider (received) "\<not> tn_claimed t" "claim_received u io r t db = Done (Inr (c, db'))"
    | (planned) "claim_planned u io r (t, a) db = Done (Inr (c, db'))"
    | (exhausted) "tn_claimed t" "\<not> planned (t, a)" "tn_attempts t \<ge> max_generation_attempts"
        "exhaust_attempts io r t db = Done (Inr (c, db'))"
    | (renewed) "tn_claimed t" "\<not> planned (t, a)" "tn_attempts t < max_generation_attempts"
        "tn_state t \<in> {TurnGenerating, TurnFailedRetryable}" "renew_claim u io r t db = Done (Inr (c, db'))"
    using assms Some lt(1) by (auto simp: claim_body_def pre_plan_error_None not_le split: if_splits)
  then show thesis
  proof cases
    case received
    with lt(2) have "claim_way_ok (ClaimReceived t) r db db'"
      by (auto simp: claim_received_def Let_def claim_way_ok_def update_where_def taken_row_def)
    with that show thesis by blast
  next
    case planned
    then have "claim_way_ok ClaimKept r db db'" "\<not> grants (Done c)"
      by (auto simp: claim_planned_def claim_way_ok_def grants_def dest: claimed_turn_grants)
    with that show thesis by blast
  next
    case exhausted
    with lt(2,3) have "claim_way_ok (ClaimExhausted t) r db db'" "\<not> grants (Done c)"
      by (auto simp: exhaust_attempts_def Let_def claim_way_ok_def update_where_def exhausted_row_def
        grants_def)
    with that show thesis by blast
  next
    case renewed
    with lt(2,3) have "claim_way_ok (ClaimRenewed t) r db db'"
      by (auto simp: renew_claim_def Let_def claim_way_ok_def update_where_def renewed_row_def)
    with that show thesis by blast
  qed
qed

text \<open>A plan's effects are appended, pending, in the order of the plan.\<close>

definition planned_effect :: "agent_key \<Rightarrow> string \<Rightarrow> int \<Rightarrow> outbox_db \<Rightarrow> model_effect \<Rightarrow> effect_ref \<times> effect_row \<Rightarrow> bool"
where
  "planned_effect key iid now_ms db e xr \<longleftrightarrow> ref_key (fst xr) = key \<and> er_invocation_id (snd xr) = iid
     \<and> er_model_call_id (snd xr) = Some (me_call_id e) \<and> er_state (snd xr) = StatePending
     \<and> er_created_at_ms (snd xr) = now_ms \<and> row (db_effects db) (fst xr) = None"

abbreviation dispatch_refs :: "(effect_ref \<times> effect_row) list \<Rightarrow> effect_dispatch_ref list" where
  "dispatch_refs rows \<equiv> map (\<lambda>(x, _). \<lparr>edr_key = ref_key x, edr_effect_id = ref_effect_id x\<rparr>) rows"

lemma insert_model_effect_ok:
  assumes "insert_model_effect io key iid pr now_ms new_id e db = Done (Inr (ref, db'))"
  shows "\<exists>xr. db' = db\<lparr>db_effects := db_effects db @ [xr]\<rparr> \<and> [ref] = dispatch_refs [xr]
    \<and> planned_effect key (ident_value iid) now_ms db e xr
    \<and> new_id = Inr (ident_value (ref_effect_id (fst xr)))"
proof -
  obtain eid payload where nid: "new_id = Inr eid" and "ref = \<lparr>edr_key = key, edr_effect_id = Ident eid\<rparr>"
    and absent: "row (db_effects db) \<lparr>ref_key = key, ref_effect_id = Ident eid\<rparr> = None"
    and db': "db' = db\<lparr>db_effects := put \<lparr>ref_key = key, ref_effect_id = Ident eid\<rparr>
      ((new_effect_row \<lparr>pq_ref = \<lparr>ref_key = key, ref_effect_id = Ident eid\<rparr>, pq_invocation_id = iid,
         pq_principal = pr, pq_effect = Some payload\<rparr> (encode_effect pr payload) (from_unix_milli now_ms))
        \<lparr>er_model_call_id := Some (me_call_id e)\<rparr>) (db_effects db)\<rparr>"
    using assms by (cases new_id) (auto simp: insert_model_effect_def Let_def effect_conflicts_def)
  then show ?thesis
    unfolding put_new[OF absent]
    by (intro exI conjI) (auto simp: planned_effect_def new_effect_row_def absent split: prod.split)
qed

lemma insert_effects_from_ok:
  assumes "insert_effects_from io key iid pr now_ms ids n es db = Done (Inr (refs, db'))"
  shows "\<exists>rows. db' = db\<lparr>db_effects := db_effects db @ rows\<rparr> \<and> refs = dispatch_refs rows
    \<and> list_all2 (planned_effect key (ident_value iid) now_ms db) es rows \<and> distinct (map fst rows)
    \<and> map (\<lambda>(x, _). Inr (ident_value (ref_effect_id x))) rows = map ids [n..<n + length es]"
  using assms
proof (induction es arbitrary: n db refs)
  case Nil
  then show ?case by (intro exI[of _ "[]"]) auto
next
  case (Cons e es)
  from Cons.prems obtain ref db1 refs1 where one: "insert_model_effect io key iid pr now_ms (ids n) e db = Done (Inr (ref, db1))"
    and more: "insert_effects_from io key iid pr now_ms ids (Suc n) es db1 = Done (Inr (refs1, db'))"
    and refs: "refs = ref # refs1" by auto
  from insert_model_effect_ok[OF one] obtain xr where xr: "db1 = db\<lparr>db_effects := db_effects db @ [xr]\<rparr>"
    "[ref] = dispatch_refs [xr]" "planned_effect key (ident_value iid) now_ms db e xr"
    "ids n = Inr (ident_value (ref_effect_id (fst xr)))"
    by (elim exE conjE) (rule that)
  from Cons.IH[OF more] obtain rows where rows: "db' = db1\<lparr>db_effects := db_effects db1 @ rows\<rparr>"
    "refs1 = dispatch_refs rows" "list_all2 (planned_effect key (ident_value iid) now_ms db1) es rows"
    "distinct (map fst rows)"
    "map (\<lambda>(x, _). Inr (ident_value (ref_effect_id x))) rows = map ids [Suc n..<Suc n + length es]"
    by (elim exE conjE) (rule that)
  have absent: "row (db_effects db) y = None \<and> y \<noteq> fst xr" if "row (db_effects db1) y = None" for y
    using that xr(1) by (auto simp: map_of_append map_add_None map_add_def split: option.splits if_splits)
  have "list_all2 (planned_effect key (ident_value iid) now_ms db) es rows"
    by (rule list_all2_mono[OF rows(3)]) (use absent in \<open>auto simp: planned_effect_def\<close>)
  moreover have "\<forall>y \<in> set rows. row (db_effects db1) (fst y) = None"
    using rows(3) by (induction rule: list_all2_induct) (simp_all add: planned_effect_def)
  then have "fst xr \<notin> set (map fst rows)" using absent[of "fst xr"] by fastforce
  moreover have "map (\<lambda>(x, _). Inr (ident_value (ref_effect_id x))) (xr # rows) = map ids [n..<n + length (e # es)]"
  proof -
    have "[n..<n + length (e # es)] = n # [Suc n..<Suc n + length es]"
      using upt_conv_Cons[of n "n + length (e # es)"] by (simp del: upt_Suc)
    then show ?thesis using rows(5) xr(4) by (simp add: case_prod_unfold del: upt_Suc)
  qed
  moreover have "db' = db\<lparr>db_effects := db_effects db @ (xr # rows)\<rparr>"
    unfolding rows(1) xr(1) by simp
  moreover have "refs = dispatch_refs (xr # rows)"
    unfolding refs rows(2) using xr(2) by simp
  ultimately show ?case
    using xr(3) rows(4) by (intro exI[of _ "xr # rows"]) simp
qed

abbreviation commit_key :: "commit_plan_request \<Rightarrow> agent_key \<times> string" where
  "commit_key r \<equiv> (cp_key r, ident_value (cp_invocation_id r))"

definition published_row :: "commit_plan_request \<Rightarrow> turn_state \<Rightarrow> int \<Rightarrow> turn_row \<Rightarrow> turn_row" where
  "published_row r st now_ms t =
     t\<lparr>tn_config_version := Some (cp_config_version r), tn_state := st, tn_updated_at_ms := now_ms\<rparr>"

lemma publish_plan_ok:
  assumes "publish_plan io oper r st now_ms db = Done (Inr db')"
  shows "\<exists>t. row (db_turns db) (commit_key r) = Some t
    \<and> db' = db\<lparr>db_turns := put (commit_key r) (published_row r st now_ms t) (db_turns db)\<rparr>"
  using assms by (auto simp: publish_plan_def Let_def update_where_def published_row_def
    split: option.splits if_splits)

definition planned_rows :: "agent_key \<Rightarrow> invocation_id \<Rightarrow> model_effect list \<Rightarrow> (nat \<Rightarrow> go_error + string) \<Rightarrow>
    int \<Rightarrow> outbox_db \<Rightarrow> (effect_ref \<times> effect_row) list \<Rightarrow> bool" where
  "planned_rows key iid es ids now_ms db rows \<longleftrightarrow>
     list_all2 (planned_effect key (ident_value iid) now_ms db) es rows \<and> distinct (map fst rows)
     \<and> map (\<lambda>(x, _). Inr (ident_value (ref_effect_id x))) rows = map ids [0..<length es]"

lemma planned_rows_cong:
  "db_effects db = db_effects db2 \<Longrightarrow> planned_rows key iid es ids now_ms db = planned_rows key iid es ids now_ms db2"
proof -
  assume "db_effects db = db_effects db2"
  then have "planned_effect key iid' now_ms db = planned_effect key iid' now_ms db2" for iid'
    by (simp add: planned_effect_def fun_eq_iff)
  then have same: "planned_effect key (ident_value iid) now_ms db = planned_effect key (ident_value iid) now_ms db2" .
  show ?thesis unfolding planned_rows_def same ..
qed

lemma insert_effects_tx_ok:
  assumes "insert_model_effects_tx io key iid es now_ms ids db = Done (Inr (refs, db'))"
  obtains rows where "db' = db\<lparr>db_effects := db_effects db @ rows\<rparr>" and "refs = dispatch_refs rows"
    and "planned_rows key iid es ids now_ms db rows"
proof (cases "es = []")
  case True
  with assms that[of "[]"] show thesis by (auto simp: insert_model_effects_tx_def planned_rows_def)
next
  case False
  with assms obtain pr where "insert_effects_from io key iid pr now_ms ids 0 es db = Done (Inr (refs, db'))"
    by (auto simp: insert_model_effects_tx_def)
  from insert_effects_from_ok[OF this] that show thesis unfolding planned_rows_def by auto
qed

text \<open>What a commit that planned a turn leaves: how the tables and the plan come about.\<close>

record commit_trace =
  cx_turn :: turn_row
  cx_rows :: "(effect_ref \<times> effect_row) list"
  cx_response :: string
  cx_action :: string
  cx_entry :: history_entry

definition unplanned_turn :: "commit_plan_request \<Rightarrow> outbox_db \<Rightarrow> turn_row \<Rightarrow> bool" where
  "unplanned_turn r db t \<longleftrightarrow> row (db_turns db) (commit_key r) = Some t \<and> tn_state t = TurnGenerating
     \<and> action_of_turn (cp_key r) (ident_value (cp_invocation_id r)) db = None"

definition effect_only_commit :: "commit_plan_request \<Rightarrow> id_source \<Rightarrow> int \<Rightarrow> commit_trace \<Rightarrow> outbox_db \<Rightarrow>
    outbox_db \<Rightarrow> stored_plan \<Rightarrow> bool" where
  "effect_only_commit r ids now_ms x db db' plan \<longleftrightarrow> unplanned_turn r db (cx_turn x)
     \<and> cp_response_text r = [] \<and> planned_rows (cp_key r) (cp_invocation_id r) (cp_effects r) (id_effect ids) now_ms db (cx_rows x)
     \<and> db' = db\<lparr>db_effects := db_effects db @ cx_rows x,
         db_turns := put (commit_key r) (published_row r TurnSucceeded now_ms (cx_turn x)) (db_turns db)\<rparr>
     \<and> plan = effect_only_plan (cp_invocation_id r) (cp_config_version r) (from_unix_milli now_ms)
         (dispatch_refs (cx_rows x))"

definition reply_commit :: "commit_plan_request \<Rightarrow> id_source \<Rightarrow> int \<Rightarrow> commit_trace \<Rightarrow> outbox_db \<Rightarrow>
    outbox_db \<Rightarrow> stored_plan \<Rightarrow> bool" where
  "reply_commit r ids now_ms x db db' plan \<longleftrightarrow> unplanned_turn r db (cx_turn x)
     \<and> cp_response_text r \<noteq> [] \<and> planned_rows (cp_key r) (cp_invocation_id r) (cp_effects r) (id_effect ids) now_ms db (cx_rows x)
     \<and> id_message ids = Inr (cx_response x) \<and> id_action ids = Inr (cx_action x)
     \<and> row (db_actions db) \<lparr>dr_key = cp_key r, dr_action_id = Ident (cx_action x)\<rparr> = None
     \<and> he_message_id (cx_entry x) = Ident (cx_response x) \<and> he_role (cx_entry x) = HistoryAssistant
     \<and> he_invocation_id (cx_entry x) = cp_invocation_id r \<and> he_delivery (cx_entry x) = DeliveryPending
     \<and> he_content (cx_entry x) = [TextPart (cp_response_text r)]
     \<and> row (db_history db) (cp_key r, cx_response x) = None
     \<and> db' = (add_history_row (cp_key r) (cx_entry x) now_ms db)
         \<lparr>db_actions := put \<lparr>dr_key = cp_key r, dr_action_id = Ident (cx_action x)\<rparr>
            (reply_row r (cx_response x) now_ms) (db_actions db),
          db_effects := db_effects db @ cx_rows x,
          db_turns := put (commit_key r) (published_row r TurnResponsePlanned now_ms (cx_turn x)) (db_turns db)\<rparr>
     \<and> plan = reply_plan r (cx_response x) (cx_action x) now_ms (dispatch_refs (cx_rows x))"

lemma commit_effect_only_ok:
  assumes "commit_effect_only io ids now_ms r db = Done (Inr (plan, db'))" and "unplanned_turn r db t"
    and "cp_response_text r = []"
  shows "\<exists>x. effect_only_commit r ids now_ms x db db' plan"
proof -
  obtain refs db1 where ins: "insert_model_effects_tx io (cp_key r) (cp_invocation_id r) (cp_effects r) now_ms
        (id_effect ids) db = Done (Inr (refs, db1))"
    and pub: "publish_plan io ''publish effect-only plan'' r TurnSucceeded now_ms db1 = Done (Inr db')"
    and plan: "plan = effect_only_plan (cp_invocation_id r) (cp_config_version r) (from_unix_milli now_ms) refs"
    using assms(1) by (auto simp: commit_effect_only_def)
  from insert_effects_tx_ok[OF ins] obtain rows where rows: "db1 = db\<lparr>db_effects := db_effects db @ rows\<rparr>"
    "refs = dispatch_refs rows"
    "planned_rows (cp_key r) (cp_invocation_id r) (cp_effects r) (id_effect ids) now_ms db rows" .
  from publish_plan_ok[OF pub] rows(1) assms(2)
  have "db' = db\<lparr>db_effects := db_effects db @ rows,
      db_turns := put (commit_key r) (published_row r TurnSucceeded now_ms t) (db_turns db)\<rparr>"
    by (auto simp: unplanned_turn_def)
  with rows plan assms(2,3) show ?thesis
    by (intro exI[of _ "\<lparr>cx_turn = t, cx_rows = rows, cx_response = [], cx_action = [],
      cx_entry = undefined\<rparr>"]) (simp add: effect_only_commit_def)
qed

lemma commit_reply_ok:
  assumes "commit_reply u wide io ids now_ms r t db = Done (Inr (plan, db'))" and "unplanned_turn r db t"
    and "cp_response_text r \<noteq> []"
  shows "\<exists>x. reply_commit r ids now_ms x db db' plan"
proof -
  let ?key = "cp_key r"
  obtain response aid cid quote db1 db2 refs db3 where mid: "id_message ids = Inr response" "id_action ids = Inr aid"
    and act: "insert_action io \<lparr>dr_key = ?key, dr_action_id = Ident aid\<rparr> (reply_row r response now_ms) db = Done (Inr db1)"
    and hist: "insert_reply_history io ?key (reply_entry r t response cid quote now_ms) now_ms db1 = Done (Inr db2)"
    and ins: "insert_model_effects_tx io ?key (cp_invocation_id r) (cp_effects r) now_ms (id_effect ids) db2
        = Done (Inr (refs, db3))"
    and pub: "publish_plan io ''publish response plan'' r TurnResponsePlanned now_ms db3 = Done (Inr db')"
    and plan: "plan = reply_plan r response aid now_ms refs"
    using assms(1) by (cases "id_message ids"; cases "id_action ids") (auto simp: commit_reply_def Let_def)
  let ?ref = "\<lparr>dr_key = ?key, dr_action_id = Ident aid\<rparr>" and ?entry = "reply_entry r t response cid quote now_ms"
  have db1: "db1 = db\<lparr>db_actions := put ?ref (reply_row r response now_ms) (db_actions db)\<rparr>"
    "row (db_actions db) ?ref = None"
    using act by (auto simp: insert_action_def Let_def)
  have db2: "db2 = add_history_row ?key ?entry now_ms db1" "row (db_history db1) (?key, response) = None"
    using hist by (auto simp: insert_reply_history_def Let_def history_conflicts_def reply_entry_def)
  from insert_effects_tx_ok[OF ins] obtain rows where rows: "db3 = db2\<lparr>db_effects := db_effects db2 @ rows\<rparr>"
    "refs = dispatch_refs rows" "planned_rows ?key (cp_invocation_id r) (cp_effects r) (id_effect ids) now_ms db2 rows" .
  have same: "db_effects db2 = db_effects db" "db_turns db2 = db_turns db"
    by (simp_all add: db1 db2 add_history_row_def)
  obtain t' where t': "row (db_turns db3) (commit_key r) = Some t'"
    "db' = db3\<lparr>db_turns := put (commit_key r) (published_row r TurnResponsePlanned now_ms t') (db_turns db3)\<rparr>"
    using publish_plan_ok[OF pub] by blast
  with rows(1) same(2) assms(2) have "t' = t" by (simp add: unplanned_turn_def)
  with t'(2) have db': "db' = (add_history_row ?key ?entry now_ms db)
         \<lparr>db_actions := put ?ref (reply_row r response now_ms) (db_actions db),
          db_effects := db_effects db @ rows,
          db_turns := put (commit_key r) (published_row r TurnResponsePlanned now_ms t) (db_turns db)\<rparr>"
    by (simp add: rows(1) db2(1) db1(1) add_history_row_def)
  have "row (db_history db) (?key, response) = None" using db2(2) by (simp add: db1)
  with mid db1(2) rows(2,3) planned_rows_cong[OF same(1)] assms(2,3) plan db' show ?thesis
    by (intro exI[of _ "\<lparr>cx_turn = t, cx_rows = rows, cx_response = response, cx_action = aid,
      cx_entry = ?entry\<rparr>"]) (simp add: reply_commit_def, simp add: reply_entry_def)
qed

text \<open>Every plan a commit returns is the one stored before, or a new one.\<close>

lemma commit_body_cases:
  assumes "commit_body u wide io ids now r db = Done (Inr (plan, db'))"
  obtains (replay) lt where "load_turn_row (cp_key r) (ident_value (cp_invocation_id r)) db = Some lt"
      and "planned lt" and "commit_replay u io r lt db = Done (Inr (plan, db'))" and "db' = db"
  | (effect_only) x where "effect_only_commit r ids (unix_milli now) x db db' plan"
  | (reply) x where "reply_commit r ids (unix_milli now) x db db' plan"
proof -
  from assms obtain lt where lt: "load_turn_row (cp_key r) (ident_value (cp_invocation_id r)) db = Some lt"
    by (auto simp: commit_body_def Let_def split: option.splits)
  show thesis
  proof (cases "planned lt")
    case True
    with assms lt have "commit_replay u io r lt db = Done (Inr (plan, db'))"
      by (simp add: commit_body_def Let_def)
    moreover from this have "db' = db" by (auto simp: commit_replay_def)
    ultimately show thesis using replay lt True by blast
  next
    case False
    with assms lt have fresh: "commit_fresh u wide io ids (unix_milli now) r (fst lt) db = Done (Inr (plan, db'))"
      by (simp add: commit_body_def Let_def)
    then have "tn_state (fst lt) = TurnGenerating" by (simp add: commit_fresh_def)
    moreover have "action_of_turn (cp_key r) (ident_value (cp_invocation_id r)) db = None"
      using False lt by (cases "action_of_turn (cp_key r) (ident_value (cp_invocation_id r)) db")
        (auto simp: load_turn_row_def planned_def)
    ultimately have un: "unplanned_turn r db (fst lt)"
      using lt by (auto simp: unplanned_turn_def load_turn_row_def)
    show thesis
    proof (cases "cp_response_text r = []")
      case True
      with fresh have "commit_effect_only io ids (unix_milli now) r db = Done (Inr (plan, db'))"
        by (auto simp: commit_fresh_def)
      from commit_effect_only_ok[OF this un True] effect_only show thesis by blast
    next
      case False
      with fresh have "commit_reply u wide io ids (unix_milli now) r (fst lt) db = Done (Inr (plan, db'))"
        by (auto simp: commit_fresh_def)
      from commit_reply_ok[OF this un False] reply show thesis by blast
    qed
  qed
qed

end
