(* ===== verification/HistoryStore.thy ===== *)
theory HistoryStore
  imports TurnStore
begin

text \<open>
  The transcript store in SQLite (\<open>internal/adapters/sqlite/history.go\<close>): listing a page, appending an
  entry, resetting the transcript and trimming it, each one transaction over the tables; the rows
  themselves are in HistoryRows. Sequence numbers are the engine's: they count up over all chats.
\<close>

subsection \<open>Listing\<close>

text \<open>The rows of a chat in the order of their sequence numbers.\<close>

definition chat_history :: "agent_key \<Rightarrow> outbox_db \<Rightarrow> (string \<times> history_row) list" where
  "chat_history key db = sort_key (\<lambda>(_, h). hr_sequence h)
     (map (\<lambda>((_, mid), h). (mid, h)) (filter (\<lambda>((k, _), _). k = key) (db_history db)))"

definition opens_turn :: "history_row \<Rightarrow> bool" where
  "opens_turn h \<longleftrightarrow> hr_role h \<in> {HistoryUser, HistorySystem}"

definition history_through :: "io \<Rightarrow> agent_key \<Rightarrow> invocation_id \<Rightarrow> nat \<Rightarrow> outbox_db \<Rightarrow> nat result" where
  "history_through io key iid cutoff db =
    (if is_zero iid then res_ok 0
     else res_check (statement io ''bound history context'') (\<lambda>_.
       case find (\<lambda>(_, h). hr_invocation_id h = ident_value iid \<and> opens_turn h \<and> hr_sequence h > cutoff)
           (chat_history key db) of
         None \<Rightarrow> res_fail (errorf ErrorIntegrityFailure ''bound history context''
           ''current invocation history is missing or reset'')
       | Some (_, h) \<Rightarrow> res_ok (hr_sequence h)))"

text \<open>
  The newest rows under a bound, one more than the limit. With both bounds the statement has one
  placeholder too few: the cursor is bound to the second condition and the boundary to the limit,
  and the driver may refuse the argument left over.
\<close>

definition page_rows :: "agent_key \<Rightarrow> nat \<Rightarrow> int \<Rightarrow> nat \<Rightarrow> nat \<Rightarrow> outbox_db \<Rightarrow> (string \<times> history_row) list" where
  "page_rows key cutoff before through limit db =
    (let visible = rev (filter (\<lambda>(_, h). hr_sequence h > cutoff) (chat_history key db)) in
     if through = 0
     then take (limit + 1) (filter (\<lambda>(_, h). before > 0 \<longrightarrow> int (hr_sequence h) < before) visible)
     else if before \<le> 0
     then take (limit + 1) (filter (\<lambda>(_, h). hr_sequence h \<le> through) visible)
     else take through (filter (\<lambda>(_, h). int (hr_sequence h) \<le> before) visible))"

definition late_reply :: "agent_key \<Rightarrow> nat \<Rightarrow> nat \<Rightarrow> string \<Rightarrow> outbox_db \<Rightarrow> history_row \<Rightarrow> bool" where
  "late_reply key cutoff through iid db h \<longleftrightarrow> hr_sequence h > through \<and> hr_role h = HistoryAssistant
     \<and> hr_invocation_id h \<noteq> iid
     \<and> list_ex (\<lambda>(_, x). hr_invocation_id x = hr_invocation_id h \<and> opens_turn x
         \<and> hr_sequence x > cutoff \<and> hr_sequence x \<le> through) (chat_history key db)"

definition late_rows :: "agent_key \<Rightarrow> nat \<Rightarrow> nat \<Rightarrow> string \<Rightarrow> nat \<Rightarrow> outbox_db \<Rightarrow> (string \<times> history_row) list" where
  "late_rows key cutoff through iid limit db =
     take limit (filter (\<lambda>(_, h). late_reply key cutoff through iid db h) (chat_history key db))"

fun scan_rows :: "(string \<Rightarrow> string option) \<Rightarrow> io \<Rightarrow> (string \<times> history_row) list \<Rightarrow>
    (nat \<times> history_entry) list result" where
  "scan_rows u io [] = res_ok []"
| "scan_rows u io ((mid, h) # rows) =
     res_check (statement io ''scan history entry'') (\<lambda>_.
     res_bind (scan_history_entry u mid h) (\<lambda>e.
     res_bind (scan_rows u io rows) (\<lambda>es. res_ok ((hr_sequence h, e) # es))))"

definition query_history_entries :: "(string \<Rightarrow> string option) \<Rightarrow> io \<Rightarrow> (string \<times> history_row) list \<Rightarrow>
    (nat \<times> history_entry) list result" where
  "query_history_entries u io rows =
     res_check (statement io ''query history'') (\<lambda>_.
     res_bind (scan_rows u io rows) (\<lambda>loaded.
     res_check (statement io ''iterate history'') (\<lambda>_.
     res_check (statement io ''close history rows'') (\<lambda>_. res_ok loaded))))"

text \<open>The bindings of an entry's mentions, and the check of what was read.\<close>

definition hydrate_entry :: "(rune \<Rightarrow> bool) \<Rightarrow> message_mentions \<Rightarrow> history_entry \<Rightarrow> history_entry result" where
  "hydrate_entry wide bindings e = (case hydrate_history_mentions wide e bindings of
     Panic \<Rightarrow> Panic
   | Done e' \<Rightarrow> res_validated (map_error decode_entry_error (validate_history_entry wide e')) (\<lambda>_. res_ok e'))"

fun hydrate_all :: "(rune \<Rightarrow> bool) \<Rightarrow> message_mentions \<Rightarrow> history_entry list \<Rightarrow> history_entry list result" where
  "hydrate_all wide bindings [] = res_ok []"
| "hydrate_all wide bindings (e # es) = res_bind (hydrate_entry wide bindings e) (\<lambda>e'.
     res_bind (hydrate_all wide bindings es) (\<lambda>es'. res_ok (e' # es')))"

text \<open>\<open>placeLateReplies\<close>: the index of an invocation's newest entry, and a reply put after it.\<close>

fun newest_entry_of :: "invocation_id \<Rightarrow> nat \<Rightarrow> history_entry list \<Rightarrow> nat option \<Rightarrow> nat option" where
  "newest_entry_of iid index [] at = at"
| "newest_entry_of iid index (e # es) at =
     newest_entry_of iid (Suc index) es (if he_invocation_id e = iid then Some index else at)"

fun place_late_replies :: "history_entry list \<Rightarrow> history_entry list \<Rightarrow> history_entry list" where
  "place_late_replies entries [] = entries"
| "place_late_replies entries (reply # late) = place_late_replies
     (case newest_entry_of (he_invocation_id reply) 0 entries None of
        None \<Rightarrow> entries
      | Some at \<Rightarrow> take (at + 1) entries @ [reply] @ drop (at + 1) entries) late"

definition page_of :: "nat \<Rightarrow> (nat \<times> history_entry) list \<Rightarrow> history_entry list \<Rightarrow> history_entry list \<Rightarrow>
    history_page" where
  "page_of limit loaded entries late =
    (let more = length loaded > limit; kept = take limit loaded in
     \<lparr>hp_entries = place_late_replies (rev (take limit entries)) late,
      hp_next = (if more \<and> kept \<noteq> [] then Some (encode_history_cursor (fst (last kept))) else None)\<rparr>)"

definition store_list :: "(string \<Rightarrow> string option) \<Rightarrow> (rune \<Rightarrow> bool) \<Rightarrow> io \<Rightarrow> agent_key \<Rightarrow> nat \<Rightarrow> history_query \<Rightarrow>
    bool \<Rightarrow> outbox_db \<Rightarrow> history_page result" where
  "store_list u wide io key version query guarded db =
    (let limit = hq_limit query; iid = hq_through_invocation_id query; cutoff = reset_cutoff key db in
     res_check (key_validate key) (\<lambda>_.
     res_guard ((guarded \<and> version = 0) \<or> (\<not> guarded \<and> version \<noteq> 0) \<or> limit = 0 \<or> limit > max_history_page_size)
       (errorf ErrorInvalidArgument ''list history'' ''valid history query and config guard are required'') (\<lambda>_.
     res_bind (decode_history_cursor (hq_before query)) (\<lambda>before.
     res_check (statement io ''begin history list'') (\<lambda>_.
     res_check (if guarded then require_config_version io key version db else None) (\<lambda>_.
     res_check (statement io ''load history reset'') (\<lambda>_.
     res_bind (history_through io key iid cutoff db) (\<lambda>through.
     res_check (if before > 0 \<and> through > 0 then statement io ''bind history arguments'' else None) (\<lambda>_.
     res_bind (query_history_entries u io (page_rows key cutoff before through limit db)) (\<lambda>loaded.
     res_bind (if through > 0
       then query_history_entries u io (late_rows key cutoff through (ident_value iid) limit db)
       else res_ok []) (\<lambda>late.
     res_bind (load_message_mentions io key
       (concat (map (\<lambda>x. history_mention_message_ids (snd x)) (loaded @ late))) db) (\<lambda>bindings.
     res_bind (hydrate_all wide bindings (map snd loaded)) (\<lambda>entries.
     res_bind (hydrate_all wide bindings (map snd late)) (\<lambda>replies.
     res_check (statement io ''commit history list'') (\<lambda>_.
     res_ok (page_of limit loaded entries replies))))))))))))))))"

definition list_if_config_version where
  "list_if_config_version u wide io key version query db = store_list u wide io key version query True db"

definition list_for_transcript where
  "list_for_transcript u wide io key query db = store_list u wide io key 0 query False db"

subsection \<open>Appending\<close>

definition append_conflict :: "string \<Rightarrow> go_error" where
  "append_conflict msg = errorf ErrorConflict ''append history'' msg"

definition quote_mentions :: "history_entry \<Rightarrow> mention_context list" where
  "quote_mentions e = (case he_quote e of None \<Rightarrow> [] | Some q \<Rightarrow> qc_mentions q)"

definition insert_or_same :: "io \<Rightarrow> agent_key \<Rightarrow> history_entry \<Rightarrow> int \<Rightarrow> outbox_db \<Rightarrow> outbox_db result" where
  "insert_or_same io key e now_ms db =
    (let mid = ident_value (he_message_id e); iid = ident_value (he_invocation_id e) in
     res_check (statement io ''append history'') (\<lambda>_.
     res_check (statement io ''inspect history append'') (\<lambda>_.
     if \<not> history_conflicts key mid iid (he_role e) db then res_ok (add_history_row key e now_ms db)
     else res_check (statement io ''inspect history replay'') (\<lambda>_.
       case row (db_history db) (key, mid) of
         Some h \<Rightarrow> res_guard (hr_invocation_id h \<noteq> iid \<or> hr_role h \<noteq> he_role e)
           (append_conflict ''history identity collision'') (\<lambda>_. res_ok db)
       | None \<Rightarrow> res_fail (append_conflict ''history identity collision'')))))"

definition append_history_entry_tx :: "(rune \<Rightarrow> bool) \<Rightarrow> io \<Rightarrow> agent_key \<Rightarrow> history_entry \<Rightarrow> int \<Rightarrow> outbox_db \<Rightarrow>
    outbox_db result" where
  "append_history_entry_tx wide io key e now_ms db =
     res_bind (load_message_mentions io key (history_mention_message_ids e) db) (\<lambda>bindings.
     case mentions_for_history_entry wide e bindings of
       Panic \<Rightarrow> Panic
     | Done (content, quoted) \<Rightarrow>
         res_guard (he_mentions e \<noteq> [] \<and> \<not> same_mention_identities (he_mentions e) content)
           (append_conflict ''message mention bindings conflict with durable inbound metadata'') (\<lambda>_.
         res_guard (quote_mentions e \<noteq> [] \<and> \<not> same_mention_identities (quote_mentions e) quoted)
           (append_conflict ''quoted mention bindings conflict with durable inbound metadata'') (\<lambda>_.
         res_bind (case he_sender e of None \<Rightarrow> res_ok db | Some s \<Rightarrow> ensure_internal_sender io key s db) (\<lambda>db1.
         insert_or_same io key (with_mentions e (content, quoted)) now_ms db1))))"

text \<open>An entry of an inbound turn is refused when the transcript was reset since it was received.\<close>

definition before_reset :: "agent_key \<Rightarrow> string \<Rightarrow> outbox_db \<Rightarrow> bool" where
  "before_reset key iid db \<longleftrightarrow> (case (row (db_resets db) key, row (db_turns db) (key, iid)) of
     (Some r, Some t) \<Rightarrow> tn_received_at_ms t \<le> rt_reset_at_ms r | _ \<Rightarrow> False)"

definition store_append :: "(rune \<Rightarrow> bool) \<Rightarrow> io \<Rightarrow> instant \<Rightarrow> agent_key \<Rightarrow> history_entry \<Rightarrow> outbox_db \<Rightarrow>
    (go_error + unit) outcome \<times> outbox_db" where
  "store_append wide io now key e db = transact (
     res_check (key_validate key) (\<lambda>_.
     res_validated (validate_history_entry wide e) (\<lambda>_.
     res_check (statement io ''begin history append'') (\<lambda>_.
     res_bind (ensure_scope io key db) (\<lambda>db1.
     res_check (statement io ''guard history append against reset'') (\<lambda>_.
     res_guard (before_reset key (ident_value (he_invocation_id e)) db1)
       (append_conflict ''inbound turn predates the latest history reset'') (\<lambda>_.
     res_bind (append_history_entry_tx wide io key e (unix_milli now) db1) (\<lambda>db2.
     res_check (statement io ''commit history append'') (\<lambda>_. res_ok ((), db2)))))))))) db"

subsection \<open>Resetting\<close>

definition last_sequence_of :: "agent_key \<Rightarrow> outbox_db \<Rightarrow> nat" where
  "last_sequence_of key db = Max (insert 0 (set (map (\<lambda>(_, h). hr_sequence h) (chat_history key db))))"

definition merge_reset :: "reset_row \<Rightarrow> reset_row option \<Rightarrow> reset_row" where
  "merge_reset new old = (case old of
     None \<Rightarrow> new
   | Some r \<Rightarrow> \<lparr>rt_cutoff = max (rt_cutoff r) (rt_cutoff new), rt_config_version = rt_config_version new,
       rt_reset_at_ms = max (rt_reset_at_ms r) (rt_reset_at_ms new)\<rparr>)"

text \<open>Turns received before the reset, without a reply, are taken back; \<open>255\<close> is \<open>uint8(-1)\<close>.\<close>

definition cancelled_by_reset :: "agent_key \<Rightarrow> int \<Rightarrow> outbox_db \<Rightarrow> (agent_key \<times> string) \<times> turn_row \<Rightarrow> bool" where
  "cancelled_by_reset key reset_at db = (\<lambda>((k, iid), t). k = key \<and> action_of_turn key iid db = None
     \<and> tn_received_at_ms t \<le> reset_at \<and> tn_state t \<in> {TurnGenerating, TurnFailedRetryable})"

definition cancel_turns :: "agent_key \<Rightarrow> int \<Rightarrow> int \<Rightarrow> outbox_db \<Rightarrow> outbox_db" where
  "cancel_turns key reset_at now_ms db = db\<lparr>db_turns := map (\<lambda>(k, t).
     (k, if cancelled_by_reset key reset_at db (k, t)
         then t\<lparr>tn_state := ignored_state, tn_ignored_reason := Some ''history_reset'', tn_updated_at_ms := now_ms\<rparr>
         else t)) (db_turns db)\<rparr>"

definition store_reset :: "io \<Rightarrow> agent_key \<Rightarrow> nat \<Rightarrow> instant \<Rightarrow> outbox_db \<Rightarrow> (go_error + unit) outcome \<times> outbox_db"
where
  "store_reset io key version reset_at db = transact (
    let new = \<lparr>rt_cutoff = last_sequence_of key db, rt_config_version = version,
          rt_reset_at_ms = unix_milli reset_at\<rparr>;
        merged = merge_reset new (row (db_resets db) key) in
     res_check (key_validate key) (\<lambda>_.
     res_guard (version = 0 \<or> reset_at = 0)
       (errorf ErrorInvalidArgument ''reset history'' ''config version and reset time are required'') (\<lambda>_.
     res_check (statement io ''begin history reset'') (\<lambda>_.
     res_check (require_config_version io key version db) (\<lambda>_.
     res_check (statement io ''find history reset cutoff'') (\<lambda>_.
     res_check (statement io ''write history reset tombstone'') (\<lambda>_.
     res_check (statement io ''cancel pre-reset inbound turns'') (\<lambda>_.
     res_check (statement io ''commit history reset'') (\<lambda>_.
     res_ok ((), cancel_turns key (rt_reset_at_ms merged) (unix_milli reset_at)
       (db\<lparr>db_resets := put key merged (db_resets db)\<rparr>))))))))))) db"

subsection \<open>Trimming\<close>

definition delete_history :: "agent_key \<Rightarrow> (history_row \<Rightarrow> bool) \<Rightarrow> outbox_db \<Rightarrow> nat \<times> outbox_db" where
  "delete_history key p db =
    (let hit = (\<lambda>((k, _), h). k = key \<and> p h) in
     (length (filter hit (db_history db)),
      db\<lparr>db_history := filter (\<lambda>x. \<not> hit x) (db_history db)\<rparr>))"

text \<open>The sequence of the \<open>k\<close>th newest visible row, \<open>0\<close> when there are fewer.\<close>

definition keep_from :: "agent_key \<Rightarrow> nat \<Rightarrow> nat \<Rightarrow> outbox_db \<Rightarrow> nat" where
  "keep_from key cutoff k db =
    (let visible = rev (filter (\<lambda>(_, h). hr_sequence h > cutoff) (chat_history key db)) in
     if k \<le> length visible then hr_sequence (snd (visible ! (k - 1))) else 0)"

definition expired :: "nat \<Rightarrow> nat \<Rightarrow> retention_policy \<Rightarrow> instant \<Rightarrow> history_row \<Rightarrow> bool" where
  "expired cutoff from policy now h \<longleftrightarrow> hr_sequence h > cutoff \<and> hr_delivery h \<noteq> DeliveryPending
     \<and> (rp_keep_latest policy > 0 \<longrightarrow> from > 0 \<and> hr_sequence h < from)
     \<and> (rp_max_age policy > 0 \<longrightarrow> hr_created_at_ms h < unix_milli (now - rp_max_age policy))"

definition store_trim :: "io \<Rightarrow> instant \<Rightarrow> agent_key \<Rightarrow> retention_policy \<Rightarrow> outbox_db \<Rightarrow>
    (go_error + nat) outcome \<times> outbox_db" where
  "store_trim io now key policy db = transact (
    let cutoff = reset_cutoff key db;
        (hidden, db1) = delete_history key (\<lambda>h. hr_sequence h \<le> cutoff \<and> hr_delivery h \<noteq> DeliveryPending) db;
        from = keep_from key cutoff (rp_keep_latest policy) db1;
        (old, db2) = delete_history key (expired cutoff from policy now) db1 in
     res_check (key_validate key) (\<lambda>_.
     res_guard ((rp_keep_latest policy = 0 \<and> rp_max_age policy \<le> 0) \<or> rp_keep_latest policy > 1000000
         \<or> rp_max_age policy < 0) (errorf ErrorInvalidArgument ''trim history'' ''retention bounds are invalid'') (\<lambda>_.
     res_check (statement io ''begin history trim'') (\<lambda>_.
     res_check (statement io ''load history trim cutoff'') (\<lambda>_.
     res_check (statement io ''trim reset history'') (\<lambda>_.
     res_check (if rp_keep_latest policy > 0 then statement io ''find retained history window'' else None) (\<lambda>_.
     res_check (statement io ''trim visible history'') (\<lambda>_.
     res_check (statement io ''commit history trim'') (\<lambda>_.
     res_ok ((if io ''count reset history'' = None then hidden else 0)
       + (if io ''count visible history'' = None then old else 0), db2)))))))))) db"

subsection \<open>What the calls change\<close>

lemma main_tables_turns: "main_tables db1 = main_tables db \<Longrightarrow> db_turns db1 = db_turns db
    \<and> db_actions db1 = db_actions db \<and> db_effects db1 = db_effects db \<and> db_history db1 = db_history db
    \<and> db_resets db1 = db_resets db \<and> db_last_sequence db1 = db_last_sequence db \<and> db_mentions db1 = db_mentions db"
  by (simp add: main_tables_def)

lemma insert_or_same_ok:
  assumes "insert_or_same io key e now_ms db = Done (Inr db')"
  shows "history_conflicts key (ident_value (he_message_id e)) (ident_value (he_invocation_id e)) (he_role e) db
      \<and> db' = db \<and> (\<exists>h. row (db_history db) (key, ident_value (he_message_id e)) = Some h
        \<and> hr_invocation_id h = ident_value (he_invocation_id e) \<and> hr_role h = he_role e)
    \<or> \<not> history_conflicts key (ident_value (he_message_id e)) (ident_value (he_invocation_id e)) (he_role e) db
      \<and> db' = add_history_row key e now_ms db"
  using assms by (auto simp: insert_or_same_def Let_def split: if_splits option.splits)

lemma append_tx_ok:
  assumes "append_history_entry_tx wide io key e now_ms db = Done (Inr db')"
  shows "\<exists>db1 cq. main_tables db1 = main_tables db
    \<and> insert_or_same io key (with_mentions e cq) now_ms db1 = Done (Inr db')"
proof -
  obtain db1 cq where sender: "(case he_sender e of None \<Rightarrow> res_ok db
        | Some s \<Rightarrow> ensure_internal_sender io key s db) = Done (Inr db1)"
    and ins: "insert_or_same io key (with_mentions e cq) now_ms db1 = Done (Inr db')"
  proof -
    from assms obtain bindings where b: "load_message_mentions io key (history_mention_message_ids e) db = Done (Inr bindings)"
      by (auto simp: append_history_entry_tx_def)
    with assms that show thesis
      by (cases "mentions_for_history_entry wide e bindings") (auto simp: append_history_entry_tx_def)
  qed
  from sender have "main_tables db1 = main_tables db"
    by (auto dest: ensure_internal_sender_main split: option.splits)
  with ins show ?thesis by blast
qed

lemma with_mentions_same [simp]:
  "he_message_id (with_mentions e cq) = he_message_id e" "he_invocation_id (with_mentions e cq) = he_invocation_id e"
  "he_role (with_mentions e cq) = he_role e" "he_content (with_mentions e cq) = he_content e"
  "he_delivery (with_mentions e cq) = he_delivery e"
  by (simp_all add: with_mentions_def)

lemma store_append_cases:
  assumes "store_append wide io now key e db = (r, db')"
  obtains (refused) "db' = db" and "r \<noteq> Done (Inr ())"
  | (stored) db1 cq where "r = Done (Inr ())" and "main_tables db1 = main_tables db"
      and "insert_or_same io key (with_mentions e cq) (unix_milli now) db1 = Done (Inr db')"
proof -
  from assms show thesis
    unfolding store_append_def
  proof (cases rule: transact_cases)
    case (commit a)
    then obtain db1 where scope: "ensure_scope io key db = Done (Inr db1)"
      and tx: "append_history_entry_tx wide io key e (unix_milli now) db1 = Done (Inr db')" by auto
    from append_tx_ok[OF tx] ensure_scope_main[OF scope] commit(2) stored show thesis by auto
  next
    case rollback
    with refused show thesis by simp
  qed
qed

definition reset_merged :: "agent_key \<Rightarrow> nat \<Rightarrow> instant \<Rightarrow> outbox_db \<Rightarrow> reset_row" where
  "reset_merged key version reset_at db = merge_reset \<lparr>rt_cutoff = last_sequence_of key db,
     rt_config_version = version, rt_reset_at_ms = unix_milli reset_at\<rparr> (row (db_resets db) key)"

lemma store_reset_cases:
  assumes "store_reset io key version reset_at db = (r, db')"
  obtains (refused) "db' = db" and "r \<noteq> Done (Inr ())"
  | (reset) "r = Done (Inr ())" and "db' = cancel_turns key (rt_reset_at_ms (reset_merged key version reset_at db))
      (unix_milli reset_at) (db\<lparr>db_resets := put key (reset_merged key version reset_at db) (db_resets db)\<rparr>)"
  using assms unfolding store_reset_def
  by (elim transact_cases) (auto simp: Let_def reset_merged_def intro: that)

lemma store_trim_cases:
  assumes "store_trim io now key policy db = (r, db')"
  obtains (refused) "db' = db" and "\<And>n. r \<noteq> Done (Inr n)"
  | (trimmed) n where "r = Done (Inr n)" and "db' = snd (delete_history key
      (expired (reset_cutoff key db) (keep_from key (reset_cutoff key db) (rp_keep_latest policy)
         (snd (delete_history key (\<lambda>h. hr_sequence h \<le> reset_cutoff key db \<and> hr_delivery h \<noteq> DeliveryPending) db)))
         policy now)
      (snd (delete_history key (\<lambda>h. hr_sequence h \<le> reset_cutoff key db \<and> hr_delivery h \<noteq> DeliveryPending) db)))"
  using assms unfolding store_trim_def
  by (elim transact_cases) (auto simp: Let_def case_prod_unfold intro: that)

lemma delete_history_db:
  "snd (delete_history key p db) = db\<lparr>db_history := filter (\<lambda>((k, _), h). \<not> (k = key \<and> p h)) (db_history db)\<rparr>"
  by (simp add: delete_history_def Let_def case_prod_unfold)

end
