(* ===== verification/TurnSystem.thy ===== *)
theory TurnSystem
  imports HistoryStore
begin

text \<open>
  The turns of the database while every store works on it: claims, plans and failures of the turn
  store (\<open>adapters/sqlite/turn.go\<close>) interleaved in any order with the operations of the reply and
  effect outboxes and of the transcript store, each one transaction, whatever the database answers. A ghost counter per turn
  counts the claims that handed it out for generating.
\<close>

subsection \<open>What the outboxes leave alone\<close>

definition action_core :: "action_row \<Rightarrow> string \<times> string \<times> string option \<times> string \<times> int" where
  "action_core a = (act_invocation_id a, act_response_id a, act_reply_to a, act_text a, act_created_at_ms a)"

definition actions_core where
  "actions_core db = map (map_prod id action_core) (db_actions db)"

definition effect_core :: "effect_row \<Rightarrow> string \<times> string option \<times> nat \<times> string option \<times> effect_payload \<times> int" where
  "effect_core r = (er_invocation_id r, er_model_call_id r, er_kind r, er_target r, er_payload r, er_created_at_ms r)"

definition effects_core where
  "effects_core db = map (map_prod id effect_core) (db_effects db)"

definition turn_core :: "turn_row \<Rightarrow> nat \<times> bool \<times> string \<times> nat option" where
  "turn_core t = (tn_attempts t, tn_claimed t, tn_message_id t, tn_config_version t)"

definition history_core :: "history_row \<Rightarrow> history_row" where
  "history_core h = h\<lparr>hr_delivery := DeliveryNotStarted, hr_updated_at_ms := 0\<rparr>"

definition transcript_core where
  "transcript_core db = (map (map_prod id history_core) (db_history db), db_resets db, db_last_sequence db)"

lemma transcript_core_upd [simp]:
  "transcript_core (db\<lparr>db_turns := t\<rparr>) = transcript_core db" "transcript_core (db\<lparr>db_actions := a\<rparr>) = transcript_core db"
  "transcript_core (db\<lparr>db_effects := e\<rparr>) = transcript_core db"
  by (simp_all add: transcript_core_def)

lemma map_put_core:
  "row t k = Some v \<Longrightarrow> f v' = f v \<Longrightarrow> map (map_prod id f) (put k v' t) = map (map_prod id f) t"
  by (induction t) auto

lemma update_where_core:
  "(\<And>v. f (g v) = f v) \<Longrightarrow> map (map_prod id f) (snd (update_where k p g t)) = map (map_prod id f) t"
  by (auto simp: update_where_def map_put_core split: option.splits)

lemma update_where_row_core:
  "(\<And>v. f (g v) = f v) \<Longrightarrow>
    map_option f (row (snd (update_where k p g t)) k') = map_option f (row t k')"
  by (auto simp: update_where_row split: option.splits)

definition action_core_of where
  "action_core_of key iid db = find (\<lambda>(ref, c). dr_key ref = key \<and> fst c = iid) (actions_core db)"

lemma find_core:
  "find (\<lambda>(ref, c). dr_key ref = key \<and> fst c = iid) (map (map_prod id action_core) xs)
     = map_option (map_prod id action_core) (find (\<lambda>(ref, a). dr_key ref = key \<and> act_invocation_id a = iid) xs)"
  by (induction xs) (auto simp: action_core_def)

lemma action_core_of_turn:
  "action_core_of key iid db = map_option (map_prod id action_core) (action_of_turn key iid db)"
  by (simp add: action_core_of_def action_of_turn_def actions_core_def find_core)

lemma actions_core_turn:
  "actions_core db' = actions_core db \<Longrightarrow>
    map_option (map_prod id action_core) (action_of_turn key iid db')
      = map_option (map_prod id action_core) (action_of_turn key iid db)"
  by (simp add: action_core_of_turn[symmetric] action_core_of_def)

lemma actions_core_none:
  "actions_core db' = actions_core db \<Longrightarrow> action_of_turn key iid db' = None \<longleftrightarrow> action_of_turn key iid db = None"
  using actions_core_turn[of db' db key iid] by (metis map_option_is_None)

text \<open>
  What the reply outbox may change: the states of replies, and the state of the turn a reply
  belongs to.
\<close>

definition quiet_turns :: "outbox_db \<Rightarrow> outbox_db \<Rightarrow> bool" where
  "quiet_turns db db' \<longleftrightarrow> actions_core db' = actions_core db
     \<and> (\<forall>k. map_option turn_core (row (db_turns db') k) = map_option turn_core (row (db_turns db) k))
     \<and> (\<forall>k. action_of_turn (fst k) (snd k) db = None \<longrightarrow> row (db_turns db') k = row (db_turns db) k)
     \<and> effects_core db' = effects_core db \<and> transcript_core db' = transcript_core db"

lemma quiet_refl [simp]: "quiet_turns db db"
  by (simp add: quiet_turns_def)

lemma quiet_trans: "quiet_turns a b \<Longrightarrow> quiet_turns b c \<Longrightarrow> quiet_turns a c"
  unfolding quiet_turns_def using actions_core_none by metis

lemma turn_of_action_has_action:
  "turn_of_action ref db = Some k \<Longrightarrow> action_of_turn (fst k) (snd k) db \<noteq> None"
  by (auto simp: turn_of_action_def action_of_turn_def find_None_iff dest!: map_of_SomeD) blast

lemma quiet_update_turn:
  assumes "\<And>t. turn_core (f t) = turn_core t"
  shows "quiet_turns db (snd (update_turn_where ref p f db))"
proof (cases "turn_of_action ref db")
  case None
  then show ?thesis by (simp add: update_turn_where_def)
next
  case (Some k)
  have "row (snd (update_where k p f (db_turns db))) k' = row (db_turns db) k'"
    if "action_of_turn (fst k') (snd k') db = None" for k'
    using that turn_of_action_has_action[OF Some] by (auto simp: update_where_row split: option.splits)
  with Some assms show ?thesis
    by (simp add: quiet_turns_def update_turn_where_def case_prod_unfold update_where_row_core
      actions_core_def effects_core_def)
qed

lemma quiet_actions:
  assumes "\<And>a. action_core (f a) = action_core a"
  shows "quiet_turns db (db\<lparr>db_actions := snd (update_where ref p f (db_actions db))\<rparr>)"
  using assms by (simp add: quiet_turns_def actions_core_def update_where_core effects_core_def)

lemma quiet_history:
  "quiet_turns db (db\<lparr>db_history := snd (update_where k p (\<lambda>h. h\<lparr>hr_delivery := d, hr_updated_at_ms := ms\<rparr>) (db_history db))\<rparr>)"
  by (simp add: quiet_turns_def actions_core_def effects_core_def transcript_core_def update_where_core
    history_core_def)

lemma quiet_start: "quiet_turns db (snd (action_start io now ref db))"
proof (cases "action_start io now ref db")
  case (Pair r db')
  let ?acts = "snd (update_where ref (\<lambda>r. act_state r = StatePending)
    (\<lambda>r. r\<lparr>act_state := StateExecuting, act_attempts := act_attempts r + 1,
      act_updated_at_ms := unix_milli now\<rparr>) (db_actions db))"
  have "db' = db \<or> db' = snd (update_turn_where ref (\<lambda>t. tn_state t = TurnResponsePlanned)
      (\<lambda>t. t\<lparr>tn_state := TurnDeliveryPending, tn_updated_at_ms := unix_milli now\<rparr>) (db\<lparr>db_actions := ?acts\<rparr>))"
    using Pair by (auto simp: action_start_def case_prod_unfold split: if_splits option.splits)
  moreover have "quiet_turns db (db\<lparr>db_actions := ?acts\<rparr>)"
    by (rule quiet_actions) (simp add: action_core_def)
  ultimately show ?thesis
    using Pair quiet_update_turn quiet_trans by (auto simp: turn_core_def)
qed

lemma quiet_delivery: "quiet_turns db (snd (update_turn_delivery io ref delivery st code now_ms db))"
proof (cases "update_turn_delivery io ref delivery st code now_ms db")
  case (Pair r db')
  let ?d = "snd (update_turn_where ref (\<lambda>_. True)
    (\<lambda>t. t\<lparr>tn_state := st, tn_last_error := nullable_error_code code, tn_updated_at_ms := now_ms\<rparr>) db)"
  have "quiet_turns db ?d" by (rule quiet_update_turn) (simp add: turn_core_def)
  moreover have "db' = db \<or> db' = ?d \<or> (\<exists>k. db' = ?d\<lparr>db_history := snd (update_where k (\<lambda>_. True)
      (\<lambda>h. h\<lparr>hr_delivery := delivery, hr_updated_at_ms := now_ms\<rparr>) (db_history ?d))\<rparr>)"
    using Pair by (auto simp: update_turn_delivery_def case_prod_unfold Let_def split: option.splits)
  moreover have "quiet_turns ?d (?d\<lparr>db_history := snd (update_where k (\<lambda>_. True)
      (\<lambda>h. h\<lparr>hr_delivery := delivery, hr_updated_at_ms := now_ms\<rparr>) (db_history ?d))\<rparr>)" for k
    by (rule quiet_history)
  ultimately have "quiet_turns db db'"
    by (elim disjE exE) (simp_all only: quiet_refl, rule quiet_trans, simp_all only:)
  with Pair show ?thesis by simp
qed

lemma quiet_finish_tx: "quiet_turns db (snd (finish_action_tx io ref src tgt receipt code now_ms db))"
proof (cases "finish_action_tx io ref src tgt receipt code now_ms db")
  case (Pair r db')
  let ?acts = "snd (update_where ref (\<lambda>r. act_state r = src)
        (\<lambda>r. r\<lparr>act_state := tgt,
           act_receipt := (case nullable_string receipt of None \<Rightarrow> act_receipt r | Some v \<Rightarrow> Some v),
           act_last_error := nullable_error_code code, act_completed_at_ms := Some now_ms,
           act_updated_at_ms := now_ms\<rparr>) (db_actions db))"
  have "db' = db \<or> db' = snd (update_turn_delivery io ref (fst (outcome_views tgt)) (snd (outcome_views tgt))
      code now_ms (db\<lparr>db_actions := ?acts\<rparr>))"
    using Pair by (auto simp: finish_action_tx_def case_prod_unfold split: option.splits prod.splits)
  moreover have "quiet_turns db (db\<lparr>db_actions := ?acts\<rparr>)"
    by (rule quiet_actions) (simp add: action_core_def)
  ultimately show ?thesis using Pair quiet_delivery quiet_trans by auto
qed

lemma quiet_finish: "quiet_turns db (snd (action_finish io ref src tgt receipt code now db))"
  using quiet_finish_tx[of db io ref src tgt receipt code "unix_milli now"]
  by (auto simp: action_finish_def split: option.splits prod.splits)

lemma quiet_resolve: "quiet_turns db (snd (resolve_interrupted_actions io tenant now_ms db))"
proof -
  have "quiet_turns db (snd (resolve_each io now_ms refs db))" for refs db
  proof (induction refs arbitrary: db)
    case (Cons ref refs)
    obtain r db1 where fin: "finish_action_tx io ref StateExecuting StateUnknownOutcome [] ErrorUnknownOutcome
        now_ms db = (r, db1)" by fastforce
    then have "quiet_turns db db1" by (metis quiet_finish_tx snd_conv)
    with Cons.IH fin quiet_trans show ?case by (auto split: option.splits)
  qed simp
  from this[of db "interrupted_actions tenant db"] show ?thesis
    by (auto simp: resolve_interrupted_actions_def split: option.splits prod.splits)
qed

text \<open>What the effect outbox may change: the states of effects.\<close>

definition quiet_effects :: "outbox_db \<Rightarrow> outbox_db \<Rightarrow> bool" where
  "quiet_effects db db' \<longleftrightarrow> db' = db\<lparr>db_effects := db_effects db'\<rparr> \<and> effects_core db' = effects_core db"

lemma quiet_effects_refl [simp]: "quiet_effects db db"
  by (simp add: quiet_effects_def)

lemma quiet_effects_update:
  assumes "\<And>r. effect_core (f r) = effect_core r"
  shows "quiet_effects db (db\<lparr>db_effects := snd (update_where ref p f (db_effects db))\<rparr>)"
  using assms by (simp add: quiet_effects_def effects_core_def update_where_core)

lemma quiet_effect_start: "quiet_effects db (snd (effect_start io now ref db))"
proof -
  let ?e = "snd (update_where ref (\<lambda>r. er_state r = StatePending)
    (\<lambda>r. r\<lparr>er_state := StateExecuting, er_updated_at_ms := unix_milli now\<rparr>) (db_effects db))"
  have "snd (effect_start io now ref db) = db \<or> snd (effect_start io now ref db) = db\<lparr>db_effects := ?e\<rparr>"
    by (simp add: effect_start_def case_prod_unfold split: option.splits sum.splits)
  moreover have "quiet_effects db (db\<lparr>db_effects := ?e\<rparr>)"
    by (rule quiet_effects_update) (simp add: effect_core_def)
  ultimately show ?thesis by (elim disjE) (simp_all only: quiet_effects_refl)
qed

lemma quiet_effect_finish: "quiet_effects db (snd (effect_finish io tgt code receipt now sources ref db))"
proof -
  let ?r = "snd (effect_finish io tgt code receipt now sources ref db)"
  let ?e = "snd (update_where ref (\<lambda>r. er_state r = sources ! 0 \<or> er_state r = sources ! (length sources - 1))
         (\<lambda>r. r\<lparr>er_state := tgt, er_receipt := nullable_string receipt,
            er_last_error := nullable_error_code code, er_completed_at_ms := Some (unix_milli now),
            er_updated_at_ms := unix_milli now\<rparr>) (db_effects db))"
  have "?r = db \<or> ?r = db\<lparr>db_effects := ?e\<rparr>"
    by (simp add: effect_finish_def case_prod_unfold split: option.splits)
  moreover have "quiet_effects db (db\<lparr>db_effects := ?e\<rparr>)"
    by (rule quiet_effects_update) (simp add: effect_core_def)
  ultimately show ?thesis by (elim disjE) (simp_all only: quiet_effects_refl)
qed

lemma quiet_effect_resolve: "quiet_effects db (snd (resolve_interrupted_effects io tenant now_ms db))"
  by (auto simp: resolve_interrupted_effects_def quiet_effects_def effects_core_def effect_core_def
    split: option.split)

text \<open>Planning outside a turn adds a row that is no model effect.\<close>

lemma inspect_effect_plan_db: "snd (inspect_effect_plan u io r enc fresh db db') \<in> {db, db'}"
  by (auto simp: inspect_effect_plan_def split: sum.split option.split)

lemma first_error_branch:
  "snd (case x of Done (Some e) \<Rightarrow> (Inl e, db) | _ \<Rightarrow> X) \<in> {db, snd X}"
  by (auto split: outcome.split option.split)

lemma effect_plan_adds:
  "snd (effect_plan u io r now db) = db \<or> row (db_effects db) (pq_ref r) = None
      \<and> (\<exists>enc. snd (effect_plan u io r now db)
          = db\<lparr>db_effects := put (pq_ref r) (new_effect_row r enc now) (db_effects db)\<rparr>)"
proof (cases "(plan_request_validate r \<noteq> None \<or> now = 0) \<or> (\<exists>e. encode_request r = Inl e)")
  case True
  then show ?thesis by (elim disjE exE) (simp_all add: effect_plan_def Let_def)
next
  case False
  then have guard: "\<not> (plan_request_validate r \<noteq> None \<or> now = 0)" by blast
  from False obtain enc where enc: "encode_request r = Inr enc" by (cases "encode_request r") auto
  let ?db' = "if row (db_effects db) (pq_ref r) = None
    then db\<lparr>db_effects := put (pq_ref r) (new_effect_row r enc now) (db_effects db)\<rparr> else db"
  have "snd (effect_plan u io r now db)
      \<in> {db, snd (inspect_effect_plan u io r enc (row (db_effects db) (pq_ref r) = None) db ?db')}"
    unfolding effect_plan_def Let_def enc sum.case if_not_P[OF guard] by (rule first_error_branch)
  with inspect_effect_plan_db have "snd (effect_plan u io r now db) \<in> {db, ?db'}"
    by (metis insert_iff empty_iff)
  then show ?thesis by (cases enc) (auto split: if_splits)
qed

subsection \<open>The view of one turn\<close>

text \<open>What a turn's plan is made of: its row, its reply, and its model effects.\<close>

type_synonym reply_view = "(dispatch_ref \<times> string \<times> string \<times> string option \<times> string \<times> int) option"
type_synonym effects_view = "(effect_ref \<times> string \<times> string option \<times> nat \<times> string option \<times> effect_payload \<times> int) list"
type_synonym turn_view = "turn_row option \<times> reply_view \<times> effects_view"

definition model_effects_core :: "agent_key \<Rightarrow> string \<Rightarrow> outbox_db \<Rightarrow> effects_view" where
  "model_effects_core key iid db =
     filter (\<lambda>(ref, c). ref_key ref = key \<and> fst c = iid \<and> fst (snd c) \<noteq> None) (effects_core db)"

definition turn_view :: "outbox_db \<Rightarrow> agent_key \<times> string \<Rightarrow> turn_view" where
  "turn_view db k = (row (db_turns db) k, action_core_of (fst k) (snd k) db, model_effects_core (fst k) (snd k) db)"

fun view_plan :: "turn_view \<Rightarrow> (nat option \<times> reply_view \<times> effects_view) option" where
  "view_plan (None, a, m) = None"
| "view_plan (Some t, a, m) =
     (if a \<noteq> None \<or> tn_state t = TurnSucceeded then Some (tn_config_version t, a, m) else None)"

fun wf_view :: "turn_view \<Rightarrow> bool" where
  "wf_view (None, a, m) \<longleftrightarrow> a = None \<and> m = []"
| "wf_view (Some t, a, m) \<longleftrightarrow> tn_attempts t \<le> max_generation_attempts
     \<and> (\<not> tn_claimed t \<longrightarrow> tn_attempts t = 0 \<and> tn_state t \<notin> {TurnGenerating, TurnSucceeded} \<and> a = None)
     \<and> (a \<noteq> None \<or> tn_state t = TurnSucceeded \<longrightarrow> tn_config_version t \<noteq> None)
     \<and> (a = None \<and> tn_state t \<noteq> TurnSucceeded \<longrightarrow> m = [])"

text \<open>
  Turns as the schema and the stores keep them: a reply belongs to a claimed turn (its foreign
  key), a turn has model effects only once it is planned, and an unclaimed one was never tried.
\<close>

definition wf_turns :: "outbox_db \<Rightarrow> bool" where
  "wf_turns db \<longleftrightarrow> (\<forall>k. wf_view (turn_view db k))"

lemma wf_turnsD: "wf_turns db \<Longrightarrow> wf_view (turn_view db k)"
  unfolding wf_turns_def by blast

text \<open>How the view of one turn moves; the number is that of claims granted.\<close>

inductive view_step :: "turn_view \<Rightarrow> turn_view \<Rightarrow> nat \<Rightarrow> bool" where
  same: "view_step v v 0"
| delivery: "turn_core t' = turn_core t \<Longrightarrow> view_step (Some t, Some a, m) (Some t', Some a, m) 0"
| fresh: "tn_attempts t = 1 \<Longrightarrow> tn_claimed t \<Longrightarrow> tn_state t = TurnGenerating \<Longrightarrow> g \<le> 1
    \<Longrightarrow> view_step (None, a, m) (Some t, a, m) g"
| received: "\<not> tn_claimed t \<Longrightarrow> g \<le> 1 \<Longrightarrow> view_step (Some t, a, m) (Some (taken_row r t), a, m) g"
| renewed: "tn_state t \<noteq> TurnSucceeded \<Longrightarrow> tn_claimed t \<Longrightarrow> tn_attempts t < max_generation_attempts \<Longrightarrow> g \<le> 1
    \<Longrightarrow> view_step (Some t, None, m) (Some (renewed_row r t), None, m) g"
| exhausted: "tn_state t \<noteq> TurnSucceeded \<Longrightarrow> tn_claimed t \<Longrightarrow> view_step (Some t, None, m) (Some (exhausted_row r t), None, m) 0"
| plans: "tn_state t = TurnGenerating \<Longrightarrow> tn_attempts t' = tn_attempts t \<Longrightarrow> tn_claimed t' = tn_claimed t
    \<Longrightarrow> tn_config_version t' \<noteq> None \<Longrightarrow> a' \<noteq> None \<or> tn_state t' = TurnSucceeded
    \<Longrightarrow> view_step (Some t, None, m) (Some t', a', m') 0"
| fails: "tn_state t \<in> {TurnGenerating, TurnFailedRetryable} \<Longrightarrow> turn_core t' = turn_core t
    \<Longrightarrow> tn_state t' \<in> {TurnFailedRetryable, TurnFailedTerminal, ignored_state} \<Longrightarrow> view_step (Some t, a, m) (Some t', a, m) 0"

lemma view_step_wf: "view_step v v' g \<Longrightarrow> wf_view v \<Longrightarrow> wf_view v'"
  by (induction rule: view_step.induct)
    (auto simp: turn_core_def taken_row_def renewed_row_def exhausted_row_def max_generation_attempts_def)

lemma view_step_plan:
  "view_step v v' g \<Longrightarrow> wf_view v \<Longrightarrow> view_plan v = Some p \<Longrightarrow> view_plan v' = Some p \<and> g = 0"
  by (induction rule: view_step.induct) (auto simp: turn_core_def split: if_splits)

fun view_attempts :: "turn_view \<Rightarrow> nat" where
  "view_attempts (r, _) = (case r of None \<Rightarrow> 0 | Some t \<Rightarrow> tn_attempts t)"

lemma view_step_attempts:
  "view_step v v' g \<Longrightarrow> wf_view v \<Longrightarrow> view_attempts v + g \<le> view_attempts v'"
  by (induction rule: view_step.induct)
    (auto simp: turn_core_def taken_row_def renewed_row_def exhausted_row_def)

lemma wf_attempts: "wf_view v \<Longrightarrow> view_attempts v \<le> max_generation_attempts"
  by (cases v rule: wf_view.cases) auto

subsection \<open>The system\<close>

text \<open>A call of the reply or the effect outbox, in one transaction.\<close>

inductive outbox_call :: "outbox_db \<Rightarrow> outbox_db \<Rightarrow> bool" where
  "outbox_call db (snd (action_start io now ref db))"
| "outbox_call db (snd (action_complete io receipt now ref db))"
| "outbox_call db (snd (action_fail_terminal io code now ref db))"
| "outbox_call db (snd (action_mark_unknown io code now ref db))"
| "outbox_call db (snd (resolve_interrupted_actions io tenant now_ms db))"
| "outbox_call db (snd (effect_plan u io r now db))"
| "outbox_call db (snd (effect_start io now eref db))"
| "outbox_call db (snd (effect_complete io receipt now eref db))"
| "outbox_call db (snd (effect_fail_terminal io code now eref db))"
| "outbox_call db (snd (effect_mark_unknown io code now eref db))"
| "outbox_call db (snd (resolve_interrupted_effects io tenant now_ms db))"

text \<open>A call of the transcript store that writes.\<close>

inductive transcript_call :: "(rune \<Rightarrow> bool) \<Rightarrow> outbox_db \<Rightarrow> outbox_db \<Rightarrow> bool" for wide where
  "transcript_call wide db (snd (store_append wide io now key e db))"
| "transcript_call wide db (snd (store_reset io key version reset_at db))"
| "transcript_call wide db (snd (store_trim io now key policy db))"

record turn_sys =
  tsys_db :: outbox_db
  tsys_grants :: "agent_key \<times> string \<Rightarrow> nat"

inductive turn_step :: "(string \<Rightarrow> string option) \<Rightarrow> (rune \<Rightarrow> bool) \<Rightarrow> turn_sys \<Rightarrow> turn_sys \<Rightarrow> bool"
  for u wide where
  claim: "turn_claim_call u io new_id r (tsys_db s) = (res, db') \<Longrightarrow>
    g = (if grants res then (tsys_grants s)(claimed_key r := tsys_grants s (claimed_key r) + 1) else tsys_grants s) \<Longrightarrow>
    turn_step u wide s \<lparr>tsys_db = db', tsys_grants = g\<rparr>"
| commit: "turn_commit_plan u wide io ids now c (tsys_db s) = (answer, db') \<Longrightarrow>
    turn_step u wide s (s\<lparr>tsys_db := db'\<rparr>)"
| failed: "turn_fail_generation io now f (tsys_db s) = (failure, db') \<Longrightarrow>
    turn_step u wide s (s\<lparr>tsys_db := db'\<rparr>)"
| outbox: "outbox_call (tsys_db s) db' \<Longrightarrow> turn_step u wide s (s\<lparr>tsys_db := db'\<rparr>)"
| transcript: "transcript_call wide (tsys_db s) db' \<Longrightarrow> turn_step u wide s (s\<lparr>tsys_db := db'\<rparr>)"

inductive_cases turn_stepE: "turn_step u wide s s'"

definition turn_run :: "(string \<Rightarrow> string option) \<Rightarrow> (rune \<Rightarrow> bool) \<Rightarrow> turn_sys \<Rightarrow> turn_sys \<Rightarrow> bool" where
  "turn_run u wide = (turn_step u wide)\<^sup>*\<^sup>*"

text \<open>One transaction moves the view of every turn by one step.\<close>

lemma quiet_turn_view:
  assumes "quiet_turns db db'"
  shows "view_step (turn_view db k) (turn_view db' k) 0"
proof -
  have acts: "action_core_of (fst k) (snd k) db' = action_core_of (fst k) (snd k) db"
    and effs: "model_effects_core (fst k) (snd k) db' = model_effects_core (fst k) (snd k) db"
    using assms by (simp_all add: quiet_turns_def action_core_of_def model_effects_core_def)
  show ?thesis
  proof (cases "action_core_of (fst k) (snd k) db")
    case None
    then have "row (db_turns db') k = row (db_turns db) k"
      using assms by (cases k) (simp add: quiet_turns_def action_core_of_turn)
    then show ?thesis using acts effs by (simp add: turn_view_def view_step.same)
  next
    case (Some a)
    have "map_option turn_core (row (db_turns db') k) = map_option turn_core (row (db_turns db) k)"
      using assms by (cases k) (simp add: quiet_turns_def)
    then show ?thesis
      using acts effs Some view_step.delivery view_step.same
      by (cases "row (db_turns db) k"; cases "row (db_turns db') k") (simp_all add: turn_view_def)
  qed
qed

lemma same_turn_view:
  assumes "db_turns db' = db_turns db" and "actions_core db' = actions_core db"
    and "\<And>key iid. model_effects_core key iid db' = model_effects_core key iid db"
  shows "turn_view db' k = turn_view db k"
  using assms by (simp add: turn_view_def action_core_of_def)

lemma quiet_effects_view:
  assumes "quiet_effects db db'"
  shows "turn_view db' k = turn_view db k"
proof (rule same_turn_view)
  from assms have eq: "db' = db\<lparr>db_effects := db_effects db'\<rparr>" and core: "effects_core db' = effects_core db"
    by (simp_all add: quiet_effects_def)
  show "db_turns db' = db_turns db" by (subst eq) simp
  show "actions_core db' = actions_core db" unfolding actions_core_def by (subst eq) simp
  show "model_effects_core key iid db' = model_effects_core key iid db" for key iid
    by (simp add: model_effects_core_def core)
qed

lemma effect_plan_view: "turn_view (snd (effect_plan u io r now db)) k = turn_view db k"
proof -
  have "turn_view (db\<lparr>db_effects := put (pq_ref r) (new_effect_row r enc now) (db_effects db)\<rparr>) k = turn_view db k"
    if "row (db_effects db) (pq_ref r) = None" for enc
    unfolding put_new[OF that]
    by (rule same_turn_view) (simp_all add: actions_core_def model_effects_core_def effects_core_def
      effect_core_def new_effect_row_def split: prod.split)
  with effect_plan_adds[of u io r now db] show ?thesis by metis
qed

lemma outbox_call_view:
  assumes "outbox_call db db'"
  shows "view_step (turn_view db k) (turn_view db' k) 0"
  using assms
proof cases
  case (6 u io r now)
  then show ?thesis by (simp add: effect_plan_view view_step.same)
qed (auto intro!: quiet_turn_view quiet_start quiet_finish quiet_resolve view_step.same
    simp: action_complete_def action_fail_terminal_def action_mark_unknown_def
      quiet_effects_view[OF quiet_effect_start] quiet_effects_view[OF quiet_effect_finish]
      quiet_effects_view[OF quiet_effect_resolve] effect_complete_def effect_fail_terminal_def
      effect_mark_unknown_def)

lemma append_view: "turn_view (snd (store_append wide io now key e db)) k = turn_view db k"
proof (cases "store_append wide io now key e db")
  case (Pair r db')
  then show ?thesis
  proof (cases rule: store_append_cases)
    case (stored db1 cq)
    note main = main_tables_turns[OF stored(2)]
    from insert_or_same_ok[OF stored(3)]
    have "db_turns db' = db_turns db1 \<and> db_actions db' = db_actions db1 \<and> db_effects db' = db_effects db1"
      by (auto simp: add_history_row_def)
    with main Pair show ?thesis
      by (intro same_turn_view) (simp_all add: actions_core_def model_effects_core_def effects_core_def)
  qed (simp add: Pair)
qed

lemma row_map_value: "row (map (\<lambda>(k, v). (k, f (k, v))) t) k = map_option (\<lambda>v. f (k, v)) (row t k)"
  by (induction t) auto

lemma cancelled_unplanned:
  "cancelled_by_reset key at db (k, t) \<Longrightarrow> action_of_turn (fst k) (snd k) db = None
    \<and> tn_state t \<in> {TurnGenerating, TurnFailedRetryable}"
  by (cases k) (auto simp: cancelled_by_reset_def)

lemma reset_view: "view_step (turn_view db k) (turn_view (snd (store_reset io key version reset_at db)) k) 0"
proof (cases "store_reset io key version reset_at db")
  case (Pair r db')
  then show ?thesis
  proof (cases rule: store_reset_cases)
    case refused
    with Pair show ?thesis by (simp add: view_step.same)
  next
    case reset
    define dbr where "dbr = db\<lparr>db_resets := put key (reset_merged key version reset_at db) (db_resets db)\<rparr>"
    let ?hit = "cancelled_by_reset key (rt_reset_at_ms (reset_merged key version reset_at db)) dbr"
    let ?off = "\<lambda>t. t\<lparr>tn_state := ignored_state, tn_ignored_reason := Some ''history_reset'',
      tn_updated_at_ms := unix_milli reset_at\<rparr>"
    have other: "action_core_of (fst k) (snd k) db' = action_core_of (fst k) (snd k) db"
      "model_effects_core (fst k) (snd k) db' = model_effects_core (fst k) (snd k) db"
      by (simp_all add: reset(2) cancel_turns_def action_core_of_def actions_core_def model_effects_core_def
        effects_core_def)
    have turns: "row (db_turns db') k = map_option (\<lambda>t. if ?hit (k, t) then ?off t else t) (row (db_turns db) k)"
      using row_map_value[where f = "\<lambda>(k, t). if ?hit (k, t) then ?off t else t"]
      by (simp add: reset(2) cancel_turns_def dbr_def)
    show ?thesis
    proof (cases "row (db_turns db) k")
      case None
      with turns other Pair show ?thesis by (simp add: turn_view_def view_step.same)
    next
      case (Some t)
      show ?thesis
      proof (cases "?hit (k, t)")
        case False
        with Some turns other Pair show ?thesis by (simp add: turn_view_def view_step.same)
      next
        case True
        with cancelled_unplanned[OF True] Some turns other Pair show ?thesis
          by (auto simp: turn_view_def turn_core_def intro!: view_step.fails)
      qed
    qed
  qed
qed

lemma trim_view: "turn_view (snd (store_trim io now key policy db)) k = turn_view db k"
proof (cases "store_trim io now key policy db")
  case (Pair r db')
  then show ?thesis
  proof (cases rule: store_trim_cases)
    case (trimmed n)
    then have "db_turns db' = db_turns db" "db_actions db' = db_actions db" "db_effects db' = db_effects db"
      by (simp_all add: delete_history_db)
    with Pair show ?thesis
      by (intro same_turn_view) (simp_all add: actions_core_def model_effects_core_def effects_core_def)
  qed (simp add: Pair)
qed

lemma transcript_call_view:
  assumes "transcript_call wide db db'"
  shows "view_step (turn_view db k) (turn_view db' k) 0"
  using assms by cases (simp_all add: append_view trim_view reset_view view_step.same)

lemma put_turn_view:
  assumes "db_turns db' = put k t (db_turns db)" and "actions_core db' = actions_core db"
    and "effects_core db' = effects_core db"
  shows "turn_view db' k' = (if k' = k then (Some t, snd (turn_view db k)) else turn_view db k')"
  using assms by (simp add: turn_view_def action_core_of_def model_effects_core_def)

lemma planned_view:
  "planned (t, action_of_turn key iid db)
     \<longleftrightarrow> \<not> (action_core_of key iid db = None \<and> tn_state t \<noteq> TurnSucceeded)"
  by (simp add: planned_def action_core_of_turn)

lemma claim_way_view:
  assumes "claim_way_ok way r db db'" and "g \<le> (if way = ClaimKept \<or> (\<exists>t. way = ClaimExhausted t) then 0 else 1)"
  shows "view_step (turn_view db k) (turn_view db' k) (if k = claimed_key r then g else 0)"
proof (cases "way = ClaimKept")
  case True
  with assms show ?thesis by (simp add: claim_way_ok_def view_step.same)
next
  case False
  let ?k = "claimed_key r"
  have key: "fst ?k = ct_key r" "snd ?k = ident_value (inv_id (ct_invocation r))" by simp_all
  obtain t where put: "db_turns db' = put ?k t (db_turns db)" "actions_core db' = actions_core db"
      "effects_core db' = effects_core db"
    and way: "(row (db_turns db) ?k = None \<and> (\<exists>mid. t = new_turn_row r mid) \<and> g \<le> 1)
      \<or> (\<exists>x. row (db_turns db) ?k = Some x \<and> \<not> tn_claimed x \<and> t = taken_row r x \<and> g \<le> 1)
      \<or> (\<exists>x. row (db_turns db) ?k = Some x \<and> tn_claimed x \<and> action_core_of (fst ?k) (snd ?k) db = None
          \<and> tn_state x \<noteq> TurnSucceeded \<and> tn_attempts x < max_generation_attempts \<and> t = renewed_row r x \<and> g \<le> 1)
      \<or> (\<exists>x. row (db_turns db) ?k = Some x \<and> tn_claimed x \<and> action_core_of (fst ?k) (snd ?k) db = None
          \<and> tn_state x \<noteq> TurnSucceeded \<and> t = exhausted_row r x \<and> g = 0)"
    using assms False by (cases way)
      (auto simp: claim_way_ok_def Let_def main_tables_def actions_core_def effects_core_def planned_view
        simp del: not_None_eq split_paired_All split_paired_Ex)
  have "view_step (turn_view db ?k) (Some t, snd (turn_view db ?k)) g"
    using way by (elim disjE exE conjE)
      (simp_all add: turn_view_def new_turn_row_def Let_def view_step.fresh view_step.received
        view_step.renewed view_step.exhausted)
  then show ?thesis unfolding put_turn_view[OF put] by (auto intro: view_step.same)
qed

lemma claim_call_cases:
  assumes "turn_claim_call u io nid r db = (res, db')"
  obtains (kept) "db' = db" and "\<not> grants res"
  | (moved) c where "claim_body u io nid r db = Done (Inr (c, db'))" and "res = Done c"
  using assms by (auto simp: turn_claim_call_def transact_def grants_def
    split: outcome.splits sum.splits prod.splits)

lemma claim_view:
  assumes "turn_claim_call u io nid r db = (res, db')"
  shows "view_step (turn_view db k) (turn_view db' k) (if k = claimed_key r \<and> grants res then 1 else 0)"
  using assms
proof (cases rule: claim_call_cases)
  case kept
  then show ?thesis by (simp add: view_step.same)
next
  case (moved c)
  then obtain way where way: "claim_way_ok way r db db'"
    "grants (Done c) \<Longrightarrow> way \<noteq> ClaimKept \<and> (\<forall>t. way \<noteq> ClaimExhausted t)"
    using claim_body_way by metis
  show ?thesis
    using claim_way_view[OF way(1), of "if grants res then 1 else 0" k] way(2) moved(2)
    by (auto split: if_splits)
qed

lemma find_append_new:
  "find p (xs @ [x]) = (case find p xs of None \<Rightarrow> if p x then Some x else None | Some y \<Rightarrow> Some y)"
  by (induction xs) auto

lemma planned_rows_elsewhere:
  assumes "planned_rows key iid es ids now_ms db rows" and "(key', iid') \<noteq> (key, ident_value iid)"
  shows "filter (\<lambda>(ref, c). ref_key ref = key' \<and> fst c = iid' \<and> fst (snd c) \<noteq> None)
    (map (map_prod id effect_core) rows) = []"
proof -
  have "list_all2 (planned_effect key (ident_value iid) now_ms db) es rows"
    using assms(1) by (simp add: planned_rows_def)
  then show ?thesis using assms(2)
    by (induction rule: list_all2_induct) (auto simp: planned_effect_def effect_core_def)
qed

lemma effect_only_view:
  assumes "effect_only_commit r ids now_ms x db db' plan"
  shows "view_step (turn_view db k) (turn_view db' k) 0"
proof -
  let ?t = "cx_turn x"
  have db': "db' = db\<lparr>db_effects := db_effects db @ cx_rows x,
      db_turns := put (commit_key r) (published_row r TurnSucceeded now_ms ?t) (db_turns db)\<rparr>"
    and un: "row (db_turns db) (commit_key r) = Some ?t" "tn_state ?t = TurnGenerating"
      "action_core_of (cp_key r) (ident_value (cp_invocation_id r)) db = None"
    and rows: "planned_rows (cp_key r) (cp_invocation_id r) (cp_effects r) (id_effect ids) now_ms db (cx_rows x)"
    using assms by (auto simp: effect_only_commit_def unplanned_turn_def action_core_of_turn)
  show ?thesis
  proof (cases "k = commit_key r")
    case True
    then show ?thesis using un by (simp add: turn_view_def db' action_core_of_def actions_core_def
        published_row_def view_step.plans)
  next
    case False
    then have "turn_view db' k = turn_view db k"
      using planned_rows_elsewhere[OF rows, of "fst k" "snd k"]
      by (simp add: turn_view_def db' action_core_of_def actions_core_def model_effects_core_def
        effects_core_def)
    then show ?thesis by (simp add: view_step.same)
  qed
qed

lemma reply_view:
  assumes "reply_commit r ids now_ms x db db' plan"
  shows "view_step (turn_view db k) (turn_view db' k) 0"
proof -
  let ?t = "cx_turn x" and ?ref = "\<lparr>dr_key = cp_key r, dr_action_id = Ident (cx_action x)\<rparr>"
  let ?row = "reply_row r (cx_response x) now_ms"
  have absent: "row (db_actions db) ?ref = None"
    and un: "row (db_turns db) (commit_key r) = Some ?t" "tn_state ?t = TurnGenerating"
      "action_core_of (cp_key r) (ident_value (cp_invocation_id r)) db = None"
    and rows: "planned_rows (cp_key r) (cp_invocation_id r) (cp_effects r) (id_effect ids) now_ms db (cx_rows x)"
    using assms by (auto simp: reply_commit_def unplanned_turn_def action_core_of_turn)
  have db': "db' = (add_history_row (cp_key r) (cx_entry x) now_ms db)
      \<lparr>db_actions := db_actions db @ [(?ref, ?row)], db_effects := db_effects db @ cx_rows x,
       db_turns := put (commit_key r) (published_row r TurnResponsePlanned now_ms ?t) (db_turns db)\<rparr>"
    using assms put_new[OF absent, of ?row] by (simp add: reply_commit_def)
  have acts: "action_core_of key iid db' = (case action_core_of key iid db of
      None \<Rightarrow> if key = cp_key r \<and> iid = ident_value (cp_invocation_id r) then Some (?ref, action_core ?row) else None
    | Some a \<Rightarrow> Some a)" for key iid
    by (auto simp: action_core_of_def actions_core_def db' find_append_new action_core_def reply_row_def
      split: option.split)
  show ?thesis
  proof (cases "k = commit_key r")
    case True
    then show ?thesis using un acts[of "cp_key r" "ident_value (cp_invocation_id r)"]
      by (simp add: turn_view_def db' published_row_def view_step.plans)
  next
    case False
    then have "\<not> (fst k = cp_key r \<and> snd k = ident_value (cp_invocation_id r))"
      by (cases k) simp
    then have "action_core_of (fst k) (snd k) db' = action_core_of (fst k) (snd k) db"
      unfolding acts by (simp split: option.split)
    moreover have "model_effects_core (fst k) (snd k) db' = model_effects_core (fst k) (snd k) db"
      using False planned_rows_elsewhere[OF rows, of "fst k" "snd k"]
      by (simp add: db' model_effects_core_def effects_core_def add_history_row_def)
    moreover have "row (db_turns db') k = row (db_turns db) k"
      using False by (simp add: db' add_history_row_def)
    ultimately have "turn_view db' k = turn_view db k" by (simp add: turn_view_def)
    then show ?thesis by (simp add: view_step.same)
  qed
qed

lemma commit_view:
  assumes "turn_commit_plan u wide io ids now r db = (res, db')"
  shows "view_step (turn_view db k) (turn_view db' k) 0"
proof -
  from assms have "transact (commit_body u wide io ids now r db) db = (res, db')"
    by (simp add: turn_commit_plan_def)
  then show ?thesis
  proof (cases rule: transact_cases)
    case (commit plan)
    from commit(1) show ?thesis
    proof (cases rule: commit_body_cases)
      case (effect_only x)
      then show ?thesis by (rule effect_only_view)
    next
      case (reply x)
      then show ?thesis by (rule reply_view)
    qed (simp add: view_step.same)
  qed (simp add: view_step.same)
qed

lemma fail_generation_view:
  assumes "turn_fail_generation io now f db = (res, db')"
  shows "view_step (turn_view db k) (turn_view db' k) 0"
proof -
  let ?k = "(fg_key f, ident_value (fg_invocation_id f))"
  let ?st = "if fg_retryable f then TurnFailedRetryable else TurnFailedTerminal"
  have "db' = db \<or> (\<exists>t. row (db_turns db) ?k = Some t \<and> tn_state t = TurnGenerating \<and> db' = db\<lparr>db_turns :=
      put ?k (t\<lparr>tn_state := ?st, tn_last_error := Some (fg_code f), tn_updated_at_ms := unix_milli now\<rparr>)
        (db_turns db)\<rparr>)"
    using assms unfolding turn_fail_generation_def
    by (elim transact_cases) (auto simp: Let_def update_where_def split: option.splits if_splits)
  then show ?thesis
  proof (elim disjE exE conjE)
    fix t assume t: "row (db_turns db) ?k = Some t" "tn_state t = TurnGenerating" and db': "db' = db\<lparr>db_turns :=
      put ?k (t\<lparr>tn_state := ?st, tn_last_error := Some (fg_code f), tn_updated_at_ms := unix_milli now\<rparr>)
        (db_turns db)\<rparr>"
    show ?thesis
      unfolding put_turn_view[of db' ?k "t\<lparr>tn_state := ?st, tn_last_error := Some (fg_code f),
          tn_updated_at_ms := unix_milli now\<rparr>" db, unfolded db', simplified actions_core_def effects_core_def, simplified] db'
      using t by (auto simp: turn_view_def turn_core_def actions_core_def effects_core_def
        intro: view_step.same view_step.fails)
  qed (simp add: view_step.same)
qed

lemma turn_step_view:
  assumes "turn_step u wide s s'"
  obtains g where "view_step (turn_view (tsys_db s) k) (turn_view (tsys_db s') k) g"
    and "tsys_grants s' k = tsys_grants s k + g"
  using assms
proof cases
  case (claim io nid r res db' g)
  then show thesis using claim_view[OF claim(2), of k] that by (auto split: if_splits)
next
  case (commit io ids now c res db')
  then show thesis using commit_view[OF commit(2), of k] that by simp
next
  case (failed io now f res db')
  then show thesis using fail_generation_view[OF failed(2), of k] that by simp
next
  case (outbox db')
  then show thesis using outbox_call_view[OF outbox(2), of k] that by simp
next
  case (transcript db')
  then show thesis using transcript_call_view[OF transcript(2), of k] that by simp
qed

subsection \<open>The laws of a turn store\<close>

text \<open>
  What the agent relies on: attempts are counted before a turn is handed out and never exceed the
  limit, and a plan that is stored stays, and with it no turn is handed out again.
\<close>

locale turn_laws =
  fixes step :: "'s \<Rightarrow> 's \<Rightarrow> bool" and good :: "'s \<Rightarrow> bool"
    and attempts :: "'s \<Rightarrow> 'k \<Rightarrow> nat" and handed :: "'s \<Rightarrow> 'k \<Rightarrow> nat"
    and plan :: "'s \<Rightarrow> 'k \<Rightarrow> 'p option" and limit :: nat
  assumes good_law: "step s s' \<Longrightarrow> good s \<Longrightarrow> good s'"
    and count_law: "step s s' \<Longrightarrow> good s \<Longrightarrow> attempts s k + handed s' k \<le> attempts s' k + handed s k"
    and limit_law: "good s \<Longrightarrow> attempts s k \<le> limit"
    and plan_law: "step s s' \<Longrightarrow> good s \<Longrightarrow> plan s k = Some p \<Longrightarrow>
      plan s' k = Some p \<and> handed s' k = handed s k"
begin

lemma run_good: "step\<^sup>*\<^sup>* s s' \<Longrightarrow> good s \<Longrightarrow> good s'"
  by (induction rule: rtranclp_induct) (auto intro: good_law)

lemma run_count: "step\<^sup>*\<^sup>* s s' \<Longrightarrow> good s \<Longrightarrow> attempts s k + handed s' k \<le> attempts s' k + handed s k"
proof (induction rule: rtranclp_induct)
  case (step y z)
  then show ?case using count_law[OF step(2) run_good[OF step(1)], of k] by simp
qed simp

lemma handed_bounded:
  assumes "step\<^sup>*\<^sup>* s s'" and "good s"
  shows "handed s' k \<le> handed s k + (limit - attempts s k)"
  using run_count[OF assms, of k] limit_law[OF run_good[OF assms], of k] by simp

lemma plan_stays:
  assumes "step\<^sup>*\<^sup>* s s'" and "good s" and "plan s k = Some p"
  shows "plan s' k = Some p \<and> handed s' k = handed s k"
  using assms(1)
proof (induction rule: rtranclp_induct)
  case (step y z)
  then show ?case using plan_law[OF step(2) run_good[OF step(1) assms(2)], of k p] by simp
qed (simp add: assms(3))

end

text \<open>What is committed of a turn's plan, if it is planned.\<close>

definition stored_plan_view where
  "stored_plan_view s k = view_plan (turn_view (tsys_db s) k)"

interpretation turns: turn_laws "turn_step u wide" "\<lambda>s. wf_turns (tsys_db s)"
  "\<lambda>s k. view_attempts (turn_view (tsys_db s) k)" tsys_grants stored_plan_view max_generation_attempts
  for u wide
proof (unfold_locales, goal_cases)
  case (1 s s')
  then show ?case unfolding wf_turns_def by (metis turn_step_view view_step_wf)
next
  case (2 s s' k)
  obtain g where g: "view_step (turn_view (tsys_db s) k) (turn_view (tsys_db s') k) g"
    "tsys_grants s' k = tsys_grants s k + g" using turn_step_view[OF 2(1)] .
  from view_step_attempts[OF g(1) wf_turnsD[OF 2(2)]] g(2) show ?case by simp
next
  case (3 s k)
  then show ?case by (intro wf_attempts wf_turnsD)
next
  case (4 s s' k p)
  obtain g where g: "view_step (turn_view (tsys_db s) k) (turn_view (tsys_db s') k) g"
    "tsys_grants s' k = tsys_grants s k + g" using turn_step_view[OF 4(1)] .
  from view_step_plan[OF g(1) wf_turnsD[OF 4(2)]] 4(3) g(2) show ?case by (simp add: stored_plan_view_def)
qed

subsection \<open>Properties\<close>

text \<open>
  C4: a turn is handed out for generating at most three times. However claims, plans, failures,
  restarts and both outboxes interleave, and whatever the database answers to each call, the claims of
  one turn that were answered with \<open>TurnGenerating\<close> and no plan are at most three.
\<close>
theorem at_most_three_generations:
  assumes "wf_turns db" and "turn_run u wide \<lparr>tsys_db = db, tsys_grants = (\<lambda>_. 0)\<rparr> s"
  shows "tsys_grants s k \<le> 3"
  using turns.handed_bounded[of u wide "\<lparr>tsys_db = db, tsys_grants = (\<lambda>_. 0)\<rparr>" s k] assms
  by (simp add: turn_run_def max_generation_attempts_def)


subsubsection \<open>Witnesses\<close>

definition fresh_db :: outbox_db where
  "fresh_db = \<lparr>db_chats = [], db_actions = [], db_turns = [], db_history = [], db_effects = [],
     db_configs = [], db_resets = [], db_mentions = [], db_participants = [], db_senders = [],
     db_last_sequence = 0\<rparr>"

definition sample_direct :: invocation where
  "sample_direct = \<lparr>inv_id = Ident ''i1'', inv_causation = \<lparr>cref_kind = CausationRequest, cref_id = Ident ''c1''\<rparr>,
     inv_cause = CauseDirectRequest, inv_sender = None, inv_quote = None, inv_input = [TextPart ''hi''],
     inv_mentions = [], inv_capabilities = CapabilitySet [], inv_commands = [], inv_stickers = [],
     inv_policy_version = 1, inv_requested_at = 1\<rparr>"

definition sample_claim :: claim_turn_request where
  "sample_claim = \<lparr>ct_key = dr_key sample_ref, ct_invocation = sample_direct, ct_now = 1\<rparr>"

lemma wf_fresh_db: "wf_turns fresh_db"
  by (simp add: wf_turns_def turn_view_def fresh_db_def action_core_of_def actions_core_def
    model_effects_core_def effects_core_def)

lemma sample_claim_granted:
  "\<exists>db'. turn_claim_call Some (\<lambda>_. None) (Inr ''m1'') sample_claim fresh_db
     = (Done (Inr \<lparr>tc_state = TurnGenerating, tc_message_id = Ident ''m1'', tc_plan = None\<rparr>), db')"
  by (simp add: turn_claim_call_def claim_body_def load_turn_row_def fresh_db_def claim_new_def
    ensure_scope_def insert_invocation_def Let_def sample_claim_def sample_direct_def sample_ref_def
    key_validate_def is_zero_def transact_def new_turn_row_def turn_conflicts_def claimed_turn_def
    parse_message_id_def parse_uuid_def res_ok_def)

theorem at_most_three_generations_witness:
  "\<exists>s. turn_run Some (\<lambda>_. False) \<lparr>tsys_db = fresh_db, tsys_grants = (\<lambda>_. 0)\<rparr> s
     \<and> tsys_grants s (claimed_key sample_claim) \<in> {1..3}"
proof -
  obtain db' where claim: "turn_claim_call Some (\<lambda>_. None) (Inr ''m1'') sample_claim fresh_db
     = (Done (Inr \<lparr>tc_state = TurnGenerating, tc_message_id = Ident ''m1'', tc_plan = None\<rparr>), db')"
    using sample_claim_granted by blast
  let ?s = "\<lparr>tsys_db = db', tsys_grants = (\<lambda>_. 0)(claimed_key sample_claim := 1)\<rparr>"
  have "turn_step Some (\<lambda>_. False) \<lparr>tsys_db = fresh_db, tsys_grants = (\<lambda>_. 0)\<rparr> ?s"
    by (rule turn_step.claim[where new_id = "Inr ''m1''"]) (use claim in \<open>auto simp: grants_def\<close>)
  then have run: "turn_run Some (\<lambda>_. False) \<lparr>tsys_db = fresh_db, tsys_grants = (\<lambda>_. 0)\<rparr> ?s"
    by (simp add: turn_run_def)
  from at_most_three_generations[OF wf_fresh_db run, of "claimed_key sample_claim"] run
  show ?thesis by (intro exI[of _ ?s]) simp
qed

lemma wf_sample_db: "wf_turns sample_db"
  by (auto simp: wf_turns_def turn_view_def sample_db_def action_core_of_def actions_core_def
    model_effects_core_def effects_core_def action_core_def sample_action_def max_generation_attempts_def)


end
