(* ===== verification/TurnPlans.thy ===== *)
theory TurnPlans
  imports TurnSystem
begin

text \<open>
  A committed plan (\<open>CommitPlan\<close> of \<open>adapters/sqlite/turn.go\<close>) seen by the rest of the program: read
  back by \<open>Load\<close>, \<open>Claim\<close> and a repeated \<open>CommitPlan\<close> it is the plan that was returned, and for the
  two outboxes it is new pending rows and nothing else.
\<close>

subsection \<open>Outboxes\<close>

lemma quiet_only_plans:
  assumes "main_tables db' = main_tables db \<or> db_actions db' = db_actions db \<and> db_effects db' = db_effects db"
  shows "only_plans (action_ops tenant) db db'" and "only_plans (effect_ops tenant) db db'"
  using assms by (auto simp: only_plans_def action_ops_def effect_ops_def action_state_def effect_state_def
    main_tables_def)

lemma planned_rows_plans:
  assumes "planned_rows key iid es ids now_ms db rows" and "db_effects db' = db_effects db @ rows"
  shows "only_plans (effect_ops tenant) db db'"
proof -
  have "list_all2 (planned_effect key (ident_value iid) now_ms db) es rows"
    using assms(1) by (simp add: planned_rows_def)
  then have "\<forall>xr \<in> set rows. er_state (snd xr) = StatePending"
    by (induction rule: list_all2_induct) (simp_all add: planned_effect_def)
  then have new: "er_state r = StatePending" if "row rows x = Some r" for x r
    using that by (fastforce dest: map_of_SomeD)
  have "row (db_effects db') x = (case row (db_effects db) x of None \<Rightarrow> row rows x | Some r \<Rightarrow> Some r)" for x
    by (simp add: assms(2) map_add_def)
  with new show ?thesis
    by (auto simp: only_plans_def effect_ops_def effect_state_def split: option.splits)
qed

lemma commit_plans:
  assumes "turn_commit_plan u wide io ids now r db = (res, db')"
  shows "only_plans (action_ops tenant) db db' \<and> only_plans (effect_ops tenant) db db'"
proof -
  from assms have "transact (commit_body u wide io ids now r db) db = (res, db')"
    by (simp add: turn_commit_plan_def)
  then show ?thesis
  proof (cases rule: transact_cases)
    case (commit plan)
    from commit(1) show ?thesis
    proof (cases rule: commit_body_cases)
      case (effect_only x)
      then have "db_actions db' = db_actions db" "db_effects db' = db_effects db @ cx_rows x"
        and rows: "planned_rows (cp_key r) (cp_invocation_id r) (cp_effects r) (id_effect ids) (unix_milli now) db (cx_rows x)"
        by (simp_all add: effect_only_commit_def)
      with planned_rows_plans[OF rows] show ?thesis
        by (simp add: only_plans_def action_ops_def action_state_def)
    next
      case (reply x)
      then have acts: "row (db_actions db) \<lparr>dr_key = cp_key r, dr_action_id = Ident (cx_action x)\<rparr> = None"
          "db_actions db' = put \<lparr>dr_key = cp_key r, dr_action_id = Ident (cx_action x)\<rparr>
            (reply_row r (cx_response x) (unix_milli now)) (db_actions db)"
          "db_effects db' = db_effects db @ cx_rows x"
        and rows: "planned_rows (cp_key r) (cp_invocation_id r) (cp_effects r) (id_effect ids) (unix_milli now) db (cx_rows x)"
        by (simp_all add: reply_commit_def add_history_row_def)
      from acts(1,2) have "only_plans (action_ops tenant) db db'"
        by (auto simp: only_plans_def action_ops_def action_state_def reply_row_def)
      with planned_rows_plans[OF rows acts(3)] show ?thesis by blast
    qed (simp add: quiet_only_plans)
  qed (simp add: quiet_only_plans)
qed

lemma claim_plans:
  assumes "turn_claim_call u io nid r db = (res, db')"
  shows "db_actions db' = db_actions db \<and> db_effects db' = db_effects db"
  using assms
proof (cases rule: claim_call_cases)
  case (moved c)
  from moved(1) obtain way where "claim_way_ok way r db db'" using claim_body_way by metis
  then show ?thesis by (cases way) (auto simp: claim_way_ok_def Let_def main_tables_def)
qed simp

lemma fail_plans:
  assumes "turn_fail_generation io now f db = (res, db')"
  shows "db_actions db' = db_actions db \<and> db_effects db' = db_effects db"
  using assms unfolding turn_fail_generation_def by (elim transact_cases) (auto simp: Let_def)

text \<open>
  C11: the turn store is an environment of the outboxes. Every call of it, whether it commits, fails or
  panics, does to the system of the reply dispatchers and to that of the effect dispatchers what
  their step relations allow other writers: it adds pending rows and changes none. So what holds of
  those systems (no reply and no effect is sent twice) holds while turns are claimed and planned.
\<close>
theorem turn_store_only_plans:
  assumes "db' \<in> {snd (turn_claim_call u io new_id r (sys_db s)),
      snd (turn_commit_plan u wide io ids now c (sys_db s)), snd (turn_fail_generation io now f (sys_db s))}"
    and "sys_db s2 = sys_db s"
  shows "outbox_step (action_ops tenant) refuse s (s\<lparr>sys_db := db'\<rparr>)
    \<and> outbox_step (effect_ops tenant) refusable s2 (s2\<lparr>sys_db := db'\<rparr>)"
proof -
  let ?db = "sys_db s"
  from assms(1) consider "db' = snd (turn_claim_call u io new_id r ?db)"
    | "db' = snd (turn_commit_plan u wide io ids now c ?db)"
    | "db' = snd (turn_fail_generation io now f ?db)" by blast
  then have "only_plans (action_ops tenant) ?db db' \<and> only_plans (effect_ops tenant) ?db db'"
  proof cases
    case 1
    then show ?thesis using claim_plans[OF prod.collapse[symmetric]] quiet_only_plans by metis
  next
    case 2
    then show ?thesis using commit_plans[OF prod.collapse[symmetric]] by metis
  next
    case 3
    then show ?thesis using fail_plans[OF prod.collapse[symmetric]] quiet_only_plans by metis
  qed
  with assms(2) show ?thesis by (metis outbox_step.plan)
qed

theorem turn_store_only_plans_witness:
  "outbox_step (action_ops (Ident ''acme'')) (\<lambda>_. False) (sys_start fresh_db)
     ((sys_start fresh_db)\<lparr>sys_db := snd (turn_claim_call Some (\<lambda>_. None) (Inr ''m1'') sample_claim fresh_db)\<rparr>)"
  using turn_store_only_plans[where s = "sys_start fresh_db" and ?s2.0 = "sys_start fresh_db"
      and u = Some and io = "\<lambda>_. None" and new_id = "Inr ''m1''" and r = sample_claim]
  by (simp add: sys_start_def)

subsection \<open>Reading a plan back\<close>

text \<open>
  What the stores rely on of \<open>uuid.NewV7\<close>: its identifiers are canonical UUIDs, and the ones it
  makes for the effects of a plan ascend.
\<close>

definition generates :: "(string \<Rightarrow> string option) \<Rightarrow> id_source \<Rightarrow> bool" where
  "generates u ids \<longleftrightarrow>
     (\<forall>v. id_message ids = Inr v \<or> id_action ids = Inr v \<or> (\<exists>n. id_effect ids n = Inr v) \<longrightarrow> u v = Some v \<and> v \<noteq> [])
     \<and> (\<forall>m n v w. m < n \<longrightarrow> id_effect ids m = Inr v \<longrightarrow> id_effect ids n = Inr w \<longrightarrow> v < w)"

lemma parse_canonical_ids:
  "u v = Some v \<Longrightarrow> v \<noteq> [] \<Longrightarrow> parse_message_id u v = Inr (Ident v)"
  "u v = Some v \<Longrightarrow> v \<noteq> [] \<Longrightarrow> parse_action_id u v = Inr (Ident v)"
  "u v = Some v \<Longrightarrow> v \<noteq> [] \<Longrightarrow> parse_effect_id u v = Inr (Ident v)"
  by (simp_all add: parse_message_id_def parse_action_id_def parse_effect_id_def parse_uuid_def)

lemma planned_rows_nth:
  assumes "planned_rows key iid es ids now_ms db rows"
  shows "length rows = length es"
    and "i < length rows \<Longrightarrow> ids i = Inr (ident_value (ref_effect_id (fst (rows ! i))))"
proof -
  from assms have all: "list_all2 (planned_effect key (ident_value iid) now_ms db) es rows"
    and ids: "map (\<lambda>(x, _). Inr (ident_value (ref_effect_id x))) rows = map ids [0..<length es]"
    by (simp_all add: planned_rows_def)
  show len: "length rows = length es" using list_all2_lengthD[OF all] by simp
  show "ids i = Inr (ident_value (ref_effect_id (fst (rows ! i))))" if "i < length rows"
    using arg_cong[OF ids, of "\<lambda>l. l ! i"] that len by (simp add: case_prod_unfold)
qed

lemma parse_refs:
  assumes "\<forall>x \<in> set is. u (ident_value x) = Some (ident_value x) \<and> ident_value x \<noteq> []"
  shows "parse_effect_refs u key is = Done (Inr (map (\<lambda>i. \<lparr>edr_key = key, edr_effect_id = i\<rparr>) is))"
  using assms by (induction "is") (simp_all add: parse_canonical_ids res_ok_def)

lemma model_effect_ids_planned:
  assumes "planned_rows key iid es (id_effect ids) now_ms db rows" and "generates u ids"
    and "model_effects_core key (ident_value iid) db = []" and "db_effects db' = db_effects db @ rows"
  shows "model_effect_ids key (ident_value iid) db' = map (\<lambda>(x, _). ref_effect_id x) rows"
proof -
  let ?p = "\<lambda>(ref, r). ref_key ref = key \<and> er_invocation_id r = ident_value iid \<and> er_model_call_id r \<noteq> None"
  have old: "filter ?p (db_effects db) = []"
    using assms(3) by (auto simp: model_effects_core_def effects_core_def filter_empty_conv effect_core_def)
  have all: "list_all2 (planned_effect key (ident_value iid) now_ms db) es rows"
    using assms(1) by (simp add: planned_rows_def)
  then have new: "filter ?p rows = rows" "\<forall>xr \<in> set rows. er_created_at_ms (snd xr) = now_ms"
    by (induction rule: list_all2_induct) (auto simp: planned_effect_def)
  have "ref_effect_id (fst (rows ! i)) < ref_effect_id (fst (rows ! j))" if "i < j" "j < length rows" for i j
  proof -
    have "i < length rows" using that by simp
    then have "id_effect ids i = Inr (ident_value (ref_effect_id (fst (rows ! i))))"
      and "id_effect ids j = Inr (ident_value (ref_effect_id (fst (rows ! j))))"
      using planned_rows_nth(2)[OF assms(1)] that(2) by blast+
    with assms(2) that(1) show ?thesis unfolding generates_def less_ident_def by blast
  qed
  then have "sorted_wrt (\<lambda>a b. ref_effect_id (fst a) < ref_effect_id (fst b)) rows"
    by (simp add: sorted_wrt_iff_nth_less)
  then have "sorted (map (\<lambda>(ref, r). (er_created_at_ms r, ref_effect_id ref)) rows)"
    using new(2) by (induction rows) (auto simp: case_prod_unfold)
  then have "sort_key id (map (\<lambda>(ref, r). (er_created_at_ms r, ref_effect_id ref)) rows)
      = map (\<lambda>(ref, r). (er_created_at_ms r, ref_effect_id ref)) rows"
    by (intro sort_key_id_if_sorted) simp
  then show ?thesis
    unfolding model_effect_ids_def assms(4) filter_append old new(1)
    by (simp add: case_prod_unfold)
qed

lemma dispatch_refs_ids:
  assumes "planned_rows key iid es ids now_ms db rows"
  shows "dispatch_refs rows = map (\<lambda>i. \<lparr>edr_key = key, edr_effect_id = i\<rparr>) (map (\<lambda>(x, _). ref_effect_id x) rows)"
proof -
  have "list_all2 (planned_effect key (ident_value iid) now_ms db) es rows"
    using assms by (simp add: planned_rows_def)
  then show ?thesis by (induction rule: list_all2_induct) (auto simp: planned_effect_def)
qed

lemma load_planned_effects:
  assumes "planned_rows key iid es (id_effect ids) now_ms db rows" and "generates u ids"
    and "model_effects_core key (ident_value iid) db = []" and "db_effects db' = db_effects db @ rows"
  shows "load_model_effect_refs u (\<lambda>_. None) key (ident_value iid) db' = Done (Inr (dispatch_refs rows))"
proof -
  have "u (ident_value x) = Some (ident_value x) \<and> ident_value x \<noteq> []"
    if "x \<in> set (map (\<lambda>(x, _). ref_effect_id x) rows)" for x
  proof -
    from that obtain i where "i < length rows" "x = ref_effect_id (fst (rows ! i))"
      by (auto simp: in_set_conv_nth case_prod_unfold)
    with planned_rows_nth(2)[OF assms(1)] assms(2) show ?thesis unfolding generates_def by blast
  qed
  then have "parse_effect_refs u key (map (\<lambda>(x, _). ref_effect_id x) rows) = Done (Inr (dispatch_refs rows))"
    unfolding dispatch_refs_ids[OF assms(1)] by (intro parse_refs) blast
  then show ?thesis
    by (simp add: load_model_effect_refs_def model_effect_ids_planned[OF assms])
qed

lemma action_of_turn_new:
  assumes "action_of_turn key iid db = None" and "row (db_actions db) ref = None"
    and "db_actions db' = put ref a (db_actions db)" and "dr_key ref = key" and "act_invocation_id a = iid"
  shows "action_of_turn key iid db' = Some (ref, a)"
  using assms by (simp add: action_of_turn_def put_new[OF assms(2)] find_append_new)

lemma effect_only_read_back:
  assumes "effect_only_commit r ids now_ms x db db' plan" and "generates u ids"
    and "model_effects_core (cp_key r) (ident_value (cp_invocation_id r)) db = []"
  shows "\<exists>lt. load_turn_row (cp_key r) (ident_value (cp_invocation_id r)) db' = Some lt \<and> planned lt
    \<and> fst lt = published_row r TurnSucceeded now_ms (cx_turn x)
    \<and> stored_plan_of u (\<lambda>_. None) (cp_key r) (cp_invocation_id r) lt db' = Done (Inr plan)
    \<and> row_delivery lt = DeliverySucceeded"
proof -
  let ?key = "cp_key r" and ?iid = "ident_value (cp_invocation_id r)"
  let ?t = "published_row r TurnSucceeded now_ms (cx_turn x)"
  from assms(1) have rows: "planned_rows ?key (cp_invocation_id r) (cp_effects r) (id_effect ids) now_ms db (cx_rows x)"
    and eff: "db_effects db' = db_effects db @ cx_rows x"
    and plan: "plan = effect_only_plan (cp_invocation_id r) (cp_config_version r) (from_unix_milli now_ms)
       (dispatch_refs (cx_rows x))"
    and act: "action_of_turn ?key ?iid db' = None"
    and turn: "row (db_turns db') (commit_key r) = Some ?t"
    by (auto simp: effect_only_commit_def unplanned_turn_def action_of_turn_def)
  have "row_plan u ?key (cp_invocation_id r) (?t, None) =
      Done (Inr (effect_only_plan (cp_invocation_id r) (cp_config_version r) (from_unix_milli now_ms) []))"
    by (simp add: row_plan_def published_row_def)
  then have "stored_plan_of u (\<lambda>_. None) ?key (cp_invocation_id r) (?t, None) db' = Done (Inr plan)"
    using load_planned_effects[OF rows assms(2,3) eff]
    by (simp add: stored_plan_of_def plan effect_only_plan_def)
  then show ?thesis
    using act turn by (intro exI[of _ "(?t, None)"])
      (simp add: load_turn_row_def planned_def published_row_def row_delivery_def)
qed

lemma reply_read_back:
  assumes "reply_commit r ids now_ms x db db' plan" and "generates u ids"
    and "model_effects_core (cp_key r) (ident_value (cp_invocation_id r)) db = []"
    and "is_zero (cp_reply_to_message_id r) \<or> u (ident_value (cp_reply_to_message_id r))
      = Some (ident_value (cp_reply_to_message_id r))"
  shows "\<exists>lt. load_turn_row (cp_key r) (ident_value (cp_invocation_id r)) db' = Some lt \<and> planned lt
    \<and> fst lt = published_row r TurnResponsePlanned now_ms (cx_turn x)
    \<and> stored_plan_of u (\<lambda>_. None) (cp_key r) (cp_invocation_id r) lt db' = Done (Inr plan)
    \<and> row_delivery lt = DeliveryPending"
proof -
  let ?key = "cp_key r" and ?iid = "ident_value (cp_invocation_id r)"
  let ?t = "published_row r TurnResponsePlanned now_ms (cx_turn x)"
  let ?ref = "\<lparr>dr_key = ?key, dr_action_id = Ident (cx_action x)\<rparr>" and ?a = "reply_row r (cx_response x) now_ms"
  from assms(1) have rows: "planned_rows ?key (cp_invocation_id r) (cp_effects r) (id_effect ids) now_ms db (cx_rows x)"
    and eff: "db_effects db' = db_effects db @ cx_rows x"
    and ids: "id_message ids = Inr (cx_response x)" "id_action ids = Inr (cx_action x)"
    and plan: "plan = reply_plan r (cx_response x) (cx_action x) now_ms (dispatch_refs (cx_rows x))"
    and absent: "row (db_actions db) ?ref = None" "action_of_turn ?key ?iid db = None"
    and acts: "db_actions db' = put ?ref ?a (db_actions db)"
    and turn: "row (db_turns db') (commit_key r) = Some ?t"
    by (simp_all add: reply_commit_def unplanned_turn_def add_history_row_def)
  have act: "action_of_turn ?key ?iid db' = Some (?ref, ?a)"
    by (rule action_of_turn_new[OF absent(2,1) acts]) (simp_all add: reply_row_def)
  have canon: "u (cx_response x) = Some (cx_response x)" "cx_response x \<noteq> []"
    "u (cx_action x) = Some (cx_action x)" "cx_action x \<noteq> []"
    using assms(2) ids unfolding generates_def by blast+
  have target: "(case nullable_message_id (cp_reply_to_message_id r) of None \<Rightarrow> Inr zero_id
      | Some m \<Rightarrow> parse_message_id u m) = Inr (cp_reply_to_message_id r)"
    using assms(4) by (cases "cp_reply_to_message_id r")
      (auto simp: nullable_message_id_def is_zero_def zero_id_def parse_canonical_ids)
  have "row_plan u ?key (cp_invocation_id r) (?t, Some (?ref, ?a)) =
      Done (Inr (reply_plan r (cx_response x) (cx_action x) now_ms []))"
    using canon target
    by (auto simp: row_plan_def published_row_def Let_def reply_row_def parse_canonical_ids reply_plan_def
      nullable_message_id_def split: option.splits if_splits)
  then have "stored_plan_of u (\<lambda>_. None) ?key (cp_invocation_id r) (?t, Some (?ref, ?a)) db' = Done (Inr plan)"
    using load_planned_effects[OF rows assms(2,3) eff]
    by (simp add: stored_plan_of_def plan reply_plan_def)
  then show ?thesis
    using act turn by (intro exI[of _ "(?t, Some (?ref, ?a))"])
      (simp add: load_turn_row_def planned_def row_delivery_def reply_row_def)
qed

lemma commit_replay_stored:
  assumes "stored_plan_of u (\<lambda>_. None) (cp_key r) (cp_invocation_id r) lt db = Done (Inr plan)"
    and "sp_config_version plan = cp_config_version r" and "sp_text plan = cp_response_text r"
    and "sp_reply_to_message_id plan = cp_reply_to_message_id r"
  shows "commit_replay u (\<lambda>_. None) r lt db = Done (Inr (plan, db))"
  using assms by (auto simp: stored_plan_of_def commit_replay_def)

lemma commit_fresh_claimed:
  assumes "turn_commit_plan u wide io ids now r db = (Done (Inr plan), db')"
    and "unplanned_turn r db t" and "wf_turns db"
  shows "tn_claimed t" and "\<exists>mid. parse_message_id u (tn_message_id t) = Inr mid"
    and "key_validate (cp_key r) = None" and "\<not> is_zero (cp_invocation_id r)"
    and "cp_response_text r = [] \<Longrightarrow> cp_reply_to_message_id r = zero_id"
    and "model_effects_core (cp_key r) (ident_value (cp_invocation_id r)) db = []"
proof -
  from assms(2) have t: "row (db_turns db) (commit_key r) = Some t" "tn_state t = TurnGenerating"
      "action_of_turn (cp_key r) (ident_value (cp_invocation_id r)) db = None"
    by (simp_all add: unplanned_turn_def)
  from wf_turnsD[OF assms(3), of "commit_key r"] t
  show "tn_claimed t" "model_effects_core (cp_key r) (ident_value (cp_invocation_id r)) db = []"
    by (auto simp: turn_view_def action_core_of_turn)
  have body: "commit_body u wide io ids now r db = Done (Inr (plan, db'))"
    using assms(1) by (auto simp: turn_commit_plan_def elim: transact_cases)
  then show "key_validate (cp_key r) = None" "\<not> is_zero (cp_invocation_id r)"
    "cp_response_text r = [] \<Longrightarrow> cp_reply_to_message_id r = zero_id"
    by (auto simp: commit_body_def Let_def trim_space_def is_zero_def zero_id_def ident.expand
      trim_left_fun.simps trim_right_fun.simps)
  have "load_turn_row (cp_key r) (ident_value (cp_invocation_id r)) db = Some (t, None)"
    using t by (simp add: load_turn_row_def)
  with body t(2) have "commit_fresh u wide io ids (unix_milli now) r t db = Done (Inr (plan, db'))"
    by (simp add: commit_body_def Let_def planned_def)
  then show "\<exists>mid. parse_message_id u (tn_message_id t) = Inr mid"
    by (cases "parse_message_id u (tn_message_id t)") (simp_all add: commit_fresh_def)
qed

lemma commit_unplanned:
  assumes "turn_commit_plan u wide io ids now r db = (Done (Inr plan), db')"
    and "view_plan (turn_view db (commit_key r)) = None"
  obtains x where "effect_only_commit r ids (unix_milli now) x db db' plan"
  | x where "reply_commit r ids (unix_milli now) x db db' plan"
proof -
  from assms(1) have "commit_body u wide io ids now r db = Done (Inr (plan, db'))"
    by (auto simp: turn_commit_plan_def elim: transact_cases)
  then show thesis
  proof (cases rule: commit_body_cases)
    case (replay lt)
    then have "view_plan (turn_view db (commit_key r)) \<noteq> None"
      by (auto simp: turn_view_def load_turn_row_def planned_def action_core_of_turn)
    with assms(2) show thesis by contradiction
  qed (use that in blast)+
qed

lemma turn_load_planned:
  assumes "load_turn_row key (ident_value iid) db = Some lt" and "planned lt" and "tn_claimed (fst lt)"
    and "parse_message_id u (tn_message_id (fst lt)) = Inr mid" and "key_validate key = None"
    and "\<not> is_zero iid" and "stored_plan_of u (\<lambda>_. None) key iid lt db = Done (Inr plan)"
  shows "turn_load u (\<lambda>_. None) key iid db = Done (Inr \<lparr>tr_key = key, tr_invocation_id = iid,
    tr_message_id = mid, tr_state = tn_state (fst lt), tr_plan = Some plan, tr_delivery = row_delivery lt,
    tr_updated_at = from_unix_milli (tn_updated_at_ms (fst lt))\<rparr>)"
  using assms by (simp add: turn_load_def)

text \<open>
  C6: a committed plan is read back. After a turn without a plan was planned, \<open>Load\<close> returns the
  very plan that \<open>CommitPlan\<close> returned (text, reply target, identifiers, and the effects in
  their order), with the delivery that plan stands for; and committing the same request again, with
  whatever fresh identifiers and clock, returns the same plan and changes nothing.
\<close>
theorem committed_plan_is_read_back:
  assumes "turn_commit_plan u wide io ids now r db = (Done (Inr plan), db')" and "wf_turns db"
    and "view_plan (turn_view db (commit_key r)) = None" and "generates u ids"
    and "is_zero (cp_reply_to_message_id r) \<or>
      u (ident_value (cp_reply_to_message_id r)) = Some (ident_value (cp_reply_to_message_id r))"
  shows "\<exists>rec. turn_load u (\<lambda>_. None) (cp_key r) (cp_invocation_id r) db' = Done (Inr rec)
    \<and> tr_plan rec = Some plan
    \<and> tr_delivery rec = (if cp_response_text r = [] then DeliverySucceeded else DeliveryPending)
    \<and> turn_commit_plan u wide2 (\<lambda>_. None) ids2 now2 r db' = (Done (Inr plan), db')"
proof -
  let ?key = "cp_key r" and ?iid = "cp_invocation_id r"
  have "\<exists>t lt. unplanned_turn r db t \<and> load_turn_row ?key (ident_value ?iid) db' = Some lt \<and> planned lt
    \<and> tn_message_id (fst lt) = tn_message_id t \<and> tn_claimed (fst lt) = tn_claimed t
    \<and> stored_plan_of u (\<lambda>_. None) ?key ?iid lt db' = Done (Inr plan)
    \<and> row_delivery lt = (if cp_response_text r = [] then DeliverySucceeded else DeliveryPending)
    \<and> sp_config_version plan = cp_config_version r \<and> sp_text plan = cp_response_text r
    \<and> sp_reply_to_message_id plan = cp_reply_to_message_id r"
    using assms(1,3)
  proof (cases rule: commit_unplanned)
    case (1 x)
    then have un: "unplanned_turn r db (cx_turn x)" and reply_text: "cp_response_text r = []"
      and plan: "sp_config_version plan = cp_config_version r" "sp_text plan = []" "sp_reply_to_message_id plan = zero_id"
      by (simp_all add: effect_only_commit_def effect_only_plan_def)
    note fresh = commit_fresh_claimed[OF assms(1) un assms(2)]
    from effect_only_read_back[OF 1 assms(4) fresh(6)] un reply_text plan fresh(5)[OF reply_text] show ?thesis
      by (auto simp: published_row_def)
  next
    case (2 x)
    then have un: "unplanned_turn r db (cx_turn x)" and reply_text: "cp_response_text r \<noteq> []"
      and plan: "sp_config_version plan = cp_config_version r" "sp_text plan = cp_response_text r"
        "sp_reply_to_message_id plan = cp_reply_to_message_id r"
      by (simp_all add: reply_commit_def reply_plan_def)
    from reply_read_back[OF 2 assms(4) commit_fresh_claimed(6)[OF assms(1) un assms(2)] assms(5)] un reply_text plan
    show ?thesis by (auto simp: published_row_def)
  qed
  then obtain t lt where un: "unplanned_turn r db t"
    and lt: "load_turn_row ?key (ident_value ?iid) db' = Some lt" "planned lt"
      "tn_message_id (fst lt) = tn_message_id t" "tn_claimed (fst lt) = tn_claimed t"
    and stored: "stored_plan_of u (\<lambda>_. None) ?key ?iid lt db' = Done (Inr plan)"
    and delivery: "row_delivery lt = (if cp_response_text r = [] then DeliverySucceeded else DeliveryPending)"
    and same: "sp_config_version plan = cp_config_version r" "sp_text plan = cp_response_text r"
      "sp_reply_to_message_id plan = cp_reply_to_message_id r"
    by (elim exE conjE) (rule that)
  note fresh = commit_fresh_claimed[OF assms(1) un assms(2)]
  obtain mid where mid: "parse_message_id u (tn_message_id (fst lt)) = Inr mid" using fresh(2) lt(3) by metis
  have "commit_body u wide io ids now r db = Done (Inr (plan, db'))"
    using assms(1) by (auto simp: turn_commit_plan_def elim: transact_cases)
  then have "commit_body u wide2 (\<lambda>_. None) ids2 now2 r db' = Done (Inr (plan, db'))"
    using commit_replay_stored[OF stored same] lt(1,2)
    by (auto simp: commit_body_def Let_def)
  then have "turn_commit_plan u wide2 (\<lambda>_. None) ids2 now2 r db' = (Done (Inr plan), db')"
    by (simp add: turn_commit_plan_def transact_def)
  with turn_load_planned[OF lt(1,2) _ mid fresh(3,4) stored] lt(4) fresh(1) delivery show ?thesis by simp
qed

definition sample_ids :: id_source where
  "sample_ids = \<lparr>id_message = Inr ''r1'', id_action = Inr ''a1'', id_effect = (\<lambda>n. if n = 0 then Inr ''e1''
     else Inl (Plain ''out of entropy''))\<rparr>"

definition sample_commit :: commit_plan_request where
  "sample_commit = \<lparr>cp_key = dr_key sample_ref, cp_invocation_id = Ident ''i1'',
     cp_current_message_id = Ident ''m1'', cp_config_version = 1, cp_response_text = ''yes'',
     cp_reply_to_message_id = zero_id, cp_capabilities = CapabilitySet [], cp_effects = []\<rparr>"

definition sample_turn_db :: outbox_db where
  "sample_turn_db = fresh_db\<lparr>db_turns := [((dr_key sample_ref, ''i1''), new_turn_row sample_claim ''m1'')]\<rparr>"

lemma sample_reply_valid:
  "validate_history_entry wide
    (reply_entry sample_commit (new_turn_row sample_claim ''m1'') ''r1'' (Ident ''c1'') None 5) = Done None"
  by (simp add: validate_history_entry_def Let_def reply_entry_def sample_commit_def new_turn_row_def
    sample_claim_def sample_direct_def from_unix_milli_def is_zero_def known_causation_def
    known_role_def sender_missing_def sender_name_invalid_def sender_role_invalid_def ascii_eval
    max_display_name_bytes_def validate_quote_context_def max_history_bytes_def max_input_bytes_def
    validate_mention_contexts_def max_bindings_def entry_delivery_check_def)

lemma sample_commit_ok:
  "\<exists>plan db'. turn_commit_plan Some wide (\<lambda>_. None) sample_ids (from_unix_milli 5) sample_commit sample_turn_db
      = (Done (Inr plan), db') \<and> sp_text plan = ''yes''"
proof -
  let ?t = "new_turn_row sample_claim ''m1''" and ?k = "(dr_key sample_ref, ''i1'')"
  have req: "cp_key sample_commit = dr_key sample_ref" "cp_invocation_id sample_commit = Ident ''i1''"
    "cp_current_message_id sample_commit = Ident ''m1''" "cp_config_version sample_commit = 1"
    "cp_response_text sample_commit = ''yes''" "cp_reply_to_message_id sample_commit = zero_id"
    "cp_effects sample_commit = []"
    by (simp_all add: sample_commit_def)
  have turn: "tn_state ?t = TurnGenerating" "tn_config_version ?t = Some 1" "tn_message_id ?t = ''m1''"
    "tn_causation_id ?t = ''c1''"
    by (simp_all add: new_turn_row_def Let_def sample_claim_def sample_direct_def)
  have load: "load_turn_row (dr_key sample_ref) ''i1'' sample_turn_db = Some (?t, None)"
    by (simp add: load_turn_row_def sample_turn_db_def action_of_turn_def fresh_db_def)
  have "\<exists>plan db'. commit_reply Some wide (\<lambda>_. None) sample_ids 5 sample_commit ?t sample_turn_db
      = Done (Inr (plan, db')) \<and> sp_text plan = ''yes''"
    using sample_reply_valid
    by (simp add: commit_reply_def req turn sample_ids_def parse_causation_id_def parse_uuid_def Let_def
      is_zero_def zero_id_def insert_action_def insert_reply_history_def history_conflicts_def
      insert_model_effects_tx_def publish_plan_def update_where_def sample_turn_db_def add_history_row_def
      fresh_db_def action_of_turn_def reply_plan_def reply_entry_def res_ok_def)
  moreover have "trim_space ''yes'' \<noteq> []" by (simp add: ascii_eval)
  moreover have "key_validate (dr_key sample_ref) = None"
    by (simp add: key_validate_def sample_ref_def is_zero_def)
  ultimately show ?thesis
    by (auto simp: turn_commit_plan_def transact_def commit_body_def Let_def req load turn planned_def is_zero_def
      zero_id_def commit_fresh_def parse_message_id_def parse_uuid_def validate_model_effects_def)
qed

lemma sample_turn_unplanned:
  "wf_turns sample_turn_db" "view_plan (turn_view sample_turn_db (commit_key sample_commit)) = None"
  by (auto simp: wf_turns_def turn_view_def sample_turn_db_def fresh_db_def action_core_of_def actions_core_def
    model_effects_core_def effects_core_def new_turn_row_def Let_def sample_claim_def sample_direct_def
    max_generation_attempts_def)

theorem committed_plan_is_read_back_witness:
  "\<exists>plan db'. turn_commit_plan Some (\<lambda>_. False) (\<lambda>_. None) sample_ids (from_unix_milli 5) sample_commit sample_turn_db
      = (Done (Inr plan), db')
    \<and> sp_text plan = ''yes''
    \<and> (\<exists>rec. turn_load Some (\<lambda>_. None) (cp_key sample_commit) (cp_invocation_id sample_commit) db' = Done (Inr rec)
        \<and> tr_plan rec = Some plan \<and> tr_delivery rec = DeliveryPending)"
proof -
  obtain plan db' where ok: "turn_commit_plan Some (\<lambda>_. False) (\<lambda>_. None) sample_ids (from_unix_milli 5) sample_commit sample_turn_db
      = (Done (Inr plan), db')" "sp_text plan = ''yes''"
    using sample_commit_ok by blast
  have "generates Some sample_ids"
    by (auto simp: generates_def sample_ids_def split: if_splits)
  from committed_plan_is_read_back[OF ok(1) sample_turn_unplanned this, of "\<lambda>_. False" sample_ids 5] ok
  show ?thesis by (auto simp: sample_commit_def zero_id_def is_zero_def)
qed

end
