(* ===== verification/HistoryPages.thy ===== *)
theory HistoryPages
  imports HistoryStore "HOL-Library.Sublist"
begin

text \<open>
  What a page of the transcript holds (\<open>list\<close> and \<open>placeLateReplies\<close> of
  \<open>internal/adapters/sqlite/history.go\<close>): following the cursors reads the visible transcript, each
  entry once, and the window of a turn ends with the message the turn answers.
\<close>

subsection \<open>Rows\<close>

text \<open>
  The table as the schema keeps it: \<open>sequence\<close> is the primary key and counts up from 1,
  and a reset's cutoff is a sequence that was given out.
\<close>

definition wf_history :: "outbox_db \<Rightarrow> bool" where
  "wf_history db \<longleftrightarrow> distinct (map (\<lambda>(_, h). hr_sequence h) (db_history db))
     \<and> distinct (map fst (db_history db))
     \<and> (\<forall>(k, h) \<in> set (db_history db). 0 < hr_sequence h \<and> hr_sequence h \<le> db_last_sequence db)
     \<and> (\<forall>(k, r) \<in> set (db_resets db). rt_cutoff r \<le> db_last_sequence db)"

abbreviation seq_of :: "string \<times> history_row \<Rightarrow> nat" where
  "seq_of x \<equiv> hr_sequence (snd x)"

lemma chat_history_set:
  "(mid, h) \<in> set (chat_history key db) \<longleftrightarrow> ((key, mid), h) \<in> set (db_history db)"
  by (force simp: chat_history_def image_iff)

lemma chat_history_distinct:
  assumes "wf_history db"
  shows "distinct (map seq_of (chat_history key db))"
proof -
  let ?rows = "map (\<lambda>((_, mid), h). (mid, h)) (filter (\<lambda>((k, _), _). k = key) (db_history db))"
  have all: "distinct (map seq_of (map (\<lambda>((_, mid), h). (mid, h)) (db_history db)))"
    using assms by (simp add: wf_history_def comp_def case_prod_unfold)
  have "map seq_of ?rows = map (\<lambda>(_, h). hr_sequence h) (filter (\<lambda>((k, _), _). k = key) (db_history db))"
    by (simp add: case_prod_unfold)
  then have "distinct (map seq_of ?rows)"
    using all by (auto simp: distinct_map case_prod_unfold comp_def inj_on_def)
  then have "distinct ?rows" and "inj_on seq_of (set ?rows)" by (simp_all only: distinct_map)
  then show ?thesis
    unfolding chat_history_def distinct_map[of seq_of] set_sort distinct_sort by simp
qed

lemma chat_history_ascending:
  assumes "wf_history db"
  shows "sorted_wrt (<) (map seq_of (chat_history key db))"
proof -
  have "sorted (map (\<lambda>(_, h). hr_sequence h) (chat_history key db))"
    unfolding chat_history_def by (rule sorted_sort_key)
  then show ?thesis
    using chat_history_distinct[OF assms, of key] by (simp add: strict_sorted_iff case_prod_unfold)
qed

definition visible_rows :: "agent_key \<Rightarrow> outbox_db \<Rightarrow> (string \<times> history_row) list" where
  "visible_rows key db = filter (\<lambda>(_, h). hr_sequence h > reset_cutoff key db) (chat_history key db)"

lemma visible_ascending:
  "wf_history db \<Longrightarrow> sorted_wrt (<) (map seq_of (visible_rows key db))"
  using sorted_wrt_filter[of "\<lambda>x y. seq_of x < seq_of y" "chat_history key db"] chat_history_ascending[of db key]
  by (simp add: visible_rows_def sorted_wrt_map)

text \<open>What a transcript entry shows of its row.\<close>

definition shows_row :: "(string \<Rightarrow> string option) \<Rightarrow> history_entry \<Rightarrow> string \<times> history_row \<Rightarrow> bool" where
  "shows_row u e x \<longleftrightarrow> (case x of (mid, h) \<Rightarrow> he_sequence e = hr_sequence h \<and> he_role e = hr_role h
     \<and> parse_message_id u mid = Inr (he_message_id e)
     \<and> parse_invocation_id u (hr_invocation_id h) = Inr (he_invocation_id e)
     \<and> he_content e = [TextPart (hr_content h)] \<and> he_delivery e = hr_delivery h
     \<and> he_created_at e = from_unix_milli (hr_created_at_ms h))"

lemma map_sum_ok [simp]: "map_sum f id r = Inr a \<longleftrightarrow> r = Inr a"
  by (cases r) auto

lemma scan_shows: "scan_history_entry u mid h = Done (Inr e) \<Longrightarrow> shows_row u e (mid, h)"
  by (auto simp: scan_history_entry_def shows_row_def)

lemma scan_rows_shows:
  "scan_rows u io rows = Done (Inr loaded) \<Longrightarrow>
     map fst loaded = map seq_of rows \<and> list_all2 (shows_row u) (map snd loaded) rows"
  by (induction u io rows arbitrary: loaded rule: scan_rows.induct) (auto dest: scan_shows)

lemma query_shows:
  "query_history_entries u io rows = Done (Inr loaded) \<Longrightarrow>
     map fst loaded = map seq_of rows \<and> list_all2 (shows_row u) (map snd loaded) rows"
  by (auto simp: query_history_entries_def dest: scan_rows_shows)

lemma hydrate_entry_shows:
  "hydrate_entry wide b e = Done (Inr e') \<Longrightarrow> shows_row u e' x = shows_row u e x"
  by (auto simp: hydrate_entry_def hydrate_history_mentions_def with_mentions_def shows_row_def
    split: outcome.splits prod.splits)

lemma hydrate_all_shows:
  assumes "hydrate_all wide b es = Done (Inr es')" and "list_all2 (shows_row u) es rows"
  shows "list_all2 (shows_row u) es' rows"
  using assms
proof (induction es arbitrary: es' rows)
  case (Cons e es)
  then obtain x xs where "rows = x # xs" by (cases rows) auto
  with Cons show ?case by (auto dest: hydrate_entry_shows[where u = u and x = x])
qed simp

lemma page_of_cong:
  assumes "map fst xs = map fst ys"
  shows "page_of limit xs = page_of limit ys"
proof -
  have "length xs = length ys" using assms by (rule map_eq_imp_length_eq)
  moreover have "fst (last (take limit xs)) = fst (last (take limit ys))" if "take limit xs \<noteq> []"
  proof -
    have "map fst (take limit xs) = map fst (take limit ys)" using assms by (simp flip: take_map)
    moreover from this that have "take limit ys \<noteq> []" by auto
    ultimately show ?thesis using that by (metis last_map)
  qed
  ultimately show ?thesis by (auto simp: page_of_def Let_def fun_eq_iff)
qed

text \<open>A page that is returned comes from the rows of the two statements.\<close>

lemma store_list_ok:
  assumes "store_list u wide io key version query guarded db = Done (Inr page)"
  obtains before through loaded replies where "decode_history_cursor (hq_before query) = Done (Inr before)"
    and "history_through io key (hq_through_invocation_id query) (reset_cutoff key db) db = Done (Inr through)"
    and "list_all2 (shows_row u) (map snd loaded)
      (page_rows key (reset_cutoff key db) before through (hq_limit query) db)"
    and "map fst loaded = map seq_of (page_rows key (reset_cutoff key db) before through (hq_limit query) db)"
    and "list_all2 (shows_row u) replies (if through > 0 then late_rows key (reset_cutoff key db) through
        (ident_value (hq_through_invocation_id query)) (hq_limit query) db else [])"
    and "page = page_of (hq_limit query) loaded (map snd loaded) replies"
    and "0 < hq_limit query" and "hq_limit query \<le> max_history_page_size"
proof -
  let ?rows = "\<lambda>b t. page_rows key (reset_cutoff key db) b t (hq_limit query) db"
  let ?late = "\<lambda>t. if t > 0 then late_rows key (reset_cutoff key db) t
    (ident_value (hq_through_invocation_id query)) (hq_limit query) db else []"
  from assms obtain before through loaded0 late0 bindings entries replies where
    cur: "decode_history_cursor (hq_before query) = Done (Inr before)"
    and thr: "history_through io key (hq_through_invocation_id query) (reset_cutoff key db) db = Done (Inr through)"
    and rows: "query_history_entries u io (?rows before through) = Done (Inr loaded0)"
    and late: "(if through > 0 then query_history_entries u io (?late through) else res_ok []) = Done (Inr late0)"
    and hyd: "hydrate_all wide bindings (map snd loaded0) = Done (Inr entries)"
      "hydrate_all wide bindings (map snd late0) = Done (Inr replies)"
    and page: "page = page_of (hq_limit query) loaded0 entries replies"
    and lim: "0 < hq_limit query" "hq_limit query \<le> max_history_page_size"
    by (auto simp: store_list_def Let_def not_le split: if_splits)
  define loaded where "loaded = zip (map fst loaded0) entries"
  note shown = query_shows[OF rows]
  from hydrate_all_shows[OF hyd(1) conjunct2[OF shown]]
  have entries: "list_all2 (shows_row u) entries (?rows before through)" .
  then have len: "length entries = length loaded0"
    using conjunct2[OF shown] by (simp add: list_all2_lengthD[OF entries] list_all2_conv_all_nth)
  then have "map snd loaded = entries" "map fst loaded = map fst loaded0" "length loaded = length loaded0"
    by (simp_all add: loaded_def)
  moreover from this have "page_of (hq_limit query) loaded0 = page_of (hq_limit query) loaded"
    by (intro page_of_cong) simp
  moreover have "list_all2 (shows_row u) replies (?late through)"
    using late hyd(2) by (auto split: if_splits intro: hydrate_all_shows[OF _ conjunct2[OF query_shows]])
  ultimately show thesis
    using that[OF cur thr, of loaded replies] entries shown page lim by simp
qed

subsection \<open>Paging\<close>

definition older :: "int \<Rightarrow> (string \<times> history_row) list \<Rightarrow> (string \<times> history_row) list" where
  "older before rows = filter (\<lambda>x. before > 0 \<longrightarrow> int (seq_of x) < before) rows"

definition newest :: "nat \<Rightarrow> 'a list \<Rightarrow> 'a list" where
  "newest n xs = drop (length xs - n) xs"

lemma rev_take_rev: "rev (take n (rev xs)) = newest n xs"
  by (simp add: newest_def rev_take)

lemma decode_encode_cursor:
  "0 < n \<Longrightarrow> n < 2 ^ 63 \<Longrightarrow> decode_history_cursor (encode_history_cursor n) = Done (Inr (int n))"
  by (simp add: decode_history_cursor_def encode_history_cursor_def has_prefix_def parse36_format36 Let_def
    res_ok_def)

lemma history_through_none: "is_zero iid \<Longrightarrow> history_through io key iid cutoff db = Done (Inr 0)"
  by (simp add: history_through_def res_ok_def)

lemma page_rows_older:
  "page_rows key (reset_cutoff key db) before 0 limit db = take (limit + 1) (rev (older before (visible_rows key db)))"
  by (simp add: page_rows_def older_def visible_rows_def rev_filter case_prod_unfold)

lemma list_page:
  assumes "store_list u wide io key version query guarded db = Done (Inr page)"
    and "is_zero (hq_through_invocation_id query)" and "decode_history_cursor (hq_before query) = Done (Inr before)"
  shows "list_all2 (shows_row u) (hp_entries page) (newest (hq_limit query) (older before (visible_rows key db)))"
    and "hp_next page = (if length (older before (visible_rows key db)) > hq_limit query
      then Some (encode_history_cursor (seq_of (hd (newest (hq_limit query) (older before (visible_rows key db))))))
      else None)"
    and "0 < hq_limit query"
proof -
  let ?n = "hq_limit query" and ?old = "older before (visible_rows key db)"
  obtain loaded where rows: "list_all2 (shows_row u) (map snd loaded) (take (?n + 1) (rev ?old))"
      "map fst loaded = map seq_of (take (?n + 1) (rev ?old))"
    and page: "page = page_of ?n loaded (map snd loaded) []" and pos: "0 < ?n"
    using store_list_ok[OF assms(1)] assms(2,3) by (auto simp: history_through_none page_rows_older)
  have "list_all2 (shows_row u) (take ?n (map snd loaded)) (take ?n (take (?n + 1) (rev ?old)))"
    using rows(1) by (rule list_all2_takeI)
  then have "list_all2 (shows_row u) (rev (take ?n (map snd loaded))) (newest ?n ?old)"
    by (simp add: min_def flip: rev_take_rev)
  then show "list_all2 (shows_row u) (hp_entries page) (newest ?n ?old)"
    by (simp add: page page_of_def Let_def)
  have len: "length loaded = min (length ?old) (?n + 1)"
    using arg_cong[OF rows(2), of length] by simp
  have "fst (last (take ?n loaded)) = seq_of (hd (newest ?n ?old))" if "length ?old > ?n"
  proof -
    have ne: "take ?n loaded \<noteq> []" "take ?n (rev ?old) \<noteq> []" using that pos len by auto
    have "map fst (take ?n loaded) = map seq_of (take ?n (rev ?old))"
      using rows(2) by (simp add: take_map min_def flip: take_map)
    then have "fst (last (take ?n loaded)) = seq_of (last (take ?n (rev ?old)))"
      using ne by (metis last_map)
    also have "last (take ?n (rev ?old)) = hd (newest ?n ?old)"
      using ne(2) by (simp add: hd_rev flip: rev_take_rev)
    finally show ?thesis .
  qed
  moreover have "take ?n loaded \<noteq> []" if "length ?old > ?n" using that pos len by auto
  ultimately show "hp_next page = (if length ?old > ?n then Some (encode_history_cursor (seq_of (hd (newest ?n ?old)))) else None)"
    using len by (auto simp: page page_of_def Let_def)
  show "0 < ?n" by (rule pos)
qed

lemma sorted_filter_less:
  assumes "sorted_wrt (<) (map f xs)" and "k < length xs"
  shows "filter (\<lambda>x. f x < (f (xs ! k) :: nat)) xs = take k xs"
proof -
  have "f (xs ! i) < f (xs ! j)" if "i < j" "j < length xs" for i j
    using sorted_wrt_nth_less[OF assms(1) that(1)] that by simp
  then have "\<forall>x \<in> set (take k xs). f x < f (xs ! k)" and "\<forall>x \<in> set (drop k xs). \<not> f x < f (xs ! k)"
    using assms(2) by (auto simp: in_set_conv_nth)
      (metis add.commute le_add1 le_neq_implies_less less_asym less_diff_conv less_irrefl_nat)
  then have "filter (\<lambda>x. f x < f (xs ! k)) (take k xs @ drop k xs) = take k xs"
    unfolding filter_append by simp
  then show ?thesis by simp
qed

text \<open>A reader that follows the cursors to the beginning, with at most \<open>n\<close> pages.\<close>

fun read_back :: "(string \<Rightarrow> history_page result) \<Rightarrow> nat \<Rightarrow> string \<Rightarrow> history_entry list result option" where
  "read_back page_at 0 cursor = None"
| "read_back page_at (Suc n) cursor = (case page_at cursor of
     Panic \<Rightarrow> Some Panic
   | Done (Inl e) \<Rightarrow> Some (res_fail e)
   | Done (Inr page) \<Rightarrow> (case hp_next page of
       None \<Rightarrow> Some (res_ok (hp_entries page))
     | Some next \<Rightarrow> map_option (\<lambda>older. res_bind older (\<lambda>es. res_ok (es @ hp_entries page)))
         (read_back page_at n next)))"

definition reads_back :: "(string \<Rightarrow> string option) \<Rightarrow> history_entry list result option \<Rightarrow>
    (string \<times> history_row) list \<Rightarrow> bool" where
  "reads_back u r rows \<longleftrightarrow> (case r of None \<Rightarrow> False
     | Some res \<Rightarrow> \<forall>es. res = Done (Inr es) \<longrightarrow> list_all2 (shows_row u) es rows)"

lemma read_back_older:
  assumes "wf_history db \<and> db_last_sequence db < 2 ^ 63" and "length (older before (visible_rows key db)) < n"
    and "decode_history_cursor cursor = Done (Inr before)"
  shows "reads_back u (read_back (\<lambda>c. store_list u wide io key version
      \<lparr>hq_before = c, hq_through_invocation_id = zero_id, hq_limit = limit\<rparr> guarded db) n cursor)
    (older before (visible_rows key db))"
  using assms(2,3)
proof (induction n arbitrary: cursor before)
  case (Suc n)
  let ?list = "\<lambda>c. store_list u wide io key version
      \<lparr>hq_before = c, hq_through_invocation_id = zero_id, hq_limit = limit\<rparr> guarded db"
  let ?vis = "visible_rows key db"
  let ?old = "older before ?vis"
  show ?case
  proof (cases "?list cursor")
    case (Done r)
    show ?thesis
    proof (cases r)
      case (Inr page)
      have "is_zero (hq_through_invocation_id \<lparr>hq_before = cursor, hq_through_invocation_id = zero_id, hq_limit = limit\<rparr>)"
        "decode_history_cursor (hq_before \<lparr>hq_before = cursor, hq_through_invocation_id = zero_id, hq_limit = limit\<rparr>)
          = Done (Inr before)"
        using Suc.prems(2) by (simp_all add: is_zero_def zero_id_def)
      from list_page[OF Done[unfolded Inr] this]
      have shown: "list_all2 (shows_row u) (hp_entries page) (newest limit ?old)" and pos: "0 < limit"
        and nxt: "hp_next page = (if length ?old > limit then Some (encode_history_cursor (seq_of (hd (newest limit ?old))))
          else None)" by simp_all
      show ?thesis
      proof (cases "length ?old > limit")
        case False
        with shown nxt Done Inr show ?thesis by (auto simp: reads_back_def newest_def)
      next
        case True
        define k where "k = length ?old - limit"
        define q where "q = seq_of (?old ! k)"
        have k: "k < length ?old" using True pos by (simp add: k_def)
        have hd: "seq_of (hd (newest limit ?old)) = q"
          using k by (simp add: newest_def hd_drop_conv_nth q_def k_def)
        have asc: "sorted_wrt (<) (map seq_of ?old)"
          using visible_ascending[OF conjunct1[OF assms(1)]] sorted_wrt_filter unfolding older_def sorted_wrt_map by blast
        have "?old ! k \<in> set ?old" using k by simp
        then have in_vis: "?old ! k \<in> set ?vis" and below: "before > 0 \<longrightarrow> int q < before"
          by (auto simp: older_def q_def)
        have "\<exists>mid. ((key, mid), snd (?old ! k)) \<in> set (db_history db)"
          using in_vis chat_history_set[of "fst (?old ! k)" "snd (?old ! k)" key db]
          by (auto simp: visible_rows_def)
        then have "0 < q" "q \<le> db_last_sequence db" "db_last_sequence db < 2 ^ 63"
          using assms(1) by (auto simp: wf_history_def q_def)
        then have q: "0 < q" "q < 2 ^ 63" by simp_all
        have "older (int q) ?vis = filter (\<lambda>x. seq_of x < q) ?old"
          using q(1) below by (auto simp: older_def intro!: filter_cong)
        also have "\<dots> = take k ?old" unfolding q_def by (rule sorted_filter_less[OF asc k])
        finally have rest: "older (int q) ?vis = take k ?old" .
        then have "length (older (int q) ?vis) < n" using k Suc.prems(1) by simp
        from Suc.IH[OF this decode_encode_cursor[OF q]] obtain res where
          res: "read_back ?list n (encode_history_cursor q) = Some res"
            "\<And>es. res = Done (Inr es) \<Longrightarrow> list_all2 (shows_row u) es (take k ?old)"
          unfolding rest by (auto simp: reads_back_def split: option.splits)
        have step: "read_back ?list (Suc n) cursor
            = Some (res_bind res (\<lambda>es. res_ok (es @ hp_entries page)))"
          using nxt True hd Done Inr res(1) by simp
        have "list_all2 (shows_row u) (es @ hp_entries page) (take k ?old @ drop k ?old)"
          if "res = Done (Inr es)" for es
          using res(2)[OF that] shown by (intro list_all2_appendI) (simp_all add: newest_def k_def)
        then show ?thesis
          unfolding step reads_back_def by (simp add: append_take_drop_id) blast
      qed
    qed (simp add: Done reads_back_def res_fail_def)
  qed (simp add: reads_back_def)
qed simp

subsection \<open>The window of a turn\<close>

lemma newest_entry_of_last:
  "newest_entry_of iid k es at0 = Some at \<Longrightarrow>
     at0 = Some at \<or> k \<le> at \<and> at < k + length es \<and> he_invocation_id (es ! (at - k)) = iid"
  by (induction iid k es at0 rule: newest_entry_of.induct)
    (auto split: if_splits simp: nth_Cons' Suc_diff_le)

lemma newest_entry_of_index:
  "newest_entry_of iid 0 es None = Some at \<Longrightarrow> at < length es \<and> he_invocation_id (es ! at) = iid"
  using newest_entry_of_last[of iid 0 es None at] by simp

text \<open>Every entry numbered after \<open>t\<close> comes after an entry of the invocation it belongs to.\<close>

definition answered :: "nat \<Rightarrow> history_entry list \<Rightarrow> bool" where
  "answered t es \<longleftrightarrow> (\<forall>i < length es. he_sequence (es ! i) > t \<longrightarrow>
     (\<exists>j < i. he_invocation_id (es ! j) = he_invocation_id (es ! i)))"

lemma answered_insert:
  assumes "answered t es" and "at < length es" and "he_invocation_id (es ! at) = he_invocation_id r"
    and xs: "xs = take (at + 1) es @ [r] @ drop (at + 1) es"
  shows "answered t xs"
proof -
  have low: "xs ! j = es ! j" if "j \<le> at" for j using that assms(2) by (simp add: xs nth_append)
  have high: "xs ! Suc j = es ! j" if "at < j" "j < length es" for j
    using that by (simp add: xs nth_append)
  have mid: "xs ! Suc at = r" and len: "length xs = Suc (length es)"
    using assms(2) by (simp_all add: xs nth_append)
  have old: "\<exists>j < k. he_invocation_id (es ! j) = he_invocation_id (es ! k)"
    if "k < length es" "he_sequence (es ! k) > t" for k
    using assms(1) that by (simp add: answered_def)
  have "\<exists>j < i. he_invocation_id (xs ! j) = he_invocation_id (xs ! i)"
    if i: "i < length xs" "he_sequence (xs ! i) > t" for i
  proof -
    consider "i \<le> at" | "i = Suc at" | "Suc at < i" by linarith
    then show ?thesis
    proof cases
      case 1
      obtain j where "j < i" "he_invocation_id (es ! j) = he_invocation_id (es ! i)"
        using old[of i] 1 i(2) low[of i] assms(2) by auto
      with 1 show ?thesis by (intro exI[of _ j]) (simp add: low)
    next
      case 2
      then show ?thesis by (intro exI[of _ at]) (simp add: low mid assms(3))
    next
      case 3
      obtain k where k: "i = Suc k" "at < k" "k < length es" using 3 i(1) len by (cases i) auto
      then obtain j where j: "j < k" "he_invocation_id (es ! j) = he_invocation_id (es ! k)"
        using old[of k] i(2) high[of k] by auto
      show ?thesis
      proof (cases "j \<le> at")
        case True
        with k j show ?thesis by (intro exI[of _ j]) (simp add: low high)
      next
        case False
        with k j show ?thesis by (intro exI[of _ "Suc j"]) (simp add: high)
      qed
    qed
  qed
  then show ?thesis by (simp add: answered_def)
qed

lemma place_late_answered: "answered t es \<Longrightarrow> answered t (place_late_replies es late)"
proof (induction late arbitrary: es)
  case (Cons r late)
  show ?case
  proof (cases "newest_entry_of (he_invocation_id r) 0 es None")
    case (Some at)
    from newest_entry_of_index[OF this] have "answered t (take (at + 1) es @ [r] @ drop (at + 1) es)"
      using answered_insert[OF Cons.prems _ _ refl] by blast
    from Cons.IH[OF this] Some show ?thesis by simp
  qed (use Cons in simp)
qed simp

lemma place_late_last:
  assumes "\<forall>r \<in> set late. he_invocation_id r \<noteq> he_invocation_id e"
  shows "\<exists>ys. place_late_replies (es @ [e]) late = ys @ [e]"
  using assms
proof (induction late arbitrary: es)
  case (Cons r late)
  show ?case
  proof (cases "newest_entry_of (he_invocation_id r) 0 (es @ [e]) None")
    case (Some at)
    from newest_entry_of_index[OF this] Cons.prems have "at < length es"
      by (auto simp: nth_append less_Suc_eq)
    then have "take (at + 1) (es @ [e]) @ [r] @ drop (at + 1) (es @ [e])
        = (take (at + 1) es @ [r] @ drop (at + 1) es) @ [e]" by simp
    with Some Cons.IH[of "take (at + 1) es @ [r] @ drop (at + 1) es"] Cons.prems show ?thesis by simp
  qed (use Cons in simp)
qed simp

lemma shown_invocation: "shows_row u e (mid, h) \<Longrightarrow> he_invocation_id e = Ident (hr_invocation_id h)"
  by (auto simp: shows_row_def parse_invocation_id_def parse_uuid_def split: if_splits)

lemma history_through_row:
  assumes "history_through io key iid cutoff db = Done (Inr through)" and "\<not> is_zero iid"
  shows "\<exists>mid h. (mid, h) \<in> set (chat_history key db) \<and> hr_invocation_id h = ident_value iid \<and> opens_turn h
    \<and> hr_sequence h > cutoff \<and> through = hr_sequence h"
  using assms by (auto simp: history_through_def find_Some_iff in_set_conv_nth split: option.splits) blast

lemma last_below:
  assumes "sorted_wrt (<) (map f xs)" and "x \<in> set xs"
  shows "\<exists>ys. filter (\<lambda>y. f y \<le> (f x :: nat)) xs = ys @ [x]"
proof -
  obtain ys zs where xs: "xs = ys @ x # zs" using assms(2) by (meson split_list)
  with assms(1) have "\<forall>y \<in> set ys. f y < f x" "\<forall>z \<in> set zs. f x < f z"
    by (auto simp: sorted_wrt_append sorted_wrt_map)
  then have "filter (\<lambda>y. f y \<le> f x) xs = ys @ [x]"
    unfolding xs by (auto simp: filter_empty_conv filter_id_conv not_le order_less_imp_le)
  then show ?thesis ..
qed

lemma newest_snoc: "0 < n \<Longrightarrow> \<exists>ys. newest n (xs @ [x]) = ys @ [x]"
  by (simp add: newest_def Suc_diff_le)

lemma list_all2_in_set1: "list_all2 P xs ys \<Longrightarrow> x \<in> set xs \<Longrightarrow> \<exists>y \<in> set ys. P x y"
  by (induction rule: list_all2_induct) auto

lemma list_all2_snoc:
  assumes "list_all2 P es (ys @ [y])"
  shows "\<exists>ds e. es = ds @ [e] \<and> P e y \<and> list_all2 P ds ys"
  using assms by (auto simp: list_all2_append2 list_all2_Cons2)

lemma page_rows_through:
  assumes "wf_history db" and "(mid, h) \<in> set (chat_history key db)" and "hr_sequence h > reset_cutoff key db"
    and "0 < limit"
  shows "\<exists>xs. rev (take limit (page_rows key (reset_cutoff key db) 0 (hr_sequence h) limit db)) = xs @ [(mid, h)]"
    and "x \<in> set (page_rows key (reset_cutoff key db) 0 (hr_sequence h) limit db) \<Longrightarrow> seq_of x \<le> hr_sequence h"
proof -
  let ?vis = "visible_rows key db"
  have "0 < hr_sequence h"
    using assms(1,2) chat_history_set by (fastforce simp: wf_history_def)
  then have rows: "page_rows key (reset_cutoff key db) 0 (hr_sequence h) limit db
      = take (limit + 1) (rev (filter (\<lambda>x. seq_of x \<le> hr_sequence h) ?vis))"
    by (simp add: page_rows_def visible_rows_def rev_filter case_prod_unfold)
  have "(mid, h) \<in> set ?vis" using assms(2,3) by (simp add: visible_rows_def)
  from last_below[OF visible_ascending[OF assms(1)] this] obtain ys
    where "filter (\<lambda>x. seq_of x \<le> hr_sequence h) ?vis = ys @ [(mid, h)]" by auto
  then have "rev (take limit (page_rows key (reset_cutoff key db) 0 (hr_sequence h) limit db)) = newest limit (ys @ [(mid, h)])"
    unfolding rows rev_take_rev[symmetric] by (simp only: take_take min_def) simp
  with newest_snoc[OF assms(4), of ys "(mid, h)"]
  show "\<exists>xs. rev (take limit (page_rows key (reset_cutoff key db) 0 (hr_sequence h) limit db)) = xs @ [(mid, h)]"
    by metis
  show "seq_of x \<le> hr_sequence h"
    if "x \<in> set (page_rows key (reset_cutoff key db) 0 (hr_sequence h) limit db)"
    using that unfolding rows by (auto dest!: in_set_takeD)
qed


text \<open>
  C10: the cursors read the whole transcript. A reader that starts at the newest page and follows
  each page's cursor ends after at most one page per visible entry and one more, and what it has
  then read (if no call failed) is every visible entry of the chat exactly once, oldest first.
\<close>
theorem cursors_read_whole_transcript:
  assumes "wf_history db" and "db_last_sequence db < 2 ^ 63" and "length (visible_rows key db) < n"
  shows "\<exists>res. read_back (\<lambda>c. store_list u wide io key version
      \<lparr>hq_before = c, hq_through_invocation_id = zero_id, hq_limit = limit\<rparr> guarded db) n [] = Some res
    \<and> (\<forall>es. res = Done (Inr es) \<longrightarrow> list_all2 (shows_row u) es (visible_rows key db)
        \<and> sorted_wrt (<) (map he_sequence es))"
proof -
  have all: "older 0 (visible_rows key db) = visible_rows key db" by (simp add: older_def)
  have start: "decode_history_cursor [] = Done (Inr 0)" by (simp add: decode_history_cursor_def Let_def res_ok_def)
  have "sorted_wrt (<) (map he_sequence es)" if "list_all2 (shows_row u) es (visible_rows key db)" for es
  proof -
    from that have "map he_sequence es = map seq_of (visible_rows key db)"
      by (induction rule: list_all2_induct) (auto simp: shows_row_def)
    with visible_ascending[OF assms(1)] show ?thesis by simp
  qed
  moreover have "reads_back u (read_back (\<lambda>c. store_list u wide io key version
      \<lparr>hq_before = c, hq_through_invocation_id = zero_id, hq_limit = limit\<rparr> guarded db) n []) (visible_rows key db)"
    using read_back_older[OF conjI[OF assms(1,2)] _ start, of key n] assms(3) unfolding all by blast
  ultimately show ?thesis unfolding reads_back_def by (auto split: option.splits)
qed

subsubsection \<open>Witnesses\<close>

definition sample_user_row :: "nat \<Rightarrow> string \<Rightarrow> string \<Rightarrow> history_row" where
  "sample_user_row n iid body = \<lparr>hr_sequence = n, hr_invocation_id = iid, hr_causation_kind = CausationMessage,
     hr_causation_id = iid, hr_role = HistoryUser, hr_participant = Some ''p1'', hr_sender_ref = Some ''abc123'',
     hr_sender_name = ''Alice'', hr_sender_is_admin = False, hr_sender_is_super_admin = False,
     hr_quoted_message_id = None, hr_quoted_sequence = None, hr_quoted_role = None, hr_quoted_sender_ref = None,
     hr_quoted_text = None, hr_quoted_is_admin = False, hr_quoted_is_super_admin = False, hr_content = body,
     hr_delivery = DeliveryNotStarted, hr_created_at_ms = 5, hr_updated_at_ms = 5\<rparr>"

definition sample_reply_row :: "nat \<Rightarrow> string \<Rightarrow> string \<Rightarrow> history_row" where
  "sample_reply_row n iid body = (sample_user_row n iid body)\<lparr>hr_role := HistoryAssistant, hr_participant := None,
     hr_sender_ref := None, hr_sender_name := [], hr_delivery := DeliverySucceeded\<rparr>"

text \<open>Two messages, and the answer to the first stored after the second.\<close>

definition sample_history_db :: outbox_db where
  "sample_history_db = \<lparr>db_chats = [], db_actions = [], db_turns = [],
     db_history = [((dr_key sample_ref, ''m1''), sample_user_row 1 ''i1'' ''hi''),
       ((dr_key sample_ref, ''m2''), sample_user_row 2 ''i2'' ''well''),
       ((dr_key sample_ref, ''r1''), sample_reply_row 3 ''i1'' ''hello'')], db_effects = [],
     db_configs = [(dr_key sample_ref, 1)], db_resets = [], db_mentions = [], db_participants = [],
     db_senders = [], db_last_sequence = 3\<rparr>"

lemma sample_history_wf: "wf_history sample_history_db"
  by (simp add: wf_history_def sample_history_db_def sample_user_row_def sample_reply_row_def)

lemma sample_history_rows:
  "chat_history (dr_key sample_ref) sample_history_db = [(''m1'', sample_user_row 1 ''i1'' ''hi''),
     (''m2'', sample_user_row 2 ''i2'' ''well''), (''r1'', sample_reply_row 3 ''i1'' ''hello'')]"
  by (simp add: chat_history_def sample_history_db_def sample_user_row_def sample_reply_row_def)

definition sample_user_entry :: "nat \<Rightarrow> string \<Rightarrow> string \<Rightarrow> string \<Rightarrow> history_entry" where
  "sample_user_entry n mid iid body = \<lparr>he_sequence = n, he_message_id = Ident mid, he_invocation_id = Ident iid,
     he_causation = \<lparr>cref_kind = CausationMessage, cref_id = Ident iid\<rparr>, he_role = HistoryUser,
     he_sender = Some \<lparr>sc_participant_id = Ident ''p1'', sc_ref = Ident ''abc123'',
       sc_display_name = ''Alice'', sc_is_admin = False, sc_is_super_admin = False\<rparr>,
     he_quote = None, he_content = [TextPart body], he_mentions = [],
     he_delivery = DeliveryNotStarted, he_created_at = from_unix_milli 5\<rparr>"

definition sample_reply_entry :: "nat \<Rightarrow> string \<Rightarrow> string \<Rightarrow> string \<Rightarrow> history_entry" where
  "sample_reply_entry n mid iid body = (sample_user_entry n mid iid body)\<lparr>he_role := HistoryAssistant,
     he_sender := None, he_delivery := DeliverySucceeded\<rparr>"

lemma sample_ref_parse: "parse_sender_ref ''abc123'' = Inr (Ident ''abc123'')"
  by (simp add: parse_sender_ref_def sender_ref_pattern_def base36_char_def digit_char_def lower_char_def bval_def)

lemma sample_scan:
  assumes "mid \<noteq> []" and "iid \<noteq> []"
  shows "scan_history_entry Some mid (sample_user_row n iid body) = Done (Inr (sample_user_entry n mid iid body))"
    and "scan_history_entry Some mid (sample_reply_row n iid body) = Done (Inr (sample_reply_entry n mid iid body))"
  using assms by (auto simp: scan_history_entry_def sample_user_row_def sample_reply_row_def sample_reply_entry_def
    sample_user_entry_def parse_message_id_def parse_invocation_id_def parse_causation_id_def parse_uuid_def
    scan_sender_def scan_quote_def parse_participant_id_def sample_ref_parse)

lemma sample_hydrate:
  assumes "mid \<noteq> []" and "iid \<noteq> []" and "list_all ascii_char body" and "body \<noteq> []" and "length body \<le> 32768"
  shows "hydrate_entry wide (\<lambda>_. []) (sample_user_entry n mid iid body) = Done (Inr (sample_user_entry n mid iid body))"
    and "hydrate_entry wide (\<lambda>_. []) (sample_reply_entry n mid iid body) = Done (Inr (sample_reply_entry n mid iid body))"
  using assms
  by (simp_all add: hydrate_entry_def hydrate_history_mentions_def mentions_for_history_entry_def with_mentions_def
    sample_reply_entry_def sample_user_entry_def validate_history_entry_def Let_def is_zero_def known_causation_def
    known_role_def sender_missing_def sender_name_invalid_def sender_role_invalid_def ascii_eval
    max_display_name_bytes_def validate_quote_context_def max_history_bytes_def max_input_bytes_def
    validate_mention_contexts_def max_bindings_def entry_delivery_check_def from_unix_milli_def)

abbreviation sample_query :: "string \<Rightarrow> nat \<Rightarrow> history_query" where
  "sample_query iid limit \<equiv> \<lparr>hq_before = [], hq_through_invocation_id = Ident iid, hq_limit = limit\<rparr>"

lemma sample_window:
  "\<exists>page. store_list Some wide (\<lambda>_. None) (dr_key sample_ref) 1 (sample_query ''i2'' 5) True sample_history_db
      = Done (Inr page)"
proof -
  let ?key = "dr_key sample_ref" and ?db = sample_history_db
  have sim: "opens_turn (sample_user_row n iid body)" "\<not> opens_turn (sample_reply_row n iid body)"
    "hr_sequence (sample_user_row n iid body) = n" "hr_sequence (sample_reply_row n iid body) = n"
    "hr_invocation_id (sample_user_row n iid body) = iid" "hr_invocation_id (sample_reply_row n iid body) = iid"
    "hr_role (sample_user_row n iid body) = HistoryUser" "hr_role (sample_reply_row n iid body) = HistoryAssistant"
    for n iid body by (simp_all add: opens_turn_def sample_user_row_def sample_reply_row_def)
  have "key_validate ?key = None" "require_config_version (\<lambda>_. None) ?key 1 ?db = None" "reset_cutoff ?key ?db = 0"
    by (simp_all add: key_validate_def sample_ref_def is_zero_def require_config_version_def reset_cutoff_def
      sample_history_db_def)
  moreover have "history_through (\<lambda>_. None) ?key (Ident ''i2'') 0 ?db = res_ok 2"
    by (simp add: history_through_def sample_history_rows is_zero_def sim)
  moreover have "page_rows ?key 0 0 2 5 ?db = [(''m2'', sample_user_row 2 ''i2'' ''well''), (''m1'', sample_user_row 1 ''i1'' ''hi'')]"
    by (simp add: page_rows_def sample_history_rows sim)
  moreover have "late_rows ?key 0 2 ''i2'' 5 ?db = [(''r1'', sample_reply_row 3 ''i1'' ''hello'')]"
    by (simp add: late_rows_def late_reply_def sample_history_rows sim)
  moreover have "mention_rows ?key ids ?db = []" for ids
    by (induction ids) (simp_all add: mention_rows_def sample_history_db_def)
  then have "load_message_mentions (\<lambda>_. None) ?key ids ?db = res_ok (\<lambda>_. [])" for ids
    by (simp add: load_message_mentions_def Let_def)
  moreover have "list_all ascii_char ''hi''" "list_all ascii_char ''well''" "list_all ascii_char ''hello''"
    by (simp_all add: ascii_eval)
  ultimately show ?thesis
    by (simp add: store_list_def Let_def max_history_page_size_def decode_history_cursor_def query_history_entries_def
      sample_scan sample_hydrate)
qed


theorem cursors_read_whole_transcript_witness:
  "\<exists>res. read_back (\<lambda>c. store_list Some (\<lambda>_. False) (\<lambda>_. None) (dr_key sample_ref) 1
     \<lparr>hq_before = c, hq_through_invocation_id = zero_id, hq_limit = 2\<rparr> True sample_history_db) 4 [] = Some res"
proof -
  have "length (visible_rows (dr_key sample_ref) sample_history_db) < 4"
    by (simp add: visible_rows_def sample_history_rows)
  moreover have "db_last_sequence sample_history_db < 2 ^ 63" by (simp add: sample_history_db_def)
  ultimately show ?thesis
    using cursors_read_whole_transcript[OF sample_history_wf, of _ 4 Some "\<lambda>_. False" "\<lambda>_. None" 1 2 True] by blast
qed

end
