(* ===== verification/TranscriptLaws.thy ===== *)
theory TranscriptLaws
  imports TurnPlans HistoryPages
begin

text \<open>
  The transcript of a chat while every store works on the database: what is visible only grows at its
  end, and what a reset hid stays hidden. Then what one call of the transcript store
  (\<open>internal/adapters/sqlite/history.go\<close>) does: an append, a reset that takes back the turns before it, and
  a trim.
\<close>

subsection \<open>What is visible\<close>

definition history_seqs :: "outbox_db \<Rightarrow> ((agent_key \<times> string) \<times> nat) list" where
  "history_seqs db = map (map_prod id hr_sequence) (db_history db)"

definition visible_seqs :: "outbox_db \<Rightarrow> agent_key \<Rightarrow> nat set" where
  "visible_seqs db key = {n. \<exists>mid. ((key, mid), n) \<in> set (history_seqs db) \<and> n > reset_cutoff key db}"

lemma in_history_seqs: "(k, n) \<in> set (history_seqs db) \<longleftrightarrow> (\<exists>h. (k, h) \<in> set (db_history db) \<and> n = hr_sequence h)"
  by (force simp: history_seqs_def)

lemma visible_row: "x \<in> set (visible_rows key db) \<Longrightarrow> seq_of x \<in> visible_seqs db key"
  using chat_history_set[of "fst x" "snd x" key db]
  by (auto simp: visible_seqs_def visible_rows_def in_history_seqs)

definition grows :: "outbox_db \<Rightarrow> outbox_db \<Rightarrow> bool" where
  "grows db db' \<longleftrightarrow> (wf_history db \<longrightarrow> wf_history db' \<and> db_last_sequence db \<le> db_last_sequence db'
     \<and> (\<forall>key. visible_seqs db' key \<subseteq> visible_seqs db key \<union> {db_last_sequence db<..db_last_sequence db'}))"

lemma grows_refl [simp]: "grows db db"
  by (simp add: grows_def)

lemma history_core_seq [simp]: "hr_sequence (history_core h) = hr_sequence h"
  by (simp add: history_core_def)

lemma core_seqs: "transcript_core db' = transcript_core db \<Longrightarrow> history_seqs db' = history_seqs db"
proof -
  have seqs: "history_seqs db = map (map_prod id hr_sequence) (fst (transcript_core db))" for db
    by (simp add: history_seqs_def transcript_core_def map_prod.comp map_prod_def comp_def case_prod_unfold)
  show "transcript_core db' = transcript_core db \<Longrightarrow> history_seqs db' = history_seqs db"
    unfolding seqs by simp
qed

lemma wf_history_seqs:
  "wf_history db \<longleftrightarrow> distinct (map snd (history_seqs db)) \<and> distinct (map fst (history_seqs db))
     \<and> (\<forall>(k, n) \<in> set (history_seqs db). 0 < n \<and> n \<le> db_last_sequence db)
     \<and> (\<forall>(k, r) \<in> set (db_resets db). rt_cutoff r \<le> db_last_sequence db)"
  by (auto simp: wf_history_def history_seqs_def comp_def case_prod_unfold)

lemma core_views:
  assumes "transcript_core db' = transcript_core db"
  shows "wf_history db' = wf_history db" and "visible_seqs db' key = visible_seqs db key"
    and "db_last_sequence db' = db_last_sequence db"
  using assms core_seqs[OF assms]
  by (simp_all add: transcript_core_def wf_history_seqs visible_seqs_def reset_cutoff_def)

lemma grows_cong:
  assumes "transcript_core a = transcript_core a'" and "transcript_core b = transcript_core b'"
  shows "grows a b = grows a' b'"
  unfolding grows_def core_views[OF assms(1)] core_views[OF assms(2)] ..

lemma grows_core: "transcript_core db' = transcript_core db \<Longrightarrow> grows db db'"
  using grows_cong[of db db db' db] by simp

lemma grows_add:
  assumes "row (db_history db) (key, ident_value (he_message_id e)) = None"
  shows "grows db (add_history_row key e ms db)"
  unfolding grows_def
proof (intro impI conjI allI subsetI)
  let ?db' = "add_history_row key e ms db" and ?k = "(key, ident_value (he_message_id e))"
  let ?h = "history_row_of (Suc (db_last_sequence db)) e ms"
  assume wf: "wf_history db"
  have hist: "db_history ?db' = db_history db @ [(?k, ?h)]" "db_last_sequence ?db' = Suc (db_last_sequence db)"
    "db_resets ?db' = db_resets db"
    by (simp_all add: add_history_row_def put_new[OF assms])
  have new: "?k \<notin> fst ` set (db_history db)" using assms by (simp add: map_of_eq_None_iff)
  have "Suc (db_last_sequence db) \<notin> (\<lambda>(_, h). hr_sequence h) ` set (db_history db)"
    using wf by (fastforce simp: wf_history_def)
  then show "wf_history ?db'"
    using wf new unfolding wf_history_def hist
    by (auto simp: history_row_of_def le_Suc_eq)
  show "db_last_sequence db \<le> db_last_sequence ?db'" by (simp add: hist)
  show "n \<in> visible_seqs db key' \<union> {db_last_sequence db<..db_last_sequence ?db'}" if "n \<in> visible_seqs ?db' key'"
    for n key' using that by (auto simp: visible_seqs_def in_history_seqs hist reset_cutoff_def history_row_of_def)
qed

lemma cutoff_bound: "wf_history db \<Longrightarrow> reset_cutoff key db \<le> db_last_sequence db"
  by (fastforce simp: wf_history_def reset_cutoff_def dest: map_of_SomeD split: option.splits)

lemma last_sequence_of_bound:
  assumes "wf_history db"
  shows "last_sequence_of key db \<le> db_last_sequence db"
    and "((key, mid), h) \<in> set (db_history db) \<Longrightarrow> hr_sequence h \<le> last_sequence_of key db"
proof -
  have "\<forall>n \<in> insert 0 (set (map (\<lambda>(_, h). hr_sequence h) (chat_history key db))). n \<le> db_last_sequence db"
    using assms chat_history_set by (fastforce simp: wf_history_def)
  then show "last_sequence_of key db \<le> db_last_sequence db"
    unfolding last_sequence_of_def by (subst Max_le_iff) auto
  show "hr_sequence h \<le> last_sequence_of key db" if "((key, mid), h) \<in> set (db_history db)"
    unfolding last_sequence_of_def
    by (rule Max_ge) (use that in \<open>auto simp: image_iff chat_history_set[symmetric] split: prod.splits\<close>)
qed

lemma set_put_subset: "set (put k v t) \<subseteq> insert (k, v) (set t)"
  by (induction t) auto

lemma grows_reset:
  assumes "db_history db' = db_history db" and "db_last_sequence db' = db_last_sequence db"
    and "db_resets db' = put key (reset_merged key version at db) (db_resets db)"
  shows "grows db db'"
  unfolding grows_def
proof (intro impI conjI allI subsetI)
  assume wf: "wf_history db"
  have cut: "rt_cutoff (reset_merged key version at db) \<le> db_last_sequence db"
    "reset_cutoff key db \<le> rt_cutoff (reset_merged key version at db)"
    using cutoff_bound[OF wf, of key] last_sequence_of_bound(1)[OF wf, of key]
    by (auto simp: reset_merged_def merge_reset_def reset_cutoff_def split: option.splits)
  have "set (db_resets db') \<subseteq> insert (key, reset_merged key version at db) (set (db_resets db))"
    unfolding assms(3) by (rule set_put_subset)
  with wf cut(1) assms(1,2) show "wf_history db'"
    unfolding wf_history_def by fastforce
  show "db_last_sequence db \<le> db_last_sequence db'" by (simp add: assms(2))
  show "n \<in> visible_seqs db key' \<union> {db_last_sequence db<..db_last_sequence db'}" if "n \<in> visible_seqs db' key'"
    for n key' using that cut(2)
    by (auto simp: visible_seqs_def in_history_seqs assms(1,3) reset_cutoff_def split: if_splits option.splits)
qed

lemma grows_filter: "db' = db\<lparr>db_history := filter P (db_history db)\<rparr> \<Longrightarrow> grows db db'"
  by (auto simp: grows_def wf_history_def visible_seqs_def in_history_seqs reset_cutoff_def distinct_map inj_on_def
    distinct_map_filter)

subsection \<open>Every call of every store\<close>

lemma grows_insert: "insert_or_same io key e ms db = Done (Inr db') \<Longrightarrow> grows db db'"
  by (drule insert_or_same_ok) (auto simp: history_conflicts_def intro: grows_add)

lemma grows_append:
  assumes "store_append wide io now key e db = (r, db')"
  shows "grows db db'"
  using assms
proof (cases rule: store_append_cases)
  case (stored db1 cq)
  have "transcript_core db1 = transcript_core db"
    using main_tables_turns[OF stored(2)] by (simp add: transcript_core_def)
  with grows_insert[OF stored(3)] show ?thesis using grows_cong[of db1 db db' db'] by simp
qed simp

lemma grows_store_reset:
  assumes "store_reset io key version reset_at db = (r, db')"
  shows "grows db db'"
  using assms
proof (cases rule: store_reset_cases)
  case reset
  then show ?thesis by (intro grows_reset) (simp_all add: cancel_turns_def)
qed simp

lemma grows_trim:
  assumes "store_trim io now key policy db = (r, db')"
  shows "grows db db'"
  using assms
proof (cases rule: store_trim_cases)
  case (trimmed n)
  show ?thesis by (rule grows_filter) (simp add: trimmed(2) delete_history_db)
qed simp

lemma grows_claim:
  assumes "turn_claim_call u io nid r db = (res, db')"
  shows "grows db db'"
  using assms
proof (cases rule: claim_call_cases)
  case (moved c)
  from moved(1) obtain way where "claim_way_ok way r db db'" using claim_body_way by metis
  then have "transcript_core db' = transcript_core db"
    by (cases way) (auto simp: claim_way_ok_def Let_def main_tables_def transcript_core_def)
  then show ?thesis by (rule grows_core)
qed simp

lemma grows_fail:
  assumes "turn_fail_generation io now f db = (res, db')"
  shows "grows db db'"
  using assms unfolding turn_fail_generation_def by (elim transact_cases) (auto simp: Let_def intro!: grows_core)

lemma grows_commit:
  assumes "turn_commit_plan u wide io ids now r db = (res, db')"
  shows "grows db db'"
proof -
  from assms have "transact (commit_body u wide io ids now r db) db = (res, db')"
    by (simp add: turn_commit_plan_def)
  then show ?thesis
  proof (cases rule: transact_cases)
    case (commit plan)
    from commit(1) show ?thesis
    proof (cases rule: commit_body_cases)
      case (effect_only x)
      then have "transcript_core db' = transcript_core db" by (simp add: effect_only_commit_def)
      then show ?thesis by (rule grows_core)
    next
      case (reply x)
      let ?add = "add_history_row (cp_key r) (cx_entry x) (unix_milli now) db"
      from reply have "transcript_core db' = transcript_core ?add" and "grows db ?add"
        by (auto simp: reply_commit_def intro: grows_add)
      then show ?thesis using grows_cong[of db db db' ?add] by simp
    qed simp
  qed simp
qed

lemma quiet_grows: "quiet_turns db db' \<Longrightarrow> grows db db'"
  by (rule grows_core) (simp add: quiet_turns_def)

lemma quiet_effects_grows: "quiet_effects db db' \<Longrightarrow> grows db db'"
  by (rule grows_core) (metis quiet_effects_def transcript_core_upd(3))

lemma grows_outbox:
  assumes "outbox_call db db'"
  shows "grows db db'"
  using assms
proof cases
  case (6 u io r now)
  with effect_plan_adds[of u io r now db] show ?thesis by (auto intro!: grows_core)
qed (auto intro!: quiet_grows[OF quiet_start] quiet_grows[OF quiet_finish] quiet_grows[OF quiet_resolve]
    quiet_effects_grows[OF quiet_effect_start] quiet_effects_grows[OF quiet_effect_finish]
    quiet_effects_grows[OF quiet_effect_resolve] simp: action_complete_def action_fail_terminal_def
    action_mark_unknown_def effect_complete_def effect_fail_terminal_def effect_mark_unknown_def)

lemma grows_transcript: "transcript_call wide db db' \<Longrightarrow> grows db db'"
  by (cases rule: transcript_call.cases)
    (auto intro: grows_append grows_store_reset grows_trim prod.collapse[symmetric])

lemma turn_step_grows:
  assumes "turn_step u wide s s'"
  shows "grows (tsys_db s) (tsys_db s')"
  using assms
  by cases (auto intro: grows_claim grows_commit grows_fail grows_outbox grows_transcript)

subsection \<open>The laws of a transcript\<close>

text \<open>
  What the readers of a transcript rely on: positions are given out in order, and a call shows
  nothing that was not visible before, new positions apart.
\<close>

locale transcript_laws =
  fixes step :: "'s \<Rightarrow> 's \<Rightarrow> bool" and good :: "'s \<Rightarrow> bool"
    and visible :: "'s \<Rightarrow> 'k \<Rightarrow> nat set" and last_given :: "'s \<Rightarrow> nat"
  assumes good_law: "step s s' \<Longrightarrow> good s \<Longrightarrow> good s'"
    and order_law: "step s s' \<Longrightarrow> good s \<Longrightarrow> last_given s \<le> last_given s'"
    and visible_law: "step s s' \<Longrightarrow> good s \<Longrightarrow>
      visible s' k \<subseteq> visible s k \<union> {last_given s<..last_given s'}"
begin

lemma run_good: "step\<^sup>*\<^sup>* s s' \<Longrightarrow> good s \<Longrightarrow> good s'"
  by (induction rule: rtranclp_induct) (auto intro: good_law)

lemma run_order: "step\<^sup>*\<^sup>* s s' \<Longrightarrow> good s \<Longrightarrow> last_given s \<le> last_given s'"
  by (induction rule: rtranclp_induct) (use order_law run_good order_trans in blast)+

lemma hidden_stays:
  assumes "step\<^sup>*\<^sup>* s s'" and "good s" and "n \<le> last_given s" and "n \<notin> visible s k"
  shows "n \<notin> visible s' k"
  using assms(1)
proof (induction rule: rtranclp_induct)
  case (step y z)
  have "good y" "n \<le> last_given y" using run_good run_order step(1) assms(2,3) order_trans by blast+
  with visible_law[OF step(2), of k] step.IH show ?case by fastforce
qed (rule assms(4))

end

interpretation transcripts: transcript_laws "turn_step u wide" "\<lambda>s. wf_history (tsys_db s)"
  "\<lambda>s. visible_seqs (tsys_db s)" "\<lambda>s. db_last_sequence (tsys_db s)" for u wide
  by unfold_locales (drule turn_step_grows; simp add: grows_def)+

subsection \<open>Resets\<close>

lemma place_late_set: "set (place_late_replies es late) \<subseteq> set es \<union> set late"
proof (induction late arbitrary: es)
  case (Cons r late)
  then show ?case
    by (fastforce split: option.splits dest: in_set_takeD in_set_dropD)
qed simp

lemma page_rows_visible: "set (page_rows key (reset_cutoff key db) before through limit db) \<subseteq> set (visible_rows key db)"
  by (auto simp: page_rows_def visible_rows_def Let_def split: if_splits dest!: in_set_takeD)

lemma late_rows_visible:
  assumes "history_through io key iid (reset_cutoff key db) db = Done (Inr through)" and "through > 0"
  shows "set (late_rows key (reset_cutoff key db) through j limit db) \<subseteq> set (visible_rows key db)"
proof -
  have "\<not> is_zero iid" using assms by (auto simp: history_through_def)
  from history_through_row[OF assms(1) this] have "reset_cutoff key db < through" by auto
  then show ?thesis by (auto simp: late_rows_def late_reply_def visible_rows_def dest!: in_set_takeD)
qed

lemma shown_visible:
  assumes "list_all2 (shows_row u) es rows" and "set rows \<subseteq> set (visible_rows key db)" and "e \<in> set es"
  shows "he_sequence e \<in> visible_seqs db key"
proof -
  obtain x where x: "x \<in> set rows" "shows_row u e x" using list_all2_in_set1[OF assms(1,3)] by blast
  have "he_sequence e = seq_of x" using x(2) by (simp add: shows_row_def case_prod_unfold)
  moreover have "seq_of x \<in> visible_seqs db key" using x(1) assms(2) by (intro visible_row) blast
  ultimately show ?thesis by simp
qed

lemma listed_visible:
  assumes "store_list u wide io key version query guarded db = Done (Inr page)" and "e \<in> set (hp_entries page)"
  shows "he_sequence e \<in> visible_seqs db key"
proof (rule store_list_ok[OF assms(1)])
  fix before through loaded replies
  let ?cut = "reset_cutoff key db" and ?n = "hq_limit query"
  let ?late = "if through > 0 then late_rows key ?cut through (ident_value (hq_through_invocation_id query)) ?n db else []"
  assume thr: "history_through io key (hq_through_invocation_id query) ?cut db = Done (Inr through)"
    and rows: "list_all2 (shows_row u) (map snd loaded) (page_rows key ?cut before through ?n db)"
    and late: "list_all2 (shows_row u) replies ?late" and page: "page = page_of ?n loaded (map snd loaded) replies"
  have "set (hp_entries page) \<subseteq> set (rev (take ?n (map snd loaded))) \<union> set replies"
    by (simp add: page page_of_def Let_def place_late_set del: set_rev)
  moreover have "set (rev (take ?n (map snd loaded))) \<subseteq> set (map snd loaded)"
    using set_take_subset[of ?n "map snd loaded"] by (simp only: set_rev)
  ultimately have "e \<in> set (map snd loaded) \<or> e \<in> set replies" using assms(2) by blast
  then show ?thesis
  proof
    assume "e \<in> set replies"
    moreover have "set ?late \<subseteq> set (visible_rows key db)"
    proof (cases "through > 0")
      case True
      with late_rows_visible[OF thr] show ?thesis by (simp only: if_True)
    qed simp
    ultimately show ?thesis using shown_visible[OF late] by blast
  qed (rule shown_visible[OF rows page_rows_visible])
qed

lemma reset_hides:
  assumes "wf_history db" and "store_reset io key version at db = (Done (Inr ()), db')"
  shows "visible_seqs db' key = {}" and "db_last_sequence db' = db_last_sequence db"
proof -
  from assms(2) show last: "db_last_sequence db' = db_last_sequence db"
    by (cases rule: store_reset_cases) (simp_all add: cancel_turns_def)
  from assms(2) have "db_history db' = db_history db"
    and "db_resets db' = put key (reset_merged key version at db) (db_resets db)"
    by (cases rule: store_reset_cases; simp add: cancel_turns_def)+
  moreover have "hr_sequence h \<le> rt_cutoff (reset_merged key version at db)"
    if "((key, mid), h) \<in> set (db_history db)" for mid h
    using last_sequence_of_bound(2)[OF assms(1) that]
    by (auto simp: reset_merged_def merge_reset_def split: option.splits)
  ultimately show "visible_seqs db' key = {}"
    by (fastforce simp: visible_seqs_def in_history_seqs reset_cutoff_def)
qed

text \<open>
  C8: a reset is permanent. Once a chat's transcript was reset, no entry stored before is ever listed
  again: whatever turns are claimed, planned and delivered, entries appended or trimmed, and however
  many resets follow, on any chat, a page lists only entries that were stored after the reset.
\<close>
theorem reset_is_permanent:
  assumes "wf_history db" and "store_reset io key version at db = (Done (Inr ()), tsys_db s)"
    and "turn_run u wide s s'" and "store_list u wide io2 key version2 query guarded (tsys_db s') = Done (Inr page)"
    and "e \<in> set (hp_entries page)"
  shows "he_sequence e > db_last_sequence db"
proof (rule ccontr)
  note hidden = reset_hides[OF assms(1,2)]
  have wf: "wf_history (tsys_db s)"
    using grows_store_reset[OF assms(2)] assms(1) by (simp add: grows_def)
  assume "\<not> he_sequence e > db_last_sequence db"
  then have "he_sequence e \<le> db_last_sequence (tsys_db s)" using hidden(2) by simp
  from transcripts.hidden_stays[OF _ wf this, of u wide s' key] assms(3) hidden(1)
  have "he_sequence e \<notin> visible_seqs (tsys_db s') key" by (simp add: turn_run_def)
  with listed_visible[OF assms(4,5)] show False by simp
qed


subsection \<open>Appending\<close>

text \<open>
  C39: the transcript is append-only and an append is recorded once. A successful append leaves the rows
  of before as they were, in their order, and adds at most one, at the end; afterwards the chat has
  exactly one row for the message, with the entry's invocation and role, so repeating the append
  (a turn that is replayed) adds nothing.
\<close>
theorem append_records_once:
  assumes "store_append wide io now key e db = (Done (Inr ()), db')"
  shows "\<exists>rows. db_history db' = db_history db @ rows \<and> length rows \<le> 1
    \<and> (\<exists>h. row (db_history db') (key, ident_value (he_message_id e)) = Some h
        \<and> hr_invocation_id h = ident_value (he_invocation_id e) \<and> hr_role h = he_role e)
    \<and> (row (db_history db) (key, ident_value (he_message_id e)) \<noteq> None \<longrightarrow> rows = [])"
  using assms
proof (cases rule: store_append_cases)
  case (stored db1 cq)
  have hist: "db_history db1 = db_history db" using main_tables_turns[OF stored(2)] by simp
  from insert_or_same_ok[OF stored(3)] show ?thesis
  proof (elim disjE conjE exE)
    fix h assume "db' = db1" and "row (db_history db1) (key, ident_value (he_message_id (with_mentions e cq))) = Some h"
      "hr_invocation_id h = ident_value (he_invocation_id (with_mentions e cq))" "hr_role h = he_role (with_mentions e cq)"
    then show ?thesis using hist by (intro exI[of _ "[]"]) simp
  next
    let ?e = "with_mentions e cq"
    assume "\<not> history_conflicts key (ident_value (he_message_id ?e)) (ident_value (he_invocation_id ?e)) (he_role ?e) db1"
      and db': "db' = add_history_row key ?e (unix_milli now) db1"
    then have absent: "row (db_history db) (key, ident_value (he_message_id e)) = None"
      by (simp add: history_conflicts_def hist)
    let ?new = "((key, ident_value (he_message_id e)), history_row_of (Suc (db_last_sequence db1)) ?e (unix_milli now))"
    have "db_history db' = db_history db @ [?new]"
      by (simp add: db' add_history_row_def hist put_new[OF absent])
    then show ?thesis
      by (intro exI[of _ "[?new]"]) (simp add: absent map_add_def history_row_of_def)
  qed
qed simp

subsection \<open>Trimming\<close>

text \<open>In a strictly descending list, the elements under the \<open>k\<close>th are those with \<open>k\<close> above them.\<close>

lemma descending_below:
  assumes "sorted_wrt (>) (map f xs)" and "x \<in> set xs" and "0 < k"
  shows "k \<le> length xs \<and> (f x :: nat) < f (xs ! (k - 1)) \<longleftrightarrow> k \<le> length (filter (\<lambda>y. f y > f x) xs)"
proof -
  obtain ys zs where xs: "xs = ys @ x # zs" using assms(2) by (meson split_list)
  with assms(1) have above: "\<forall>y \<in> set ys. f y > f x" and below: "\<forall>z \<in> set zs. f x > f z"
    by (auto simp: sorted_wrt_append sorted_wrt_map)
  then have len: "length (filter (\<lambda>y. f y > f x) xs) = length ys"
    unfolding xs by (auto simp: filter_empty_conv filter_id_conv intro: less_asym)
  show ?thesis
  proof (cases "k \<le> length ys")
    case True
    then have "xs ! (k - 1) = ys ! (k - 1)" "ys ! (k - 1) \<in> set ys" using assms(3) by (auto simp: xs nth_append)
    with True above len show ?thesis by (simp add: xs)
  next
    case False
    have "xs ! (k - 1) \<in> insert x (set zs)" if "k \<le> length xs"
      using that False assms(3) by (auto simp: xs nth_append nth_Cons split: nat.split)
    with below len False show ?thesis by fastforce
  qed
qed

text \<open>The visible rows of a chat that are newer than one.\<close>

definition newer_visible :: "agent_key \<Rightarrow> outbox_db \<Rightarrow> nat \<Rightarrow> nat" where
  "newer_visible key db n = length (filter (\<lambda>x. seq_of x > n) (visible_rows key db))"

lemma chat_history_filter:
  assumes "\<And>k m h. P ((k, m), h) \<longleftrightarrow> k \<noteq> key \<or> Q h"
  shows "chat_history key (db\<lparr>db_history := filter P (db_history db)\<rparr>) = filter (\<lambda>(_, h). Q h) (chat_history key db)"
proof -
  have "map (\<lambda>((_, mid), h). (mid, h)) (filter (\<lambda>((k, _), _). k = key) (filter P xs))
      = filter (\<lambda>(_, h). Q h) (map (\<lambda>((_, mid), h). (mid, h)) (filter (\<lambda>((k, _), _). k = key) xs))" for xs
    by (induction xs) (auto simp: assms)
  then show ?thesis by (simp add: chat_history_def filter_sort)
qed

lemma trim_hidden_visible:
  "visible_rows key (snd (delete_history key (\<lambda>h. hr_sequence h \<le> reset_cutoff key db \<and> Q h) db)) = visible_rows key db"
proof -
  have "chat_history key (snd (delete_history key (\<lambda>h. hr_sequence h \<le> reset_cutoff key db \<and> Q h) db))
      = filter (\<lambda>(_, h). \<not> (hr_sequence h \<le> reset_cutoff key db \<and> Q h)) (chat_history key db)"
    unfolding delete_history_db by (rule chat_history_filter) auto
  then show ?thesis
    by (auto simp: visible_rows_def delete_history_db reset_cutoff_def case_prod_unfold intro!: filter_cong)
qed

text \<open>
  C40: a trim removes exactly what its policy says. A row is deleted if and only if it is a row of the
  chat that is not being delivered and either a reset hid it or it is visible and old: at
  least \<open>KeepLatest\<close> visible rows are newer (when that bound is set) and it was made before the
  age limit (when that bound is set). So the newest \<open>KeepLatest\<close> visible entries, pending replies and other
  chats are never touched.
\<close>
theorem trim_removes_exactly:
  assumes "wf_history db" and "store_trim io now key policy db = (Done (Inr n), db')"
    and "((k, mid), h) \<in> set (db_history db)"
  shows "((k, mid), h) \<notin> set (db_history db') \<longleftrightarrow> k = key \<and> hr_delivery h \<noteq> DeliveryPending
    \<and> (hr_sequence h \<le> reset_cutoff key db \<or>
       (rp_keep_latest policy > 0 \<longrightarrow> rp_keep_latest policy \<le> newer_visible key db (hr_sequence h))
       \<and> (rp_max_age policy > 0 \<longrightarrow> hr_created_at_ms h < unix_milli (now - rp_max_age policy)))"
proof -
  let ?cut = "reset_cutoff key db" and ?keep = "rp_keep_latest policy"
  define db1 where "db1 = snd (delete_history key (\<lambda>h. hr_sequence h \<le> ?cut \<and> hr_delivery h \<noteq> DeliveryPending) db)"
  let ?from = "keep_from key ?cut ?keep db1"
  have db': "db' = snd (delete_history key (expired ?cut ?from policy now) db1)"
    by (rule store_trim_cases[OF assms(2)]) (blast, simp add: db1_def)
  have removed: "((k, mid), h) \<notin> set (db_history db') \<longleftrightarrow> k = key
      \<and> (hr_sequence h \<le> ?cut \<and> hr_delivery h \<noteq> DeliveryPending \<or> expired ?cut ?from policy now h)"
    using assms(3) by (auto simp: db' db1_def delete_history_db)
  have same: "visible_rows key db1 = visible_rows key db" "reset_cutoff key db1 = ?cut"
    unfolding db1_def by (rule trim_hidden_visible) (simp add: delete_history_db reset_cutoff_def)
  then have first: "?from = (if ?keep \<le> length (visible_rows key db)
      then seq_of (rev (visible_rows key db) ! (?keep - 1)) else 0)"
    by (simp add: keep_from_def Let_def visible_rows_def)
  have "?keep > 0 \<longrightarrow> (0 < ?from \<and> hr_sequence h < ?from \<longleftrightarrow> ?keep \<le> newer_visible key db (hr_sequence h))"
    if "k = key" "hr_sequence h > ?cut"
  proof
    assume keep: "?keep > 0"
    have "(mid, h) \<in> set (rev (visible_rows key db))"
      using assms(3) that by (simp add: visible_rows_def chat_history_set)
    moreover have "sorted_wrt (>) (map seq_of (rev (visible_rows key db)))"
      using visible_ascending[OF assms(1), of key] by (simp add: rev_map[symmetric] sorted_wrt_rev)
    ultimately have "?keep \<le> length (visible_rows key db) \<and> hr_sequence h < seq_of (rev (visible_rows key db) ! (?keep - 1))
        \<longleftrightarrow> ?keep \<le> newer_visible key db (hr_sequence h)"
      using descending_below[of seq_of "rev (visible_rows key db)" "(mid, h)" ?keep] keep
      by (simp add: newer_visible_def rev_filter[symmetric])
    then show "0 < ?from \<and> hr_sequence h < ?from \<longleftrightarrow> ?keep \<le> newer_visible key db (hr_sequence h)"
      unfolding first by auto
  qed
  with removed show ?thesis by (auto simp: expired_def)
qed

subsection \<open>Witnesses\<close>

lemma sample_chat_valid: "key_validate (dr_key sample_ref) = None"
  by (simp add: key_validate_def sample_ref_def is_zero_def)

theorem reset_is_permanent_witness:
  "\<exists>db'. store_reset (\<lambda>_. None) (dr_key sample_ref) 1 9 sample_history_db = (Done (Inr ()), db')
     \<and> (\<forall>page e. \<not> (store_list Some (\<lambda>_. False) (\<lambda>_. None) (dr_key sample_ref) 1 (sample_query [] 5) True db'
          = Done (Inr page) \<and> e \<in> set (hp_entries page) \<and> he_sequence e \<le> 3))"
proof -
  obtain db' where reset: "store_reset (\<lambda>_. None) (dr_key sample_ref) 1 9 sample_history_db = (Done (Inr ()), db')"
    using sample_chat_valid by (simp add: store_reset_def Let_def require_config_version_def sample_history_db_def
      transact_def res_ok_def)
  let ?s = "\<lparr>tsys_db = db', tsys_grants = (\<lambda>_. 0)\<rparr>"
  have run: "turn_run Some (\<lambda>_. False) ?s ?s" by (simp add: turn_run_def)
  have same: "store_reset (\<lambda>_. None) (dr_key sample_ref) 1 9 sample_history_db = (Done (Inr ()), tsys_db ?s)"
    using reset by simp
  have late: "he_sequence e > db_last_sequence sample_history_db"
    if "store_list Some (\<lambda>_. False) (\<lambda>_. None) (dr_key sample_ref) 1 (sample_query [] 5) True (tsys_db ?s) = Done (Inr page)"
      and "e \<in> set (hp_entries page)" for page e
    by (rule reset_is_permanent[OF sample_history_wf same run that])
  have "\<not> (store_list Some (\<lambda>_. False) (\<lambda>_. None) (dr_key sample_ref) 1 (sample_query [] 5) True db'
      = Done (Inr page) \<and> e \<in> set (hp_entries page) \<and> he_sequence e \<le> 3)" for page e
    using late[of page e] by (auto simp: sample_history_db_def)
  with reset show ?thesis by blast
qed


lemma sample_append_ok:
  "\<exists>db'. store_append (\<lambda>_. False) (\<lambda>_. None) 9 (dr_key sample_ref)
     (sample_reply_entry 0 ''r2'' ''i2'' ''hello'') sample_history_db = (Done (Inr ()), db')"
proof -
  let ?e = "sample_reply_entry 0 ''r2'' ''i2'' ''hello''" and ?key = "dr_key sample_ref"
  have "list_all ascii_char ''hello''" by (simp add: ascii_eval)
  then have "hydrate_entry (\<lambda>_. False) (\<lambda>_. []) ?e = Done (Inr ?e)" by (simp add: sample_hydrate)
  then have valid: "validate_history_entry (\<lambda>_. False) ?e = Done None"
    by (auto simp: hydrate_entry_def hydrate_history_mentions_def mentions_for_history_entry_def
      sample_reply_entry_def sample_user_entry_def with_mentions_def split: outcome.splits)
  have "load_message_mentions (\<lambda>_. None) ?key ids (sample_history_db\<lparr>db_chats := c\<rparr>) = res_ok (\<lambda>_. [])" for ids c
  proof -
    have "mention_rows ?key ids (sample_history_db\<lparr>db_chats := c\<rparr>) = []" for ids
      by (induction ids) (simp_all add: mention_rows_def sample_history_db_def)
    then show ?thesis by (simp add: load_message_mentions_def Let_def)
  qed
  then have "append_history_entry_tx (\<lambda>_. False) (\<lambda>_. None) ?key ?e ms (sample_history_db\<lparr>db_chats := c\<rparr>)
      = insert_or_same (\<lambda>_. None) ?key ?e ms (sample_history_db\<lparr>db_chats := c\<rparr>)" for ms c
    by (simp add: append_history_entry_tx_def mentions_for_history_entry_def sample_reply_entry_def
      sample_user_entry_def quote_mentions_def with_mentions_def)
  moreover have "insert_or_same (\<lambda>_. None) ?key ?e ms (sample_history_db\<lparr>db_chats := c\<rparr>)
      = res_ok (add_history_row ?key ?e ms (sample_history_db\<lparr>db_chats := c\<rparr>))" for ms c
    by (simp add: insert_or_same_def Let_def history_conflicts_def sample_history_db_def sample_reply_entry_def
      sample_user_entry_def sample_user_row_def sample_reply_row_def)
  moreover have "ensure_scope (\<lambda>_. None) ?key sample_history_db = res_ok (sample_history_db\<lparr>db_chats := [?key]\<rparr>)"
    by (simp add: ensure_scope_def sample_history_db_def)
  moreover have "\<not> before_reset ?key iid (sample_history_db\<lparr>db_chats := c\<rparr>)" for iid c
    by (simp add: before_reset_def sample_history_db_def)
  ultimately show ?thesis using sample_chat_valid valid
    by (simp add: store_append_def transact_def res_ok_def)
qed

theorem append_records_once_witness:
  "\<exists>db'. store_append (\<lambda>_. False) (\<lambda>_. None) 9 (dr_key sample_ref)
       (sample_reply_entry 0 ''r2'' ''i2'' ''hello'') sample_history_db = (Done (Inr ()), db')
     \<and> length (db_history db') = 4"
proof -
  obtain db' where ok: "store_append (\<lambda>_. False) (\<lambda>_. None) 9 (dr_key sample_ref)
     (sample_reply_entry 0 ''r2'' ''i2'' ''hello'') sample_history_db = (Done (Inr ()), db')"
    using sample_append_ok by blast
  from append_records_once[OF ok] obtain rows h where "db_history db' = db_history sample_history_db @ rows"
    "length rows \<le> 1" "row (db_history db') (dr_key sample_ref, ''r2'') = Some h"
    by (auto simp: sample_reply_entry_def sample_user_entry_def)
  then have "length (db_history db') = 4"
    by (cases rows) (auto simp: sample_history_db_def split: if_splits)
  with ok show ?thesis by blast
qed

theorem trim_removes_exactly_witness:
  "\<exists>db'. store_trim (\<lambda>_. None) 9 (dr_key sample_ref) \<lparr>rp_keep_latest = 1, rp_max_age = 0\<rparr> sample_history_db
       = (Done (Inr 2), db')
     \<and> ((dr_key sample_ref, ''r1''), sample_reply_row 3 ''i1'' ''hello'') \<in> set (db_history db')"
proof -
  let ?key = "dr_key sample_ref" and ?policy = "\<lparr>rp_keep_latest = 1, rp_max_age = 0\<rparr>"
  have cut: "reset_cutoff ?key sample_history_db = 0" by (simp add: reset_cutoff_def sample_history_db_def)
  have hidden: "delete_history ?key (\<lambda>h. hr_sequence h = 0 \<and> Q h) sample_history_db = (0, sample_history_db)" for Q
    by (simp add: delete_history_def Let_def sample_history_db_def sample_user_row_def sample_reply_row_def)
  have first: "keep_from ?key 0 1 sample_history_db = 3"
    by (simp add: keep_from_def sample_history_rows sample_user_row_def sample_reply_row_def Let_def)
  have "fst (delete_history ?key (expired 0 3 ?policy 9) sample_history_db) = 2"
    by (simp add: delete_history_def Let_def sample_history_db_def expired_def sample_user_row_def sample_reply_row_def)
  then obtain db' where trim: "store_trim (\<lambda>_. None) 9 ?key ?policy sample_history_db = (Done (Inr 2), db')"
    using sample_chat_valid first by (simp add: store_trim_def cut hidden case_prod_unfold transact_def res_ok_def)
  have "((?key, ''r1''), sample_reply_row 3 ''i1'' ''hello'') \<in> set (db_history sample_history_db)"
    by (simp add: sample_history_db_def)
  from trim_removes_exactly[OF sample_history_wf trim this] trim show ?thesis
    by (auto simp: newer_visible_def visible_rows_def sample_history_rows cut sample_user_row_def sample_reply_row_def)
qed

end
