(* ===== verification/Spec2Isabelle.thy ===== *)
theory Spec2Isabelle
  imports AgentProps FixedGate ActionDispatch EffectDispatch TranscriptLaws
begin

text \<open>
  A development of WazzapAgent-Go, a WhatsApp assistant written in Go. A provider adapter hands
  incoming messages to the agent of their chat; the agent claims a turn, shows the model the
  transcript of the chat, turns the model's answer into a plan (a reply and typed effects) that is
  committed to SQLite before anything is sent, and two dispatchers then send the reply and run the
  effects, each row at most once, under a policy that is asked again before every native call.

  \<^bold>\<open>Conventions.\<close> A Go string is its list of bytes; an \<open>error\<close> is a \<open>go_error\<close> (a value, \<open>Inl\<close> where
  a function returns a value or an error, \<open>Some\<close> where it returns an error alone); a call that
  reaches outside its package takes the world \<open>w\<close> and returns its result with the next world
  (\<open>('w, 'a) call\<close>); a run-time panic is the outcome \<open>Panic\<close>. An instant counts nanoseconds from Go's zero
  time. Contexts, locks and logging are left out: a lock's effect is that the section it guards is one
  step.

  \<^bold>\<open>What is a parameter.\<close> Code outside the repository is an argument: the UUID parser and generator \<open>u\<close> of
  google/uuid, the random source, the regular-expression compiler \<open>rx\<close>, SQLite's answers (\<open>io\<close>
  says for each named statement whether the engine fails), the model, the provider and the clock.
  The tables of Unicode letters and printable runes are parameters too where bytes over 127 are
  read.

  \<^bold>\<open>Theories, in the order of the code.\<close>
  \<^item> GoPrelude, GoText, GoJson: bytes, instants, \<open>sort.Search\<close>, UTF-8, \<open>strings\<close>,
    \<open>strconv\<close>, \<open>json.Valid\<close>. They model the standard library, not the repository.
  \<^item> AgentErrors (\<open>agent/errors.go\<close>), Identity (\<open>identity/identity.go\<close>), Mention
    (\<open>mention/token.go\<close>), Conversation (\<open>conversation/message.go\<close>): the values the rest is built on, with
    their validation, and what a validated value satisfies.
  \<^item> AgentTypes, AgentConfig, AgentHistory, AgentContext (\<open>agent/types.go, turn.go, memory.go, config.go,
    history.go, gate.go, context.go\<close>): the agent's value types and its configuration and transcript
    components over their stores, and the validation of what a model is shown.
  \<^item> AgentCore (\<open>agent/agent.go, registry.go\<close>): \<open>Invoke\<close> and its parts over the interfaces \<open>turn_store\<close>,
    \<open>history_store\<close> and \<open>config_store\<close>; AgentProps: what it guarantees.
  \<^item> PermissionDSL, Policy, FixedGate (\<open>policy/permission.go, allowlist.go, principal.go, fixed.go\<close>): the
    permission language with its recursive-descent parser, the allowlist, and the policy gate.
  \<^item> OutboxDb, ActionStore, EffectStore (\<open>adapters/sqlite/action.go, effect.go\<close>): the tables of replies,
    effects and turns as association lists, and every operation on them.
  \<^item> HistoryRows, TurnStore (\<open>adapters/sqlite/history.go, turn.go\<close>): the rows of the transcript, and the
    claims, plans, failures and loads of turns as transactions over the tables. TurnSystem interleaves
    them with the outboxes, with the locale \<open>turn_laws\<close>; TurnPlans follows a plan from its commit into
    the outboxes and back.
  \<^item> Outbox, OutboxSite: the interface of an outbox as the locale \<open>outbox\<close> (and \<open>strict_outbox\<close>), the step
    relation of workers, other writers and crashes over it, and the place a dispatcher runs at
    while the others move. ActionStore and EffectStore interpret the locales.
  \<^item> Effects, Replies, ActionDispatch, EffectDispatch (\<open>effect/effect.go, action/reply_extras.go, action.go,
    response_writer.go\<close>): the two dispatchers, and that each refines the step relation.

  \<^bold>\<open>What the lemmas show.\<close> A reply is handed to the provider at most once and an effect is run at most once,
  whatever the interleaving of dispatchers, restarts and plans, because a row leaves its pending
  state only through \<open>Start\<close>; the code of the two dispatchers refines those steps. A plan is
  committed only after its model result was validated; a turn is handed out for generating at most three
  times, and never once its plan is committed; a committed plan is read back as it was returned;
  a claimed turn is always resolved; a failed reply stops its effects. A policy decision is
  positive only for a listed chat, the current revision and the rights the kind of action needs,
  and the permission evaluator is correct for every printed expression and accepts exactly what the
  validator accepts. Encodings (effect payloads, cursors, choices) are read back as written.

  \<^bold>\<open>Bounds.\<close> Every loop of the source is a total function here: the recursion is on a list or has a
  measure (the parser's remaining tokens, the bytes left of a scan). No fuel is used.

  \<^bold>\<open>Not modelled.\<close> The WhatsApp and model clients, HTTP, the desktop interface, file handling and process
  wiring, which are glue over third-party code; SQL text (an operation is its effect on the
  tables); concurrent access inside one store call, which SQLite's transactions exclude.
\<close>

end
